(* ===== verification/Prelude.thy ===== *)
theory Prelude
  imports Main "HOL-Library.Finite_Map" "HOL-Library.List_Lexorder" "HOL-Library.Char_ord"
begin

text \<open>
  What every component shares: the names of the model's basic types, Go's errors as values,
  Go's maps and the collections of simplification rules.

  \<^item> A Go string is a \<open>char list\<close>, one \<open>char\<close> per byte; \<open><\<close> on it is Go's bytewise order.
  \<^item> A Go map that may be \<open>nil\<close> is an optional finite map: \<open>None\<close> is the nil map. Reading a
    missing key, or any key of the nil map, gives the zero value, as in Go (\<open>map_get\<close>).
  \<^item> An \<open>error\<close> is a value of the datatype \<open>go_error\<close>: one constructor for each error the
    repository's code makes, with the values its message is built from, and \<open>LibError\<close> for an
    error made by a library, by its text. A function that returns \<open>(T, error)\<close> returns
    \<open>go_error + T\<close>.
  \<^item> A panic is the \<open>None\<close> of an \<open>option\<close>.
  \<^item> A value of a library that the code only passes on (a keychain, a cache, an image, the
    fields of a pod it never reads) is a \<open>handle\<close>.
\<close>

named_theorems model_defs \<open>definitions a component unfolds together\<close>

type_synonym handle = string
type_synonym strmap = "(string, string) fmap option"

datatype go_error =
    LibError string
  | ErrSelector string go_error
  | ErrNilPodIntent
  | ErrFetchMetadata go_error
  | ErrApply string go_error
  | ErrImages "(string \<times> go_error) list"
  | ErrResolveTag string go_error
  | ErrKeysNotSet
  | ErrClientNotSet
  | ErrListCertReqs string go_error
  | ErrNoCertReqs string string
  | ErrSyntax string
  | ErrRange string
  | ErrPortInUse string string

type_synonym 'a result = "go_error + 'a"

subsection \<open>Results\<close>

fun is_ok :: "'a result \<Rightarrow> bool" where
  "is_ok (Inl _) = False"
| "is_ok (Inr _) = True"

lemma is_ok_iff: "is_ok r \<longleftrightarrow> (\<exists>x. r = Inr x)"
  by (cases r) auto

lemma not_is_ok_iff: "\<not> is_ok r \<longleftrightarrow> (\<exists>e. r = Inl e)"
  by (cases r) auto

subsection \<open>Go maps\<close>

definition map_get :: "strmap \<Rightarrow> string \<Rightarrow> string" where
  "map_get m k = (case m of None \<Rightarrow> [] | Some f \<Rightarrow>
     (case fmlookup f k of None \<Rightarrow> [] | Some v \<Rightarrow> v))"

text \<open>The idiom \<open>if m == nil { m = map[string]string{} }; m[k] = v\<close>.\<close>

definition map_put :: "strmap \<Rightarrow> string \<Rightarrow> string \<Rightarrow> strmap" where
  "map_put m k v = Some (fmupd k v (case m of None \<Rightarrow> fmempty | Some f \<Rightarrow> f))"

text \<open>The idiom \<open>if m == nil { m = map[string]string{} }\<close> on its own.\<close>

definition map_init :: "strmap \<Rightarrow> strmap" where
  "map_init m = (case m of None \<Rightarrow> Some fmempty | Some f \<Rightarrow> Some f)"

lemma map_get_None [simp]: "map_get None k = []"
  by (simp add: map_get_def)

lemma map_get_empty [simp]: "map_get (Some fmempty) k = []"
  by (simp add: map_get_def)

lemma map_get_put [simp]: "map_get (map_put m k v) k' = (if k = k' then v else map_get m k')"
  by (auto simp: map_get_def map_put_def split: option.splits)

lemma map_get_init [simp]: "map_get (map_init m) = map_get m"
  by (auto simp: map_init_def fun_eq_iff split: option.splits)

lemma map_put_not_nil [simp]: "map_put m k v \<noteq> None"
  by (simp add: map_put_def)

lemma map_init_not_nil [simp]: "map_init m \<noteq> None"
  by (simp add: map_init_def split: option.splits)

lemma map_put_init [simp]: "map_put (map_init m) k v = map_put m k v"
  by (simp add: map_put_def map_init_def split: option.splits)

lemma map_put_put [simp]: "map_put (map_put m k v) k w = map_put m k w"
  by (simp add: map_put_def)

subsection \<open>Lists\<close>

lemma list_update_map: "i < length xs \<Longrightarrow> map f (xs[i := y]) = (map f xs)[i := f y]"
  by (rule map_update)

lemma map_list_update_id:
  "i < length xs \<Longrightarrow> f y = f (xs ! i) \<Longrightarrow> map f (xs[i := y]) = map f xs"
  by (metis list_update_id map_update nth_map length_map)

end
