(* ===== verification/KubeTypes.thy ===== *)
theory KubeTypes
  imports Prelude "HOL-Library.Word"
begin

text \<open>
  The structs of \<open>k8s.io/api\<close> and \<open>k8s.io/apimachinery\<close> the repository's code reads or writes,
  reduced to the fields it touches. The fields the code only copies along are kept together in
  one field named \<open>other\<close>, so that what the code does to a whole struct is still visible. These
  records are data only: no function of those libraries is defined here. A \<open>*T\<close> is an
  \<open>option\<close>, an \<open>int32\<close> a 32-bit word, an \<open>int64\<close> an \<open>int\<close>, an enumeration string a \<open>string\<close>.
  The time of \<open>metav1.Time\<close> is a number only the library compares.
\<close>

record OwnerReference =
  or_APIVersion :: string
  or_Kind :: string
  or_Name :: string
  or_Controller :: "bool option"

record MetaObjectMeta =
  m_Name :: string
  m_GenerateName :: string
  m_Namespace :: string
  m_Labels :: strmap
  m_Annotations :: strmap
  m_CreationTimestamp :: int
  m_DeletionTimestamp :: "int option"
  m_OwnerReferences :: "OwnerReference list"
  m_other :: handle

definition zero_meta :: MetaObjectMeta where
  "zero_meta = \<lparr>m_Name = [], m_GenerateName = [], m_Namespace = [], m_Labels = None,
     m_Annotations = None, m_CreationTimestamp = 0, m_DeletionTimestamp = None,
     m_OwnerReferences = [], m_other = []\<rparr>"

record EnvVar =
  ev_Name :: string
  ev_Value :: string
  ev_other :: handle

record ContainerPort =
  cp_ContainerPort :: "32 word"
  cp_Protocol :: string
  cp_other :: handle

datatype IntOrString = IntVal "32 word" | StrVal string

record HTTPGetAction =
  hg_Path :: string
  hg_Port :: IntOrString
  hg_Scheme :: string
  hg_other :: handle

text \<open>\<open>ph_other\<close> stands for the pointers \<open>Exec\<close>, \<open>TCPSocket\<close> and \<open>GRPC\<close>.\<close>

record ProbeHandler =
  ph_HTTPGet :: "HTTPGetAction option"
  ph_other :: "handle option"

record Probe =
  pr_Handler :: ProbeHandler
  pr_InitialDelaySeconds :: "32 word"
  pr_PeriodSeconds :: "32 word"
  pr_FailureThreshold :: "32 word"
  pr_other :: handle

record Container =
  c_Name :: string
  c_Image :: string
  c_Command :: "string list"
  c_Env :: "EnvVar list"
  c_Ports :: "ContainerPort list"
  c_LivenessProbe :: "Probe option"
  c_ReadinessProbe :: "Probe option"
  c_StartupProbe :: "Probe option"
  c_other :: handle

record PodSpec =
  ps_InitContainers :: "Container list"
  ps_Containers :: "Container list"
  ps_TerminationGracePeriodSeconds :: "int option"
  ps_other :: handle

record CorePodTemplateSpec =
  pts_Meta :: MetaObjectMeta
  pts_Spec :: PodSpec

type_synonym labels = strmap

record LabelSelectorRequirement =
  lr_Key :: string
  lr_Operator :: string
  lr_Values :: "string list"

record LabelSelector =
  ls_MatchLabels :: strmap
  ls_MatchExpressions :: "LabelSelectorRequirement list"

definition empty_selector :: LabelSelector where
  "empty_selector = \<lparr>ls_MatchLabels = None, ls_MatchExpressions = []\<rparr>"

text \<open>
  A \<open>labels.Selector\<close> is an interface of which the code calls one method: a selector is the
  function that method is. \<open>metav1.LabelSelectorAsSelector\<close> is a parameter of the model.
\<close>

type_synonym selector = "labels \<Rightarrow> bool"
type_synonym selector_lib = "LabelSelector \<Rightarrow> selector result"

text \<open>Documented: an empty label selector matches all objects.\<close>

definition empty_selects_all :: "selector_lib \<Rightarrow> bool" where
  "empty_selects_all as_selector \<longleftrightarrow> as_selector empty_selector = Inr (\<lambda>_. True)"

record ServiceReference =
  sr_Namespace :: string
  sr_Name :: string
  sr_Path :: "string option"
  sr_Port :: "32 word option"

record WebhookClientConfig =
  wc_URL :: "string option"
  wc_Service :: "ServiceReference option"
  wc_CABundle :: string

definition zero_client_config :: WebhookClientConfig where
  "zero_client_config = \<lparr>wc_URL = None, wc_Service = None, wc_CABundle = []\<rparr>"

datatype cond_status = CondTrue | CondFalse | CondUnknown

subsection \<open>Values for examples\<close>

definition plain_container :: "string \<Rightarrow> string \<Rightarrow> Container" where
  "plain_container name img = \<lparr>c_Name = name, c_Image = img, c_Command = [], c_Env = [], c_Ports = [],
     c_LivenessProbe = None, c_ReadinessProbe = None, c_StartupProbe = None, c_other = []\<rparr>"

definition plain_template :: "string \<Rightarrow> CorePodTemplateSpec" where
  "plain_template img = \<lparr>pts_Meta = zero_meta, pts_Spec = \<lparr>ps_InitContainers = [],
     ps_Containers = [plain_container ''app'' img], ps_TerminationGracePeriodSeconds = None, ps_other = []\<rparr>\<rparr>"

end
