(* ===== verification/Admission.thy ===== *)
theory Admission
  imports KubeTypes
begin

text \<open>
  What the two resources' admission webhooks share: the field errors of
  \<open>k8s.io/apimachinery/pkg/util/validation/field\<close> as data, and the contract of a resource that is
  defaulted by a mutating webhook and then checked by a validating one. The API server calls the
  mutating webhooks first (\<open>admit\<close>). \<open>ErrorList.ToAggregate\<close> is a parameter of the validators.
\<close>

datatype path_elem = Child string | Index nat

type_synonym field_path = "path_elem list"

datatype bad_value = BadSelector LabelSelector | BadString string

datatype field_error =
    Required field_path string
  | Invalid field_path bad_value string
  | OtherFieldError field_path string

type_synonym aggregate_lib = "field_error list \<Rightarrow> go_error option"

text \<open>Documented: an empty error list aggregates to no error, any other list to an error.\<close>

definition aggregates :: "aggregate_lib \<Rightarrow> bool" where
  "aggregates agg \<longleftrightarrow> (\<forall>errs. agg errs = None \<longleftrightarrow> errs = [])"

text \<open>\<open>None\<close> is a panic of the validator.\<close>

definition admit :: "('o \<Rightarrow> 'o) \<Rightarrow> ('o \<Rightarrow> field_error list option) \<Rightarrow> 'o \<Rightarrow> ('o \<times> field_error list) option" where
  "admit dflt valid obj = map_option (\<lambda>errs. (dflt obj, errs)) (valid (dflt obj))"

locale admission =
  fixes dflt :: "'o \<Rightarrow> 'o" and valid :: "'o \<Rightarrow> field_error list option"
  assumes dflt_idem: "dflt (dflt obj) = dflt obj"
    and valid_after_dflt: "valid (dflt obj) \<noteq> None"
begin

lemma admit_no_panic: "admit dflt valid obj \<noteq> None"
  using valid_after_dflt by (simp add: admit_def)

lemma admit_stable:
  "admit dflt valid obj = Some (obj', errs) \<Longrightarrow> admit dflt valid obj' = Some (obj', errs)"
  by (auto simp: admit_def dflt_idem)

end

text \<open>An aggregation, to show that the documented law can hold.\<close>

definition plain_aggregate :: aggregate_lib where
  "plain_aggregate errs = (if errs = [] then None else Some (LibError ''invalid''))"

lemma plain_aggregate_aggregates: "aggregates plain_aggregate"
  by (simp add: aggregates_def plain_aggregate_def)

end
