(* ===== verification/ClusterPodConventionApi.thy ===== *)
theory ClusterPodConventionApi
  imports Admission
begin

text \<open>
  The \<open>ClusterPodConvention\<close> resource of \<open>pkg/apis/conventions/v1alpha1\<close>: its types
  (\<open>clusterpodconvention_types.go\<close>), its defaulting webhook (\<open>clusterpodconvention_defaults.go\<close>)
  and its validating webhook (\<open>clusterpodconvention_validation.go\<close>). The validators of other
  packages the code calls are parameters (\<open>validation_lib\<close>). A dereference of a nil pointer is a
  panic, the \<open>None\<close> of the validators.
\<close>

subsection \<open>Types\<close>

type_synonym PriorityLevel = string
type_synonym SelectorTargetSource = string

definition EarlyPriority :: PriorityLevel where "EarlyPriority = ''Early''"
definition NormalPriority :: PriorityLevel where "NormalPriority = ''Normal''"
definition LatePriority :: PriorityLevel where "LatePriority = ''Late''"

definition PodTemplateSpecLabels :: SelectorTargetSource where
  "PodTemplateSpecLabels = ''PodTemplateSpec''"
definition PodIntentLabels :: SelectorTargetSource where
  "PodIntentLabels = ''PodIntent''"

lemmas priority_defs = EarlyPriority_def NormalPriority_def LatePriority_def

record WebhookCertificate =
  wcert_Namespace :: string
  wcert_Name :: string

record ConventionWebhook =
  cw_ClientConfig :: WebhookClientConfig
  cw_Certificate :: "WebhookCertificate option"

record ClusterPodConventionSpec =
  cs_Selectors :: "LabelSelector list"
  cs_SelectorTarget :: SelectorTargetSource
  cs_Priority :: PriorityLevel
  cs_Webhook :: "ConventionWebhook option"

record ClusterPodConvention =
  cpc_Meta :: MetaObjectMeta
  cpc_Spec :: ClusterPodConventionSpec

subsection \<open>Defaulting\<close>

definition ConventionWebhook_Default :: "ConventionWebhook \<Rightarrow> ConventionWebhook" where
  "ConventionWebhook_Default s =
     (case wc_Service (cw_ClientConfig s) of
        None \<Rightarrow> s
      | Some svc \<Rightarrow>
          (case sr_Port svc of
             None \<Rightarrow> s\<lparr>cw_ClientConfig := (cw_ClientConfig s)\<lparr>wc_Service := Some (svc\<lparr>sr_Port := Some 443\<rparr>)\<rparr>\<rparr>
           | Some _ \<Rightarrow> s))"

definition ClusterPodConventionSpec_Default :: "ClusterPodConventionSpec \<Rightarrow> ClusterPodConventionSpec" where
  "ClusterPodConventionSpec_Default s =
     (let s = (if cs_Priority s = [] then s\<lparr>cs_Priority := NormalPriority\<rparr> else s);
          s = (case cs_Webhook s of None \<Rightarrow> s
               | Some w \<Rightarrow> s\<lparr>cs_Webhook := Some (ConventionWebhook_Default w)\<rparr>)
      in if cs_SelectorTarget s = [] then s\<lparr>cs_SelectorTarget := PodTemplateSpecLabels\<rparr> else s)"

definition ClusterPodConvention_Default :: "ClusterPodConvention \<Rightarrow> ClusterPodConvention" where
  "ClusterPodConvention_Default obj = obj\<lparr>cpc_Spec := ClusterPodConventionSpec_Default (cpc_Spec obj)\<rparr>"

lemma ConventionWebhook_Default_idem [simp]:
  "ConventionWebhook_Default (ConventionWebhook_Default w) = ConventionWebhook_Default w"
  by (simp add: ConventionWebhook_Default_def split: option.split)

lemma ConventionWebhook_Default_port:
  "wc_Service (cw_ClientConfig (ConventionWebhook_Default w)) = Some svc \<Longrightarrow> sr_Port svc \<noteq> None"
  by (auto simp: ConventionWebhook_Default_def split: option.splits)

lemma Default_simps [simp]:
  "cs_Selectors (ClusterPodConventionSpec_Default s) = cs_Selectors s"
  "cs_Priority (ClusterPodConventionSpec_Default s) =
     (if cs_Priority s = [] then NormalPriority else cs_Priority s)"
  "cs_SelectorTarget (ClusterPodConventionSpec_Default s) =
     (if cs_SelectorTarget s = [] then PodTemplateSpecLabels else cs_SelectorTarget s)"
  "cs_Webhook (ClusterPodConventionSpec_Default s) = map_option ConventionWebhook_Default (cs_Webhook s)"
  by (simp_all add: ClusterPodConventionSpec_Default_def Let_def split: option.split)

lemma ClusterPodConventionSpec_Default_idem [simp]:
  "ClusterPodConventionSpec_Default (ClusterPodConventionSpec_Default s) = ClusterPodConventionSpec_Default s"
  by (rule ClusterPodConventionSpec.equality)
    (simp_all add: priority_defs PodTemplateSpecLabels_def option.map_comp o_def)

subsection \<open>Validation\<close>

record validation_lib =
  vl_LabelSelectorAsSelector :: selector_lib
  vl_ValidateWebhookURL :: "field_path \<Rightarrow> string \<Rightarrow> bool \<Rightarrow> field_error list"
  vl_ValidateWebhookService :: "field_path \<Rightarrow> string \<Rightarrow> string \<Rightarrow> string option \<Rightarrow> 32 word \<Rightarrow> field_error list"

definition WebhookCertificate_validate :: "field_path \<Rightarrow> WebhookCertificate option \<Rightarrow> field_error list" where
  "WebhookCertificate_validate fldPath s = (case s of
     None \<Rightarrow> []
   | Some cert \<Rightarrow>
       (if wcert_Namespace cert = [] then [Required (fldPath @ [Child ''namespace'']) []] else []) @
       (if wcert_Name cert = [] then [Required (fldPath @ [Child ''name'']) []] else []))"

definition validateClientConfig :: "validation_lib \<Rightarrow> field_path \<Rightarrow> WebhookClientConfig \<Rightarrow> field_error list option" where
  "validateClientConfig lib fldPath cfg =
     (if wc_URL cfg \<noteq> None \<and> wc_Service cfg \<noteq> None
      then Some [Required (fldPath @ [Child ''[url, service]'']) ''expected exactly one, got both'']
      else if (wc_URL cfg = None) = (wc_Service cfg = None)
      then Some [Required (fldPath @ [Child ''[url, service]'']) ''expected exactly one, got neither'']
      else (case wc_URL cfg of
          Some url \<Rightarrow> Some (vl_ValidateWebhookURL lib (fldPath @ [Child ''url'']) url True)
        | None \<Rightarrow>
            (case wc_Service cfg of
               Some svc \<Rightarrow>
                 (case sr_Port svc of
                    None \<Rightarrow> None
                  | Some port \<Rightarrow> Some (vl_ValidateWebhookService lib (fldPath @ [Child ''service''])
                      (sr_Name svc) (sr_Namespace svc) (sr_Path svc) port))
             | None \<Rightarrow> Some [])))"

definition ConventionWebhook_validate :: "validation_lib \<Rightarrow> field_path \<Rightarrow> ConventionWebhook \<Rightarrow> field_error list option" where
  "ConventionWebhook_validate lib fldPath s =
     map_option (\<lambda>errs. errs @ WebhookCertificate_validate (fldPath @ [Child ''certificate'']) (cw_Certificate s))
       (validateClientConfig lib (fldPath @ [Child ''clientConfig'']) (cw_ClientConfig s))"

fun selector_errors :: "validation_lib \<Rightarrow> field_path \<Rightarrow> nat \<Rightarrow> LabelSelector list \<Rightarrow> field_error list" where
  "selector_errors lib fldPath i [] = []"
| "selector_errors lib fldPath i (sel # sels) =
     (case vl_LabelSelectorAsSelector lib sel of
        Inl err \<Rightarrow> [Invalid (fldPath @ [Child ''selectors'', Index i]) (BadSelector sel) []]
      | Inr _ \<Rightarrow> []) @ selector_errors lib fldPath (Suc i) sels"

text \<open>The messages are raw string literals: the backslashes before the quotes are part of the text.\<close>

definition escaped_quotes :: "string \<Rightarrow> string" where
  "escaped_quotes s = [CHR 0x5C, CHR 0x22] @ s @ [CHR 0x5C, CHR 0x22]"

definition priority_errors :: "field_path \<Rightarrow> PriorityLevel \<Rightarrow> field_error list" where
  "priority_errors fldPath p =
     (if p \<noteq> EarlyPriority \<and> p \<noteq> LatePriority \<and> p \<noteq> NormalPriority
      then [Invalid (fldPath @ [Child ''priority'']) (BadString p)
        (''The priority value provided is invalid. Accepted priority values include '' @ escaped_quotes ''Early'' @
         '' or '' @ escaped_quotes ''Normal'' @ '' or '' @ escaped_quotes ''Late'' @
         ''. The default value is set to '' @ escaped_quotes ''Normal'')]
      else [])"

definition target_errors :: "field_path \<Rightarrow> SelectorTargetSource \<Rightarrow> field_error list" where
  "target_errors fldPath t =
     (if t \<noteq> PodTemplateSpecLabels \<and> t \<noteq> PodIntentLabels
      then [Invalid (fldPath @ [Child ''selectorTarget'']) (BadString t)
        (''The value provided for the selectorTarget field is invalid. Accepted selectorTarget values include '' @
         escaped_quotes ''PodIntent'' @ '' and '' @ escaped_quotes ''PodTemplateSpec'' @
         ''. The default value is set to '' @ escaped_quotes ''PodTemplateSpec'')]
      else [])"

definition ClusterPodConventionSpec_validate ::
    "validation_lib \<Rightarrow> field_path \<Rightarrow> ClusterPodConventionSpec \<Rightarrow> field_error list option" where
  "ClusterPodConventionSpec_validate lib fldPath s =
     map_option
       (\<lambda>webhook_errs. selector_errors lib fldPath 0 (cs_Selectors s) @ priority_errors fldPath (cs_Priority s)
          @ webhook_errs @ target_errors fldPath (cs_SelectorTarget s))
       (case cs_Webhook s of
          None \<Rightarrow> Some [Required (fldPath @ [Child ''webhook'']) []]
        | Some w \<Rightarrow> ConventionWebhook_validate lib (fldPath @ [Child ''webhook'']) w)"

definition ClusterPodConvention_validate :: "validation_lib \<Rightarrow> ClusterPodConvention \<Rightarrow> field_error list option" where
  "ClusterPodConvention_validate lib r = ClusterPodConventionSpec_validate lib [Child ''spec''] (cpc_Spec r)"

definition ClusterPodConvention_ValidateCreate ::
    "validation_lib \<Rightarrow> aggregate_lib \<Rightarrow> ClusterPodConvention \<Rightarrow> go_error option option" where
  "ClusterPodConvention_ValidateCreate lib ToAggregate obj =
     map_option ToAggregate (ClusterPodConvention_validate lib obj)"

definition ClusterPodConvention_ValidateUpdate ::
    "validation_lib \<Rightarrow> aggregate_lib \<Rightarrow> ClusterPodConvention \<Rightarrow> ClusterPodConvention \<Rightarrow> go_error option option" where
  "ClusterPodConvention_ValidateUpdate lib ToAggregate old obj =
     map_option ToAggregate (ClusterPodConvention_validate lib obj)"

definition ClusterPodConvention_ValidateDelete :: "ClusterPodConvention \<Rightarrow> go_error option" where
  "ClusterPodConvention_ValidateDelete obj = None"

subsection \<open>What the webhooks guarantee\<close>

text \<open>The specification of an acceptable convention, and of the one way to make validation panic.\<close>

definition client_config_ok :: "validation_lib \<Rightarrow> field_path \<Rightarrow> WebhookClientConfig \<Rightarrow> bool" where
  "client_config_ok lib p cfg \<longleftrightarrow>
     (\<exists>url. wc_URL cfg = Some url \<and> wc_Service cfg = None \<and>
        vl_ValidateWebhookURL lib (p @ [Child ''url'']) url True = []) \<or>
     (\<exists>svc port. wc_URL cfg = None \<and> wc_Service cfg = Some svc \<and> sr_Port svc = Some port \<and>
        vl_ValidateWebhookService lib (p @ [Child ''service'']) (sr_Name svc) (sr_Namespace svc) (sr_Path svc) port = [])"

definition certificate_ok :: "WebhookCertificate option \<Rightarrow> bool" where
  "certificate_ok c \<longleftrightarrow> (\<forall>cert. c = Some cert \<longrightarrow> wcert_Namespace cert \<noteq> [] \<and> wcert_Name cert \<noteq> [])"

definition convention_spec_ok :: "validation_lib \<Rightarrow> ClusterPodConventionSpec \<Rightarrow> bool" where
  "convention_spec_ok lib s \<longleftrightarrow>
     (\<forall>sel \<in> set (cs_Selectors s). is_ok (vl_LabelSelectorAsSelector lib sel)) \<and>
     cs_Priority s \<in> {EarlyPriority, NormalPriority, LatePriority} \<and>
     cs_SelectorTarget s \<in> {PodTemplateSpecLabels, PodIntentLabels} \<and>
     (\<exists>w. cs_Webhook s = Some w \<and> certificate_ok (cw_Certificate w) \<and>
        client_config_ok lib [Child ''spec'', Child ''webhook'', Child ''clientConfig''] (cw_ClientConfig w))"

definition portless_service :: "ClusterPodConventionSpec \<Rightarrow> bool" where
  "portless_service s \<longleftrightarrow> (\<exists>w svc. cs_Webhook s = Some w \<and> wc_URL (cw_ClientConfig w) = None \<and>
     wc_Service (cw_ClientConfig w) = Some svc \<and> sr_Port svc = None)"

lemma selector_errors_Nil:
  "selector_errors lib p n sels = [] \<longleftrightarrow> (\<forall>sel \<in> set sels. is_ok (vl_LabelSelectorAsSelector lib sel))"
  by (induction sels arbitrary: n) (auto split: sum.splits)

lemma priority_errors_Nil:
  "priority_errors p x = [] \<longleftrightarrow> x \<in> {EarlyPriority, NormalPriority, LatePriority}"
  by (auto simp: priority_errors_def)

lemma target_errors_Nil: "target_errors p x = [] \<longleftrightarrow> x \<in> {PodTemplateSpecLabels, PodIntentLabels}"
  by (auto simp: target_errors_def)

lemma certificate_validate_Nil: "WebhookCertificate_validate p c = [] \<longleftrightarrow> certificate_ok c"
  by (cases c) (auto simp: WebhookCertificate_validate_def certificate_ok_def)

lemma validateClientConfig_None:
  "validateClientConfig lib p cfg = None \<longleftrightarrow>
     wc_URL cfg = None \<and> (\<exists>svc. wc_Service cfg = Some svc \<and> sr_Port svc = None)"
  by (cases "wc_URL cfg"; cases "wc_Service cfg")
    (auto simp: validateClientConfig_def split: option.splits)

lemma validateClientConfig_ok:
  "validateClientConfig lib p cfg = Some [] \<longleftrightarrow> client_config_ok lib p cfg"
  by (cases "wc_URL cfg"; cases "wc_Service cfg")
    (auto simp: validateClientConfig_def client_config_ok_def split: option.splits)

lemma spec_validate_None:
  "ClusterPodConventionSpec_validate lib p s = None \<longleftrightarrow> portless_service s"
  by (auto simp: ClusterPodConventionSpec_validate_def portless_service_def ConventionWebhook_validate_def
      validateClientConfig_None split: option.splits)

lemma webhook_validate_ok:
  "ConventionWebhook_validate lib p w = Some [] \<longleftrightarrow>
     certificate_ok (cw_Certificate w) \<and> client_config_ok lib (p @ [Child ''clientConfig'']) (cw_ClientConfig w)"
  by (auto simp: ConventionWebhook_validate_def certificate_validate_Nil simp flip: validateClientConfig_ok)

lemma spec_validate_ok:
  "ClusterPodConventionSpec_validate lib [Child ''spec''] s = Some [] \<longleftrightarrow> convention_spec_ok lib s"
  by (cases "cs_Webhook s")
    (auto simp: ClusterPodConventionSpec_validate_def convention_spec_ok_def selector_errors_Nil
      priority_errors_Nil target_errors_Nil webhook_validate_ok)

lemma default_not_portless: "\<not> portless_service (ClusterPodConventionSpec_Default s)"
  by (auto simp: portless_service_def dest: ConventionWebhook_Default_port)

interpretation convention_admission:
  admission ClusterPodConvention_Default "ClusterPodConvention_validate lib"
  by unfold_locales
    (simp_all add: ClusterPodConvention_Default_def ClusterPodConvention_validate_def
      spec_validate_None default_not_portless)

text \<open>Concrete values for the examples below.\<close>

definition accepting :: validation_lib where
  "accepting = \<lparr>vl_LabelSelectorAsSelector = (\<lambda>_. Inr (\<lambda>_. True)), vl_ValidateWebhookURL = (\<lambda>_ _ _. []),
     vl_ValidateWebhookService = (\<lambda>_ _ _ _ _. [])\<rparr>"

definition sample_webhook :: ConventionWebhook where
  "sample_webhook = \<lparr>cw_ClientConfig = zero_client_config\<lparr>wc_URL := Some ''https://hook''\<rparr>, cw_Certificate = None\<rparr>"

definition sample_source :: ClusterPodConvention where
  "sample_source = \<lparr>cpc_Meta = zero_meta\<lparr>m_Name := ''source''\<rparr>,
     cpc_Spec = \<lparr>cs_Selectors = [empty_selector], cs_SelectorTarget = PodTemplateSpecLabels,
       cs_Priority = NormalPriority, cs_Webhook = Some sample_webhook\<rparr>\<rparr>"

lemma sample_source_ok: "convention_spec_ok accepting (cpc_Spec sample_source)"
  by (simp add: convention_spec_ok_def accepting_def sample_source_def sample_webhook_def
      certificate_ok_def client_config_ok_def zero_client_config_def)

text \<open>C24: The validating webhook accepts a convention exactly when every selector converts, the
  priority and the selector target are among the listed values, the certificate reference, if
  any, has both names and exactly one of URL and service is configured and valid.\<close>

theorem convention_accepted_iff:
  assumes "aggregates agg"
  shows "(ClusterPodConvention_ValidateCreate lib agg obj = Some None \<longleftrightarrow> convention_spec_ok lib (cpc_Spec obj)) \<and>
    ClusterPodConvention_ValidateUpdate lib agg old obj = ClusterPodConvention_ValidateCreate lib agg obj"
  using assms
  by (auto simp: ClusterPodConvention_ValidateCreate_def ClusterPodConvention_ValidateUpdate_def
      ClusterPodConvention_validate_def aggregates_def simp flip: spec_validate_ok)

lemma convention_accepted_iff_witness:
  "ClusterPodConvention_ValidateCreate accepting plain_aggregate sample_source = Some None \<and>
   ClusterPodConvention_ValidateUpdate accepting plain_aggregate sample_source sample_source = Some None"
proof -
  have "convention_spec_ok accepting (cpc_Spec sample_source)" by (rule sample_source_ok)
  then show ?thesis
    using convention_accepted_iff [OF plain_aggregate_aggregates, of accepting sample_source sample_source] by simp
qed

text \<open>C25: Validation dereferences the service port: it panics exactly on a webhook with a service,
  no URL and no port. Defaulting sets the port, so the mutating webhook followed by the validating
  one never panics, and an object that went through both is left as it is when it is sent again.\<close>

theorem convention_admission_safe:
  "(ClusterPodConvention_validate lib obj = None \<longleftrightarrow> portless_service (cpc_Spec obj)) \<and>
   admit ClusterPodConvention_Default (ClusterPodConvention_validate lib) obj \<noteq> None \<and>
   (\<forall>obj' errs. admit ClusterPodConvention_Default (ClusterPodConvention_validate lib) obj = Some (obj', errs) \<longrightarrow>
      admit ClusterPodConvention_Default (ClusterPodConvention_validate lib) obj' = Some (obj', errs))"
  using convention_admission.admit_no_panic convention_admission.admit_stable
  by (auto simp: ClusterPodConvention_validate_def spec_validate_None)

lemma convention_admission_safe_witness:
  "admit ClusterPodConvention_Default (ClusterPodConvention_validate accepting) sample_source = Some (sample_source, []) \<and>
   admit ClusterPodConvention_Default (ClusterPodConvention_validate accepting) sample_source \<noteq> None"
proof
  show "admit ClusterPodConvention_Default (ClusterPodConvention_validate accepting) sample_source = Some (sample_source, [])"
    by code_simp
  then show "admit ClusterPodConvention_Default (ClusterPodConvention_validate accepting) sample_source \<noteq> None"
    using convention_admission_safe [of accepting sample_source] by blast
qed

end
