(* ===== verification/WebhookTypes.thy ===== *)
theory WebhookTypes
  imports KubeTypes
begin

text \<open>
  \<open>webhook/api/v1alpha1/podconventioncontext_types.go\<close>: the request and response of a
  convention webhook, with the image metadata it carries, and the hand-written \<open>DeepCopy\<close> that
  goes through JSON. The JSON encoding of a \<open>PodConventionContext\<close> (\<open>context_codec\<close>) and the
  decoding of a CycloneDX document (\<open>cdx_lib\<close>) are parameters; \<open>codec_roundtrip\<close> is what the
  code relies on: a context that can be encoded is decoded to itself.
\<close>

subsection \<open>Data\<close>

text \<open>The image configuration of go-containerregistry, of which the code reads the labels.\<close>

record ConfigFile =
  cf_Labels :: strmap
  cf_other :: handle

record BOM =
  bom_Name :: string
  bom_Raw :: string

record ImageConfig =
  ic_Image :: string
  ic_BOMs :: "BOM list"
  ic_Config :: ConfigFile

record PodConventionContextSpec =
  pcs_Template :: CorePodTemplateSpec
  pcs_ImageConfig :: "ImageConfig list"

record PodConventionContextStatus =
  pct_Template :: CorePodTemplateSpec
  pct_AppliedConventions :: "string list"

record PodConventionContext =
  pcc_Meta :: MetaObjectMeta
  pcc_Spec :: PodConventionContextSpec
  pcc_Status :: PodConventionContextStatus

definition zero_pod_spec :: PodSpec where
  "zero_pod_spec = \<lparr>ps_InitContainers = [], ps_Containers = [],
     ps_TerminationGracePeriodSeconds = None, ps_other = []\<rparr>"

definition zero_template :: CorePodTemplateSpec where
  "zero_template = \<lparr>pts_Meta = zero_meta, pts_Spec = zero_pod_spec\<rparr>"

definition zero_context :: PodConventionContext where
  "zero_context = \<lparr>pcc_Meta = zero_meta,
     pcc_Spec = \<lparr>pcs_Template = zero_template, pcs_ImageConfig = []\<rparr>,
     pcc_Status = \<lparr>pct_Template = zero_template, pct_AppliedConventions = []\<rparr>\<rparr>"

text \<open>The CycloneDX document type, of which the code reads component names and versions.\<close>

record CdxComponent =
  cc_Name :: string
  cc_Version :: string
  cc_other :: handle

record CdxBOM =
  cdx_Components :: "CdxComponent list option"
  cdx_other :: handle

type_synonym cdx_lib = "string \<Rightarrow> CdxBOM result"

definition AsCycloneDX :: "cdx_lib \<Rightarrow> BOM \<Rightarrow> CdxBOM result" where
  "AsCycloneDX unmarshal b = (case unmarshal (bom_Raw b) of Inl err \<Rightarrow> Inl err | Inr bom \<Rightarrow> Inr bom)"

subsection \<open>DeepCopy\<close>

record context_codec =
  cx_Marshal :: "PodConventionContext \<Rightarrow> string result"
  cx_Unmarshal :: "string \<Rightarrow> PodConventionContext result"

definition codec_roundtrip :: "context_codec \<Rightarrow> bool" where
  "codec_roundtrip cx \<longleftrightarrow> (\<forall>x bytes. cx_Marshal cx x = Inr bytes \<longrightarrow> cx_Unmarshal cx bytes = Inr x)"

text \<open>\<open>Inl\<close> is a panic with the error; \<open>Inr None\<close> the nil pointer.\<close>

definition PodConventionContext_DeepCopy ::
    "context_codec \<Rightarrow> PodConventionContext option \<Rightarrow> go_error + PodConventionContext option" where
  "PodConventionContext_DeepCopy cx inp = (case inp of
     None \<Rightarrow> Inr None
   | Some x \<Rightarrow>
       (case cx_Marshal cx x of
          Inl err \<Rightarrow> Inl err
        | Inr bytes \<Rightarrow>
            (case cx_Unmarshal cx bytes of Inl err \<Rightarrow> Inl err | Inr out \<Rightarrow> Inr (Some out))))"

text \<open>The generated \<open>DeepCopyInto\<close> of this type goes through \<open>DeepCopy\<close>; the result is what it writes to \<open>out\<close>.\<close>

definition PodConventionContext_DeepCopyInto ::
    "context_codec \<Rightarrow> PodConventionContext \<Rightarrow> go_error + PodConventionContext" where
  "PodConventionContext_DeepCopyInto cx inp = (case PodConventionContext_DeepCopy cx (Some inp) of
     Inl err \<Rightarrow> Inl err
   | Inr None \<Rightarrow> Inl (LibError ''nil pointer dereference'')
   | Inr (Some clone) \<Rightarrow> Inr clone)"

definition PodConventionContext_DeepCopyObject ::
    "context_codec \<Rightarrow> PodConventionContext option \<Rightarrow> go_error + PodConventionContext option" where
  "PodConventionContext_DeepCopyObject cx inp = (case PodConventionContext_DeepCopy cx inp of
     Inl err \<Rightarrow> Inl err
   | Inr None \<Rightarrow> Inr None
   | Inr (Some c) \<Rightarrow> Inr (Some c))"

text \<open>A codec that keeps only the metadata name, to show that the hypothesis can hold.\<close>

definition name_codec :: context_codec where
  "name_codec = \<lparr>cx_Marshal = (\<lambda>x.
       if x = zero_context\<lparr>pcc_Meta := zero_meta\<lparr>m_Name := m_Name (pcc_Meta x)\<rparr>\<rparr>
       then Inr (m_Name (pcc_Meta x)) else Inl (LibError ''unsupported'')),
     cx_Unmarshal = (\<lambda>s. Inr (zero_context\<lparr>pcc_Meta := zero_meta\<lparr>m_Name := s\<rparr>\<rparr>))\<rparr>"

lemma name_codec_roundtrip: "codec_roundtrip name_codec"
  unfolding codec_roundtrip_def name_codec_def by (auto split: if_splits)

lemma deep_copy_cases:
  assumes "codec_roundtrip cx"
  shows "PodConventionContext_DeepCopy cx inp =
    (case inp of None \<Rightarrow> Inr None
     | Some x \<Rightarrow> (case cx_Marshal cx x of Inl err \<Rightarrow> Inl err | Inr _ \<Rightarrow> Inr (Some x)))"
  using assms
  by (auto simp: PodConventionContext_DeepCopy_def codec_roundtrip_def split: option.splits sum.splits)

lemma PodConventionContext_DeepCopyInto_eq:
  "codec_roundtrip cx \<Longrightarrow> PodConventionContext_DeepCopyInto cx x = (case cx_Marshal cx x of Inl err \<Rightarrow> Inl err | Inr _ \<Rightarrow> Inr x)"
  by (simp add: PodConventionContext_DeepCopyInto_def deep_copy_cases split: sum.split)

text \<open>With a codec that decodes what it encodes, the JSON deep copy of a context is the context
  itself, of a nil context is nil, and it panics exactly when the context cannot be encoded;
  \<open>DeepCopyObject\<close> agrees with it.\<close>

lemma context_deep_copy:
  assumes "codec_roundtrip cx"
  shows "(\<forall>out. PodConventionContext_DeepCopy cx inp = Inr out \<longrightarrow> out = inp) \<and>
    (\<forall>e. PodConventionContext_DeepCopy cx inp = Inl e \<longleftrightarrow>
       (\<exists>x. inp = Some x \<and> cx_Marshal cx x = Inl e)) \<and>
    PodConventionContext_DeepCopyObject cx inp = PodConventionContext_DeepCopy cx inp"
  using deep_copy_cases [OF assms, of inp]
  by (auto simp: PodConventionContext_DeepCopyObject_def split: option.splits sum.splits)

lemma context_deep_copy_witness:
  "PodConventionContext_DeepCopyObject name_codec (Some zero_context) =
     PodConventionContext_DeepCopy name_codec (Some zero_context) \<and>
   PodConventionContext_DeepCopy name_codec (Some zero_context) = Inr (Some zero_context)"
proof
  have "PodConventionContext_DeepCopy name_codec (Some zero_context) \<noteq> Inl e" for e
    by (simp add: PodConventionContext_DeepCopy_def name_codec_def zero_context_def zero_meta_def)
  then obtain out where out: "PodConventionContext_DeepCopy name_codec (Some zero_context) = Inr out"
    by (cases "PodConventionContext_DeepCopy name_codec (Some zero_context)") auto
  with context_deep_copy [OF name_codec_roundtrip, of "Some zero_context"]
  show "PodConventionContext_DeepCopy name_codec (Some zero_context) = Inr (Some zero_context)" by simp
  show "PodConventionContext_DeepCopyObject name_codec (Some zero_context) =
     PodConventionContext_DeepCopy name_codec (Some zero_context)"
    using context_deep_copy [OF name_codec_roundtrip, of "Some zero_context"] by blast
qed

end
