(* ===== verification/Convention.thy ===== *)
theory Convention
  imports ClusterPodConventionApi WebhookTypes
begin

text \<open>
  \<open>pkg/binding/webhook_config.go\<close> and \<open>pkg/binding/convention.go\<close>: one convention, the client
  configuration of its webhook and the call of the webhook. The webhook client of
  \<open>k8s.io/apiserver/pkg/util/webhook\<close> is a parameter (\<open>webhook_lib\<close>): making a client manager and
  a client, and the answer of a \<open>POST\<close> with a request body, which is a \<open>rest.Result\<close>: its error,
  and what decoding its body into a fresh context gives.
\<close>

subsection \<open>Data\<close>

record WebhookConfig =
  wcfg_AuthInfoResolver :: handle
  wcfg_ServiceResolver :: handle

record ClientManager =
  mgr_base :: handle
  mgr_AuthInfoResolver :: "handle option"
  mgr_ServiceResolver :: "handle option"

record ClientConfigService =
  ccs_Name :: string
  ccs_Namespace :: string
  ccs_Path :: string
  ccs_Port :: "32 word"

record ClientConfig =
  hcc_Name :: string
  hcc_URL :: string
  hcc_CABundle :: string
  hcc_Service :: "ClientConfigService option"

record RestResult =
  rr_Error :: "go_error option"
  rr_Into :: "PodConventionContext result"

record webhook_lib =
  wl_NewClientManager :: "string list \<Rightarrow> ClientManager result"
  wl_HookClient :: "ClientManager \<Rightarrow> ClientConfig \<Rightarrow> handle result"
  wl_Do :: "handle \<Rightarrow> PodConventionContext \<Rightarrow> RestResult"

record Convention =
  conv_Name :: string
  conv_SelectorTarget :: SelectorTargetSource
  conv_Selectors :: "LabelSelector list"
  conv_Priority :: PriorityLevel
  conv_ClientConfig :: WebhookClientConfig

subsection \<open>Operations\<close>

definition NewClientManager :: "webhook_lib \<Rightarrow> WebhookConfig \<Rightarrow> string \<Rightarrow> ClientManager result" where
  "NewClientManager wl wc grp =
     (case wl_NewClientManager wl [grp] of
        Inl err \<Rightarrow> Inl err
      | Inr cm \<Rightarrow> Inr (cm\<lparr>mgr_AuthInfoResolver := Some (wcfg_AuthInfoResolver wc),
                         mgr_ServiceResolver := Some (wcfg_ServiceResolver wc)\<rparr>))"

definition hook_service :: "ServiceReference \<Rightarrow> ClientConfigService" where
  "hook_service svc =
     (let s = \<lparr>ccs_Name = sr_Name svc, ccs_Namespace = sr_Namespace svc, ccs_Path = [], ccs_Port = 0\<rparr>;
          s = (case sr_Path svc of None \<Rightarrow> s | Some path \<Rightarrow> s\<lparr>ccs_Path := path\<rparr>)
      in case sr_Port svc of None \<Rightarrow> s | Some port \<Rightarrow> s\<lparr>ccs_Port := port\<rparr>)"

definition Convention_WebhookClientConfig :: "Convention \<Rightarrow> ClientConfig" where
  "Convention_WebhookClientConfig c =
     (let cfg = conv_ClientConfig c;
          cc = \<lparr>hcc_Name = conv_Name c, hcc_URL = [], hcc_CABundle = wc_CABundle cfg, hcc_Service = None\<rparr>;
          cc = (case wc_URL cfg of None \<Rightarrow> cc | Some url \<Rightarrow> cc\<lparr>hcc_URL := url\<rparr>)
      in case wc_Service cfg of None \<Rightarrow> cc | Some svc \<Rightarrow> cc\<lparr>hcc_Service := Some (hook_service svc)\<rparr>)"

definition webhook_group :: string where
  "webhook_group = ''webhooks.conventions.carto.run/v1alpha1''"

definition Convention_Apply ::
    "webhook_lib \<Rightarrow> WebhookConfig \<Rightarrow> Convention \<Rightarrow> PodConventionContext \<Rightarrow> PodConventionContext result" where
  "Convention_Apply wl wc c conventionRequest =
     (case NewClientManager wl wc webhook_group of
        Inl err \<Rightarrow> Inl err
      | Inr cm \<Rightarrow>
          (case wl_HookClient wl cm (Convention_WebhookClientConfig c) of
             Inl err \<Rightarrow> Inl err
           | Inr webClient \<Rightarrow>
               let res = wl_Do wl webClient conventionRequest in
               (case rr_Error res of
                  Some err \<Rightarrow> Inl err
                | None \<Rightarrow> (case rr_Into res of Inl err \<Rightarrow> Inl err | Inr enrichedIntent \<Rightarrow> Inr enrichedIntent))))"

lemma WebhookClientConfig_simps [simp]:
  "hcc_Name (Convention_WebhookClientConfig c) = conv_Name c"
  "hcc_CABundle (Convention_WebhookClientConfig c) = wc_CABundle (conv_ClientConfig c)"
  "hcc_URL (Convention_WebhookClientConfig c) =
     (case wc_URL (conv_ClientConfig c) of None \<Rightarrow> [] | Some url \<Rightarrow> url)"
  "hcc_Service (Convention_WebhookClientConfig c) =
     map_option hook_service (wc_Service (conv_ClientConfig c))"
  by (simp_all add: Convention_WebhookClientConfig_def Let_def split: option.splits)

text \<open>Concrete values for the examples below.\<close>

definition sample_hooks :: webhook_lib where
  "sample_hooks = \<lparr>wl_NewClientManager = (\<lambda>groups. Inr \<lparr>mgr_base = [], mgr_AuthInfoResolver = None, mgr_ServiceResolver = None\<rparr>),
     wl_HookClient = (\<lambda>cm cc. Inr (hcc_Name cc)),
     wl_Do = (\<lambda>client req. \<lparr>rr_Error = None, rr_Into = Inr (req\<lparr>pcc_Status :=
        \<lparr>pct_Template = pcs_Template (pcc_Spec req), pct_AppliedConventions = [''label'']\<rparr>\<rparr>)\<rparr>)\<rparr>"

definition sample_convention :: "string \<Rightarrow> PriorityLevel \<Rightarrow> Convention" where
  "sample_convention name p = \<lparr>conv_Name = name, conv_SelectorTarget = [], conv_Selectors = [],
     conv_Priority = p, conv_ClientConfig = zero_client_config\<lparr>wc_URL := Some ''https://hook''\<rparr>\<rparr>"

definition sample_webhook_config :: WebhookConfig where
  "sample_webhook_config = \<lparr>wcfg_AuthInfoResolver = [], wcfg_ServiceResolver = []\<rparr>"

text \<open>The client configuration of an admitted convention (one whose specification was defaulted
  and accepted) names exactly one target: a URL and no service, or a service with the port of the
  specification and no URL.\<close>

lemma admitted_client_target:
  assumes "convention_spec_ok lib s" and "cs_Webhook s = Some w" and "conv_ClientConfig c = cw_ClientConfig w"
  shows "case hcc_Service (Convention_WebhookClientConfig c) of
      None \<Rightarrow> \<exists>url. wc_URL (cw_ClientConfig w) = Some url \<and> hcc_URL (Convention_WebhookClientConfig c) = url
    | Some svc \<Rightarrow> hcc_URL (Convention_WebhookClientConfig c) = [] \<and>
        (\<exists>ref. wc_Service (cw_ClientConfig w) = Some ref \<and> sr_Port ref = Some (ccs_Port svc) \<and>
           ccs_Name svc = sr_Name ref \<and> ccs_Namespace svc = sr_Namespace ref)"
  using assms
  by (auto simp: convention_spec_ok_def client_config_ok_def hook_service_def Let_def split: option.splits)

lemma admitted_client_target_witness:
  "hcc_URL (Convention_WebhookClientConfig (sample_convention ''a'' NormalPriority)) = ''https://hook''"
  using admitted_client_target [OF sample_source_ok, of sample_webhook "sample_convention ''a'' NormalPriority"]
  by (simp add: sample_source_def sample_webhook_def sample_convention_def)

text \<open>Applying a convention succeeds exactly when the client manager and the client can be made,
  the request succeeds and its body decodes; the result is then the decoded context, and otherwise
  the first error in that order.\<close>

lemma convention_apply_ok_iff:
  "Convention_Apply wl wc c req = Inr resp \<longleftrightarrow>
     (\<exists>cm client. wl_NewClientManager wl [webhook_group] = Inr cm \<and>
        wl_HookClient wl (cm\<lparr>mgr_AuthInfoResolver := Some (wcfg_AuthInfoResolver wc),
            mgr_ServiceResolver := Some (wcfg_ServiceResolver wc)\<rparr>)
          (Convention_WebhookClientConfig c) = Inr client \<and>
        rr_Error (wl_Do wl client req) = None \<and> rr_Into (wl_Do wl client req) = Inr resp)"
  by (auto simp: Convention_Apply_def NewClientManager_def Let_def split: sum.splits option.splits)

end
