(* ===== verification/GoStrings.thy ===== *)
theory GoStrings
  imports Prelude
begin

text \<open>
  The functions of Go's packages \<open>strings\<close> and \<open>strconv\<close> that the repository calls, on byte
  strings: \<open>strings.Split\<close> and \<open>strings.SplitN(s, c, 2)\<close> for the one-byte separators the code
  uses, \<open>Join\<close>, \<open>HasPrefix\<close>, \<open>Contains\<close>, \<open>TrimSpace\<close>, \<open>ToLower\<close>, \<open>strconv.Itoa\<close> and
  \<open>strconv.Atoi\<close> with its syntax and range errors (\<open>int\<close> has 64 bits), and the facts about
  them the components use: splitting undoes joining, parsing undoes printing.
\<close>

subsection \<open>Splitting and joining\<close>

fun go_split :: "char \<Rightarrow> string \<Rightarrow> string list" where
  "go_split c [] = [[]]"
| "go_split c (x # xs) =
     (if x = c then [] # go_split c xs
      else (case go_split c xs of [] \<Rightarrow> [[x]] | y # ys \<Rightarrow> (x # y) # ys))"

definition go_split2 :: "char \<Rightarrow> string \<Rightarrow> string list" where
  "go_split2 c s = (if c \<in> set s
     then [takeWhile (\<lambda>x. x \<noteq> c) s, tl (dropWhile (\<lambda>x. x \<noteq> c) s)] else [s])"

fun go_join :: "string \<Rightarrow> string list \<Rightarrow> string" where
  "go_join sep [] = []"
| "go_join sep [x] = x"
| "go_join sep (x # y # ys) = x @ sep @ go_join sep (y # ys)"

definition has_prefix :: "string \<Rightarrow> string \<Rightarrow> bool" where
  "has_prefix s p \<longleftrightarrow> take (length p) s = p"

definition contains_char :: "string \<Rightarrow> char \<Rightarrow> bool" where
  "contains_char s c \<longleftrightarrow> c \<in> set s"

lemma go_split_not_nil [simp]: "go_split c s \<noteq> []"
  by (induction s) (auto split: list.splits)

lemma go_split_no_sep: "c \<notin> set s \<Longrightarrow> go_split c s = [s]"
  by (induction s) auto

lemma go_split_append: "c \<notin> set s \<Longrightarrow> go_split c (s @ c # t) = s # go_split c t"
  by (induction s) auto

lemma go_split_join:
  "xs \<noteq> [] \<Longrightarrow> \<forall>x \<in> set xs. c \<notin> set x \<Longrightarrow> go_split c (go_join [c] xs) = xs"
  by (induction "[c]" xs rule: go_join.induct) (auto simp: go_split_no_sep go_split_append)

lemma go_split_pieces: "p \<in> set (go_split c s) \<Longrightarrow> c \<notin> set p"
  by (induction s arbitrary: p) (auto split: if_splits list.splits)

lemma go_join_Cons: "xs \<noteq> [] \<Longrightarrow> go_join sep (x # xs) = x @ sep @ go_join sep xs"
  by (cases xs) auto

lemma go_join_split: "go_join [c] (go_split c s) = s"
proof (induction s)
  case (Cons x xs)
  obtain y ys where split: "go_split c xs = y # ys"
    by (cases "go_split c xs") auto
  with Cons show ?case
    by (cases ys) (auto simp: go_join_Cons)
qed simp

lemma go_join_append:
  "xs \<noteq> [] \<Longrightarrow> ys \<noteq> [] \<Longrightarrow> go_join sep (xs @ ys) = go_join sep xs @ sep @ go_join sep ys"
  by (induction sep xs rule: go_join.induct) (auto simp: go_join_Cons)

lemma set_go_join: "set (go_join sep xs) \<subseteq> set sep \<union> (\<Union>x \<in> set xs. set x)"
  by (induction sep xs rule: go_join.induct) auto

lemma go_split2_sep: "c \<notin> set k \<Longrightarrow> go_split2 c (k @ c # v) = [k, v]"
  by (induction k) (auto simp: go_split2_def)

lemma has_prefix_append [simp]: "has_prefix (p @ s) p"
  by (simp add: has_prefix_def)

lemma has_prefix_Cons [simp]: "has_prefix (x # s) (y # p) \<longleftrightarrow> x = y \<and> has_prefix s p"
  by (auto simp: has_prefix_def)

lemma has_prefix_Nil [simp]: "has_prefix s []" "\<not> has_prefix [] (y # p)"
  by (simp_all add: has_prefix_def)

subsection \<open>White space and case\<close>

text \<open>The encodings of the characters \<open>unicode.IsSpace\<close> accepts.\<close>

definition space_codes :: "string list" where
  "space_codes = [[CHR 0x09], [CHR 0x0A], [CHR 0x0B], [CHR 0x0C], [CHR 0x0D], [CHR 0x20],
     [CHR 0xC2, CHR 0x85], [CHR 0xC2, CHR 0xA0], [CHR 0xE1, CHR 0x9A, CHR 0x80],
     [CHR 0xE2, CHR 0x80, CHR 0x80], [CHR 0xE2, CHR 0x80, CHR 0x81],
     [CHR 0xE2, CHR 0x80, CHR 0x82], [CHR 0xE2, CHR 0x80, CHR 0x83],
     [CHR 0xE2, CHR 0x80, CHR 0x84], [CHR 0xE2, CHR 0x80, CHR 0x85],
     [CHR 0xE2, CHR 0x80, CHR 0x86], [CHR 0xE2, CHR 0x80, CHR 0x87],
     [CHR 0xE2, CHR 0x80, CHR 0x88], [CHR 0xE2, CHR 0x80, CHR 0x89],
     [CHR 0xE2, CHR 0x80, CHR 0x8A], [CHR 0xE2, CHR 0x80, CHR 0xA8],
     [CHR 0xE2, CHR 0x80, CHR 0xA9], [CHR 0xE2, CHR 0x80, CHR 0xAF],
     [CHR 0xE2, CHR 0x81, CHR 0x9F], [CHR 0xE3, CHR 0x80, CHR 0x80]]"

text \<open>The first of the codes that is a prefix of the string, if any, is dropped.\<close>

function trim_codes :: "string list \<Rightarrow> string \<Rightarrow> string" where
  "trim_codes codes s =
     (case find (\<lambda>p. p \<noteq> [] \<and> has_prefix s p) codes of
        None \<Rightarrow> s | Some p \<Rightarrow> trim_codes codes (drop (length p) s))"
  by pat_completeness auto
termination
proof (relation "measure (\<lambda>(codes, s). length s)", goal_cases)
  case (2 codes s p)
  then have "p \<noteq> []" and "has_prefix s p"
    by (auto simp: find_Some_iff)
  moreover from this have "length p \<le> length s"
    by (metis has_prefix_def length_take min.cobounded1)
  ultimately show ?case
    by (cases p; cases s) auto
qed simp

declare trim_codes.simps [simp del]

definition trim_space :: "string \<Rightarrow> string" where
  "trim_space s = rev (trim_codes (map rev space_codes) (rev (trim_codes space_codes s)))"

definition ascii_char :: "char \<Rightarrow> bool" where
  "ascii_char c \<longleftrightarrow> CHR 0x20 < c \<and> c \<le> CHR 0x7E"

lemma trim_codes_id: "(\<And>p. p \<in> set codes \<Longrightarrow> p = [] \<or> \<not> has_prefix s p) \<Longrightarrow> trim_codes codes s = s"
  by (subst trim_codes.simps) (auto simp: find_Some_iff split: option.splits dest: nth_mem)

lemma trim_space_empty [simp]: "trim_space [] = []"
proof -
  have "trim_codes codes [] = []" for codes
  proof (rule trim_codes_id)
    fix p assume "p \<in> set codes"
    show "p = [] \<or> \<not> has_prefix [] p" by (cases p) auto
  qed
  then show ?thesis by (simp add: trim_space_def)
qed

definition to_lower :: "string \<Rightarrow> string" where
  "to_lower s = map (\<lambda>c. if CHR ''A'' \<le> c \<and> c \<le> CHR ''Z'' then char_of (of_char c + 32 :: nat) else c) s"

subsection \<open>Decimal numbers\<close>

definition digit_char :: "nat \<Rightarrow> char" where
  "digit_char d = char_of (48 + d)"

fun nat_digits :: "nat \<Rightarrow> string" where
  "nat_digits n =
     (if n < 10 then [digit_char n] else nat_digits (n div 10) @ [digit_char (n mod 10)])"

declare nat_digits.simps [simp del]

definition itoa :: "int \<Rightarrow> string" where
  "itoa i = (if i < 0 then CHR ''-'' # nat_digits (nat (- i)) else nat_digits (nat i))"

definition digit_val :: "char \<Rightarrow> nat option" where
  "digit_val c = (if CHR ''0'' \<le> c \<and> c \<le> CHR ''9'' then Some (of_char c - 48) else None)"

fun parse_digits :: "nat \<Rightarrow> string \<Rightarrow> nat option" where
  "parse_digits n [] = Some n"
| "parse_digits n (c # cs) =
     (case digit_val c of None \<Rightarrow> None | Some d \<Rightarrow> parse_digits (10 * n + d) cs)"

definition parse_unsigned :: "string \<Rightarrow> nat option" where
  "parse_unsigned s = (if s = [] then None else parse_digits 0 s)"

definition atoi :: "string \<Rightarrow> int result" where
  "atoi s =
     (case (case s of
              [] \<Rightarrow> None
            | c # cs \<Rightarrow>
                if c = CHR ''-'' then map_option (\<lambda>n. - int n) (parse_unsigned cs)
                else if c = CHR ''+'' then map_option int (parse_unsigned cs)
                else map_option int (parse_unsigned s)) of
        None \<Rightarrow> Inl (ErrSyntax s)
      | Some v \<Rightarrow> if - (2 ^ 63) \<le> v \<and> v < 2 ^ 63 then Inr v else Inl (ErrRange s))"

lemma of_char_digit_char: "d < 10 \<Longrightarrow> of_char (digit_char d) = (48 + d :: nat)"
  by (simp add: digit_char_def)

lemma digit_val_char [simp]: "d < 10 \<Longrightarrow> digit_val (digit_char d) = Some d"
  by (simp add: digit_val_def less_eq_char_def of_char_digit_char)

lemma digit_char_range: "d < 10 \<Longrightarrow> CHR ''0'' \<le> digit_char d \<and> digit_char d \<le> CHR ''9''"
  by (simp add: less_eq_char_def of_char_digit_char)

lemma nat_digits_not_nil [simp]: "nat_digits n \<noteq> []"
  by (subst nat_digits.simps) simp

lemma set_nat_digits: "c \<in> set (nat_digits n) \<Longrightarrow> CHR ''0'' \<le> c \<and> c \<le> CHR ''9''"
proof (induction n rule: nat_digits.induct)
  case (1 n)
  then show ?case
    by (auto simp: nat_digits.simps [of n] digit_char_range split: if_splits)
qed

lemma parse_digits_append:
  "parse_digits n (xs @ ys) =
     (case parse_digits n xs of None \<Rightarrow> None | Some m \<Rightarrow> parse_digits m ys)"
  by (induction xs arbitrary: n) (auto split: option.splits)

lemma parse_nat_digits: "parse_digits 0 (nat_digits n) = Some n"
proof (induction n rule: nat_digits.induct)
  case (1 n)
  then show ?case
    by (cases "n < 10") (simp_all add: nat_digits.simps [of n] parse_digits_append)
qed

lemma parse_unsigned_nat_digits [simp]: "parse_unsigned (nat_digits n) = Some n"
  by (simp add: parse_unsigned_def parse_nat_digits)

lemma nat_digits_no_sign:
  "nat_digits n = c # cs \<Longrightarrow> c \<noteq> CHR ''-'' \<and> c \<noteq> CHR ''+''"
  using set_nat_digits [of c n] by (auto simp: less_eq_char_def)

lemma atoi_itoa: "- (2 ^ 63) \<le> i \<Longrightarrow> i < 2 ^ 63 \<Longrightarrow> atoi (itoa i) = Inr i"
proof (cases "i < 0")
  case False
  assume range: "- (2 ^ 63) \<le> i" "i < 2 ^ 63"
  obtain c cs where digits: "nat_digits (nat i) = c # cs"
    by (cases "nat_digits (nat i)") auto
  then have "parse_unsigned (c # cs) = Some (nat i)"
    using parse_unsigned_nat_digits [of "nat i"] by simp
  with nat_digits_no_sign [OF digits] False range digits show ?thesis
    by (simp add: atoi_def itoa_def)
qed (simp add: atoi_def itoa_def)

lemma atoi_empty [simp]: "atoi [] = Inl (ErrSyntax [])"
  by (simp add: atoi_def)

lemma atoi_range: "atoi s = Inr i \<Longrightarrow> - (2 ^ 63) \<le> i \<and> i < 2 ^ 63"
  by (auto simp: atoi_def split: option.splits if_splits list.splits)

lemma itoa_not_nil [simp]: "itoa i \<noteq> []"
  by (simp add: itoa_def)

end
