(* ===== verification/GoSort.thy ===== *)
theory GoSort
  imports Prelude "HOL-Library.Multiset"
begin

text \<open>
  Go's \<open>sort.Slice\<close> and \<open>sort.Strings\<close>. \<open>sort_slice\<close> is the insertion sort Go runs on a slice of
  at most twelve elements (each element moves left while it is less than its left neighbour);
  longer slices are sorted by an algorithm that may place equivalent elements in another order.
  The locale \<open>slice_order\<close> is the contract between a caller's \<open>less\<close> and \<open>sort.Slice\<close>: \<open>lt\<close>
  is a strict weak order on the elements in \<open>dom_ok\<close>. Inside it: the result is sorted, and when
  \<open>lt\<close> also separates distinct elements every sorted permutation, so every correct algorithm,
  gives the same list as \<open>sort_slice\<close>.
\<close>

subsection \<open>Insertion\<close>

text \<open>The sorted part is kept with its last element first, as the code scans it from the right.\<close>

fun insert_left :: "('a \<Rightarrow> 'a \<Rightarrow> bool) \<Rightarrow> 'a \<Rightarrow> 'a list \<Rightarrow> 'a list" where
  "insert_left lt x [] = [x]"
| "insert_left lt x (y # ys) = (if lt x y then y # insert_left lt x ys else x # y # ys)"

definition sort_slice :: "('a \<Rightarrow> 'a \<Rightarrow> bool) \<Rightarrow> 'a list \<Rightarrow> 'a list" where
  "sort_slice lt xs = rev (fold (insert_left lt) xs [])"

definition sorted_by :: "('a \<Rightarrow> 'a \<Rightarrow> bool) \<Rightarrow> 'a list \<Rightarrow> bool" where
  "sorted_by lt xs \<longleftrightarrow> sorted_wrt (\<lambda>a b. \<not> lt b a) xs"

lemma mset_insert_left [simp]: "mset (insert_left lt x ys) = add_mset x (mset ys)"
  by (induction ys) auto

lemma mset_fold_insert_left: "mset (fold (insert_left lt) xs acc) = mset xs + mset acc"
  by (induction xs arbitrary: acc) auto

lemma mset_sort_slice [simp]: "mset (sort_slice lt xs) = mset xs"
  by (simp add: sort_slice_def mset_fold_insert_left)

lemma set_sort_slice [simp]: "set (sort_slice lt xs) = set xs"
  using mset_sort_slice [of lt xs] by (metis set_mset_mset)

lemma length_sort_slice [simp]: "length (sort_slice lt xs) = length xs"
  using mset_sort_slice [of lt xs] by (metis size_mset)

lemma set_insert_left [simp]: "set (insert_left lt x ys) = insert x (set ys)"
  by (induction ys) auto

lemma sort_slice_Nil [simp]: "sort_slice lt [] = []"
  by (simp add: sort_slice_def)

lemma sort_slice_single [simp]: "sort_slice lt [x] = [x]"
  by (simp add: sort_slice_def)

lemma sorted_by_unique:
  assumes "sorted_by lt xs" and "sorted_by lt ys" and "mset xs = mset ys"
    and "\<And>x y. x \<in> set xs \<Longrightarrow> y \<in> set xs \<Longrightarrow> \<not> lt x y \<Longrightarrow> \<not> lt y x \<Longrightarrow> x = y"
  shows "xs = ys"
  using assms
proof (induction xs arbitrary: ys)
  case (Cons x xs)
  obtain y ys' where ys: "ys = y # ys'"
    using Cons.prems(3) by (cases ys) auto
  have sets: "set (x # xs) = set (y # ys')"
    using Cons.prems(3) ys by (metis set_mset_mset)
  have "x = y"
  proof (rule ccontr)
    assume ne: "x \<noteq> y"
    then have "y \<in> set xs" and "x \<in> set ys'" using sets by auto
    then have "\<not> lt y x" and "\<not> lt x y"
      using Cons.prems(1,2) ys by (auto simp: sorted_by_def)
    with ne \<open>y \<in> set xs\<close> Cons.prems(4) [of x y] show False by auto
  qed
  with Cons ys show ?case
    by (auto simp: sorted_by_def)
qed simp

subsection \<open>The contract\<close>

locale slice_order =
  fixes lt :: "'a \<Rightarrow> 'a \<Rightarrow> bool" and dom_ok :: "'a \<Rightarrow> bool"
  assumes asym: "dom_ok x \<Longrightarrow> dom_ok y \<Longrightarrow> lt x y \<Longrightarrow> \<not> lt y x"
    and not_less_trans: "dom_ok x \<Longrightarrow> dom_ok y \<Longrightarrow> dom_ok z \<Longrightarrow>
           \<not> lt x y \<Longrightarrow> \<not> lt y z \<Longrightarrow> \<not> lt x z"
begin

lemma insert_left_sorted:
  "sorted_wrt (\<lambda>a b. \<not> lt a b) ys \<Longrightarrow> dom_ok x \<Longrightarrow> \<forall>y \<in> set ys. dom_ok y \<Longrightarrow>
   sorted_wrt (\<lambda>a b. \<not> lt a b) (insert_left lt x ys)"
proof (induction ys)
  case (Cons y ys)
  show ?case
  proof (cases "lt x y")
    case True
    with Cons asym show ?thesis by auto
  next
    case False
    with Cons.prems have "\<not> lt x z" if "z \<in> set ys" for z
      using that not_less_trans [of x y z] by auto
    with False Cons.prems show ?thesis by auto
  qed
qed simp

lemma fold_insert_left_sorted:
  "sorted_wrt (\<lambda>a b. \<not> lt a b) acc \<Longrightarrow> \<forall>y \<in> set acc. dom_ok y \<Longrightarrow> \<forall>x \<in> set xs. dom_ok x \<Longrightarrow>
   sorted_wrt (\<lambda>a b. \<not> lt a b) (fold (insert_left lt) xs acc)"
  by (induction xs arbitrary: acc) (auto simp: insert_left_sorted)

lemma sort_slice_sorted: "\<forall>x \<in> set xs. dom_ok x \<Longrightarrow> sorted_by lt (sort_slice lt xs)"
  by (simp add: sort_slice_def sorted_by_def sorted_wrt_rev fold_insert_left_sorted)

lemma any_sort_agrees:
  assumes "\<forall>x \<in> set xs. dom_ok x"
    and "\<And>x y. x \<in> set xs \<Longrightarrow> y \<in> set xs \<Longrightarrow> \<not> lt x y \<Longrightarrow> \<not> lt y x \<Longrightarrow> x = y"
    and "mset ys = mset xs" and "sorted_by lt ys"
  shows "ys = sort_slice lt xs"
proof -
  have "set ys = set xs" using assms(3) by (metis set_mset_mset)
  with assms sort_slice_sorted [OF assms(1)] show ?thesis
    by (intro sorted_by_unique) auto
qed

lemma sort_slice_idem:
  assumes "\<forall>x \<in> set xs. dom_ok x"
    and "\<And>x y. x \<in> set xs \<Longrightarrow> y \<in> set xs \<Longrightarrow> \<not> lt x y \<Longrightarrow> \<not> lt y x \<Longrightarrow> x = y"
  shows "sort_slice lt (sort_slice lt xs) = sort_slice lt xs"
  using assms by (intro any_sort_agrees [symmetric, OF _ _ refl]) (auto intro: any_sort_agrees sort_slice_sorted)

end

subsection \<open>sort.Strings\<close>

text \<open>
  Strings are totally ordered, so the sorted permutation is unique and the library's \<open>sort\<close> is it.
\<close>

definition sort_strings :: "string list \<Rightarrow> string list" where
  "sort_strings xs = sort xs"

interpretation string_order: slice_order "\<lambda>a b :: string. a < b" "\<lambda>_. True"
  by unfold_locales auto

lemma sort_strings_sort_slice: "sort_strings xs = sort_slice (\<lambda>a b. a < b) xs"
  by (rule string_order.any_sort_agrees) (auto simp: sort_strings_def sorted_by_def not_less)

end
