(* ===== verification/ImageMetadata.thy ===== *)
theory ImageMetadata
  imports WebhookTypes GoStrings GoSort
begin

text \<open>
  \<open>pkg/binding/image_config.go\<close>: from a pod template to the metadata of its images. The distinct
  images of all containers are resolved in sorted order; the failures are collected; without a
  failure every image in the template is replaced by its digested reference. The libraries are
  parameters, gathered in \<open>registry_lib\<close>: reference parsing, fetching and caching of
  go-containerregistry, the JSON of one label, the file system and the certificate pools. A tar
  stream is the list of what \<open>tar.Reader.Next\<close> returns before \<open>io.EOF\<close>.
\<close>

subsection \<open>The libraries and the configuration\<close>

type_synonym image = handle
type_synonym reference = handle

datatype tar_event =
    TarEntry char string "string result"  \<comment> \<open>type flag, name, what \<open>io.ReadAll\<close> returns\<close>
  | TarError go_error

datatype transport = DefaultTransport | CustomTransport "string list"

record LifecycleMetadata =
  md_SBOM_SHA :: string
  md_BOM_SHA :: string

record registry_lib =
  rl_NewDigest :: "string \<Rightarrow> reference result"
  rl_NewTag :: "string \<Rightarrow> reference result"
  rl_RefName :: "reference \<Rightarrow> string"
  rl_RemoteImage :: "reference \<Rightarrow> handle \<Rightarrow> transport \<Rightarrow> image result"
  rl_CacheImage :: "image \<Rightarrow> handle \<Rightarrow> image"
  rl_ConfigFile :: "image \<Rightarrow> ConfigFile result"
  rl_Digest :: "image \<Rightarrow> string result"
  rl_NewHash :: "string \<Rightarrow> handle result"
  rl_LayerByDiffID :: "image \<Rightarrow> handle \<Rightarrow> handle result"
  rl_Uncompressed :: "handle \<Rightarrow> tar_event list result"
  rl_UnmarshalMetadata :: "string \<Rightarrow> LifecycleMetadata result"
  rl_SystemCertPool :: "string list result"
  rl_ReadFile :: "string \<Rightarrow> string result"
  rl_AppendCertsFromPEM :: "string list \<Rightarrow> string \<Rightarrow> string list"

record RegistryConfig =
  rc_Keys :: "handle option"
  rc_Cache :: "handle option"
  rc_Client :: "handle option"
  rc_CACertPath :: string

definition zero_registry_config :: RegistryConfig where
  "zero_registry_config = \<lparr>rc_Keys = None, rc_Cache = None, rc_Client = None, rc_CACertPath = []\<rparr>"

subsection \<open>The images of a template\<close>

definition container_images :: "PodSpec \<Rightarrow> string list" where
  "container_images ps = map c_Image (ps_InitContainers ps) @ map c_Image (ps_Containers ps)"

definition getImagesSet :: "CorePodTemplateSpec \<Rightarrow> string fset" where
  "getImagesSet template =
     fold (\<lambda>c images. finsert (c_Image c) images) (ps_Containers (pts_Spec template))
       (fold (\<lambda>c images. finsert (c_Image c) images) (ps_InitContainers (pts_Spec template)) {||})"

definition resolve_container :: "(string, string) fmap \<Rightarrow> Container \<Rightarrow> Container" where
  "resolve_container imageDigest c =
     (case fmlookup imageDigest (c_Image c) of None \<Rightarrow> c | Some digest \<Rightarrow> c\<lparr>c_Image := digest\<rparr>)"

definition updateWithResolvedDigest ::
    "CorePodTemplateSpec \<Rightarrow> (string, string) fmap \<Rightarrow> CorePodTemplateSpec" where
  "updateWithResolvedDigest template imageDigest =
     template\<lparr>pts_Spec := (pts_Spec template)
       \<lparr>ps_InitContainers := map (resolve_container imageDigest) (ps_InitContainers (pts_Spec template)),
        ps_Containers := map (resolve_container imageDigest) (ps_Containers (pts_Spec template))\<rparr>\<rparr>"

lemma getImagesSet_eq: "getImagesSet t = fset_of_list (container_images (pts_Spec t))"
proof -
  have inserts: "fold (\<lambda>c images. finsert (c_Image c) images) cs acc = fset_of_list (map c_Image cs) |\<union>| acc" for cs acc
    by (induction cs arbitrary: acc) auto
  show ?thesis
    by (simp only: getImagesSet_def inserts container_images_def) (simp add: sup_commute)
qed

lemma resolve_container_simps [simp]:
  "c_Name (resolve_container d c) = c_Name c"
  "c_Env (resolve_container d c) = c_Env c"
  "c_Image (resolve_container d c) =
     (case fmlookup d (c_Image c) of None \<Rightarrow> c_Image c | Some i \<Rightarrow> i)"
  by (auto simp: resolve_container_def split: option.split)

subsection \<open>One image\<close>

definition resolveTagsToDigest :: "registry_lib \<Rightarrow> string \<Rightarrow> (reference \<times> bool) result" where
  "resolveTagsToDigest rl imageRef =
     (case rl_NewDigest rl imageRef of
        Inr digest \<Rightarrow> Inr (digest, True)
      | Inl _ \<Rightarrow> (case rl_NewTag rl imageRef of Inl err \<Rightarrow> Inl err | Inr tag \<Rightarrow> Inr (tag, False)))"

definition transport_of :: "registry_lib \<Rightarrow> RegistryConfig \<Rightarrow> transport result" where
  "transport_of rl rc =
     (if rc_CACertPath rc = [] then Inr DefaultTransport
      else case rl_SystemCertPool rl of
          Inl err \<Rightarrow> Inl err
        | Inr root \<Rightarrow>
            (case rl_ReadFile rl (rc_CACertPath rc) of
               Inl err \<Rightarrow> Inl err
             | Inr additionalCA \<Rightarrow> Inr (CustomTransport (rl_AppendCertsFromPEM rl root additionalCA))))"

definition resolveSBOMDiffId :: "registry_lib \<Rightarrow> ConfigFile \<Rightarrow> string result" where
  "resolveSBOMDiffId rl config =
     (if cf_Labels config = None then Inr []
      else let diffID = map_get (cf_Labels config) ''io.buildpacks.app.sbom''
      in if diffID \<noteq> [] then Inr diffID
         else let metadata = map_get (cf_Labels config) ''io.buildpacks.lifecycle.metadata''
         in if metadata = [] then Inr []
            else (case rl_UnmarshalMetadata rl metadata of
                Inl err \<Rightarrow> Inl err
              | Inr md \<Rightarrow> Inr (if md_SBOM_SHA md = [] then md_BOM_SHA md else md_SBOM_SHA md)))"

fun untar_loop :: "string \<Rightarrow> BOM list \<Rightarrow> tar_event list \<Rightarrow> BOM list result" where
  "untar_loop prefix boms [] = Inr boms"
| "untar_loop prefix boms (TarError err # evs) = Inl err"
| "untar_loop prefix boms (TarEntry flag name content # evs) =
     (if flag \<noteq> CHR ''0'' then untar_loop prefix boms evs
      else case content of
          Inl err \<Rightarrow> Inl err
        | Inr raw \<Rightarrow> untar_loop prefix (boms @ [\<lparr>bom_Name = prefix @ '':'' @ name, bom_Raw = raw\<rparr>]) evs)"

definition untarSBOMs :: "tar_event list \<Rightarrow> string \<Rightarrow> BOM list result" where
  "untarSBOMs r prefix = untar_loop prefix [] r"

definition loadSBOMs :: "registry_lib \<Rightarrow> image \<Rightarrow> string \<Rightarrow> string \<Rightarrow> BOM list result" where
  "loadSBOMs rl img diffID prefix =
     (case rl_NewHash rl diffID of
        Inl err \<Rightarrow> Inl err
      | Inr hash \<Rightarrow>
          (case rl_LayerByDiffID rl img hash of
             Inl err \<Rightarrow> Inl err
           | Inr layer \<Rightarrow>
               (case rl_Uncompressed rl layer of
                  Inl err \<Rightarrow> Inl err
                | Inr tar \<Rightarrow> untarSBOMs tar prefix)))"

definition image_name :: "registry_lib \<Rightarrow> reference \<Rightarrow> bool \<Rightarrow> image \<Rightarrow> string result" where
  "image_name rl ref resolved img =
     (if resolved then Inr (rl_RefName rl ref)
      else case rl_Digest rl img of
          Inl err \<Rightarrow> Inl err
        | Inr dig \<Rightarrow> Inr (rl_RefName rl ref @ ''@'' @ dig))"

definition resolveImageMetadata :: "registry_lib \<Rightarrow> RegistryConfig \<Rightarrow> string \<Rightarrow> ImageConfig result" where
  "resolveImageMetadata rl rc imageRef =
     (case resolveTagsToDigest rl imageRef of
        Inl err \<Rightarrow> Inl (ErrResolveTag imageRef err)
      | Inr (ref, resolved) \<Rightarrow>
     (case rc_Keys rc of
        None \<Rightarrow> Inl ErrKeysNotSet
      | Some keys \<Rightarrow>
     (case transport_of rl rc of
        Inl err \<Rightarrow> Inl err
      | Inr rt \<Rightarrow>
     (case rl_RemoteImage rl ref keys rt of
        Inl err \<Rightarrow> Inl err
      | Inr remote \<Rightarrow>
          let img = (case rc_Cache rc of None \<Rightarrow> remote | Some cache \<Rightarrow> rl_CacheImage rl remote cache) in
     (case rl_ConfigFile rl img of
        Inl err \<Rightarrow> Inl err
      | Inr config \<Rightarrow>
     (case resolveSBOMDiffId rl config of
        Inl err \<Rightarrow> Inl err
      | Inr appDiffId \<Rightarrow>
     (case (if appDiffId \<noteq> [] then loadSBOMs rl img appDiffId ''cnb-app'' else Inr []) of
        Inl err \<Rightarrow> Inl err
      | Inr sboms \<Rightarrow>
     (case image_name rl ref resolved img of
        Inl err \<Rightarrow> Inl err
      | Inr imageName \<Rightarrow> Inr \<lparr>ic_Image = imageName, ic_BOMs = sboms, ic_Config = config\<rparr>))))))))"

subsection \<open>All images\<close>

fun resolve_loop :: "(string \<Rightarrow> ImageConfig result) \<Rightarrow> string list \<Rightarrow>
    ImageConfig list \<Rightarrow> (string, string) fmap \<Rightarrow> (string \<times> go_error) list \<Rightarrow>
    ImageConfig list \<times> (string, string) fmap \<times> (string \<times> go_error) list" where
  "resolve_loop resolve [] configs digests errs = (configs, digests, errs)"
| "resolve_loop resolve (img # images) configs digests errs =
     (if img \<noteq> []
      then (case resolve img of
          Inl err \<Rightarrow> resolve_loop resolve images configs digests (errs @ [(img, err)])
        | Inr config \<Rightarrow> resolve_loop resolve images (configs @ [config])
            (fmupd img (ic_Image config) digests) errs)
      else resolve_loop resolve images configs digests errs)"

text \<open>
  The method returns a list and an error, and writes through the template's pointer: the result is
  the list, the error and the template afterwards. \<open>imageErrMap\<close> has one entry for each failed
  image; it is kept in the order of insertion.
\<close>

definition ResolveImageMetadata :: "registry_lib \<Rightarrow> RegistryConfig \<Rightarrow> CorePodTemplateSpec option \<Rightarrow>
    ImageConfig list \<times> go_error option \<times> CorePodTemplateSpec option" where
  "ResolveImageMetadata rl rc template = (case template of
     None \<Rightarrow> ([], None, None)
   | Some t \<Rightarrow>
       (case resolve_loop (resolveImageMetadata rl rc) (sorted_list_of_fset (getImagesSet t)) [] fmempty [] of
          (configs, digests, errs) \<Rightarrow>
            if errs \<noteq> [] then (configs, Some (ErrImages errs), Some t)
            else (configs, None, Some (updateWithResolvedDigest t digests))))"

text \<open>
  \<open>imageError.Error\<close> for one order of iteration over the map: \<open>quote\<close> is the formatting of \<open>%q\<close>,
  \<open>text\<close> the \<open>Error\<close> method of the entries.
\<close>

fun imageError_Error :: "(string \<Rightarrow> string) \<Rightarrow> (go_error \<Rightarrow> string) \<Rightarrow> (string \<times> go_error) list \<Rightarrow> string" where
  "imageError_Error quote text [] = []"
| "imageError_Error quote text ((imageName, err) # entries) =
     (''image: '' @ quote imageName @ '' error: '' @ text err) @ imageError_Error quote text entries"

subsection \<open>What resolution does\<close>

text \<open>The images the loop looks up, and what it should produce for them.\<close>

definition image_list :: "CorePodTemplateSpec \<Rightarrow> string list" where
  "image_list t = filter (\<lambda>i. i \<noteq> []) (sorted_list_of_fset (getImagesSet t))"

definition resolved_image :: "(string \<Rightarrow> ImageConfig result) \<Rightarrow> string \<Rightarrow> string" where
  "resolved_image resolve img = (if img = [] then [] else
     (case resolve img of Inl _ \<Rightarrow> img | Inr config \<Rightarrow> ic_Image config))"

definition successes :: "(string \<Rightarrow> ImageConfig result) \<Rightarrow> string list \<Rightarrow> ImageConfig list" where
  "successes resolve images = [c. Inr c \<leftarrow> map resolve images]"

definition failures :: "(string \<Rightarrow> ImageConfig result) \<Rightarrow> string list \<Rightarrow> (string \<times> go_error) list" where
  "failures resolve images = [(i, e). (i, Inl e) \<leftarrow> map (\<lambda>i. (i, resolve i)) images]"

definition map_images :: "(string \<Rightarrow> string) \<Rightarrow> CorePodTemplateSpec \<Rightarrow> CorePodTemplateSpec" where
  "map_images f t = t\<lparr>pts_Spec := (pts_Spec t)
     \<lparr>ps_InitContainers := map (\<lambda>c. c\<lparr>c_Image := f (c_Image c)\<rparr>) (ps_InitContainers (pts_Spec t)),
      ps_Containers := map (\<lambda>c. c\<lparr>c_Image := f (c_Image c)\<rparr>) (ps_Containers (pts_Spec t))\<rparr>\<rparr>"

lemma set_image_list: "set (image_list t) = set (container_images (pts_Spec t)) - {[]}"
  by (auto simp: image_list_def getImagesSet_eq fset_of_list.rep_eq)

lemma image_list_sorted: "sorted (image_list t)" "distinct (image_list t)"
  by (auto simp: image_list_def sorted_list_of_fset.rep_eq intro!: sorted_wrt_filter distinct_filter)

lemma resolve_loop_eq:
  "resolve_loop resolve images configs digests errs =
     (configs @ successes resolve (filter (\<lambda>i. i \<noteq> []) images),
      fst (snd (resolve_loop resolve images configs digests errs)),
      errs @ failures resolve (filter (\<lambda>i. i \<noteq> []) images))"
proof (induction resolve images configs digests errs rule: resolve_loop.induct)
  case (2 resolve img images configs digests errs)
  show ?case
  proof (cases "img = []")
    case True
    with 2 show ?thesis by simp
  next
    case False
    then show ?thesis
      using "2.IH"(1,2) False
      by (cases "resolve img") (auto simp: successes_def failures_def)
  qed
qed (simp add: successes_def failures_def)

lemma resolve_loop_digests:
  "fmlookup (fst (snd (resolve_loop resolve images configs digests errs))) i =
     (if i \<in> set images \<and> i \<noteq> [] \<and> is_ok (resolve i)
      then Some (resolved_image resolve i) else fmlookup digests i)"
  by (induction resolve images configs digests errs rule: resolve_loop.induct)
    (auto simp: resolved_image_def split: sum.splits)

lemma failures_iff: "(i, e) \<in> set (failures resolve images) \<longleftrightarrow> i \<in> set images \<and> resolve i = Inl e"
  by (auto simp: failures_def split: sum.splits)

lemma failures_Nil: "failures resolve images = [] \<longleftrightarrow> (\<forall>i \<in> set images. is_ok (resolve i))"
proof -
  have "failures resolve images = [] \<longleftrightarrow> (\<forall>i e. (i, e) \<notin> set (failures resolve images))"
    by (metis list.set_intros(1) empty_iff empty_set list.exhaust surj_pair)
  also have "\<dots> \<longleftrightarrow> (\<forall>i \<in> set images. is_ok (resolve i))"
    by (auto simp: failures_iff is_ok_iff) (metis not_is_ok_iff is_ok_iff)
  finally show ?thesis .
qed

lemma update_resolved_eq:
  assumes "\<And>i. i \<in> set (container_images (pts_Spec t)) \<Longrightarrow>
    (case fmlookup d i of None \<Rightarrow> i | Some r \<Rightarrow> r) = f i"
  shows "updateWithResolvedDigest t d = map_images f t"
proof -
  have one: "resolve_container d c = c\<lparr>c_Image := f (c_Image c)\<rparr>"
    if "c_Image c \<in> set (container_images (pts_Spec t))" for c
    using assms [OF that] by (cases c) (auto simp: resolve_container_def split: option.splits)
  have "map (resolve_container d) cs = map (\<lambda>c. c\<lparr>c_Image := f (c_Image c)\<rparr>) cs"
    if "c_Image ` set cs \<subseteq> set (container_images (pts_Spec t))" for cs
    using that by (intro map_cong refl one) auto
  then have "map (resolve_container d) (ps_InitContainers (pts_Spec t)) =
        map (\<lambda>c. c\<lparr>c_Image := f (c_Image c)\<rparr>) (ps_InitContainers (pts_Spec t))"
    and "map (resolve_container d) (ps_Containers (pts_Spec t)) =
        map (\<lambda>c. c\<lparr>c_Image := f (c_Image c)\<rparr>) (ps_Containers (pts_Spec t))"
    by (auto simp: container_images_def simp del: map_eq_conv)
  then show ?thesis
    by (simp only: updateWithResolvedDigest_def map_images_def)
qed

lemma ResolveImageMetadata_None [simp]: "ResolveImageMetadata rl rc None = ([], None, None)"
  by (simp add: ResolveImageMetadata_def)

lemma ResolveImageMetadata_Some:
  "ResolveImageMetadata rl rc (Some t) =
     (let resolve = resolveImageMetadata rl rc; images = image_list t in
      if failures resolve images \<noteq> []
      then (successes resolve images, Some (ErrImages (failures resolve images)), Some t)
      else (successes resolve images, None, Some (map_images (resolved_image resolve) t)))"
proof -
  let ?resolve = "resolveImageMetadata rl rc"
  let ?images = "sorted_list_of_fset (getImagesSet t)"
  define d where "d = fst (snd (resolve_loop ?resolve ?images [] fmempty []))"
  have loop: "resolve_loop ?resolve ?images [] fmempty [] =
      (successes ?resolve (image_list t), d, failures ?resolve (image_list t))"
    using resolve_loop_eq [of ?resolve ?images "[]" fmempty "[]"] by (simp add: image_list_def d_def)
  have "updateWithResolvedDigest t d = map_images (resolved_image ?resolve) t"
    if ok: "failures ?resolve (image_list t) = []"
  proof (rule update_resolved_eq)
    fix i assume i: "i \<in> set (container_images (pts_Spec t))"
    then have "i \<in> set ?images" by (simp add: getImagesSet_eq fset_of_list.rep_eq)
    moreover from i ok have "is_ok (?resolve i)" if "i \<noteq> []"
      using that by (auto simp: failures_Nil set_image_list)
    ultimately show "(case fmlookup d i of None \<Rightarrow> i | Some r \<Rightarrow> r) = resolved_image ?resolve i"
      by (cases "i = []") (simp_all add: d_def resolve_loop_digests resolved_image_def)
  qed
  with loop show ?thesis
    by (simp add: ResolveImageMetadata_def Let_def)
qed

subsection \<open>The resolver, as its caller sees it\<close>

text \<open>
  The contract \<open>Conventions.Apply\<close> relies on: a resolver given a template only ever rewrites the
  images in it, and after an error leaves it as it was.
\<close>

locale image_resolver =
  fixes resolve :: "CorePodTemplateSpec option \<Rightarrow>
    ImageConfig list \<times> go_error option \<times> CorePodTemplateSpec option"
  assumes resolve_rewrites: "resolve (Some t) = (configs, e, t') \<Longrightarrow> \<exists>f. t' = Some (map_images f t)"
    and resolve_failed: "resolve (Some t) = (configs, Some err, t') \<Longrightarrow> t' = Some t"

lemma map_images_id: "map_images (\<lambda>i. i) t = t"
  by (simp add: map_images_def)

interpretation registry_resolver: image_resolver "ResolveImageMetadata rl rc"
proof
  fix t configs e t'
  assume "ResolveImageMetadata rl rc (Some t) = (configs, e, t')"
  then have "t' = Some t \<or> t' = Some (map_images (resolved_image (resolveImageMetadata rl rc)) t)"
    by (auto simp: ResolveImageMetadata_Some Let_def split: if_splits)
  then show "\<exists>f. t' = Some (map_images f t)"
    using map_images_id [of t] by metis
qed (auto simp: ResolveImageMetadata_Some Let_def split: if_splits)

text \<open>C8: Resolving a template reports one error listing exactly the images that could not be
  resolved and then leaves the template untouched; otherwise it returns one configuration for
  each distinct non-empty image, in the order of the image names, and rewrites every such image
  to the resolved reference, leaving everything else of the template alone.\<close>

theorem resolve_image_metadata:
  fixes rl rc t
  defines "resolve \<equiv> resolveImageMetadata rl rc"
  shows "ResolveImageMetadata rl rc None = ([], None, None) \<and>
    (case ResolveImageMetadata rl rc (Some t) of
       (configs, Some err, t') \<Rightarrow> t' = Some t \<and>
          (\<exists>errs. err = ErrImages errs \<and> errs \<noteq> [] \<and>
             (\<forall>i e. (i, e) \<in> set errs \<longleftrightarrow> i \<in> set (container_images (pts_Spec t)) \<and> i \<noteq> [] \<and> resolve i = Inl e))
     | (configs, None, t') \<Rightarrow> t' = Some (map_images (resolved_image resolve) t) \<and>
          map Inr configs = map resolve (image_list t) \<and>
          sorted (image_list t) \<and> distinct (image_list t) \<and>
          set (image_list t) = set (container_images (pts_Spec t)) - {[]})"
proof -
  have "map Inr (successes resolve images) = map resolve images" if "failures resolve images = []" for images
  proof -
    have ok: "\<forall>i \<in> set images. is_ok (resolve i)" using that failures_Nil by blast
    then show ?thesis
      by (induction images) (auto simp: successes_def is_ok_iff)
  qed
  then show ?thesis
    by (cases "failures resolve (image_list t) = []")
      (simp_all add: ResolveImageMetadata_Some Let_def resolve_def failures_iff set_image_list image_list_sorted)
qed

subsection \<open>The software bills of materials\<close>

fun tar_error :: "tar_event \<Rightarrow> go_error option" where
  "tar_error (TarError e) = Some e"
| "tar_error (TarEntry flag name content) =
     (if flag = CHR ''0'' then (case content of Inl e \<Rightarrow> Some e | Inr _ \<Rightarrow> None) else None)"

fun tar_bom :: "string \<Rightarrow> tar_event \<Rightarrow> BOM list" where
  "tar_bom prefix (TarEntry flag name (Inr raw)) =
     (if flag = CHR ''0'' then [\<lparr>bom_Name = prefix @ '':'' @ name, bom_Raw = raw\<rparr>] else [])"
| "tar_bom prefix _ = []"

lemma untar_loop_eq:
  "untar_loop prefix boms evs =
     (case List.map_filter tar_error evs of
        e # _ \<Rightarrow> Inl e | [] \<Rightarrow> Inr (boms @ concat (map (tar_bom prefix) evs)))"
  by (induction prefix boms evs rule: untar_loop.induct) (auto simp: List.map_filter_simps split: sum.splits list.split)

text \<open>Unpacking a layer yields the regular files of the archive, in order, each named with the
  prefix and holding the file's bytes; the first error while reading headers or the content of a
  regular file is returned instead.\<close>

lemma untar_sboms:
  "untarSBOMs evs prefix =
     (case List.map_filter tar_error evs of
        e # _ \<Rightarrow> Inl e | [] \<Rightarrow> Inr (concat (map (tar_bom prefix) evs)))"
  by (simp add: untarSBOMs_def untar_loop_eq split: list.split)

subsection \<open>A registry for examples\<close>

definition sample_registry :: registry_lib where
  "sample_registry = \<lparr>rl_NewDigest = (\<lambda>_. Inl (LibError ''not a digest'')), rl_NewTag = Inr, rl_RefName = id,
     rl_RemoteImage = (\<lambda>ref keys rt. Inr ref), rl_CacheImage = (\<lambda>img cache. img),
     rl_ConfigFile = (\<lambda>img. Inr \<lparr>cf_Labels = None, cf_other = []\<rparr>), rl_Digest = (\<lambda>img. Inr ''sha256:1''),
     rl_NewHash = Inr, rl_LayerByDiffID = (\<lambda>img h. Inr h), rl_Uncompressed = (\<lambda>l. Inr []),
     rl_UnmarshalMetadata = (\<lambda>s. Inr \<lparr>md_SBOM_SHA = [], md_BOM_SHA = []\<rparr>),
     rl_SystemCertPool = Inr [], rl_ReadFile = Inr, rl_AppendCertsFromPEM = (\<lambda>p c. p @ [c])\<rparr>"

definition sample_registry_config :: RegistryConfig where
  "sample_registry_config = zero_registry_config\<lparr>rc_Keys := Some [], rc_Client := Some []\<rparr>"

end
