(* ===== verification/PodTemplate.thy ===== *)
theory PodTemplate
  imports KubeTypes
begin

text \<open>
  \<open>pkg/apis/conventions/v1alpha1/podtemplatespec.go\<close>: the mirror of \<open>corev1.PodTemplateSpec\<close>
  with a five-field \<open>ObjectMeta\<close>, the conversions between the two, and the methods that make the
  small \<open>ObjectMeta\<close> a \<open>metav1.Object\<close>. Ten accessors work on the five fields; every other
  method of that interface panics. A method call is an \<open>om_op\<close>, and \<open>om_call\<close> returns
  \<open>Inl\<close> the panic's text or \<open>Inr\<close> the returned value and the receiver afterwards.
\<close>

subsection \<open>Data\<close>

record ObjectMeta =
  om_Name :: string
  om_GenerateName :: string
  om_Namespace :: string
  om_Labels :: strmap
  om_Annotations :: strmap

record PodTemplateSpec =
  pt_Meta :: ObjectMeta
  pt_Spec :: PodSpec

subsection \<open>Conversions\<close>

definition NewPodTemplateSpec :: "CorePodTemplateSpec \<Rightarrow> PodTemplateSpec" where
  "NewPodTemplateSpec pts =
     \<lparr>pt_Meta = \<lparr>om_Name = m_Name (pts_Meta pts),
                om_GenerateName = m_GenerateName (pts_Meta pts),
                om_Namespace = m_Namespace (pts_Meta pts),
                om_Labels = m_Labels (pts_Meta pts),
                om_Annotations = m_Annotations (pts_Meta pts)\<rparr>,
      pt_Spec = pts_Spec pts\<rparr>"

definition AsObjectMeta :: "ObjectMeta \<Rightarrow> MetaObjectMeta" where
  "AsObjectMeta m = zero_meta\<lparr>m_Name := om_Name m, m_GenerateName := om_GenerateName m,
     m_Namespace := om_Namespace m, m_Labels := om_Labels m, m_Annotations := om_Annotations m\<rparr>"

definition AsPodTemplateSpec :: "PodTemplateSpec option \<Rightarrow> CorePodTemplateSpec option" where
  "AsPodTemplateSpec p = (case p of
     None \<Rightarrow> None
   | Some t \<Rightarrow> Some \<lparr>pts_Meta = AsObjectMeta (pt_Meta t), pts_Spec = pt_Spec t\<rparr>)"

definition GetObjectMeta :: "PodTemplateSpec option \<Rightarrow> ObjectMeta option" where
  "GetObjectMeta p = (case p of None \<Rightarrow> None | Some t \<Rightarrow> Some (pt_Meta t))"

text \<open>The template of a value whose pointer is known not to be nil.\<close>

definition as_core :: "PodTemplateSpec \<Rightarrow> CorePodTemplateSpec" where
  "as_core t = \<lparr>pts_Meta = AsObjectMeta (pt_Meta t), pts_Spec = pt_Spec t\<rparr>"

lemma AsPodTemplateSpec_Some [simp]: "AsPodTemplateSpec (Some t) = Some (as_core t)"
  by (simp add: AsPodTemplateSpec_def as_core_def)

lemma AsPodTemplateSpec_None [simp]: "AsPodTemplateSpec None = None"
  by (simp add: AsPodTemplateSpec_def)

lemma as_core_simps [simp]:
  "pts_Spec (as_core t) = pt_Spec t"
  "m_Name (pts_Meta (as_core t)) = om_Name (pt_Meta t)"
  "m_Labels (pts_Meta (as_core t)) = om_Labels (pt_Meta t)"
  "m_Annotations (pts_Meta (as_core t)) = om_Annotations (pt_Meta t)"
  by (simp_all add: as_core_def AsObjectMeta_def)

lemma NewPodTemplateSpec_simps [simp]:
  "pt_Spec (NewPodTemplateSpec p) = pts_Spec p"
  "om_Name (pt_Meta (NewPodTemplateSpec p)) = m_Name (pts_Meta p)"
  "om_Labels (pt_Meta (NewPodTemplateSpec p)) = m_Labels (pts_Meta p)"
  "om_Annotations (pt_Meta (NewPodTemplateSpec p)) = m_Annotations (pts_Meta p)"
  by (simp_all add: NewPodTemplateSpec_def)

text \<open>What the small metadata cannot represent: the fields \<open>NewPodTemplateSpec\<close> drops.\<close>

definition small_meta :: "MetaObjectMeta \<Rightarrow> bool" where
  "small_meta m \<longleftrightarrow> m_CreationTimestamp m = 0 \<and> m_DeletionTimestamp m = None \<and>
     m_OwnerReferences m = [] \<and> m_other m = []"

lemma NewPodTemplateSpec_as_core: "NewPodTemplateSpec (as_core t) = t"
  by (simp add: NewPodTemplateSpec_def as_core_def AsObjectMeta_def zero_meta_def)

lemma as_core_NewPodTemplateSpec:
  "as_core (NewPodTemplateSpec p) = p \<longleftrightarrow> small_meta (pts_Meta p)"
  by (cases p; cases "pts_Meta p")
    (auto simp: NewPodTemplateSpec_def as_core_def AsObjectMeta_def zero_meta_def small_meta_def)

text \<open>Converting the mirrored template to the Kubernetes template and back is the
  identity, a nil template stays nil, and converting a Kubernetes template to the mirror and
  back loses exactly the metadata fields outside the five kept ones.\<close>

lemma template_conversions:
  "map_option NewPodTemplateSpec (AsPodTemplateSpec p) = p \<and>
   (AsPodTemplateSpec (Some (NewPodTemplateSpec c)) = Some c \<longleftrightarrow> small_meta (pts_Meta c))"
  by (cases p) (simp_all add: NewPodTemplateSpec_as_core as_core_NewPodTemplateSpec)

subsection \<open>The metav1.Object methods\<close>

datatype om_op =
    GetNamespace | SetNamespace string | GetName | SetName string
  | GetGenerateName | SetGenerateName string
  | GetLabels | SetLabels strmap | GetAnnotations | SetAnnotations strmap
  | GetUID | SetUID string | GetResourceVersion | SetResourceVersion string
  | GetGeneration | SetGeneration int | GetSelfLink | SetSelfLink string
  | GetCreationTimestamp | SetCreationTimestamp int
  | GetDeletionTimestamp | SetDeletionTimestamp "int option"
  | GetDeletionGracePeriodSeconds | SetDeletionGracePeriodSeconds "int option"
  | GetFinalizers | SetFinalizers "string list"
  | GetOwnerReferences | SetOwnerReferences "OwnerReference list"
  | GetManagedFields | SetManagedFields handle

datatype om_value = NoValue | StrValue string | MapValue strmap

fun om_call :: "om_op \<Rightarrow> ObjectMeta \<Rightarrow> string + om_value \<times> ObjectMeta" where
  "om_call GetNamespace m = Inr (StrValue (om_Namespace m), m)"
| "om_call (SetNamespace n) m = Inr (NoValue, m\<lparr>om_Namespace := n\<rparr>)"
| "om_call GetName m = Inr (StrValue (om_Name m), m)"
| "om_call (SetName n) m = Inr (NoValue, m\<lparr>om_Name := n\<rparr>)"
| "om_call GetGenerateName m = Inr (StrValue (om_GenerateName m), m)"
| "om_call (SetGenerateName n) m = Inr (NoValue, m\<lparr>om_GenerateName := n\<rparr>)"
| "om_call GetLabels m = Inr (MapValue (om_Labels m), m)"
| "om_call (SetLabels l) m = Inr (NoValue, m\<lparr>om_Labels := l\<rparr>)"
| "om_call GetAnnotations m = Inr (MapValue (om_Annotations m), m)"
| "om_call (SetAnnotations a) m = Inr (NoValue, m\<lparr>om_Annotations := a\<rparr>)"
| "om_call GetUID m = Inl ''GetUID is not implemented''"
| "om_call (SetUID _) m = Inl ''SetUID is not implemented''"
| "om_call GetResourceVersion m = Inl ''GetResourceVersion is not implemented''"
| "om_call (SetResourceVersion _) m = Inl ''SetResourceVersion is not implemented''"
| "om_call GetGeneration m = Inl ''GetGeneration is not implemented''"
| "om_call (SetGeneration _) m = Inl ''SetGeneration is not implemented''"
| "om_call GetSelfLink m = Inl ''GetSelfLink is not implemented''"
| "om_call (SetSelfLink _) m = Inl ''SetSelfLink is not implemented''"
| "om_call GetCreationTimestamp m = Inl ''GetCreationTimestamp is not implemented''"
| "om_call (SetCreationTimestamp _) m = Inl ''SetCreationTimestamp is not implemented''"
| "om_call GetDeletionTimestamp m = Inl ''GetDeletionTimestamp is not implemented''"
| "om_call (SetDeletionTimestamp _) m = Inl ''SetDeletionTimestamp is not implemented''"
| "om_call GetDeletionGracePeriodSeconds m = Inl ''GetDeletionGracePeriodSeconds is not implemented''"
| "om_call (SetDeletionGracePeriodSeconds _) m = Inl ''SetDeletionGracePeriodSeconds is not implemented''"
| "om_call GetFinalizers m = Inl ''GetFinalizers is not implemented''"
| "om_call (SetFinalizers _) m = Inl ''SetFinalizers is not implemented''"
| "om_call GetOwnerReferences m = Inl ''GetOwnerReferences is not implemented''"
| "om_call (SetOwnerReferences _) m = Inl ''SetOwnerReferences is not implemented''"
| "om_call GetManagedFields m = Inl ''GetManagedFields is not implemented''"
| "om_call (SetManagedFields _) m = Inl ''SetManagedFields is not implemented''"

text \<open>The getter that reads what a setter wrote, and the value it should read.\<close>

fun om_reader :: "om_op \<Rightarrow> (om_op \<times> om_value) option" where
  "om_reader (SetNamespace n) = Some (GetNamespace, StrValue n)"
| "om_reader (SetName n) = Some (GetName, StrValue n)"
| "om_reader (SetGenerateName n) = Some (GetGenerateName, StrValue n)"
| "om_reader (SetLabels l) = Some (GetLabels, MapValue l)"
| "om_reader (SetAnnotations a) = Some (GetAnnotations, MapValue a)"
| "om_reader _ = None"

definition om_getters :: "om_op set" where
  "om_getters = {GetNamespace, GetName, GetGenerateName, GetLabels, GetAnnotations}"

lemma om_setter_read: "om_reader s = Some (g, v) \<Longrightarrow> om_call s m = Inr (r, m') \<Longrightarrow> om_call g m' = Inr (v, m')"
  by (cases s) auto

lemma om_setter_frame:
  "om_reader s = Some (g, v) \<Longrightarrow> om_call s m = Inr (r, m') \<Longrightarrow> g' \<in> om_getters \<Longrightarrow> g' \<noteq> g \<Longrightarrow>
   map_sum id fst (om_call g' m') = map_sum id fst (om_call g' m)"
  by (cases s) (auto simp: om_getters_def)

end
