(* ===== verification/PodIntentApi.thy ===== *)
theory PodIntentApi
  imports PodTemplate Admission
begin

text \<open>
  The \<open>PodIntent\<close> resource of \<open>pkg/apis/conventions/v1alpha1\<close>: its types
  (\<open>podintent_types.go\<close>), its defaulting and validating webhooks (\<open>podintent_defaults.go\<close>,
  \<open>podintent_validation.go\<close>) and its conditions (\<open>podintent_lifecycle.go\<close>). The condition sets
  of \<open>reconciler.io/runtime/apis\<close> are a parameter: \<open>cond_set_lib\<close> makes the manager of a living
  condition set from its happy reason and its dependents, and \<open>cond_set_law\<close> states the
  documented behaviour of a set with one dependent.
\<close>

subsection \<open>Conditions\<close>

datatype cond_message =
    NoMessage
  | FailedToAuthenticate go_error
  | FilteringFailed go_error
  | ErrorText go_error

record Condition =
  cond_Type :: string
  cond_Status :: cond_status
  cond_Reason :: string
  cond_Message :: cond_message

record cond_manager =
  cm_InitializeConditions :: "Condition list \<Rightarrow> Condition list"
  cm_MarkTrue :: "string \<Rightarrow> string \<Rightarrow> cond_message \<Rightarrow> Condition list \<Rightarrow> Condition list"
  cm_MarkFalse :: "string \<Rightarrow> string \<Rightarrow> cond_message \<Rightarrow> Condition list \<Rightarrow> Condition list"
  cm_MarkUnknown :: "string \<Rightarrow> string \<Rightarrow> cond_message \<Rightarrow> Condition list \<Rightarrow> Condition list"
  cm_GetCondition :: "string \<Rightarrow> Condition list \<Rightarrow> Condition option"

type_synonym cond_set_lib = "string \<Rightarrow> string list \<Rightarrow> cond_manager"

definition ConditionReady :: string where
  "ConditionReady = ''Ready''"

text \<open>
  Marking the only dependent of a living set writes that condition and carries the status over to
  the happy condition \<open>Ready\<close>, with the happy reason when the status is true.
\<close>

definition cond_set_law :: "cond_set_lib \<Rightarrow> bool" where
  "cond_set_law lib \<longleftrightarrow> (\<forall>happy c r msg cs. c \<noteq> ConditionReady \<longrightarrow>
     (let cm = lib happy [c] in
        cm_GetCondition cm c (cm_MarkTrue cm c r msg cs) = Some \<lparr>cond_Type = c,
          cond_Status = CondTrue, cond_Reason = r, cond_Message = msg\<rparr> \<and>
        cm_GetCondition cm ConditionReady (cm_MarkTrue cm c r msg cs) = Some \<lparr>cond_Type = ConditionReady,
          cond_Status = CondTrue, cond_Reason = happy, cond_Message = NoMessage\<rparr> \<and>
        cm_GetCondition cm c (cm_MarkFalse cm c r msg cs) = Some \<lparr>cond_Type = c,
          cond_Status = CondFalse, cond_Reason = r, cond_Message = msg\<rparr> \<and>
        cm_GetCondition cm ConditionReady (cm_MarkFalse cm c r msg cs) = Some \<lparr>cond_Type = ConditionReady,
          cond_Status = CondFalse, cond_Reason = r, cond_Message = msg\<rparr> \<and>
        cm_GetCondition cm c (cm_MarkUnknown cm c r msg cs) = Some \<lparr>cond_Type = c,
          cond_Status = CondUnknown, cond_Reason = r, cond_Message = msg\<rparr> \<and>
        cm_GetCondition cm ConditionReady (cm_MarkUnknown cm c r msg cs) = Some \<lparr>cond_Type = ConditionReady,
          cond_Status = CondUnknown, cond_Reason = r, cond_Message = msg\<rparr>))"

subsection \<open>Types\<close>

record PodIntentSpec =
  pi_ServiceAccountName :: string
  pi_ImagePullSecrets :: "string list"
  pi_Template :: PodTemplateSpec

record PodIntentStatus =
  st_Conditions :: "Condition list"
  st_ObservedGeneration :: int
  st_Template :: "PodTemplateSpec option"

record PodIntent =
  pi_Meta :: MetaObjectMeta
  pi_Spec :: PodIntentSpec
  pi_Status :: PodIntentStatus

subsection \<open>Defaulting\<close>

definition PodIntentSpec_Default :: "PodIntentSpec \<Rightarrow> PodIntentSpec" where
  "PodIntentSpec_Default s =
     (if pi_ServiceAccountName s = [] then s\<lparr>pi_ServiceAccountName := ''default''\<rparr> else s)"

definition PodIntentDefaulter_Default :: "PodIntent \<Rightarrow> PodIntent" where
  "PodIntentDefaulter_Default obj = obj\<lparr>pi_Spec := PodIntentSpec_Default (pi_Spec obj)\<rparr>"

subsection \<open>Validation\<close>

fun pull_secret_errors :: "field_path \<Rightarrow> nat \<Rightarrow> string list \<Rightarrow> field_error list" where
  "pull_secret_errors fldPath index [] = []"
| "pull_secret_errors fldPath index (name # names) =
     (if name = []
      then [Required (fldPath @ [Child ''imagePullSecrets'', Index index, Child ''name'']) []] else [])
     @ pull_secret_errors fldPath (Suc index) names"

definition PodIntentSpec_validate :: "field_path \<Rightarrow> PodIntentSpec \<Rightarrow> field_error list" where
  "PodIntentSpec_validate fldPath s = pull_secret_errors fldPath 0 (pi_ImagePullSecrets s)"

definition PodIntent_validate :: "PodIntent \<Rightarrow> field_error list" where
  "PodIntent_validate r = PodIntentSpec_validate [Child ''spec''] (pi_Spec r)"

definition PodIntent_ValidateCreate :: "aggregate_lib \<Rightarrow> PodIntent \<Rightarrow> go_error option" where
  "PodIntent_ValidateCreate ToAggregate obj = ToAggregate (PodIntent_validate obj)"

definition PodIntent_ValidateUpdate :: "aggregate_lib \<Rightarrow> PodIntent \<Rightarrow> PodIntent \<Rightarrow> go_error option" where
  "PodIntent_ValidateUpdate ToAggregate old obj = ToAggregate (PodIntent_validate obj)"

definition PodIntent_ValidateDelete :: "PodIntent \<Rightarrow> go_error option" where
  "PodIntent_ValidateDelete obj = None"

lemma pull_secret_errors_iff:
  "Required p d \<in> set (pull_secret_errors fldPath n names) \<longleftrightarrow>
     (\<exists>i < length names. names ! i = [] \<and> d = [] \<and>
        p = fldPath @ [Child ''imagePullSecrets'', Index (n + i), Child ''name''])"
proof (induction names arbitrary: n)
  case (Cons a names)
  show ?case
    by (simp only: pull_secret_errors.simps set_append Un_iff Cons.IH)
      (auto simp: less_Suc_eq_0_disj nth_Cons')
qed simp

lemma pull_secret_errors_Nil:
  "pull_secret_errors fldPath n names = [] \<longleftrightarrow> [] \<notin> set names"
  by (induction names arbitrary: n) auto

interpretation pod_intent: admission PodIntentDefaulter_Default "\<lambda>obj. Some (PodIntent_validate obj)"
  by unfold_locales (simp_all add: PodIntentDefaulter_Default_def PodIntentSpec_Default_def)

text \<open>Concrete values for the examples below.\<close>

definition sample_intent :: PodIntent where
  "sample_intent = \<lparr>pi_Meta = zero_meta\<lparr>m_Name := ''intent''\<rparr>,
     pi_Spec = \<lparr>pi_ServiceAccountName = [], pi_ImagePullSecrets = [],
       pi_Template = NewPodTemplateSpec (plain_template ''app:1'')\<rparr>,
     pi_Status = \<lparr>st_Conditions = [], st_ObservedGeneration = 0, st_Template = None\<rparr>\<rparr>"

text \<open>A \<open>PodIntent\<close> is accepted on create and on update exactly when none of its image pull
  secrets has an empty name; each empty name is reported at its own index.\<close>

lemma pod_intent_validation:
  assumes "aggregates agg"
  shows "(PodIntent_ValidateCreate agg obj = None \<longleftrightarrow> [] \<notin> set (pi_ImagePullSecrets (pi_Spec obj))) \<and>
    PodIntent_ValidateUpdate agg old obj = PodIntent_ValidateCreate agg obj \<and>
    (Required p d \<in> set (PodIntent_validate obj) \<longleftrightarrow>
       (\<exists>i < length (pi_ImagePullSecrets (pi_Spec obj)). pi_ImagePullSecrets (pi_Spec obj) ! i = [] \<and>
          d = [] \<and> p = [Child ''spec'', Child ''imagePullSecrets'', Index i, Child ''name'']))"
  using assms
  by (simp add: PodIntent_ValidateCreate_def PodIntent_ValidateUpdate_def PodIntent_validate_def
      PodIntentSpec_validate_def aggregates_def pull_secret_errors_iff pull_secret_errors_Nil)

lemma pod_intent_validation_witness:
  "PodIntent_ValidateCreate plain_aggregate (sample_intent\<lparr>pi_Spec := (pi_Spec sample_intent)
     \<lparr>pi_ImagePullSecrets := [''a'', []]\<rparr>\<rparr>) \<noteq> None"
  using pod_intent_validation [OF plain_aggregate_aggregates] by simp

subsection \<open>Lifecycle\<close>

definition AppliedConventionsAnnotationKey :: string where
  "AppliedConventionsAnnotationKey = ''conventions.carto.run/applied-conventions''"

definition PodIntentConditionReady :: string where
  "PodIntentConditionReady = ConditionReady"

definition PodIntentConditionConventionsApplied :: string where
  "PodIntentConditionConventionsApplied = ''ConventionsApplied''"

definition podintentCondSet :: "cond_set_lib \<Rightarrow> cond_manager" where
  "podintentCondSet lib = lib ''ConventionsApplied'' [PodIntentConditionConventionsApplied]"

definition GetConditionsAccessor :: "PodIntent \<Rightarrow> PodIntentStatus" where
  "GetConditionsAccessor obj = pi_Status obj"

definition GetConditionSet :: "cond_set_lib \<Rightarrow> PodIntent \<Rightarrow> cond_manager" where
  "GetConditionSet lib obj = podintentCondSet lib"

definition InitializeConditions :: "cond_set_lib \<Rightarrow> PodIntentStatus \<Rightarrow> PodIntentStatus" where
  "InitializeConditions lib s =
     (let cm = podintentCondSet lib;
          cs = cm_InitializeConditions cm (st_Conditions s)
      in s\<lparr>st_Conditions := cm_MarkUnknown cm PodIntentConditionConventionsApplied ''Initializing'' NoMessage cs\<rparr>)"

text \<open>The condition of a type, as the set's manager reads it.\<close>

definition condition_of :: "cond_set_lib \<Rightarrow> PodIntent \<Rightarrow> string \<Rightarrow> Condition option" where
  "condition_of lib obj c = cm_GetCondition (podintentCondSet lib) c (st_Conditions (pi_Status obj))"

lemma applied_not_ready: "PodIntentConditionConventionsApplied \<noteq> ConditionReady"
  by (simp add: PodIntentConditionConventionsApplied_def ConditionReady_def)

text \<open>A concrete condition set, to show that the documented law can hold.\<close>

definition put_condition :: "Condition \<Rightarrow> Condition list \<Rightarrow> Condition list" where
  "put_condition c cs = c # filter (\<lambda>d. cond_Type d \<noteq> cond_Type c) cs"

definition plain_mark :: "string \<Rightarrow> cond_status \<Rightarrow> string \<Rightarrow> string \<Rightarrow> cond_message \<Rightarrow> Condition list \<Rightarrow> Condition list" where
  "plain_mark happy st c r msg cs =
     put_condition (if st = CondTrue then \<lparr>cond_Type = ConditionReady, cond_Status = st, cond_Reason = happy, cond_Message = NoMessage\<rparr>
                    else \<lparr>cond_Type = ConditionReady, cond_Status = st, cond_Reason = r, cond_Message = msg\<rparr>)
       (put_condition \<lparr>cond_Type = c, cond_Status = st, cond_Reason = r, cond_Message = msg\<rparr> cs)"

definition plain_cond_set :: cond_set_lib where
  "plain_cond_set happy deps =
     \<lparr>cm_InitializeConditions = id,
      cm_MarkTrue = plain_mark happy CondTrue, cm_MarkFalse = plain_mark happy CondFalse,
      cm_MarkUnknown = plain_mark happy CondUnknown,
      cm_GetCondition = (\<lambda>c. find (\<lambda>d. cond_Type d = c))\<rparr>"

lemma plain_cond_set_law: "cond_set_law plain_cond_set"
  by (auto simp: cond_set_law_def plain_cond_set_def plain_mark_def put_condition_def Let_def)

lemma initialize_conditions_unknown:
  assumes "cond_set_law lib"
  shows "cm_GetCondition (podintentCondSet lib) PodIntentConditionConventionsApplied
      (st_Conditions (InitializeConditions lib s)) = Some \<lparr>cond_Type = PodIntentConditionConventionsApplied,
        cond_Status = CondUnknown, cond_Reason = ''Initializing'', cond_Message = NoMessage\<rparr>"
  using assms applied_not_ready
  by (auto simp: cond_set_law_def InitializeConditions_def podintentCondSet_def Let_def)

end
