(* ===== verification/Conventions.thy ===== *)
theory Conventions
  imports Convention ImageMetadata PodIntentApi
begin

text \<open>
  \<open>pkg/binding/conventions.go\<close>: selecting the conventions that apply to a workload, ordering them
  and applying them one after the other. \<open>Conventions.Apply\<close> keeps a workload, the receipt of the
  applied conventions and, through a pointer, the parent's template: the workload's containers are
  the parent's own until the first webhook answers, so resolving images before the first call also
  rewrites the parent. The loop is written over the two operations it calls, the resolver of
  \<open>ImageMetadata\<close> and the webhook call of \<open>Convention\<close>.
\<close>

subsection \<open>Filter\<close>

type_synonym collected_labels = "(string, labels) fmap"

definition labels_at :: "collected_labels \<Rightarrow> string \<Rightarrow> labels" where
  "labels_at collected k = (case fmlookup collected k of None \<Rightarrow> None | Some l \<Rightarrow> l)"

fun any_selector_matches :: "selector_lib \<Rightarrow> labels \<Rightarrow> LabelSelector list \<Rightarrow> bool result" where
  "any_selector_matches as_selector l [] = Inr False"
| "any_selector_matches as_selector l (sel # sels) =
     (case as_selector sel of
        Inl err \<Rightarrow> Inl err
      | Inr sourceLabels \<Rightarrow> if sourceLabels l then Inr True else any_selector_matches as_selector l sels)"

fun Conventions_Filter :: "selector_lib \<Rightarrow> collected_labels \<Rightarrow> Convention list \<Rightarrow> Convention list result" where
  "Conventions_Filter as_selector collected [] = Inr []"
| "Conventions_Filter as_selector collected (source # rest) =
     (let selectors = (if conv_Selectors source = [] then [empty_selector] else conv_Selectors source) in
      case any_selector_matches as_selector (labels_at collected (conv_SelectorTarget source)) selectors of
        Inl err \<Rightarrow> Inl (ErrSelector (conv_Name source) err)
      | Inr matched \<Rightarrow>
          (case Conventions_Filter as_selector collected rest of
             Inl err \<Rightarrow> Inl err
           | Inr filtered \<Rightarrow> Inr (if matched then source # filtered else filtered)))"

subsection \<open>Sort\<close>

definition convention_less :: "Convention \<Rightarrow> Convention \<Rightarrow> bool" where
  "convention_less a b =
     (if conv_Priority a = conv_Priority b then conv_Name a < conv_Name b
      else conv_Priority a = EarlyPriority \<or> conv_Priority b = LatePriority)"

definition Conventions_Sort :: "Convention list \<Rightarrow> Convention list" where
  "Conventions_Sort cs = sort_slice convention_less cs"

definition Conventions_FilterAndSort ::
    "selector_lib \<Rightarrow> collected_labels \<Rightarrow> Convention list \<Rightarrow> Convention list result" where
  "Conventions_FilterAndSort as_selector collected cs =
     (case Conventions_Filter as_selector collected cs of
        Inl err \<Rightarrow> Inl err
      | Inr filtered \<Rightarrow> Inr (Conventions_Sort filtered))"

subsection \<open>Apply\<close>

record apply_state =
  ap_workload :: CorePodTemplateSpec
  ap_shared :: bool
  ap_parent :: PodIntent
  ap_applied :: "string list"

type_synonym resolver =
  "CorePodTemplateSpec option \<Rightarrow> ImageConfig list \<times> go_error option \<times> CorePodTemplateSpec option"
type_synonym caller = "Convention \<Rightarrow> PodConventionContext \<Rightarrow> PodConventionContext result"

definition newline :: char where
  "newline = CHR 0x0A"

definition convention_request ::
    "string \<Rightarrow> Convention \<Rightarrow> CorePodTemplateSpec \<Rightarrow> ImageConfig list \<Rightarrow> PodConventionContext" where
  "convention_request parentName c workload configs =
     \<lparr>pcc_Meta = zero_meta\<lparr>m_Name := parentName @ ''-'' @ conv_Name c\<rparr>,
      pcc_Spec = \<lparr>pcs_Template = workload, pcs_ImageConfig = configs\<rparr>,
      pcc_Status = pcc_Status zero_context\<rparr>"

definition prefixed_labels :: "Convention \<Rightarrow> PodConventionContext \<Rightarrow> string list" where
  "prefixed_labels c resp = map (\<lambda>a. conv_Name c @ ''/'' @ a) (pct_AppliedConventions (pcc_Status resp))"

definition with_receipt :: "string list \<Rightarrow> CorePodTemplateSpec \<Rightarrow> CorePodTemplateSpec" where
  "with_receipt applied w = w\<lparr>pts_Meta := (pts_Meta w)\<lparr>m_Annotations :=
     map_put (m_Annotations (pts_Meta w)) AppliedConventionsAnnotationKey (go_join [newline] applied)\<rparr>\<rparr>"

text \<open>The writes of the resolver to the elements of the container slices, seen through the parent.\<close>

definition share_containers :: "CorePodTemplateSpec \<Rightarrow> PodIntent \<Rightarrow> PodIntent" where
  "share_containers w p = p\<lparr>pi_Spec := (pi_Spec p)\<lparr>pi_Template := (pi_Template (pi_Spec p))
     \<lparr>pt_Spec := (pt_Spec (pi_Template (pi_Spec p)))
        \<lparr>ps_InitContainers := ps_InitContainers (pts_Spec w), ps_Containers := ps_Containers (pts_Spec w)\<rparr>\<rparr>\<rparr>\<rparr>"

definition after_resolve :: "CorePodTemplateSpec option \<Rightarrow> apply_state \<Rightarrow> apply_state" where
  "after_resolve w s = (case w of
     None \<Rightarrow> s
   | Some t \<Rightarrow> s\<lparr>ap_workload := t, ap_parent := (if ap_shared s then share_containers t (ap_parent s) else ap_parent s)\<rparr>)"

definition after_response :: "Convention \<Rightarrow> PodConventionContext \<Rightarrow> apply_state \<Rightarrow> apply_state" where
  "after_response c resp s =
     (let applied = ap_applied s @ prefixed_labels c resp
      in s\<lparr>ap_workload := with_receipt applied (pct_Template (pcc_Status resp)),
           ap_shared := False, ap_applied := applied\<rparr>)"

fun apply_loop :: "resolver \<Rightarrow> caller \<Rightarrow> Convention list \<Rightarrow> apply_state \<Rightarrow> go_error option \<times> apply_state" where
  "apply_loop resolve call [] s = (None, s)"
| "apply_loop resolve call (c # cs) s =
     (case resolve (Some (ap_workload s)) of
        (imageConfigList, err, w) \<Rightarrow>
          let s1 = after_resolve w s in
          (case err of
             Some e \<Rightarrow> (Some (ErrFetchMetadata e), s1)
           | None \<Rightarrow>
               (case call c (convention_request (m_Name (pi_Meta (ap_parent s1))) c (ap_workload s1) imageConfigList) of
                  Inl e \<Rightarrow> (Some (ErrApply (conv_Name c) e), s1)
                | Inr resp \<Rightarrow> apply_loop resolve call cs (after_response c resp s1))))"

definition applied_history :: "PodIntent \<Rightarrow> string list" where
  "applied_history p =
     (let str = map_get (om_Annotations (pt_Meta (pi_Template (pi_Spec p)))) AppliedConventionsAnnotationKey
      in if str \<noteq> [] then go_split newline str else [])"

definition apply_start :: "PodIntent \<Rightarrow> apply_state" where
  "apply_start p = \<lparr>ap_workload = as_core (pi_Template (pi_Spec p)), ap_shared = True,
     ap_parent = p, ap_applied = applied_history p\<rparr>"

definition Conventions_Apply :: "resolver \<Rightarrow> caller \<Rightarrow> PodIntent option \<Rightarrow> Convention list \<Rightarrow>
    CorePodTemplateSpec result \<times> PodIntent option" where
  "Conventions_Apply resolve call parent cs = (case parent of
     None \<Rightarrow> (Inl ErrNilPodIntent, None)
   | Some p \<Rightarrow>
       (case apply_loop resolve call cs (apply_start p) of
          (Some e, s) \<Rightarrow> (Inl e, Some (ap_parent s))
        | (None, s) \<Rightarrow> (Inr (ap_workload s), Some (ap_parent s))))"

subsection \<open>Filtering, specified\<close>

text \<open>What a selector list means: no selector selects everything, otherwise any of them may match.\<close>

definition selector_matches :: "selector_lib \<Rightarrow> labels \<Rightarrow> LabelSelector \<Rightarrow> bool" where
  "selector_matches as_selector l sel = (case as_selector sel of Inl _ \<Rightarrow> False | Inr m \<Rightarrow> m l)"

definition convention_selects :: "selector_lib \<Rightarrow> collected_labels \<Rightarrow> Convention \<Rightarrow> bool" where
  "convention_selects as_selector collected c \<longleftrightarrow> conv_Selectors c = [] \<or>
     (\<exists>sel \<in> set (conv_Selectors c).
        selector_matches as_selector (labels_at collected (conv_SelectorTarget c)) sel)"

definition selectors_convert :: "selector_lib \<Rightarrow> Convention \<Rightarrow> bool" where
  "selectors_convert as_selector c \<longleftrightarrow> (\<forall>sel \<in> set (conv_Selectors c). is_ok (as_selector sel))"

lemma any_selector_matches_ok:
  "\<forall>sel \<in> set sels. is_ok (as_selector sel) \<Longrightarrow>
   any_selector_matches as_selector l sels = Inr (\<exists>sel \<in> set sels. selector_matches as_selector l sel)"
  by (induction sels) (auto simp: is_ok_iff selector_matches_def)

lemma any_selector_matches_error:
  "any_selector_matches as_selector l sels = Inl e \<Longrightarrow> \<exists>sel \<in> set sels. as_selector sel = Inl e"
  by (induction sels) (auto split: sum.splits if_splits)

lemma filter_ok:
  assumes "empty_selects_all as_selector"
  shows "\<forall>c \<in> set cs. selectors_convert as_selector c \<Longrightarrow>
    Conventions_Filter as_selector collected cs = Inr (filter (convention_selects as_selector collected) cs)"
proof (induction cs)
  case (Cons c cs)
  then have "any_selector_matches as_selector (labels_at collected (conv_SelectorTarget c))
      (if conv_Selectors c = [] then [empty_selector] else conv_Selectors c) =
      Inr (convention_selects as_selector collected c)"
    using assms by (auto simp: empty_selects_all_def selectors_convert_def convention_selects_def
        selector_matches_def any_selector_matches_ok)
  with Cons show ?case by (simp add: Let_def)
qed simp

lemma filter_error:
  "Conventions_Filter as_selector collected cs = Inl err \<Longrightarrow>
   \<exists>c \<in> set cs. \<exists>e sel. err = ErrSelector (conv_Name c) e \<and>
     (sel = empty_selector \<and> conv_Selectors c = [] \<or> sel \<in> set (conv_Selectors c)) \<and> as_selector sel = Inl e"
  by (induction cs)
    (auto simp: Let_def split: sum.splits if_splits dest!: any_selector_matches_error)

lemma filter_subset: "Conventions_Filter as_selector collected cs = Inr fs \<Longrightarrow> set fs \<subseteq> set cs"
  by (induction cs arbitrary: fs) (fastforce simp: Let_def split: sum.splits if_splits)+

subsection \<open>Ordering, specified\<close>

definition valid_priority :: "Convention \<Rightarrow> bool" where
  "valid_priority c \<longleftrightarrow> conv_Priority c \<in> {EarlyPriority, NormalPriority, LatePriority}"

definition priority_rank :: "PriorityLevel \<Rightarrow> nat" where
  "priority_rank p = (if p = EarlyPriority then 0 else if p = LatePriority then 2 else 1)"

definition in_order :: "Convention \<Rightarrow> Convention \<Rightarrow> bool" where
  "in_order a b \<longleftrightarrow> priority_rank (conv_Priority a) < priority_rank (conv_Priority b) \<or>
     conv_Priority a = conv_Priority b \<and> conv_Name a \<le> conv_Name b"

lemma convention_less_rank:
  "valid_priority a \<Longrightarrow> valid_priority b \<Longrightarrow> convention_less a b \<longleftrightarrow>
     priority_rank (conv_Priority a) < priority_rank (conv_Priority b) \<or>
     conv_Priority a = conv_Priority b \<and> conv_Name a < conv_Name b"
  by (auto simp: convention_less_def valid_priority_def priority_rank_def priority_defs)

lemma not_convention_less:
  "valid_priority a \<Longrightarrow> valid_priority b \<Longrightarrow> \<not> convention_less b a \<longleftrightarrow> in_order a b"
  by (auto simp: convention_less_def valid_priority_def priority_rank_def priority_defs in_order_def)

interpretation convention_order: slice_order convention_less valid_priority
proof
  fix x y z
  assume "valid_priority x" "valid_priority y" "valid_priority z"
    and "\<not> convention_less x y" "\<not> convention_less y z"
  then have "in_order y x" "in_order z y" by (simp_all add: not_convention_less)
  then have "in_order z x" by (auto simp: in_order_def)
  with \<open>valid_priority x\<close> \<open>valid_priority z\<close> show "\<not> convention_less x z"
    by (simp add: not_convention_less)
qed (auto simp: convention_less_rank)

definition distinct_names :: "Convention list \<Rightarrow> bool" where
  "distinct_names cs \<longleftrightarrow> (\<forall>a \<in> set cs. \<forall>b \<in> set cs. conv_Name a = conv_Name b \<longrightarrow> a = b)"

lemma convention_less_total:
  assumes "distinct_names cs" "a \<in> set cs" "b \<in> set cs" "\<forall>c \<in> set cs. valid_priority c"
    and "\<not> convention_less a b" "\<not> convention_less b a"
  shows "a = b"
proof -
  have "in_order b a" "in_order a b"
    using assms by (auto simp: not_convention_less)
  then have "conv_Name a = conv_Name b" by (auto simp: in_order_def)
  with assms(1-3) show ?thesis by (auto simp: distinct_names_def)
qed

lemma sort_in_order:
  assumes "\<forall>c \<in> set cs. valid_priority c"
  shows "sorted_wrt in_order (Conventions_Sort cs)"
proof -
  have "sorted_by convention_less (Conventions_Sort cs)"
    using assms by (simp add: Conventions_Sort_def convention_order.sort_slice_sorted)
  then show ?thesis
    unfolding sorted_by_def
    by (rule sorted_wrt_mono_rel [rotated]) (use assms in \<open>auto simp: Conventions_Sort_def not_convention_less\<close>)
qed

text \<open>Concrete values for the examples below.\<close>

definition match_all :: selector_lib where
  "match_all sel = Inr (\<lambda>_. True)"

lemma match_all_law: "empty_selects_all match_all"
  by (simp add: empty_selects_all_def match_all_def)

definition sample_conventions :: "Convention list" where
  "sample_conventions = [sample_convention ''b'' LatePriority, sample_convention ''c'' NormalPriority,
     sample_convention ''a'' EarlyPriority]"

lemma sample_conventions_ok:
  "\<forall>c \<in> set sample_conventions. selectors_convert match_all c \<and> valid_priority c"
  "\<forall>c \<in> set sample_conventions. valid_priority c" "distinct_names sample_conventions"
  by (simp_all add: sample_conventions_def sample_convention_def selectors_convert_def valid_priority_def distinct_names_def)

definition match_empty :: selector_lib where
  "match_empty sel = (if sel = empty_selector then Inr (\<lambda>_. True) else Inl (LibError ''bad''))"

definition picky_convention :: Convention where
  "picky_convention = (sample_convention ''x'' NormalPriority)
     \<lparr>conv_Selectors := [\<lparr>ls_MatchLabels = Some fmempty, ls_MatchExpressions = []\<rparr>]\<rparr>"

text \<open>C7: For conventions with valid priorities whose selectors convert, \<open>FilterAndSort\<close> returns
  exactly the selected conventions, each as often as it was given, all early ones before all
  normal ones before all late ones and by name within a priority.\<close>

theorem filter_and_sort_correct:
  assumes "empty_selects_all as_selector"
    and "\<forall>c \<in> set cs. selectors_convert as_selector c \<and> valid_priority c"
  shows "\<exists>out. Conventions_FilterAndSort as_selector collected cs = Inr out \<and>
    mset out = mset (filter (convention_selects as_selector collected) cs) \<and> sorted_wrt in_order out"
  using assms filter_ok [OF assms(1), of cs collected] sort_in_order
  by (auto simp: Conventions_FilterAndSort_def Conventions_Sort_def)

lemma filter_and_sort_correct_witness:
  "\<exists>out. Conventions_FilterAndSort match_all fmempty sample_conventions = Inr out \<and>
     mset out = mset (filter (convention_selects match_all fmempty) sample_conventions) \<and> sorted_wrt in_order out"
  by (rule filter_and_sort_correct [OF match_all_law sample_conventions_ok(1)])

text \<open>The order of application is deterministic although \<open>sort.Slice\<close> is not stable: when the
  names are distinct and the priorities valid, any permutation of the selected conventions in
  which no element is less than an earlier one, whatever algorithm produced it and in whatever
  order the conventions were listed, is the list \<open>FilterAndSort\<close> returns.\<close>

lemma filter_and_sort_deterministic:
  assumes "Conventions_Filter as_selector collected cs = Inr selected"
    and "distinct_names cs" and "\<forall>c \<in> set cs. valid_priority c"
    and "mset out = mset selected" and "sorted_by convention_less out"
  shows "Conventions_FilterAndSort as_selector collected cs = Inr out"
proof -
  have sub: "set selected \<subseteq> set cs" by (rule filter_subset [OF assms(1)])
  have "out = sort_slice convention_less selected"
  proof (rule convention_order.any_sort_agrees [OF _ _ assms(4,5)])
    show "\<forall>c \<in> set selected. valid_priority c" using assms(3) sub by blast
    fix x y assume "x \<in> set selected" "y \<in> set selected" "\<not> convention_less x y" "\<not> convention_less y x"
    then show "x = y" using convention_less_total [OF assms(2) _ _ assms(3)] sub by blast
  qed
  with assms(1) show ?thesis by (simp add: Conventions_FilterAndSort_def Conventions_Sort_def)
qed

lemma filter_and_sort_deterministic_witness:
  "Conventions_FilterAndSort match_all fmempty sample_conventions =
     Inr [sample_convention ''a'' EarlyPriority, sample_convention ''c'' NormalPriority, sample_convention ''b'' LatePriority]"
proof (rule filter_and_sort_deterministic [OF _ sample_conventions_ok(3,2)])
  show "Conventions_Filter match_all fmempty sample_conventions = Inr sample_conventions"
    by code_simp
  show "sorted_by convention_less [sample_convention ''a'' EarlyPriority, sample_convention ''c'' NormalPriority,
      sample_convention ''b'' LatePriority]"
    by (simp add: sorted_by_def convention_less_def sample_convention_def priority_defs)
qed (simp add: sample_conventions_def)

text \<open>Filtering fails only with the error of a selector of one of the conventions, named in the
  error, and \<open>FilterAndSort\<close> reports that error.\<close>

lemma filter_and_sort_error:
  assumes "empty_selects_all as_selector"
    and "Conventions_FilterAndSort as_selector collected cs = Inl err"
  shows "\<exists>c \<in> set cs. \<exists>sel \<in> set (conv_Selectors c). \<exists>e.
    as_selector sel = Inl e \<and> err = ErrSelector (conv_Name c) e"
proof -
  have "Conventions_Filter as_selector collected cs = Inl err"
    using assms(2) by (auto simp: Conventions_FilterAndSort_def split: sum.splits)
  from filter_error [OF this] assms(1) show ?thesis
    by (fastforce simp: empty_selects_all_def)
qed

lemma filter_and_sort_error_witness:
  "\<exists>c \<in> set [picky_convention]. \<exists>sel \<in> set (conv_Selectors c). \<exists>e. match_empty sel = Inl e \<and>
     ErrSelector ''x'' (LibError ''bad'') = ErrSelector (conv_Name c) e"
proof (rule filter_and_sort_error)
  show "empty_selects_all match_empty" by (simp add: empty_selects_all_def match_empty_def)
  show "Conventions_FilterAndSort match_empty fmempty [picky_convention] = Inl (ErrSelector ''x'' (LibError ''bad''))"
    by (simp add: Conventions_FilterAndSort_def picky_convention_def sample_convention_def match_empty_def empty_selector_def)
qed

subsection \<open>Applying, specified\<close>

text \<open>The labels of an answer as a receipt should name them.\<close>

definition named_labels :: "Convention \<Rightarrow> PodConventionContext \<Rightarrow> string list" where
  "named_labels c resp = [conv_Name c @ ''/'' @ a. a \<leftarrow> pct_AppliedConventions (pcc_Status resp)]"

lemma prefixed_labels_eq: "prefixed_labels c resp = named_labels c resp"
  by (simp add: prefixed_labels_def named_labels_def)

text \<open>
  The abstract run: a workload and a receipt go through the conventions in order; each step resolves
  the images, sends the resolved workload and takes over the answer's template with the grown
  receipt. \<open>resps\<close> are the answers in order. The parent's template does not occur in it.
\<close>

inductive applies :: "resolver \<Rightarrow> caller \<Rightarrow> string \<Rightarrow> CorePodTemplateSpec \<times> string list \<Rightarrow>
    Convention list \<Rightarrow> PodConventionContext list \<Rightarrow> CorePodTemplateSpec \<times> string list \<Rightarrow> bool"
  for resolve :: resolver and call :: caller and n :: string where
  finished: "applies resolve call n st [] [] st"
| step: "resolve (Some w) = (configs, None, Some w1) \<Longrightarrow>
     call c (convention_request n c w1 configs) = Inr resp \<Longrightarrow>
     app1 = app @ named_labels c resp \<Longrightarrow>
     applies resolve call n (with_receipt app1 (pct_Template (pcc_Status resp)), app1) cs resps st \<Longrightarrow>
     applies resolve call n (w, app) (c # cs) (resp # resps) st"

inductive_cases applies_NilE: "applies resolve call n st [] resps st'"
inductive_cases applies_ConsE: "applies resolve call n st (c # cs) resps st'"

definition step_fails :: "resolver \<Rightarrow> caller \<Rightarrow> string \<Rightarrow> CorePodTemplateSpec \<Rightarrow> Convention \<Rightarrow> go_error \<Rightarrow> bool" where
  "step_fails resolve call n w c e \<longleftrightarrow>
     (\<exists>configs e' t. resolve (Some w) = (configs, Some e', t) \<and> e = ErrFetchMetadata e') \<or>
     (\<exists>configs w1 e'. resolve (Some w) = (configs, None, Some w1) \<and>
        call c (convention_request n c w1 configs) = Inl e' \<and> e = ErrApply (conv_Name c) e')"



lemma after_resolve_simps [simp]:
  "ap_applied (after_resolve w s) = ap_applied s"
  "ap_shared (after_resolve w s) = ap_shared s"
  "pi_Meta (ap_parent (after_resolve w s)) = pi_Meta (ap_parent s)"
  "ap_workload (after_resolve (Some t) s) = t"
  by (auto simp: after_resolve_def share_containers_def split: option.splits)

lemma after_response_simps [simp]:
  "ap_applied (after_response c resp s) = ap_applied s @ named_labels c resp"
  "ap_workload (after_response c resp s) =
     with_receipt (ap_applied s @ named_labels c resp) (pct_Template (pcc_Status resp))"
  "ap_parent (after_response c resp s) = ap_parent s"
  "\<not> ap_shared (after_response c resp s)"
  by (simp_all add: after_response_def prefixed_labels_eq Let_def)

lemma with_receipt_annotation [simp]:
  "map_get (m_Annotations (pts_Meta (with_receipt app w))) AppliedConventionsAnnotationKey = go_join [newline] app"
  by (simp add: with_receipt_def)

text \<open>What the loop's client may rely on when its resolver keeps the contract.\<close>

context image_resolver
begin

lemma loop_applies:
  "apply_loop resolve call cs s = (None, s') \<Longrightarrow>
   \<exists>resps. applies resolve call (m_Name (pi_Meta (ap_parent s))) (ap_workload s, ap_applied s) cs resps
     (ap_workload s', ap_applied s')"
proof (induction cs arbitrary: s)
  case Nil
  then show ?case by (auto intro: applies.finished)
next
  case (Cons c cs)
  obtain configs err w where res: "resolve (Some (ap_workload s)) = (configs, err, w)"
    by (cases "resolve (Some (ap_workload s))") auto
  from resolve_rewrites [OF res] obtain t where w: "w = Some t" by blast
  let ?s1 = "after_resolve w s"
  from Cons.prems res w obtain resp where err: "err = None"
    and call: "call c (convention_request (m_Name (pi_Meta (ap_parent s))) c t configs) = Inr resp"
    and rest: "apply_loop resolve call cs (after_response c resp ?s1) = (None, s')"
    by (auto simp: Let_def split: option.splits sum.splits)
  from Cons.IH [OF rest] obtain resps where
    "applies resolve call (m_Name (pi_Meta (ap_parent s)))
      (with_receipt (ap_applied s @ named_labels c resp) (pct_Template (pcc_Status resp)),
       ap_applied s @ named_labels c resp) cs resps (ap_workload s', ap_applied s')"
    by auto
  with res err w call show ?case by (blast intro: applies.step)
qed

lemma applies_loop:
  "applies resolve call n st cs resps st' \<Longrightarrow>
   st = (ap_workload s, ap_applied s) \<Longrightarrow> n = m_Name (pi_Meta (ap_parent s)) \<Longrightarrow>
   \<exists>s'. apply_loop resolve call cs s = (None, s') \<and> st' = (ap_workload s', ap_applied s')"
proof (induction arbitrary: s rule: applies.induct)
  case (step w configs w1 c resp app1 app cs resps st)
  let ?s = "after_response c resp (after_resolve (Some w1) s)"
  have "\<exists>s'. apply_loop resolve call cs ?s = (None, s') \<and> st = (ap_workload s', ap_applied s')"
    using step by (intro step.IH) auto
  with step show ?case by (auto simp: Let_def)
qed auto

lemma loop_parent_unshared:
  "\<not> ap_shared s \<Longrightarrow> ap_parent (snd (apply_loop resolve call cs s)) = ap_parent s"
proof (induction cs arbitrary: s)
  case (Cons c cs)
  then show ?case
    by (auto simp: Let_def after_resolve_def split: prod.splits option.splits sum.splits)
qed simp

lemma loop_parent:
  assumes "ap_shared s" and "ap_workload s = as_core (pi_Template (pi_Spec (ap_parent s)))"
  shows "\<exists>f. ap_parent (snd (apply_loop resolve call cs s)) = share_containers (map_images f (ap_workload s)) (ap_parent s)"
proof (cases cs)
  case Nil
  have "share_containers (map_images (\<lambda>i. i) (ap_workload s)) (ap_parent s) = ap_parent s"
    using assms(2) by (simp add: map_images_id share_containers_def)
  with Nil show ?thesis by (metis apply_loop.simps(1) snd_conv)
next
  case (Cons c cs')
  obtain configs err w where res: "resolve (Some (ap_workload s)) = (configs, err, w)"
    by (cases "resolve (Some (ap_workload s))") auto
  from resolve_rewrites [OF res] obtain f where "w = Some (map_images f (ap_workload s))" by blast
  with Cons res assms(1) show ?thesis
    by (intro exI [of _ f])
      (auto simp: Let_def after_resolve_def loop_parent_unshared split: option.splits sum.splits)
qed

lemma loop_error:
  "apply_loop resolve call cs s = (Some e, s') \<Longrightarrow>
   \<exists>cs1 c cs2 resps w app. cs = cs1 @ c # cs2 \<and>
     applies resolve call (m_Name (pi_Meta (ap_parent s))) (ap_workload s, ap_applied s) cs1 resps (w, app) \<and>
     step_fails resolve call (m_Name (pi_Meta (ap_parent s))) w c e"
proof (induction cs arbitrary: s)
  case (Cons c cs)
  let ?n = "m_Name (pi_Meta (ap_parent s))"
  obtain configs err w where res: "resolve (Some (ap_workload s)) = (configs, err, w)"
    by (cases "resolve (Some (ap_workload s))") auto
  from resolve_rewrites [OF res] obtain t where w: "w = Some t" by blast
  consider (now) "step_fails resolve call ?n (ap_workload s) c e"
    | (later) resp where "err = None" "call c (convention_request ?n c t configs) = Inr resp"
        "apply_loop resolve call cs (after_response c resp (after_resolve w s)) = (Some e, s')"
    using Cons.prems res w by (auto simp: Let_def step_fails_def split: option.splits sum.splits)
  then show ?case
  proof cases
    case later
    from Cons.IH [OF later(3)] obtain cs1 d cs2 resps w' app where split: "cs = cs1 @ d # cs2"
      and run: "applies resolve call ?n (with_receipt (ap_applied s @ named_labels c resp) (pct_Template (pcc_Status resp)),
          ap_applied s @ named_labels c resp) cs1 resps (w', app)"
      and fail: "step_fails resolve call ?n w' d e"
      by auto
    have "applies resolve call ?n (ap_workload s, ap_applied s) (c # cs1) (resp # resps) (w', app)"
      using res later(1,2) w run by (auto intro: applies.step)
    moreover have "c # cs = (c # cs1) @ d # cs2" using split by simp
    ultimately show ?thesis using fail by blast
  next
    case now
    have "c # cs = [] @ c # cs" by simp
    with now applies.finished show ?thesis by blast
  qed
qed simp

end

subsection \<open>The properties of Apply\<close>

lemma apply_start_simps [simp]:
  "ap_workload (apply_start p) = as_core (pi_Template (pi_Spec p))"
  "ap_applied (apply_start p) = applied_history p"
  "ap_parent (apply_start p) = p" "ap_shared (apply_start p)"
  by (simp_all add: apply_start_def)

lemma Conventions_Apply_ok:
  "fst (Conventions_Apply resolve call (Some p) cs) = Inr w \<longleftrightarrow>
     (\<exists>s. apply_loop resolve call cs (apply_start p) = (None, s) \<and> ap_workload s = w)"
  by (auto simp: Conventions_Apply_def split: prod.splits option.splits)

lemma apply_runs:
  assumes "fst (Conventions_Apply (ResolveImageMetadata rl rc) call (Some p) cs) = Inr w"
  obtains resps app where "applies (ResolveImageMetadata rl rc) call (m_Name (pi_Meta p))
      (as_core (pi_Template (pi_Spec p)), applied_history p) cs resps (w, app)"
  using assms registry_resolver.loop_applies [of rl rc call cs "apply_start p"]
  by (auto simp: Conventions_Apply_ok)

lemma Conventions_Apply_iff:
  "fst (Conventions_Apply (ResolveImageMetadata rl rc) (Convention_Apply wl wc) (Some p) cs) = Inr w \<longleftrightarrow>
   (\<exists>resps app. applies (ResolveImageMetadata rl rc) (Convention_Apply wl wc) (m_Name (pi_Meta p))
      (as_core (pi_Template (pi_Spec p)), applied_history p) cs resps (w, app))"
  (is "?ok \<longleftrightarrow> ?runs")
proof
  assume ?ok
  then show ?runs by (rule apply_runs) blast
next
  assume ?runs
  then obtain resps app where "applies (ResolveImageMetadata rl rc) (Convention_Apply wl wc) (m_Name (pi_Meta p))
      (ap_workload (apply_start p), ap_applied (apply_start p)) cs resps (w, app)" by auto
  from registry_resolver.applies_loop [OF this refl] show ?ok
    by (fastforce simp: Conventions_Apply_ok)
qed

text \<open>C1: \<open>Conventions.Apply\<close> refines the abstract run: it returns a workload exactly when the run
  through all the conventions, from the parent's template and recorded history, ends in it.\<close>

theorem apply_refines_run:
  "fst (Conventions_Apply (ResolveImageMetadata rl rc) (Convention_Apply wl wc) (Some p) cs) = Inr w \<longleftrightarrow>
   (\<exists>resps app. applies (ResolveImageMetadata rl rc) (Convention_Apply wl wc) (m_Name (pi_Meta p))
      (as_core (pi_Template (pi_Spec p)), applied_history p) cs resps (w, app))"
  by (rule Conventions_Apply_iff)



text \<open>C32: \<open>Apply\<close> never changes the parent except for the images of its template's containers, which
  the resolver rewrites in place before the first webhook is called.\<close>

theorem apply_parent_frame:
  "\<exists>f. snd (Conventions_Apply (ResolveImageMetadata rl rc) (Convention_Apply wl wc) (Some p) cs) =
     Some (share_containers (map_images f (as_core (pi_Template (pi_Spec p)))) p)"
  using registry_resolver.loop_parent [of "apply_start p" rl rc "Convention_Apply wl wc" cs]
  by (auto simp: Conventions_Apply_def split: prod.splits option.splits)

text \<open>C11: An error of \<open>Apply\<close> is that of the first failing step: the conventions before it ran, and
  then either the images of the workload at that point could not be resolved, or the webhook
  call of that convention failed, and the error names it. Without a parent the error says so.\<close>

theorem apply_error:
  assumes "fst (Conventions_Apply (ResolveImageMetadata rl rc) (Convention_Apply wl wc) parent cs) = Inl e"
  shows "parent = None \<and> e = ErrNilPodIntent \<or>
    (\<exists>p cs1 c cs2 resps w app. parent = Some p \<and> cs = cs1 @ c # cs2 \<and>
       applies (ResolveImageMetadata rl rc) (Convention_Apply wl wc) (m_Name (pi_Meta p))
         (as_core (pi_Template (pi_Spec p)), applied_history p) cs1 resps (w, app) \<and>
       step_fails (ResolveImageMetadata rl rc) (Convention_Apply wl wc) (m_Name (pi_Meta p)) w c e)"
proof (cases parent)
  case None
  with assms show ?thesis by (simp add: Conventions_Apply_def)
next
  case (Some p)
  with assms obtain s where "apply_loop (ResolveImageMetadata rl rc) (Convention_Apply wl wc) cs (apply_start p) = (Some e, s)"
    by (auto simp: Conventions_Apply_def split: prod.splits option.splits)
  from registry_resolver.loop_error [OF this] Some show ?thesis
    by (simp only: apply_start_simps) blast
qed

lemma apply_error_witness:
  "fst (Conventions_Apply (ResolveImageMetadata sample_registry zero_registry_config)
      (Convention_Apply sample_hooks sample_webhook_config) (Some sample_intent) [sample_convention ''a'' NormalPriority]) =
    Inl (ErrFetchMetadata (ErrImages [(''app:1'', ErrKeysNotSet)])) \<and>
   (\<exists>p c w. Some sample_intent = Some p \<and> c = sample_convention ''a'' NormalPriority \<and>
     step_fails (ResolveImageMetadata sample_registry zero_registry_config)
       (Convention_Apply sample_hooks sample_webhook_config) (m_Name (pi_Meta p)) w c
       (ErrFetchMetadata (ErrImages [(''app:1'', ErrKeysNotSet)])))"
proof
  show "fst (Conventions_Apply (ResolveImageMetadata sample_registry zero_registry_config)
      (Convention_Apply sample_hooks sample_webhook_config) (Some sample_intent) [sample_convention ''a'' NormalPriority]) =
    Inl (ErrFetchMetadata (ErrImages [(''app:1'', ErrKeysNotSet)]))"
    by code_simp
  from apply_error [OF this] show "\<exists>p c w. Some sample_intent = Some p \<and> c = sample_convention ''a'' NormalPriority \<and>
     step_fails (ResolveImageMetadata sample_registry zero_registry_config)
       (Convention_Apply sample_hooks sample_webhook_config) (m_Name (pi_Meta p)) w c
       (ErrFetchMetadata (ErrImages [(''app:1'', ErrKeysNotSet)]))"
    by (auto simp: Cons_eq_append_conv)
qed





end
