(* ===== verification/CertificateRequests.thy ===== *)
theory CertificateRequests
  imports ClusterPodConventionApi GoSort
begin

text \<open>
  The cert-manager certificate requests (\<open>pkg/apis/thirdparty/cert-manager/v1/types_certificaterequest.go\<close>)
  and \<open>getCABundle\<close> of \<open>pkg/controllers/podintent_reconciler.go\<close>: the bundle of certificate
  authorities trusted for a convention whose webhook names a cert-manager certificate. Listing the
  requests of a namespace and comparing two timestamps (\<open>metav1.Time.Before\<close>) are parameters.
\<close>

subsection \<open>Types\<close>

type_synonym KeyUsage = string
type_synonym CertificateRequestConditionType = string

definition CertificateRequestConditionReady :: CertificateRequestConditionType where
  "CertificateRequestConditionReady = ''Ready''"
definition CertificateRequestConditionInvalidRequest :: CertificateRequestConditionType where
  "CertificateRequestConditionInvalidRequest = ''InvalidRequest''"
definition CertificateRequestConditionApproved :: CertificateRequestConditionType where
  "CertificateRequestConditionApproved = ''Approved''"
definition CertificateRequestConditionDenied :: CertificateRequestConditionType where
  "CertificateRequestConditionDenied = ''Denied''"

record CertificateRequestCondition =
  crc_Type :: CertificateRequestConditionType
  crc_Status :: cond_status
  crc_LastTransitionTime :: "int option"
  crc_Reason :: string
  crc_Message :: string

record CertificateRequestSpec =
  crsp_Duration :: "int option"
  crsp_IssuerRef :: handle
  crsp_Request :: string
  crsp_IsCA :: bool
  crsp_Usages :: "KeyUsage list"
  crsp_Username :: string
  crsp_UID :: string
  crsp_Groups :: "string list"
  crsp_Extra :: "(string, string list) fmap option"

record CertificateRequestStatus =
  crs_Conditions :: "CertificateRequestCondition list"
  crs_Certificate :: string
  crs_CA :: string
  crs_FailureTime :: "int option"

record CertificateRequest =
  cr_Meta :: MetaObjectMeta
  cr_Spec :: CertificateRequestSpec
  cr_Status :: CertificateRequestStatus

subsection \<open>getCABundle\<close>

type_synonym time_before = "int \<Rightarrow> int \<Rightarrow> bool"

text \<open>Documented: \<open>Before\<close> reports whether an instant is before another.\<close>

definition before_law :: "time_before \<Rightarrow> bool" where
  "before_law before \<longleftrightarrow> (\<forall>a b. before a b \<longleftrightarrow> a < b)"

fun ready_found :: "CertificateRequestCondition list \<Rightarrow> bool \<Rightarrow> bool" where
  "ready_found [] found = found"
| "ready_found (c # cs) found =
     ready_found cs (if crc_Type c = CertificateRequestConditionReady \<and> crc_Status c = CondTrue
       then True else found)"

fun usable_requests :: "WebhookCertificate \<Rightarrow> CertificateRequest list \<Rightarrow> CertificateRequest list" where
  "usable_requests certRef [] = []"
| "usable_requests certRef (certReq # rest) =
     (if m_Annotations (cr_Meta certReq) = None \<or>
         map_get (m_Annotations (cr_Meta certReq)) ''cert-manager.io/certificate-name'' \<noteq> wcert_Name certRef
      then usable_requests certRef rest
      else if length (crs_CA (cr_Status certReq)) = 0 then usable_requests certRef rest
      else if \<not> ready_found (crs_Conditions (cr_Status certReq)) False then usable_requests certRef rest
      else certReq # usable_requests certRef rest)"

definition newer :: "time_before \<Rightarrow> CertificateRequest \<Rightarrow> CertificateRequest \<Rightarrow> bool" where
  "newer before a b = before (m_CreationTimestamp (cr_Meta b)) (m_CreationTimestamp (cr_Meta a))"

fun write_first :: "nat \<Rightarrow> CertificateRequest list \<Rightarrow> string \<Rightarrow> string" where
  "write_first i [] caData = caData"
| "write_first i (certReq # rest) caData =
     (if i \<ge> 3 then write_first (Suc i) rest caData
      else write_first (Suc i) rest (caData @ crs_CA (cr_Status certReq)))"

definition getCABundle :: "(string \<Rightarrow> CertificateRequest list result) \<Rightarrow> time_before \<Rightarrow>
    WebhookCertificate \<Rightarrow> string \<Rightarrow> string result" where
  "getCABundle list_requests before certRef conventionName =
     (case list_requests (wcert_Namespace certRef) of
        Inl err \<Rightarrow> Inl (ErrListCertReqs (wcert_Namespace certRef) err)
      | Inr allCertReqs \<Rightarrow>
          let certReqs = usable_requests certRef allCertReqs in
          if certReqs = []
          then Inl (ErrNoCertReqs (wcert_Namespace certRef @ ''/'' @ wcert_Name certRef) conventionName)
          else Inr (write_first 0 (sort_slice (newer before) certReqs) []))"

subsection \<open>What the bundle holds\<close>

definition request_usable :: "WebhookCertificate \<Rightarrow> CertificateRequest \<Rightarrow> bool" where
  "request_usable certRef r \<longleftrightarrow> m_Annotations (cr_Meta r) \<noteq> None \<and>
     map_get (m_Annotations (cr_Meta r)) ''cert-manager.io/certificate-name'' = wcert_Name certRef \<and>
     crs_CA (cr_Status r) \<noteq> [] \<and>
     (\<exists>c \<in> set (crs_Conditions (cr_Status r)).
        crc_Type c = CertificateRequestConditionReady \<and> crc_Status c = CondTrue)"

lemma ready_found_iff: "ready_found cs found \<longleftrightarrow> found \<or>
    (\<exists>c \<in> set cs. crc_Type c = CertificateRequestConditionReady \<and> crc_Status c = CondTrue)"
  by (induction cs arbitrary: found) auto

lemma usable_requests_eq: "usable_requests certRef rs = filter (request_usable certRef) rs"
  by (induction rs) (auto simp: request_usable_def ready_found_iff)

lemma write_first_eq:
  "write_first i rs acc = acc @ concat (map (\<lambda>r. crs_CA (cr_Status r)) (take (3 - i) rs))"
proof (induction i rs acc rule: write_first.induct)
  case (2 i certReq rest caData)
  show ?case
  proof (cases "i \<ge> 3")
    case False
    then have "3 - i = Suc (3 - Suc i)" by simp
    with False 2 show ?thesis by simp
  qed (use 2 in simp)
qed simp

interpretation newest_first: slice_order "newer (<)" "\<lambda>_. True"
  by unfold_locales (auto simp: newer_def)

definition distinct_times :: "CertificateRequest list \<Rightarrow> bool" where
  "distinct_times rs \<longleftrightarrow> (\<forall>a \<in> set rs. \<forall>b \<in> set rs.
     m_CreationTimestamp (cr_Meta a) = m_CreationTimestamp (cr_Meta b) \<longrightarrow> a = b)"

lemma before_law_eq: "before_law before \<Longrightarrow> newer before = newer (<)"
  by (simp add: before_law_def newer_def fun_eq_iff)

text \<open>Concrete values for the examples below.\<close>

definition sample_request :: "int \<Rightarrow> string \<Rightarrow> CertificateRequest" where
  "sample_request created ca = \<lparr>cr_Meta = zero_meta\<lparr>m_CreationTimestamp := created,
       m_Annotations := Some (fmupd ''cert-manager.io/certificate-name'' ''cert'' fmempty)\<rparr>,
     cr_Spec = \<lparr>crsp_Duration = None, crsp_IssuerRef = [], crsp_Request = [], crsp_IsCA = False, crsp_Usages = [],
       crsp_Username = [], crsp_UID = [], crsp_Groups = [], crsp_Extra = None\<rparr>,
     cr_Status = \<lparr>crs_Conditions = [\<lparr>crc_Type = CertificateRequestConditionReady, crc_Status = CondTrue,
         crc_LastTransitionTime = None, crc_Reason = [], crc_Message = []\<rparr>],
       crs_Certificate = [], crs_CA = ca, crs_FailureTime = None\<rparr>\<rparr>"

definition sample_requests :: "CertificateRequest list" where
  "sample_requests = [sample_request 2 ''b'', sample_request 4 ''d'', sample_request 1 ''a'', sample_request 3 ''c'']"

definition sample_certificate :: WebhookCertificate where
  "sample_certificate = \<lparr>wcert_Namespace = ''ns'', wcert_Name = ''cert''\<rparr>"

lemma before_law_less: "before_law (<)"
  by (simp add: before_law_def)

text \<open>C18: The bundle is the concatenation of the authorities of the (at most) three most recent
  certificate requests that are annotated with the certificate's name, carry an authority and are
  ready, the most recent first; without such a request, or when listing fails, an error is
  returned.\<close>

theorem ca_bundle_correct:
  assumes "before_law before"
  shows "case getCABundle list_requests before certRef name of
      Inl e \<Rightarrow> (\<exists>err. list_requests (wcert_Namespace certRef) = Inl err \<and> e = ErrListCertReqs (wcert_Namespace certRef) err) \<or>
        (\<exists>rs. list_requests (wcert_Namespace certRef) = Inr rs \<and> (\<forall>r \<in> set rs. \<not> request_usable certRef r) \<and>
           e = ErrNoCertReqs (wcert_Namespace certRef @ ''/'' @ wcert_Name certRef) name)
    | Inr bundle \<Rightarrow> \<exists>rs sorted_rs. list_requests (wcert_Namespace certRef) = Inr rs \<and>
        mset sorted_rs = mset (filter (request_usable certRef) rs) \<and>
        sorted_wrt (\<lambda>a b. m_CreationTimestamp (cr_Meta b) \<le> m_CreationTimestamp (cr_Meta a)) sorted_rs \<and>
        sorted_rs \<noteq> [] \<and> bundle = concat (map (\<lambda>r. crs_CA (cr_Status r)) (take 3 sorted_rs))"
proof (cases "list_requests (wcert_Namespace certRef)")
  case (Inr rs)
  let ?usable = "filter (request_usable certRef) rs"
  let ?sorted = "sort_slice (newer (<)) ?usable"
  have sorted: "sorted_wrt (\<lambda>a b. m_CreationTimestamp (cr_Meta b) \<le> m_CreationTimestamp (cr_Meta a)) ?sorted"
    using newest_first.sort_slice_sorted [of ?usable] by (simp add: sorted_by_def newer_def not_less)
  have ne: "?sorted \<noteq> []" if "?usable \<noteq> []"
    using that by (metis length_0_conv length_sort_slice)
  show ?thesis
  proof (cases "?usable = []")
    case True
    with Inr show ?thesis
      by (simp add: getCABundle_def usable_requests_eq filter_empty_conv)
  next
    case False
    with Inr sorted ne [OF False] show ?thesis
      by (simp add: getCABundle_def usable_requests_eq before_law_eq [OF assms] write_first_eq Let_def del: filter_empty_conv)
        (metis mset_filter mset_sort_slice)
  qed
qed (simp add: getCABundle_def)

lemma ca_bundle_correct_witness:
  "getCABundle (\<lambda>_. Inr sample_requests) (<) sample_certificate ''x'' = Inr ''dcb'' \<and>
   (\<exists>sorted_rs. mset sorted_rs = mset (filter (request_usable sample_certificate) sample_requests) \<and>
      ''dcb'' = concat (map (\<lambda>r. crs_CA (cr_Status r)) (take 3 sorted_rs)))"
proof
  show eq: "getCABundle (\<lambda>_. Inr sample_requests) (<) sample_certificate ''x'' = Inr ''dcb''"
    by code_simp
  show "\<exists>sorted_rs. mset sorted_rs = mset (filter (request_usable sample_certificate) sample_requests) \<and>
      ''dcb'' = concat (map (\<lambda>r. crs_CA (cr_Status r)) (take 3 sorted_rs))"
    using ca_bundle_correct [OF before_law_less, of "\<lambda>_. Inr sample_requests" sample_certificate "''x''"]
    by (auto simp: eq)
qed

text \<open>When the usable requests were created at different times the bundle does not depend on the
  order in which the API server lists the requests, nor on the sorting algorithm: any permutation
  of the usable requests with the newest first gives it.\<close>

lemma ca_bundle_deterministic:
  assumes "before_law before" and "list_requests (wcert_Namespace certRef) = Inr rs"
    and "distinct_times rs" and "mset out = mset (filter (request_usable certRef) rs)"
    and "sorted_by (newer before) out" and "out \<noteq> []"
  shows "getCABundle list_requests before certRef name =
    Inr (concat (map (\<lambda>r. crs_CA (cr_Status r)) (take 3 out)))"
proof -
  let ?usable = "filter (request_usable certRef) rs"
  have "out = sort_slice (newer (<)) ?usable"
  proof (rule newest_first.any_sort_agrees [OF _ _ assms(4)])
    fix x y assume "x \<in> set ?usable" "y \<in> set ?usable" "\<not> newer (<) x y" "\<not> newer (<) y x"
    with assms(3) show "x = y" by (auto simp: newer_def distinct_times_def)
  qed (use assms(1,5) in \<open>simp_all add: before_law_eq\<close>)
  moreover from this assms(6) have "?usable \<noteq> []" by auto
  ultimately show ?thesis
    using assms(2)
    by (simp add: getCABundle_def usable_requests_eq before_law_eq [OF assms(1)] write_first_eq Let_def)
qed

lemma ca_bundle_deterministic_witness:
  "getCABundle (\<lambda>_. Inr sample_requests) (<) sample_certificate ''x'' = Inr ''dcb''"
proof -
  let ?out = "[sample_request 4 ''d'', sample_request 3 ''c'', sample_request 2 ''b'', sample_request 1 ''a'']"
  have usable: "filter (request_usable sample_certificate) sample_requests = sample_requests"
    by (simp add: sample_requests_def request_usable_def sample_request_def sample_certificate_def map_get_def
        CertificateRequestConditionReady_def)
  have "mset ?out = mset (filter (request_usable sample_certificate) sample_requests)"
    by (simp add: usable) (simp add: sample_requests_def)
  then have "getCABundle (\<lambda>_. Inr sample_requests) (<) sample_certificate ''x'' =
      Inr (concat (map (\<lambda>r. crs_CA (cr_Status r)) (take 3 ?out)))"
    by (intro ca_bundle_deterministic [OF before_law_less refl])
      (simp_all add: distinct_times_def sample_requests_def sorted_by_def newer_def, simp_all add: sample_request_def)
  then show ?thesis by (simp add: sample_request_def)
qed

end
