(* ===== verification/Reconciler.thy ===== *)
theory Reconciler
  imports Conventions CertificateRequests
begin

text \<open>
  \<open>pkg/controllers/podintent_reconciler.go\<close>: one pass of the \<open>PodIntent\<close> controller. Three
  sub-reconcilers run in sequence over a state: the parent \<open>PodIntent\<close> in memory, the stash the
  framework carries in its context and the references the tracker was given. \<open>ResolveConventions\<close>
  lists the conventions, \<open>BuildRegistryConfig\<close> authenticates against the registry and
  \<open>ApplyConventions\<close> selects, orders and applies the conventions and writes the status. A
  sub-reconciler returns an error or whether the intent is to be requeued.

  Parameters: the API client, the keychain of k8schain and the clock comparison (\<open>kube_lib\<close>), the
  condition set, the selector library, the registry and webhook libraries, and the sequence of the
  reconciler framework, whose documented behaviour is \<open>sequence_law\<close>.
\<close>

subsection \<open>State and libraries\<close>

record Reference =
  tr_Kind :: string
  tr_APIGroup :: string
  tr_Namespace :: string
  tr_Name :: string

datatype stash_value = StashedConventions "Convention list" | StashedRegistry RegistryConfig

record rec_state =
  rs_parent :: PodIntent
  rs_stash :: "(string, stash_value) fmap"
  rs_tracked :: "Reference list"

record ServiceAccount =
  sa_ImagePullSecrets :: "string list"

record kube_lib =
  kl_ListConventions :: "ClusterPodConvention list result"
  kl_ListCertificateRequests :: "string \<Rightarrow> CertificateRequest list result"
  kl_Before :: time_before
  kl_K8sChain :: "handle \<Rightarrow> string \<Rightarrow> string \<Rightarrow> string list \<Rightarrow> handle result"
  kl_GetServiceAccount :: "string \<Rightarrow> string \<Rightarrow> ServiceAccount result"

type_synonym sub_reconciler_fn = "rec_state \<Rightarrow> bool result \<times> rec_state"

definition secret_ref :: "string \<Rightarrow> string \<Rightarrow> Reference" where
  "secret_ref ns name = \<lparr>tr_Kind = ''Secret'', tr_APIGroup = [], tr_Namespace = ns, tr_Name = name\<rparr>"

definition service_account_ref :: "string \<Rightarrow> string \<Rightarrow> Reference" where
  "service_account_ref ns name =
     \<lparr>tr_Kind = ''ServiceAccount'', tr_APIGroup = [], tr_Namespace = ns, tr_Name = name\<rparr>"

subsection \<open>The stash\<close>

definition ConventionsStashKey :: string where
  "ConventionsStashKey = ''conventions.carto.run/Conventions''"

definition RegistryConfigKey :: string where
  "RegistryConfigKey = ''conventions.carto.run/RegistryConfig''"

definition StashConventions :: "Convention list \<Rightarrow> rec_state \<Rightarrow> rec_state" where
  "StashConventions conventions s =
     s\<lparr>rs_stash := fmupd ConventionsStashKey (StashedConventions conventions) (rs_stash s)\<rparr>"

definition RetrieveConventions :: "rec_state \<Rightarrow> Convention list" where
  "RetrieveConventions s = (case fmlookup (rs_stash s) ConventionsStashKey of
     Some (StashedConventions conventions) \<Rightarrow> conventions | _ \<Rightarrow> [])"

definition StashRegistryConfig :: "RegistryConfig \<Rightarrow> rec_state \<Rightarrow> rec_state" where
  "StashRegistryConfig rc s =
     s\<lparr>rs_stash := fmupd RegistryConfigKey (StashedRegistry rc) (rs_stash s)\<rparr>"

definition RetrieveRegistryConfig :: "rec_state \<Rightarrow> RegistryConfig" where
  "RetrieveRegistryConfig s = (case fmlookup (rs_stash s) RegistryConfigKey of
     Some (StashedRegistry rc) \<Rightarrow> rc | _ \<Rightarrow> zero_registry_config)"

lemma stash_keys [simp]: "ConventionsStashKey \<noteq> RegistryConfigKey" "RegistryConfigKey \<noteq> ConventionsStashKey"
  by (simp_all add: ConventionsStashKey_def RegistryConfigKey_def)

lemma stash_simps [simp]:
  "RetrieveConventions (StashConventions cs s) = cs"
  "RetrieveConventions (StashRegistryConfig rc s) = RetrieveConventions s"
  "RetrieveRegistryConfig (StashRegistryConfig rc s) = rc"
  "RetrieveRegistryConfig (StashConventions cs s) = RetrieveRegistryConfig s"
  "rs_parent (StashConventions cs s) = rs_parent s"
  "rs_parent (StashRegistryConfig rc s) = rs_parent s"
  "rs_tracked (StashConventions cs s) = rs_tracked s"
  "rs_tracked (StashRegistryConfig rc s) = rs_tracked s"
  by (simp_all add: StashConventions_def RetrieveConventions_def StashRegistryConfig_def RetrieveRegistryConfig_def)

subsection \<open>Conditions of the parent\<close>

definition mark_false :: "cond_set_lib \<Rightarrow> string \<Rightarrow> cond_message \<Rightarrow> rec_state \<Rightarrow> rec_state" where
  "mark_false lib reason msg s = s\<lparr>rs_parent := (rs_parent s)\<lparr>pi_Status := (pi_Status (rs_parent s))
     \<lparr>st_Conditions := cm_MarkFalse (GetConditionSet lib (rs_parent s)) PodIntentConditionConventionsApplied
        reason msg (st_Conditions (pi_Status (rs_parent s)))\<rparr>\<rparr>\<rparr>"

definition mark_true :: "cond_set_lib \<Rightarrow> string \<Rightarrow> cond_message \<Rightarrow> rec_state \<Rightarrow> rec_state" where
  "mark_true lib reason msg s = s\<lparr>rs_parent := (rs_parent s)\<lparr>pi_Status := (pi_Status (rs_parent s))
     \<lparr>st_Conditions := cm_MarkTrue (GetConditionSet lib (rs_parent s)) PodIntentConditionConventionsApplied
        reason msg (st_Conditions (pi_Status (rs_parent s)))\<rparr>\<rparr>\<rparr>"

subsection \<open>ResolveConventions\<close>

definition convention_of_source :: "kube_lib \<Rightarrow> ClusterPodConvention \<Rightarrow> Convention result" where
  "convention_of_source kl item =
     (let source = item\<lparr>cpc_Spec := ClusterPodConventionSpec_Default (cpc_Spec item)\<rparr>;
          convention = \<lparr>conv_Name = m_Name (cpc_Meta source), conv_SelectorTarget = [],
            conv_Selectors = cs_Selectors (cpc_Spec source), conv_Priority = cs_Priority (cpc_Spec source),
            conv_ClientConfig = zero_client_config\<rparr>
      in case cs_Webhook (cpc_Spec source) of
           None \<Rightarrow> Inr convention
         | Some webhook \<Rightarrow>
             (case cw_Certificate webhook of
                None \<Rightarrow> Inr (convention\<lparr>conv_ClientConfig := cw_ClientConfig webhook\<rparr>)
              | Some certificate \<Rightarrow>
                  (case getCABundle (kl_ListCertificateRequests kl) (kl_Before kl) certificate (m_Name (cpc_Meta source)) of
                     Inl err \<Rightarrow> Inl err
                   | Inr caBundle \<Rightarrow> Inr (convention\<lparr>conv_ClientConfig :=
                       (cw_ClientConfig webhook)\<lparr>wc_CABundle := caBundle\<rparr>\<rparr>))))"

fun build_conventions :: "kube_lib \<Rightarrow> Convention list \<Rightarrow> ClusterPodConvention list \<Rightarrow> Convention list result" where
  "build_conventions kl conventions [] = Inr conventions"
| "build_conventions kl conventions (item # items) =
     (case convention_of_source kl item of
        Inl err \<Rightarrow> Inl err
      | Inr convention \<Rightarrow> build_conventions kl (conventions @ [convention]) items)"

definition ResolveConventions :: "cond_set_lib \<Rightarrow> kube_lib \<Rightarrow> sub_reconciler_fn" where
  "ResolveConventions lib kl s =
     (case kl_ListConventions kl of
        Inl err \<Rightarrow> (Inl err, s)
      | Inr items \<Rightarrow>
          (case build_conventions kl [] items of
             Inl err \<Rightarrow> (Inr False, mark_false lib ''CABundleResolutionFailed'' (FailedToAuthenticate err) s)
           | Inr conventions \<Rightarrow> (Inr False, StashConventions conventions s)))"

subsection \<open>BuildRegistryConfig\<close>

definition track :: "Reference list \<Rightarrow> rec_state \<Rightarrow> rec_state" where
  "track refs s = s\<lparr>rs_tracked := rs_tracked s @ refs\<rparr>"

definition default_parent :: "rec_state \<Rightarrow> rec_state" where
  "default_parent s = s\<lparr>rs_parent := (rs_parent s)\<lparr>pi_Spec := PodIntentSpec_Default (pi_Spec (rs_parent s))\<rparr>\<rparr>"

definition BuildRegistryConfig :: "cond_set_lib \<Rightarrow> kube_lib \<Rightarrow> RegistryConfig \<Rightarrow> sub_reconciler_fn" where
  "BuildRegistryConfig lib kl rc s0 =
     (case rc_Client rc of
        None \<Rightarrow> (Inl ErrClientNotSet, s0)
      | Some client \<Rightarrow>
          let ns = m_Namespace (pi_Meta (rs_parent s0));
              imagePullSecrets = pi_ImagePullSecrets (pi_Spec (rs_parent s0));
              s1 = default_parent (track (map (secret_ref ns) imagePullSecrets) s0);
              serviceAccountName = pi_ServiceAccountName (pi_Spec (rs_parent s1))
          in case kl_K8sChain kl client ns serviceAccountName imagePullSecrets of
               Inl err \<Rightarrow> (Inr False, mark_false lib ''ImageResolutionFailed'' (FailedToAuthenticate err) s1)
             | Inr kc \<Rightarrow>
                 let s2 = track [service_account_ref ns serviceAccountName] s1 in
                 (case kl_GetServiceAccount kl ns serviceAccountName of
                    Inl err \<Rightarrow> (Inr False, mark_false lib ''ImageResolutionFailed'' (FailedToAuthenticate err) s2)
                  | Inr sa \<Rightarrow> (Inr False, StashRegistryConfig
                      \<lparr>rc_Keys = Some kc, rc_Cache = rc_Cache rc, rc_Client = rc_Client rc, rc_CACertPath = rc_CACertPath rc\<rparr>
                      (track (map (secret_ref ns) (sa_ImagePullSecrets sa)) s2))))"

subsection \<open>ApplyConventions\<close>

definition podIntentLabelsKey :: string where "podIntentLabelsKey = ''PodIntent''"
definition podTemplateLabelsKey :: string where "podTemplateLabelsKey = ''PodTemplateSpec''"

definition collected_labels_of :: "PodIntent \<Rightarrow> collected_labels" where
  "collected_labels_of p =
     fmupd podTemplateLabelsKey (om_Labels (pt_Meta (pi_Template (pi_Spec p))))
       (fmupd podIntentLabelsKey (m_Labels (pi_Meta p)) fmempty)"

definition init_annotations :: "PodIntent \<Rightarrow> PodIntent" where
  "init_annotations p = p\<lparr>pi_Spec := (pi_Spec p)\<lparr>pi_Template := (pi_Template (pi_Spec p))
     \<lparr>pt_Meta := (pt_Meta (pi_Template (pi_Spec p)))
        \<lparr>om_Annotations := map_init (om_Annotations (pt_Meta (pi_Template (pi_Spec p))))\<rparr>\<rparr>\<rparr>\<rparr>"

definition set_status_template :: "PodTemplateSpec \<Rightarrow> rec_state \<Rightarrow> rec_state" where
  "set_status_template t s = s\<lparr>rs_parent := (rs_parent s)\<lparr>pi_Status := (pi_Status (rs_parent s))
     \<lparr>st_Template := Some t\<rparr>\<rparr>\<rparr>"

definition ApplyConventions :: "cond_set_lib \<Rightarrow> selector_lib \<Rightarrow> registry_lib \<Rightarrow> webhook_lib \<Rightarrow>
    WebhookConfig \<Rightarrow> sub_reconciler_fn" where
  "ApplyConventions lib as_selector rl wl wc s =
     (let sources = RetrieveConventions s;
          cond = condition_of lib (rs_parent s) PodIntentConditionConventionsApplied
      in if cond = None \<or> map_option cond_Status cond = Some CondFalse then (Inr False, s)
         else case Conventions_FilterAndSort as_selector (collected_labels_of (rs_parent s)) sources of
             Inl err \<Rightarrow> (Inr False, mark_false lib ''LabelSelector'' (FilteringFailed err) s)
           | Inr conventions \<Rightarrow>
               (case Conventions_Apply (ResolveImageMetadata rl (RetrieveRegistryConfig s)) (Convention_Apply wl wc)
                       (Some (init_annotations (rs_parent s))) conventions of
                  (res, parent) \<Rightarrow>
                    let s1 = (case parent of None \<Rightarrow> s | Some p \<Rightarrow> s\<lparr>rs_parent := p\<rparr>) in
                    (case res of
                       Inl err \<Rightarrow> (Inr True, mark_false lib ''ConventionsApplied'' (ErrorText err) s1)
                     | Inr updatedWorkload \<Rightarrow>
                         (Inr False, mark_true lib ''Applied'' NoMessage
                           (set_status_template (NewPodTemplateSpec updatedWorkload) s1)))))"

subsection \<open>The controller\<close>

type_synonym sequence_fn = "sub_reconciler_fn list \<Rightarrow> sub_reconciler_fn"

text \<open>
  Documented: the sub-reconcilers are called in order, an error skips the rest, and the result asks
  for a requeue when one of the results does. \<open>then_do\<close> is that composition for one step.
\<close>

definition then_do :: "sub_reconciler_fn \<Rightarrow> sub_reconciler_fn \<Rightarrow> sub_reconciler_fn" where
  "then_do r rest s = (case r s of
     (Inl e, s1) \<Rightarrow> (Inl e, s1)
   | (Inr q, s1) \<Rightarrow> (case rest s1 of (Inl e, s2) \<Rightarrow> (Inl e, s2) | (Inr q', s2) \<Rightarrow> (Inr (q \<or> q'), s2)))"

definition all_done :: sub_reconciler_fn where
  "all_done s = (Inr False, s)"

definition sequence_law :: "sequence_fn \<Rightarrow> bool" where
  "sequence_law sq \<longleftrightarrow> sq [] = all_done \<and> (\<forall>r rs. sq (r # rs) = then_do r (sq rs))"

definition PodIntentReconciler :: "sequence_fn \<Rightarrow> cond_set_lib \<Rightarrow> kube_lib \<Rightarrow> selector_lib \<Rightarrow> registry_lib \<Rightarrow>
    webhook_lib \<Rightarrow> WebhookConfig \<Rightarrow> RegistryConfig \<Rightarrow> sub_reconciler_fn" where
  "PodIntentReconciler sq lib kl as_selector rl wl wc rc =
     sq [ResolveConventions lib kl, BuildRegistryConfig lib kl rc, ApplyConventions lib as_selector rl wl wc]"

definition splitNamespacedName :: "string \<Rightarrow> string \<times> string" where
  "splitNamespacedName nameStr =
     (if CHR ''/'' \<notin> set nameStr then ([], nameStr)
      else (takeWhile (\<lambda>c. c \<noteq> CHR ''/'') nameStr, tl (dropWhile (\<lambda>c. c \<noteq> CHR ''/'') nameStr)))"

subsection \<open>The contract of a sub-reconciler\<close>

text \<open>The conditions a pass reads and writes.\<close>

definition applied_status :: "cond_set_lib \<Rightarrow> rec_state \<Rightarrow> cond_status option" where
  "applied_status lib s = map_option cond_Status (condition_of lib (rs_parent s) PodIntentConditionConventionsApplied)"

definition ready_status :: "cond_set_lib \<Rightarrow> rec_state \<Rightarrow> cond_status option" where
  "ready_status lib s = map_option cond_Status (condition_of lib (rs_parent s) PodIntentConditionReady)"

definition status_template :: "rec_state \<Rightarrow> PodTemplateSpec option" where
  "status_template s = st_Template (pi_Status (rs_parent s))"

lemma mark_simps [simp]:
  "pi_Meta (rs_parent (mark_false lib r m s)) = pi_Meta (rs_parent s)"
  "pi_Meta (rs_parent (mark_true lib r m s)) = pi_Meta (rs_parent s)"
  "pi_Spec (rs_parent (mark_false lib r m s)) = pi_Spec (rs_parent s)"
  "pi_Spec (rs_parent (mark_true lib r m s)) = pi_Spec (rs_parent s)"
  "rs_tracked (mark_false lib r m s) = rs_tracked s"
  "rs_tracked (mark_true lib r m s) = rs_tracked s"
  "rs_stash (mark_false lib r m s) = rs_stash s"
  "status_template (mark_false lib r m s) = status_template s"
  "status_template (mark_true lib r m s) = status_template s"
  "status_template (set_status_template t s) = Some t"
  "pi_Meta (rs_parent (set_status_template t s)) = pi_Meta (rs_parent s)"
  "rs_tracked (set_status_template t s) = rs_tracked s"
  by (simp_all add: mark_false_def mark_true_def status_template_def set_status_template_def)

lemma mark_false_condition:
  "cond_set_law lib \<Longrightarrow> condition_of lib (rs_parent (mark_false lib r m s)) PodIntentConditionConventionsApplied =
     Some \<lparr>cond_Type = PodIntentConditionConventionsApplied, cond_Status = CondFalse, cond_Reason = r, cond_Message = m\<rparr>"
  using applied_not_ready
  by (auto simp: cond_set_law_def condition_of_def mark_false_def GetConditionSet_def podintentCondSet_def Let_def)

lemma mark_false_status:
  "cond_set_law lib \<Longrightarrow> applied_status lib (mark_false lib r m s) = Some CondFalse"
  "cond_set_law lib \<Longrightarrow> ready_status lib (mark_false lib r m s) = Some CondFalse"
  using applied_not_ready
  by (auto simp: cond_set_law_def condition_of_def mark_false_def GetConditionSet_def podintentCondSet_def
      applied_status_def ready_status_def PodIntentConditionReady_def Let_def)

lemma mark_true_status:
  "cond_set_law lib \<Longrightarrow> applied_status lib (mark_true lib r m s) = Some CondTrue"
  "cond_set_law lib \<Longrightarrow> ready_status lib (mark_true lib r m s) = Some CondTrue"
  using applied_not_ready
  by (auto simp: cond_set_law_def condition_of_def mark_true_def GetConditionSet_def podintentCondSet_def
      applied_status_def ready_status_def PodIntentConditionReady_def Let_def)

text \<open>
  What each step of a pass promises to the next: it keeps the metadata, only adds tracked
  references, never turns a failed condition of this pass back, and writes the template of the
  status only together with a true condition.
\<close>

locale pass_step =
  fixes lib :: cond_set_lib and r :: sub_reconciler_fn
  assumes step_meta: "pi_Meta (rs_parent (snd (r s))) = pi_Meta (rs_parent s)"
    and step_tracks: "\<exists>refs. rs_tracked (snd (r s)) = rs_tracked s @ refs"
    and step_failed: "cond_set_law lib \<Longrightarrow> applied_status lib s = Some CondFalse \<Longrightarrow>
           applied_status lib (snd (r s)) = Some CondFalse"
    and step_template: "cond_set_law lib \<Longrightarrow>
           status_template (snd (r s)) = status_template s \<or>
           applied_status lib (snd (r s)) = Some CondTrue \<and> ready_status lib (snd (r s)) = Some CondTrue"
begin

lemma step_failed_template:
  "cond_set_law lib \<Longrightarrow> applied_status lib s = Some CondFalse \<Longrightarrow> status_template (snd (r s)) = status_template s"
  using step_failed [of s] step_template [of s] by auto

end

text \<open>The contract is closed under sequencing, provided the later step leaves a true condition alone
  or fails it without touching the template.\<close>

locale pass_steps = first_step: pass_step lib r + last_step: pass_step lib rest for lib r rest +
  assumes first_keeps: "status_template (snd (r s)) = status_template s"
begin

lemma then_do_cases:
  "snd (then_do r rest s) = snd (r s) \<or> snd (then_do r rest s) = snd (rest (snd (r s)))"
  by (auto simp: then_do_def split: prod.splits sum.splits)

lemma then_do_meta: "pi_Meta (rs_parent (snd (then_do r rest s))) = pi_Meta (rs_parent s)"
  using then_do_cases [of s] first_step.step_meta last_step.step_meta by metis

lemma then_do_tracks: "\<exists>refs. rs_tracked (snd (then_do r rest s)) = rs_tracked s @ refs"
  using then_do_cases [of s] first_step.step_tracks last_step.step_tracks by (metis append.assoc)

lemma then_do_failed:
  "cond_set_law lib \<Longrightarrow> applied_status lib s = Some CondFalse \<Longrightarrow>
   applied_status lib (snd (then_do r rest s)) = Some CondFalse"
  using then_do_cases [of s] first_step.step_failed last_step.step_failed by metis

lemma then_do_template:
  "cond_set_law lib \<Longrightarrow> status_template (snd (then_do r rest s)) = status_template s \<or>
     applied_status lib (snd (then_do r rest s)) = Some CondTrue \<and>
     ready_status lib (snd (then_do r rest s)) = Some CondTrue"
  using then_do_cases [of s] first_keeps last_step.step_template by metis

end

sublocale pass_steps \<subseteq> whole: pass_step lib "then_do r rest"
  by unfold_locales (simp_all add: then_do_meta then_do_tracks then_do_failed then_do_template)

lemma step_simps [simp]:
  "rs_parent (track refs s) = rs_parent s" "rs_tracked (track refs s) = rs_tracked s @ refs"
  "pi_Meta (rs_parent (default_parent s)) = pi_Meta (rs_parent s)"
  "pi_Status (rs_parent (default_parent s)) = pi_Status (rs_parent s)"
  "rs_tracked (default_parent s) = rs_tracked s"
  "rs_stash (track refs s) = rs_stash s" "rs_stash (default_parent s) = rs_stash s"
  by (simp_all add: track_def default_parent_def)

lemma status_cong:
  "pi_Status (rs_parent s) = pi_Status (rs_parent s') \<Longrightarrow> applied_status lib s = applied_status lib s'"
  "pi_Status (rs_parent s) = pi_Status (rs_parent s') \<Longrightarrow> status_template s = status_template s'"
  by (simp_all add: applied_status_def condition_of_def status_template_def)

subsection \<open>ResolveConventions, specified\<close>

lemma convention_of_source_target:
  "convention_of_source kl item = Inr c \<Longrightarrow> conv_SelectorTarget c = []"
  by (auto simp: convention_of_source_def Let_def split: option.splits sum.splits)

lemma convention_of_source_fields:
  "convention_of_source kl item = Inr c \<Longrightarrow>
   conv_Name c = m_Name (cpc_Meta item) \<and> conv_Selectors c = cs_Selectors (cpc_Spec item) \<and>
   conv_Priority c = (if cs_Priority (cpc_Spec item) = [] then NormalPriority else cs_Priority (cpc_Spec item))"
  by (auto simp: convention_of_source_def Let_def split: option.splits sum.splits)

fun resolve_errors :: "kube_lib \<Rightarrow> ClusterPodConvention list \<Rightarrow> go_error list" where
  "resolve_errors kl [] = []"
| "resolve_errors kl (item # items) = (case convention_of_source kl item of
     Inl e \<Rightarrow> e # resolve_errors kl items | Inr _ \<Rightarrow> resolve_errors kl items)"

lemma build_conventions_eq:
  "build_conventions kl acc items = (case resolve_errors kl items of
     e # _ \<Rightarrow> Inl e | [] \<Rightarrow> Inr (acc @ map (projr \<circ> convention_of_source kl) items))"
proof (induction kl acc items rule: build_conventions.induct)
  case (2 kl conventions item items)
  then show ?case
    by (cases "convention_of_source kl item") (simp_all split: list.split)
qed simp

lemma resolve_errors_Nil:
  "resolve_errors kl items = [] \<longleftrightarrow> (\<forall>i \<in> set items. is_ok (convention_of_source kl i))"
  by (induction items) (auto split: sum.splits)

lemma build_conventions_sources:
  assumes "build_conventions kl [] items = Inr cs"
  shows "map Inr cs = map (convention_of_source kl) items"
proof -
  have "\<forall>i \<in> set items. is_ok (convention_of_source kl i)"
    and "cs = map (projr \<circ> convention_of_source kl) items"
    using assms by (auto simp: build_conventions_eq simp flip: resolve_errors_Nil split: list.splits)
  then show ?thesis by (induction items arbitrary: cs) (auto simp: is_ok_iff)
qed

lemma build_conventions_mem:
  "build_conventions kl [] items = Inr cs \<Longrightarrow> c \<in> set cs \<Longrightarrow> \<exists>i \<in> set items. convention_of_source kl i = Inr c"
  by (metis build_conventions_sources image_iff list.set_map image_eqI)

lemma filter_labels_cong:
  "\<forall>c \<in> set cs. labels_at col (conv_SelectorTarget c) = labels_at col' (conv_SelectorTarget c) \<Longrightarrow>
   Conventions_Filter f col cs = Conventions_Filter f col' cs"
  by (induction cs) (simp_all add: Let_def cong: sum.case_cong)

text \<open>Concrete values for the examples below.\<close>

definition plain_sequence :: sequence_fn where
  "plain_sequence rs = foldr then_do rs all_done"

lemma plain_sequence_law: "sequence_law plain_sequence"
  by (simp add: sequence_law_def plain_sequence_def)

definition sample_kube :: kube_lib where
  "sample_kube = \<lparr>kl_ListConventions = Inr [sample_source], kl_ListCertificateRequests = (\<lambda>ns. Inr []),
     kl_Before = (<), kl_K8sChain = (\<lambda>client ns sa secrets. Inr []),
     kl_GetServiceAccount = (\<lambda>ns sa. Inr \<lparr>sa_ImagePullSecrets = [''secret'']\<rparr>)\<rparr>"

text \<open>An intent whose conditions were initialised.\<close>

definition sample_state :: rec_state where
  "sample_state = \<lparr>rs_parent = sample_intent\<lparr>pi_Status := InitializeConditions plain_cond_set (pi_Status sample_intent)\<rparr>,
     rs_stash = fmempty, rs_tracked = []\<rparr>"

definition sample_pass :: "bool result \<times> rec_state" where
  "sample_pass = PodIntentReconciler plain_sequence plain_cond_set sample_kube match_all sample_registry
     sample_hooks sample_webhook_config sample_registry_config sample_state"

definition other_source :: ClusterPodConvention where
  "other_source = sample_source\<lparr>cpc_Meta := zero_meta\<lparr>m_Name := ''other''\<rparr>\<rparr>"

text \<open>C23: When every bundle resolves, what \<open>FilterAndSort\<close> selects from the resolved conventions is
  the same for every two intents, whatever the labels of the intent and of its template: the target
  of the selectors is not copied from the resource, so selectors see no labels at all.\<close>

theorem selector_target_dropped:
  assumes "kl_ListConventions kl = Inr items"
    and "ResolveConventions lib kl s = (Inr False, s')" and "is_ok (build_conventions kl [] items)"
  shows "Conventions_FilterAndSort as_selector (collected_labels_of p) (RetrieveConventions s') =
    Conventions_FilterAndSort as_selector (collected_labels_of q) (RetrieveConventions s')"
proof -
  obtain cs where cs: "build_conventions kl [] items = Inr cs"
    using assms(3) by (auto simp: is_ok_iff)
  have "\<forall>c \<in> set cs. conv_SelectorTarget c = []"
    using build_conventions_mem [OF cs] convention_of_source_target by blast
  then have "Conventions_Filter as_selector (collected_labels_of p) cs = Conventions_Filter as_selector (collected_labels_of q) cs"
    by (intro filter_labels_cong)
      (simp add: labels_at_def collected_labels_of_def podIntentLabelsKey_def podTemplateLabelsKey_def)
  moreover have "RetrieveConventions s' = cs"
    using assms(1,2) cs by (auto simp: ResolveConventions_def)
  ultimately show ?thesis by (simp add: Conventions_FilterAndSort_def)
qed

lemma selector_target_dropped_witness:
  "Conventions_FilterAndSort match_all (collected_labels_of sample_intent)
      (RetrieveConventions (snd (ResolveConventions plain_cond_set sample_kube sample_state))) =
   Conventions_FilterAndSort match_all (collected_labels_of
        (sample_intent\<lparr>pi_Meta := (pi_Meta sample_intent)\<lparr>m_Labels := Some (fmupd ''k'' ''v'' fmempty)\<rparr>\<rparr>))
      (RetrieveConventions (snd (ResolveConventions plain_cond_set sample_kube sample_state)))"
proof (rule selector_target_dropped)
  show "kl_ListConventions sample_kube = Inr [sample_source]" by (simp add: sample_kube_def)
  show "ResolveConventions plain_cond_set sample_kube sample_state =
      (Inr False, snd (ResolveConventions plain_cond_set sample_kube sample_state))"
    by code_simp
  show "is_ok (build_conventions sample_kube [] [sample_source])" by code_simp
qed

text \<open>\<open>ResolveConventions\<close> returns the error of listing; otherwise, when the bundle of a
  convention cannot be found it fails the condition with the first such error and stashes nothing,
  and else it stashes one convention for each listed resource, in the order of the list.\<close>

lemma resolve_conventions_outcome:
  "ResolveConventions lib kl s = (case kl_ListConventions kl of
     Inl e \<Rightarrow> (Inl e, s)
   | Inr items \<Rightarrow>
      (case resolve_errors kl items of
         e # _ \<Rightarrow> (Inr False, mark_false lib ''CABundleResolutionFailed'' (FailedToAuthenticate e) s)
       | [] \<Rightarrow> (Inr False, StashConventions (map (projr \<circ> convention_of_source kl) items) s)))"
  by (simp add: ResolveConventions_def build_conventions_eq split: sum.split list.split)

subsection \<open>The three steps keep the contract\<close>

lemma ResolveConventions_cases:
  "snd (ResolveConventions lib kl s) = s \<or>
   (\<exists>r m. snd (ResolveConventions lib kl s) = mark_false lib r m s) \<or>
   (\<exists>cs. snd (ResolveConventions lib kl s) = StashConventions cs s)"
  by (auto simp: ResolveConventions_def split: sum.split)

lemma StashConventions_status [simp]:
  "applied_status lib (StashConventions cs s) = applied_status lib s"
  "status_template (StashConventions cs s) = status_template s"
  "applied_status lib (StashRegistryConfig rg s) = applied_status lib s"
  "status_template (StashRegistryConfig rg s) = status_template s"
  by (simp_all add: applied_status_def status_template_def)

lemma ResolveConventions_template: "status_template (snd (ResolveConventions lib kl s)) = status_template s"
  using ResolveConventions_cases [of lib kl s] by auto

interpretation resolve_step: pass_step lib "ResolveConventions lib kl"
proof
  fix s
  show "pi_Meta (rs_parent (snd (ResolveConventions lib kl s))) = pi_Meta (rs_parent s)"
    and "\<exists>refs. rs_tracked (snd (ResolveConventions lib kl s)) = rs_tracked s @ refs"
    using ResolveConventions_cases [of lib kl s] by auto
  show "cond_set_law lib \<Longrightarrow> applied_status lib s = Some CondFalse \<Longrightarrow>
      applied_status lib (snd (ResolveConventions lib kl s)) = Some CondFalse"
    using ResolveConventions_cases [of lib kl s] by (auto simp: mark_false_status)
qed (simp add: ResolveConventions_template)

lemma Retrieve_simps [simp]:
  "RetrieveConventions (track refs s) = RetrieveConventions s"
  "RetrieveConventions (default_parent s) = RetrieveConventions s"
  "RetrieveConventions (mark_false lib r m s) = RetrieveConventions s"
  by (simp_all add: RetrieveConventions_def)

lemma BuildRegistryConfig_status:
  "pi_Status (rs_parent (snd (BuildRegistryConfig lib kl rc s))) = pi_Status (rs_parent s) \<or>
   (\<exists>r m t. snd (BuildRegistryConfig lib kl rc s) = mark_false lib r m t \<and> r \<noteq> ''ConventionsApplied'' \<and>
      pi_Status (rs_parent t) = pi_Status (rs_parent s))"
proof (cases "rc_Client rc")
  case (Some client)
  have mark: "\<exists>r m t. mark_false lib ''ImageResolutionFailed'' e t' = mark_false lib r m t \<and> r \<noteq> ''ConventionsApplied'' \<and>
      pi_Status (rs_parent t) = pi_Status (rs_parent s)"
    if "pi_Status (rs_parent t') = pi_Status (rs_parent s)" for e t'
    using that by (intro exI [of _ "''ImageResolutionFailed''"] exI [of _ e] exI [of _ t']) simp
  show ?thesis
    using Some by (auto simp: BuildRegistryConfig_def Let_def intro!: mark split: sum.split)
qed (simp add: BuildRegistryConfig_def)

lemma BuildRegistryConfig_frame:
  "pi_Meta (rs_parent (snd (BuildRegistryConfig lib kl rc s))) = pi_Meta (rs_parent s)"
  "\<exists>refs. rs_tracked (snd (BuildRegistryConfig lib kl rc s)) = rs_tracked s @ refs"
  "RetrieveConventions (snd (BuildRegistryConfig lib kl rc s)) = RetrieveConventions s"
  by (cases "rc_Client rc"; auto simp: BuildRegistryConfig_def Let_def split: sum.split)+

lemma BuildRegistryConfig_template:
  "status_template (snd (BuildRegistryConfig lib kl rc s)) = status_template s"
  using BuildRegistryConfig_status [of lib kl rc s] by (auto intro: status_cong)

lemma BuildRegistryConfig_failed:
  "cond_set_law lib \<Longrightarrow> applied_status lib (snd (BuildRegistryConfig lib kl rc s)) = Some CondFalse \<or>
   applied_status lib (snd (BuildRegistryConfig lib kl rc s)) = applied_status lib s"
  using BuildRegistryConfig_status [of lib kl rc s] by (auto intro: status_cong simp: mark_false_status)

interpretation registry_step: pass_step lib "BuildRegistryConfig lib kl rc"
proof
  fix s
  show "cond_set_law lib \<Longrightarrow> applied_status lib s = Some CondFalse \<Longrightarrow>
      applied_status lib (snd (BuildRegistryConfig lib kl rc s)) = Some CondFalse"
    using BuildRegistryConfig_failed by metis
qed (simp_all add: BuildRegistryConfig_frame BuildRegistryConfig_template)

lemma Conventions_Apply_parent:
  "Conventions_Apply (ResolveImageMetadata rl rc) call (Some p) cs = (res, parent) \<Longrightarrow>
   \<exists>f. parent = Some (share_containers (map_images f (as_core (pi_Template (pi_Spec p)))) p)"
  using registry_resolver.loop_parent [of "apply_start p" rl rc call cs]
  by (auto simp: Conventions_Apply_def split: prod.splits option.splits)

text \<open>The outcomes of the last step.\<close>

lemma ApplyConventions_cases:
  obtains (skipped) "ApplyConventions lib as_selector rl wl wc s = (Inr False, s)"
      "applied_status lib s = None \<or> applied_status lib s = Some CondFalse"
    | (unfiltered) e where "applied_status lib s \<noteq> None" "applied_status lib s \<noteq> Some CondFalse"
      "Conventions_FilterAndSort as_selector (collected_labels_of (rs_parent s)) (RetrieveConventions s) = Inl e"
      "ApplyConventions lib as_selector rl wl wc s = (Inr False, mark_false lib ''LabelSelector'' (FilteringFailed e) s)"
    | (failed) cs e f where "applied_status lib s \<noteq> None" "applied_status lib s \<noteq> Some CondFalse"
      "Conventions_FilterAndSort as_selector (collected_labels_of (rs_parent s)) (RetrieveConventions s) = Inr cs"
      "fst (Conventions_Apply (ResolveImageMetadata rl (RetrieveRegistryConfig s)) (Convention_Apply wl wc)
         (Some (init_annotations (rs_parent s))) cs) = Inl e"
      "ApplyConventions lib as_selector rl wl wc s = (Inr True, mark_false lib ''ConventionsApplied'' (ErrorText e)
         (s\<lparr>rs_parent := share_containers (map_images f (as_core (pi_Template (pi_Spec (init_annotations (rs_parent s))))))
            (init_annotations (rs_parent s))\<rparr>))"
    | (applied) cs w f where "applied_status lib s \<noteq> None" "applied_status lib s \<noteq> Some CondFalse"
      "Conventions_FilterAndSort as_selector (collected_labels_of (rs_parent s)) (RetrieveConventions s) = Inr cs"
      "fst (Conventions_Apply (ResolveImageMetadata rl (RetrieveRegistryConfig s)) (Convention_Apply wl wc)
         (Some (init_annotations (rs_parent s))) cs) = Inr w"
      "ApplyConventions lib as_selector rl wl wc s = (Inr False, mark_true lib ''Applied'' NoMessage
         (set_status_template (NewPodTemplateSpec w)
           (s\<lparr>rs_parent := share_containers (map_images f (as_core (pi_Template (pi_Spec (init_annotations (rs_parent s))))))
            (init_annotations (rs_parent s))\<rparr>)))"
proof (cases "applied_status lib s = None \<or> applied_status lib s = Some CondFalse")
  case True
  then have "ApplyConventions lib as_selector rl wl wc s = (Inr False, s)"
    by (auto simp: ApplyConventions_def applied_status_def Let_def)
  with True show ?thesis by (rule skipped [rotated])
next
  case False
  then have st: "applied_status lib s \<noteq> None" "applied_status lib s \<noteq> Some CondFalse" by auto
  then have guard: "\<not> (condition_of lib (rs_parent s) PodIntentConditionConventionsApplied = None \<or>
      map_option cond_Status (condition_of lib (rs_parent s) PodIntentConditionConventionsApplied) = Some CondFalse)"
    by (simp add: applied_status_def)
  show ?thesis
  proof (cases "Conventions_FilterAndSort as_selector (collected_labels_of (rs_parent s)) (RetrieveConventions s)")
    case (Inl e)
    with guard show ?thesis
      by (intro unfiltered [OF st Inl]) (auto simp: ApplyConventions_def Let_def)
  next
    case (Inr cs)
    obtain res parent where app: "Conventions_Apply (ResolveImageMetadata rl (RetrieveRegistryConfig s))
        (Convention_Apply wl wc) (Some (init_annotations (rs_parent s))) cs = (res, parent)"
      by (cases "Conventions_Apply (ResolveImageMetadata rl (RetrieveRegistryConfig s))
        (Convention_Apply wl wc) (Some (init_annotations (rs_parent s))) cs") auto
    from Conventions_Apply_parent [OF app] obtain f where parent:
      "parent = Some (share_containers (map_images f (as_core (pi_Template (pi_Spec (init_annotations (rs_parent s))))))
         (init_annotations (rs_parent s)))" by blast
    show ?thesis
    proof (cases res)
      case (Inl e)
      with guard Inr app parent show ?thesis
        by (intro failed [OF st Inr, of e f]) (auto simp: ApplyConventions_def Let_def)
    next
      case (Inr w)
      with guard \<open>_ = Inr cs\<close> app parent show ?thesis
        by (intro applied [OF st \<open>_ = Inr cs\<close>, of w f]) (auto simp: ApplyConventions_def Let_def)
    qed
  qed
qed

lemma share_init_simps [simp]:
  "pi_Meta (share_containers w p) = pi_Meta p" "pi_Status (share_containers w p) = pi_Status p"
  "pi_Meta (init_annotations p) = pi_Meta p" "pi_Status (init_annotations p) = pi_Status p"
  by (simp_all add: share_containers_def init_annotations_def)

interpretation apply_step: pass_step lib "ApplyConventions lib as_selector rl wl wc"
proof
  fix s
  note cases = ApplyConventions_cases [of lib as_selector rl wl wc s]
  show "pi_Meta (rs_parent (snd (ApplyConventions lib as_selector rl wl wc s))) = pi_Meta (rs_parent s)"
    and "\<exists>refs. rs_tracked (snd (ApplyConventions lib as_selector rl wl wc s)) = rs_tracked s @ refs"
    by (rule cases; simp)+
  show "cond_set_law lib \<Longrightarrow> applied_status lib s = Some CondFalse \<Longrightarrow>
      applied_status lib (snd (ApplyConventions lib as_selector rl wl wc s)) = Some CondFalse"
    by (rule cases; simp)
  show "cond_set_law lib \<Longrightarrow> status_template (snd (ApplyConventions lib as_selector rl wl wc s)) = status_template s \<or>
      applied_status lib (snd (ApplyConventions lib as_selector rl wl wc s)) = Some CondTrue \<and>
      ready_status lib (snd (ApplyConventions lib as_selector rl wl wc s)) = Some CondTrue"
    by (rule cases) (simp_all add: mark_true_status status_template_def mark_false_def)
qed

interpretation last_two: pass_steps lib "BuildRegistryConfig lib kl rc" "ApplyConventions lib as_selector rl wl wc"
  by unfold_locales (rule BuildRegistryConfig_template)

interpretation all_three: pass_steps lib "ResolveConventions lib kl"
    "then_do (BuildRegistryConfig lib kl rc) (ApplyConventions lib as_selector rl wl wc)"
  by unfold_locales (rule ResolveConventions_template)

subsection \<open>The whole pass\<close>

lemma then_do_done: "then_do r all_done = r"
  by (auto simp: fun_eq_iff then_do_def all_done_def split: prod.split sum.split)

lemma PodIntentReconciler_eq:
  "sequence_law sq \<Longrightarrow> PodIntentReconciler sq lib kl as_selector rl wl wc rc =
     then_do (ResolveConventions lib kl)
       (then_do (BuildRegistryConfig lib kl rc) (ApplyConventions lib as_selector rl wl wc))"
  by (simp add: PodIntentReconciler_def sequence_law_def then_do_done)

text \<open>C12: A pass keeps the intent's metadata and only adds tracked references; a condition that is
  false when it starts stays false and the status keeps its template; and the template of the status
  changes only when both \<open>ConventionsApplied\<close> and \<open>Ready\<close> are true afterwards.\<close>

theorem pass_frame:
  assumes "sequence_law sq" and "cond_set_law lib"
    and "PodIntentReconciler sq lib kl as_selector rl wl wc rc s = (res, s')"
  shows "pi_Meta (rs_parent s') = pi_Meta (rs_parent s) \<and>
    (\<exists>refs. rs_tracked s' = rs_tracked s @ refs) \<and>
    (applied_status lib s = Some CondFalse \<longrightarrow>
       applied_status lib s' = Some CondFalse \<and> status_template s' = status_template s) \<and>
    (status_template s' \<noteq> status_template s \<longrightarrow>
       applied_status lib s' = Some CondTrue \<and> ready_status lib s' = Some CondTrue)"
proof -
  have s': "s' = snd (then_do (ResolveConventions lib kl)
      (then_do (BuildRegistryConfig lib kl rc) (ApplyConventions lib as_selector rl wl wc)) s)"
    using assms(3) by (simp add: PodIntentReconciler_eq [OF assms(1)])
  show ?thesis
    unfolding s'
    using all_three.then_do_meta all_three.then_do_tracks all_three.then_do_failed [OF assms(2)]
      all_three.then_do_template [OF assms(2)] all_three.whole.step_failed_template [OF assms(2)]
    by metis
qed

lemma pass_frame_witness:
  "fst sample_pass = Inr False \<and> pi_Meta (rs_parent (snd sample_pass)) = pi_Meta sample_intent"
proof
  show ok: "fst sample_pass = Inr False" by code_simp
  have "PodIntentReconciler plain_sequence plain_cond_set sample_kube match_all sample_registry
     sample_hooks sample_webhook_config sample_registry_config sample_state = (fst sample_pass, snd sample_pass)"
    by (simp add: sample_pass_def)
  from pass_frame [OF plain_sequence_law plain_cond_set_law this]
  show "pi_Meta (rs_parent (snd sample_pass)) = pi_Meta sample_intent"
    by (simp add: sample_state_def)
qed

definition failed_because :: "cond_set_lib \<Rightarrow> rec_state \<Rightarrow> string \<Rightarrow> bool" where
  "failed_because lib s reason \<longleftrightarrow> ready_status lib s = Some CondFalse \<and>
     (\<exists>msg. condition_of lib (rs_parent s) PodIntentConditionConventionsApplied =
        Some \<lparr>cond_Type = PodIntentConditionConventionsApplied, cond_Status = CondFalse, cond_Reason = reason, cond_Message = msg\<rparr>)"

lemma mark_false_because: "cond_set_law lib \<Longrightarrow> failed_because lib (mark_false lib r m s) r"
  by (simp add: failed_because_def mark_false_condition mark_false_status)

lemma failed_because_status: "failed_because lib s r \<Longrightarrow> applied_status lib s = Some CondFalse"
  by (auto simp: failed_because_def applied_status_def)

lemma failed_because_cong:
  "pi_Status (rs_parent s) = pi_Status (rs_parent s') \<Longrightarrow> failed_because lib s r = failed_because lib s' r"
  by (simp add: failed_because_def ready_status_def condition_of_def)

lemma failed_because_unique: "failed_because lib s r \<Longrightarrow> failed_because lib s r' \<Longrightarrow> r = r'"
  by (auto simp: failed_because_def)

text \<open>The configuration of the registry a successful second step hands on.\<close>

definition registry_config_for :: "kube_lib \<Rightarrow> RegistryConfig \<Rightarrow> PodIntent \<Rightarrow> RegistryConfig \<Rightarrow> bool" where
  "registry_config_for kl rc p rc' \<longleftrightarrow> (\<exists>client kc sa. rc_Client rc = Some client \<and>
     kl_K8sChain kl client (m_Namespace (pi_Meta p)) (pi_ServiceAccountName (PodIntentSpec_Default (pi_Spec p)))
       (pi_ImagePullSecrets (pi_Spec p)) = Inr kc \<and>
     kl_GetServiceAccount kl (m_Namespace (pi_Meta p)) (pi_ServiceAccountName (PodIntentSpec_Default (pi_Spec p))) = Inr sa \<and>
     rc' = rc\<lparr>rc_Keys := Some kc\<rparr>)"

lemma BuildRegistryConfig_outcome:
  assumes law: "cond_set_law lib"
  obtains (unset) "BuildRegistryConfig lib kl rc s = (Inl ErrClientNotSet, s)" "rc_Client rc = None"
    | (failed) s' where "BuildRegistryConfig lib kl rc s = (Inr False, s')" "failed_because lib s' ''ImageResolutionFailed''"
    | (built) s' where "BuildRegistryConfig lib kl rc s = (Inr False, s')"
      "rs_parent s' = (rs_parent s)\<lparr>pi_Spec := PodIntentSpec_Default (pi_Spec (rs_parent s))\<rparr>"
      "registry_config_for kl rc (rs_parent s) (RetrieveRegistryConfig s')"
proof (cases "rc_Client rc")
  case None
  then show ?thesis by (intro unset) (simp_all add: BuildRegistryConfig_def)
next
  case (Some client)
  let ?p = "rs_parent s"
  let ?ns = "m_Namespace (pi_Meta ?p)"
  let ?sa = "pi_ServiceAccountName (PodIntentSpec_Default (pi_Spec ?p))"
  show ?thesis
  proof (cases "kl_K8sChain kl client ?ns ?sa (pi_ImagePullSecrets (pi_Spec ?p))")
    case (Inl e)
    then show ?thesis
      using Some by (intro failed) (auto simp: BuildRegistryConfig_def Let_def default_parent_def intro!: mark_false_because [OF law])
  next
    case (Inr kc)
    then show ?thesis
    proof (cases "kl_GetServiceAccount kl ?ns ?sa")
      case (Inl e)
      then show ?thesis
        using Some Inr \<open>_ = Inr kc\<close>
        by (intro failed) (auto simp: BuildRegistryConfig_def Let_def default_parent_def intro!: mark_false_because [OF law])
    next
      case (Inr sa)
      then show ?thesis
        using Some \<open>_ = Inr kc\<close>
        by (intro built) (auto simp: BuildRegistryConfig_def Let_def default_parent_def registry_config_for_def)
    qed
  qed
qed


lemma ResolveConventions_outcome:
  assumes law: "cond_set_law lib"
  obtains (unlisted) e where "ResolveConventions lib kl s = (Inl e, s)" "kl_ListConventions kl = Inl e"
    | (failed) s' where "ResolveConventions lib kl s = (Inr False, s')" "failed_because lib s' ''CABundleResolutionFailed''"
    | (resolved) items cs where "kl_ListConventions kl = Inr items" "build_conventions kl [] items = Inr cs"
      "ResolveConventions lib kl s = (Inr False, StashConventions cs s)"
proof (cases "kl_ListConventions kl")
  case (Inl e)
  then show ?thesis by (intro unlisted) (auto simp: ResolveConventions_def)
next
  case (Inr items)
  then show ?thesis
    by (cases "build_conventions kl [] items")
      (auto simp: ResolveConventions_def intro: failed resolved mark_false_because [OF law])
qed

lemma ApplyConventions_skips:
  "failed_because lib s r \<Longrightarrow> ApplyConventions lib as_selector rl wl wc s = (Inr False, s)"
  by (rule ApplyConventions_cases [of lib as_selector rl wl wc s]) (auto dest: failed_because_status)

lemma ApplyConventions_outcome:
  assumes law: "cond_set_law lib" and start: "applied_status lib s = Some CondUnknown"
  shows "\<exists>q s'. ApplyConventions lib as_selector rl wl wc s = (Inr q, s') \<and>
    ((\<not> q \<and> applied_status lib s' = Some CondTrue \<and> ready_status lib s' = Some CondTrue \<and>
      (\<exists>cs w. Conventions_FilterAndSort as_selector (collected_labels_of (rs_parent s)) (RetrieveConventions s) = Inr cs \<and>
         fst (Conventions_Apply (ResolveImageMetadata rl (RetrieveRegistryConfig s)) (Convention_Apply wl wc)
           (Some (init_annotations (rs_parent s))) cs) = Inr w \<and> status_template s' = Some (NewPodTemplateSpec w))) \<or>
     (\<not> q \<and> status_template s' = status_template s \<and> failed_because lib s' ''LabelSelector'' \<and>
      (\<exists>e. Conventions_FilterAndSort as_selector (collected_labels_of (rs_parent s)) (RetrieveConventions s) = Inl e)) \<or>
     (q \<and> status_template s' = status_template s \<and> failed_because lib s' ''ConventionsApplied'' \<and>
      (\<exists>cs e. Conventions_FilterAndSort as_selector (collected_labels_of (rs_parent s)) (RetrieveConventions s) = Inr cs \<and>
         fst (Conventions_Apply (ResolveImageMetadata rl (RetrieveRegistryConfig s)) (Convention_Apply wl wc)
           (Some (init_annotations (rs_parent s))) cs) = Inl e)))"
proof -
  have keep: "status_template (s\<lparr>rs_parent := share_containers w (init_annotations (rs_parent s))\<rparr>) = status_template s" for w
    by (simp add: status_template_def)
  show ?thesis
  proof (cases rule: ApplyConventions_cases [of lib as_selector rl wl wc s])
    case skipped
    with start show ?thesis by simp
  next
    case unfiltered
    then show ?thesis by (simp add: mark_false_because [OF law]; blast)
  next
    case (failed cs e f)
    then show ?thesis by (simp add: mark_false_because [OF law] keep; blast)
  next
    case (applied cs w f)
    then show ?thesis by (simp add: mark_true_status [OF law]; blast)
  qed
qed

lemma after_failure:
  assumes law: "cond_set_law lib" and fb: "failed_because lib s reason"
    and run: "then_do (BuildRegistryConfig lib kl rc) (ApplyConventions lib as_selector rl wl wc) s = (res, s')"
  shows "status_template s' = status_template s \<and>
    (case res of Inl e \<Rightarrow> e = ErrClientNotSet \<and> rc_Client rc = None
     | Inr q \<Rightarrow> \<not> q \<and> (failed_because lib s' reason \<or> failed_because lib s' ''ImageResolutionFailed''))"
proof -
  have st: "status_template s' = status_template s"
    using last_two.whole.step_failed_template [OF law failed_because_status [OF fb]] run by (metis snd_conv)
  show ?thesis
  proof (rule BuildRegistryConfig_outcome [OF law, of kl rc s])
    assume b: "BuildRegistryConfig lib kl rc s = (Inl ErrClientNotSet, s)" "rc_Client rc = None"
    with run st show ?thesis by (auto simp: then_do_def)
  next
    fix t assume "BuildRegistryConfig lib kl rc s = (Inr False, t)" "failed_because lib t ''ImageResolutionFailed''"
    with run st ApplyConventions_skips show ?thesis by (auto simp: then_do_def)
  next
    fix t assume b: "BuildRegistryConfig lib kl rc s = (Inr False, t)"
      and p: "rs_parent t = (rs_parent s)\<lparr>pi_Spec := PodIntentSpec_Default (pi_Spec (rs_parent s))\<rparr>"
    have "failed_because lib t reason"
      using fb p by (subst failed_because_cong [of t s]) simp_all
    with b run st ApplyConventions_skips show ?thesis by (auto simp: then_do_def)
  qed
qed

text \<open>The two errors a pass can end with.\<close>

lemma ApplyConventions_no_error: "fst (ApplyConventions lib as_selector rl wl wc s) \<noteq> Inl e"
  by (simp add: ApplyConventions_def Let_def split: sum.split prod.split)

lemma BuildRegistryConfig_error: "fst (BuildRegistryConfig lib kl rc s) = Inl e \<Longrightarrow> e = ErrClientNotSet \<and> rc_Client rc = None"
  by (auto simp: BuildRegistryConfig_def Let_def split: option.splits sum.splits)

lemma ResolveConventions_error: "fst (ResolveConventions lib kl s) = Inl e \<Longrightarrow> kl_ListConventions kl = Inl e"
  by (auto simp: ResolveConventions_def Let_def split: sum.splits)

lemma then_do_error: "fst (then_do f g s) = Inl e \<Longrightarrow> fst (f s) = Inl e \<or> (\<exists>t. fst (g t) = Inl e)"
  by (auto simp: then_do_def split: prod.splits sum.splits if_splits) (metis fst_conv)+

lemma pass_error:
  assumes "sequence_law sq" and "fst (PodIntentReconciler sq lib kl as_selector rl wl wc rc s) = Inl e"
  shows "kl_ListConventions kl = Inl e \<or> e = ErrClientNotSet \<and> rc_Client rc = None"
proof -
  from then_do_error [OF assms(2) [unfolded PodIntentReconciler_eq [OF assms(1)]]] show ?thesis
  proof (elim disjE exE)
    fix t
    assume "fst (then_do (BuildRegistryConfig lib kl rc) (ApplyConventions lib as_selector rl wl wc) t) = Inl e"
    from then_do_error [OF this] show ?thesis
      using ApplyConventions_no_error by (blast dest: BuildRegistryConfig_error)
  qed (simp add: ResolveConventions_error)
qed

text \<open>What a successful pass computed, from the listed conventions to the workload.\<close>

definition pass_applied :: "kube_lib \<Rightarrow> selector_lib \<Rightarrow> registry_lib \<Rightarrow> webhook_lib \<Rightarrow> WebhookConfig \<Rightarrow>
    RegistryConfig \<Rightarrow> PodIntent \<Rightarrow> CorePodTemplateSpec result \<Rightarrow> bool" where
  "pass_applied kl as_selector rl wl wc rc p res \<longleftrightarrow>
     (\<exists>items conventions rc' selected. kl_ListConventions kl = Inr items \<and>
        build_conventions kl [] items = Inr conventions \<and> registry_config_for kl rc p rc' \<and>
        Conventions_FilterAndSort as_selector (collected_labels_of p) conventions = Inr selected \<and>
        fst (Conventions_Apply (ResolveImageMetadata rl rc') (Convention_Apply wl wc)
          (Some (init_annotations (p\<lparr>pi_Spec := PodIntentSpec_Default (pi_Spec p)\<rparr>))) selected) = res)"

definition pass_unselected :: "kube_lib \<Rightarrow> selector_lib \<Rightarrow> PodIntent \<Rightarrow> bool" where
  "pass_unselected kl as_selector p \<longleftrightarrow>
     (\<exists>items conventions e. kl_ListConventions kl = Inr items \<and> build_conventions kl [] items = Inr conventions \<and>
        Conventions_FilterAndSort as_selector (collected_labels_of p) conventions = Inl e)"

lemma Default_template [simp]: "pi_Template (PodIntentSpec_Default s) = pi_Template s"
  by (simp add: PodIntentSpec_Default_def)

lemma collected_labels_cong:
  "pi_Meta p = pi_Meta q \<Longrightarrow> pi_Template (pi_Spec p) = pi_Template (pi_Spec q) \<Longrightarrow>
   collected_labels_of p = collected_labels_of q"
  by (simp add: collected_labels_of_def)

text \<open>The three ways a pass ends.\<close>

lemma pass_cases:
  assumes "sequence_law sq" and law: "cond_set_law lib" and start: "applied_status lib s = Some CondUnknown"
  shows "case PodIntentReconciler sq lib kl as_selector rl wl wc rc s of
      (Inl e, s') \<Rightarrow> status_template s' = status_template s \<and>
         (kl_ListConventions kl = Inl e \<or> e = ErrClientNotSet \<and> rc_Client rc = None)
    | (Inr requeue, s') \<Rightarrow>
         (applied_status lib s' = Some CondTrue \<and> ready_status lib s' = Some CondTrue \<and> \<not> requeue \<and>
          (\<exists>w. status_template s' = Some (NewPodTemplateSpec w) \<and>
             pass_applied kl as_selector rl wl wc rc (rs_parent s) (Inr w))) \<or>
         (status_template s' = status_template s \<and> \<not> requeue \<and>
          (failed_because lib s' ''CABundleResolutionFailed'' \<or> failed_because lib s' ''ImageResolutionFailed'' \<or>
           failed_because lib s' ''LabelSelector'' \<and> pass_unselected kl as_selector (rs_parent s))) \<or>
         (status_template s' = status_template s \<and> requeue \<and> failed_because lib s' ''ConventionsApplied'' \<and>
          (\<exists>e. pass_applied kl as_selector rl wl wc rc (rs_parent s) (Inl e)))"
    (is "case ?run of (Inl e, s') \<Rightarrow> ?err e s' | (Inr q, s') \<Rightarrow> ?ok q s'")
proof -
  let ?two = "then_do (BuildRegistryConfig lib kl rc) (ApplyConventions lib as_selector rl wl wc)"
  have run: "?run = then_do (ResolveConventions lib kl) ?two s"
    by (simp add: PodIntentReconciler_eq [OF assms(1)])
  show ?thesis
  proof (rule ResolveConventions_outcome [OF law, of kl s])
    fix e assume "ResolveConventions lib kl s = (Inl e, s)" "kl_ListConventions kl = Inl e"
    then show ?thesis by (simp add: run then_do_def)
  next
    fix t assume r: "ResolveConventions lib kl s = (Inr False, t)" and fb: "failed_because lib t ''CABundleResolutionFailed''"
    obtain res s' where two: "?two t = (res, s')" by (cases "?two t") auto
    have "status_template t = status_template s" using r ResolveConventions_template [of lib kl s] by simp
    with after_failure [OF law fb two] r two show ?thesis
      by (cases res) (auto simp: run then_do_def [of "ResolveConventions lib kl"])
  next
    fix items cs assume items: "kl_ListConventions kl = Inr items" "build_conventions kl [] items = Inr cs"
      and r: "ResolveConventions lib kl s = (Inr False, StashConventions cs s)"
    let ?t = "StashConventions cs s"
    have run2: "?run = ?two ?t"
      by (simp add: run then_do_def [of "ResolveConventions lib kl"] r split: prod.split sum.split)
    show ?thesis
    proof (rule BuildRegistryConfig_outcome [OF law, of kl rc ?t])
      assume "BuildRegistryConfig lib kl rc ?t = (Inl ErrClientNotSet, ?t)" "rc_Client rc = None"
      then show ?thesis by (simp add: run2 then_do_def)
    next
      fix u assume b: "BuildRegistryConfig lib kl rc ?t = (Inr False, u)" and fb: "failed_because lib u ''ImageResolutionFailed''"
      have "status_template u = status_template s"
        using BuildRegistryConfig_template [of lib kl rc ?t] b by simp
      with fb b show ?thesis by (simp add: run2 then_do_def ApplyConventions_skips [OF fb])
    next
      fix u assume b: "BuildRegistryConfig lib kl rc ?t = (Inr False, u)"
        and p: "rs_parent u = (rs_parent ?t)\<lparr>pi_Spec := PodIntentSpec_Default (pi_Spec (rs_parent ?t))\<rparr>"
        and cfg: "registry_config_for kl rc (rs_parent ?t) (RetrieveRegistryConfig u)"
      have u: "RetrieveConventions u = cs" "status_template u = status_template s"
        using BuildRegistryConfig_frame(3) [of lib kl rc ?t] BuildRegistryConfig_template [of lib kl rc ?t] b by simp_all
      have "applied_status lib u = Some CondUnknown"
        using start p by (subst status_cong(1) [of u s]) simp_all
      from ApplyConventions_outcome [OF law this, of as_selector rl wl wc]
      have "(case ApplyConventions lib as_selector rl wl wc u of (Inl e, s') \<Rightarrow> ?err e s' | (Inr q, s') \<Rightarrow> ?ok q s')"
        using u p cfg items collected_labels_cong [of "rs_parent u" "rs_parent s"]
        by (cases "ApplyConventions lib as_selector rl wl wc u") (fastforce simp: pass_applied_def pass_unselected_def split: sum.splits)
      then show ?thesis
        by (simp add: run2 then_do_def b split: prod.splits sum.splits)
    qed
  qed
qed

text \<open>C3: A pass over an intent whose condition was initialised always decides. Unless listing
  fails or no client is set, either both conditions are true and the status holds the workload that
  resolving, authenticating, selecting and applying the listed conventions produced, or both are false with a
  reason and the status keeps its template; a requeue is asked for exactly when applying failed, and
  the reason \<open>LabelSelector\<close> is given only when selecting failed.\<close>

theorem pass_outcome:
  assumes "sequence_law sq" and law: "cond_set_law lib" and start: "applied_status lib s = Some CondUnknown"
  shows "case PodIntentReconciler sq lib kl as_selector rl wl wc rc s of
      (Inl e, s') \<Rightarrow> status_template s' = status_template s \<and>
         (kl_ListConventions kl = Inl e \<or> e = ErrClientNotSet \<and> rc_Client rc = None)
    | (Inr requeue, s') \<Rightarrow>
         (applied_status lib s' = Some CondTrue \<and> ready_status lib s' = Some CondTrue \<and> \<not> requeue \<and>
          (\<exists>w. status_template s' = Some (NewPodTemplateSpec w) \<and>
             pass_applied kl as_selector rl wl wc rc (rs_parent s) (Inr w))) \<or>
         (status_template s' = status_template s \<and> \<not> requeue \<and>
          (failed_because lib s' ''CABundleResolutionFailed'' \<or> failed_because lib s' ''ImageResolutionFailed'' \<or>
           failed_because lib s' ''LabelSelector'' \<and> pass_unselected kl as_selector (rs_parent s))) \<or>
         (status_template s' = status_template s \<and> requeue \<and> failed_because lib s' ''ConventionsApplied'' \<and>
          (\<exists>e. pass_applied kl as_selector rl wl wc rc (rs_parent s) (Inl e)))"
  by (rule pass_cases [OF assms])

lemma pass_outcome_witness:
  "\<exists>w. status_template (snd sample_pass) = Some (NewPodTemplateSpec w) \<and>
     pass_applied sample_kube match_all sample_registry sample_hooks sample_webhook_config sample_registry_config
       (rs_parent sample_state) (Inr w)"
proof -
  have start: "applied_status plain_cond_set sample_state = Some CondUnknown" by code_simp
  have "fst sample_pass = Inr False" by code_simp
  then obtain t where pass: "sample_pass = (Inr False, t)" by (metis prod.collapse)
  have "status_template (snd sample_pass) \<noteq> status_template sample_state" by code_simp
  with pass_outcome [OF plain_sequence_law plain_cond_set_law start, where kl = sample_kube and as_selector = match_all and
      rl = sample_registry and wl = sample_hooks and wc = sample_webhook_config and rc = sample_registry_config, folded sample_pass_def]
  show ?thesis by (simp add: pass)
qed

lemma build_conventions_map:
  "build_conventions kl [] items = Inr cs \<Longrightarrow> cs = map (projr \<circ> convention_of_source kl) items"
  by (simp add: build_conventions_eq split: list.splits)

lemma build_conventions_ok:
  "build_conventions kl [] items = Inr cs \<Longrightarrow> i \<in> set items \<Longrightarrow> \<exists>c. convention_of_source kl i = Inr c"
  by (metis build_conventions_sources imageE image_eqI list.set_map)

lemma admitted_sources_ok:
  assumes "\<forall>i \<in> set items. convention_spec_ok vl (ClusterPodConventionSpec_Default (cpc_Spec i))"
    and "build_conventions kl [] items = Inr cs" and "c \<in> set cs"
  shows "selectors_convert (vl_LabelSelectorAsSelector vl) c \<and> valid_priority c"
  using build_conventions_mem [OF assms(2,3)] assms(1) convention_of_source_fields
  by (fastforce simp: convention_spec_ok_def selectors_convert_def valid_priority_def)

text \<open>Selecting never fails over admitted conventions.\<close>

lemma admitted_selected:
  assumes "empty_selects_all (vl_LabelSelectorAsSelector vl)"
    and "\<forall>i \<in> set items. convention_spec_ok vl (ClusterPodConventionSpec_Default (cpc_Spec i))"
    and "kl_ListConventions kl = Inr items"
  shows "\<not> pass_unselected kl (vl_LabelSelectorAsSelector vl) p"
  using filter_ok [OF assms(1)] admitted_sources_ok [OF assms(2)] assms(3)
  by (auto simp: pass_unselected_def Conventions_FilterAndSort_def split: sum.splits)

text \<open>C9: For admitted conventions with distinct names, as the API server stores them, selecting never
  fails and the conventions a pass applies, and their order, do not depend on the order in which
  they are listed.\<close>

theorem admitted_order_deterministic:
  assumes "empty_selects_all (vl_LabelSelectorAsSelector vl)"
    and admitted: "\<forall>i \<in> set items. convention_spec_ok vl (ClusterPodConventionSpec_Default (cpc_Spec i))"
    and "distinct (map (m_Name \<circ> cpc_Meta) items)" and perm: "mset items' = mset items"
    and built: "build_conventions kl [] items = Inr cs" "build_conventions kl [] items' = Inr cs'"
  shows "\<exists>out. Conventions_FilterAndSort (vl_LabelSelectorAsSelector vl) collected cs = Inr out \<and>
    Conventions_FilterAndSort (vl_LabelSelectorAsSelector vl) collected cs' = Inr out"
proof -
  let ?sel = "vl_LabelSelectorAsSelector vl"
  have eq: "mset cs' = mset cs"
    using perm build_conventions_map [OF built(1)] build_conventions_map [OF built(2)] by (metis mset_map)
  have ok: "selectors_convert ?sel c \<and> valid_priority c" if "c \<in> set cs" for c
    by (rule admitted_sources_ok [OF admitted built(1) that])
  have names: "distinct_names cs"
  proof -
    have "map conv_Name cs = map (m_Name \<circ> cpc_Meta) items"
      using build_conventions_ok [OF built(1)]
      by (simp add: build_conventions_map [OF built(1)]) (metis convention_of_source_fields sum.sel(2))
    with assms(3) have "distinct (map conv_Name cs)" by simp
    then show ?thesis by (auto simp: distinct_names_def distinct_map inj_on_def)
  qed
  have filtered: "Conventions_Filter ?sel collected ds = Inr (filter (convention_selects ?sel collected) ds)"
    if "mset ds = mset cs" for ds
    using ok mset_eq_setD [OF that] by (intro filter_ok [OF assms(1)]) auto
  let ?f = "filter (convention_selects ?sel collected)"
  have "Conventions_Sort (?f cs') = sort_slice convention_less (?f cs)"
  proof (rule convention_order.any_sort_agrees)
    show "sorted_by convention_less (Conventions_Sort (?f cs'))"
      unfolding Conventions_Sort_def using ok mset_eq_setD [OF eq]
      by (intro convention_order.sort_slice_sorted) auto
    show "x = y" if "x \<in> set (?f cs)" "y \<in> set (?f cs)" "\<not> convention_less x y" "\<not> convention_less y x" for x y
      using convention_less_total [OF names, of x y] that ok by auto
  qed (use ok eq in \<open>auto simp: Conventions_Sort_def\<close>)
  then show ?thesis
    by (simp add: Conventions_FilterAndSort_def filtered eq Conventions_Sort_def)
qed

lemma admitted_order_deterministic_witness:
  "\<exists>out. Conventions_FilterAndSort (vl_LabelSelectorAsSelector accepting) fmempty
      (map (projr \<circ> convention_of_source sample_kube) [sample_source, other_source]) = Inr out \<and>
    Conventions_FilterAndSort (vl_LabelSelectorAsSelector accepting) fmempty
      (map (projr \<circ> convention_of_source sample_kube) [other_source, sample_source]) = Inr out"
proof (rule admitted_order_deterministic)
  show "build_conventions sample_kube [] [sample_source, other_source] =
      Inr (map (projr \<circ> convention_of_source sample_kube) [sample_source, other_source])"
    "build_conventions sample_kube [] [other_source, sample_source] =
      Inr (map (projr \<circ> convention_of_source sample_kube) [other_source, sample_source])"
    by code_simp+
  have "ClusterPodConventionSpec_Default (cpc_Spec i) = cpc_Spec sample_source"
    if "i \<in> set [sample_source, other_source]" for i
    using that by (auto simp: other_source_def sample_source_def sample_webhook_def ClusterPodConventionSpec_Default_def
        ConventionWebhook_Default_def priority_defs PodTemplateSpecLabels_def zero_client_config_def)
  then show "\<forall>i \<in> set [sample_source, other_source]. convention_spec_ok accepting (ClusterPodConventionSpec_Default (cpc_Spec i))"
    using sample_source_ok by simp
qed (simp_all add: accepting_def empty_selects_all_def other_source_def sample_source_def zero_meta_def)

text \<open>Everything the registry configuration was built from is tracked, in the namespace of the
  intent and also when a later step fails, so that a change triggers a new pass: the intent's pull
  secrets, the service account (the default one when none is named) once the keychain is built, and
  the account's pull secrets once it is fetched.\<close>

lemma registry_inputs_tracked:
  assumes "rc_Client rc = Some client"
  shows "let p = rs_parent s; ns = m_Namespace (pi_Meta p);
      account = (if pi_ServiceAccountName (pi_Spec p) = [] then ''default'' else pi_ServiceAccountName (pi_Spec p));
      secrets = map (secret_ref ns) (pi_ImagePullSecrets (pi_Spec p))
    in rs_tracked (snd (BuildRegistryConfig lib kl rc s)) = rs_tracked s @ secrets @
      (case kl_K8sChain kl client ns account (pi_ImagePullSecrets (pi_Spec p)) of
         Inl _ \<Rightarrow> []
       | Inr _ \<Rightarrow> service_account_ref ns account # (case kl_GetServiceAccount kl ns account of
           Inl _ \<Rightarrow> [] | Inr sa \<Rightarrow> map (secret_ref ns) (sa_ImagePullSecrets sa)))"
  using assms
  by (cases "pi_ServiceAccountName (pi_Spec (rs_parent s)) = []")
    (simp_all add: BuildRegistryConfig_def Let_def default_parent_def track_def mark_false_def StashRegistryConfig_def
      PodIntentSpec_Default_def split: sum.split)

lemma registry_inputs_tracked_witness:
  "rs_tracked (snd (BuildRegistryConfig plain_cond_set sample_kube sample_registry_config sample_state)) =
     [service_account_ref [] ''default'', secret_ref [] ''secret'']"
  using registry_inputs_tracked [of sample_registry_config "[]" sample_state plain_cond_set sample_kube]
  by (simp add: sample_registry_config_def sample_state_def sample_intent_def sample_kube_def zero_meta_def)

text \<open>What a whole pass tracks: secrets and service accounts only, and all it built the registry
  configuration from.\<close>

definition registry_ref :: "Reference \<Rightarrow> bool" where
  "registry_ref ref \<longleftrightarrow> (\<exists>ns name. ref = secret_ref ns name \<or> ref = service_account_ref ns name)"

lemma BuildRegistryConfig_kinds:
  "\<forall>ref \<in> set (rs_tracked s). registry_ref ref \<Longrightarrow>
   \<forall>ref \<in> set (rs_tracked (snd (BuildRegistryConfig lib kl rc s))). registry_ref ref"
  by (auto simp: BuildRegistryConfig_def registry_ref_def Let_def split: option.split sum.split)

lemma other_steps_tracked:
  "rs_tracked (snd (ResolveConventions lib kl s)) = rs_tracked s"
  "rs_tracked (snd (ApplyConventions lib as_selector rl wl wc s)) = rs_tracked s"
  using ResolveConventions_cases [of lib kl s]
  by (auto intro: ApplyConventions_cases [of lib as_selector rl wl wc s])

lemma then_do_keeps:
  assumes "\<And>s. P s \<Longrightarrow> P (snd (f s))" and "\<And>s. P s \<Longrightarrow> P (snd (g s))" and "P s"
  shows "P (snd (then_do f g s))"
  using assms(1) [OF assms(3)] assms(2) by (auto simp: then_do_def split: prod.split sum.split) (metis snd_conv)+

lemma pass_kinds:
  assumes "sequence_law sq" and "\<forall>ref \<in> set (rs_tracked s). registry_ref ref"
  shows "\<forall>ref \<in> set (rs_tracked (snd (PodIntentReconciler sq lib kl as_selector rl wl wc rc s))). registry_ref ref"
  unfolding PodIntentReconciler_eq [OF assms(1)]
  by (intro then_do_keeps [where P = "\<lambda>s. \<forall>ref \<in> set (rs_tracked s). registry_ref ref"] BuildRegistryConfig_kinds)
    (simp_all add: other_steps_tracked assms(2))

lemma pass_tracked:
  assumes "sequence_law sq" and "fst (PodIntentReconciler sq lib kl as_selector rl wl wc rc s) = Inr q"
  shows "rs_tracked (snd (PodIntentReconciler sq lib kl as_selector rl wl wc rc s)) =
    rs_tracked (snd (BuildRegistryConfig lib kl rc (snd (ResolveConventions lib kl s))))"
  using assms(2)
  by (auto simp: PodIntentReconciler_eq [OF assms(1)] then_do_def split: prod.splits sum.splits)
    (metis other_steps_tracked(2) snd_conv)+

lemma ResolveConventions_parent:
  "pi_Spec (rs_parent (snd (ResolveConventions lib kl s))) = pi_Spec (rs_parent s)"
  "pi_Meta (rs_parent (snd (ResolveConventions lib kl s))) = pi_Meta (rs_parent s)"
  using ResolveConventions_cases [of lib kl s] by auto

subsection \<open>Namespaced names\<close>

text \<open>Splitting \<open>namespace/name\<close> gives the two parts back whatever the name is, and a string
  without a slash is a name without a namespace.\<close>

lemma split_namespaced_name:
  assumes "CHR ''/'' \<notin> set ns"
  shows "splitNamespacedName (ns @ ''/'' @ name) = (ns, name) \<and> splitNamespacedName ns = ([], ns)"
  using assms by (simp add: splitNamespacedName_def takeWhile_append dropWhile_append)

end
