(* ===== verification/Metrics.thy ===== *)
theory Metrics
  imports PodIntentApi ClusterPodConventionApi GoStrings GoSort
begin

text \<open>
  \<open>pkg/controllers/metrics_reconciler.go\<close>: the controller that keeps a config map of counters. It
  counts the intents by readiness and by the kind of their controller, joins the names of the
  conventions and creates or updates the config map when its data changed. Parameters: the API
  client, the helpers of apimachinery (\<open>metrics_lib\<close>) and the order in which Go iterates over a
  map, of which only the language's guarantee \<open>range_law\<close> is used: each entry once.
\<close>

subsection \<open>Data\<close>

record ConfigMap =
  cfm_Meta :: MetaObjectMeta
  cfm_Data :: strmap

record MetricsReconciler =
  mr_Namespace :: string
  mr_Name :: string

datatype get_outcome = Found ConfigMap | NotFound | GetFailed go_error

record metrics_client =
  mc_Get :: "string \<Rightarrow> string \<Rightarrow> get_outcome"
  mc_ListPodIntents :: "PodIntent list result"
  mc_ListConventions :: "ClusterPodConvention list result"
  mc_Create :: "ConfigMap \<Rightarrow> go_error option"
  mc_Update :: "ConfigMap \<Rightarrow> go_error option"

record metrics_lib =
  ml_GetControllerOf :: "MetaObjectMeta \<Rightarrow> OwnerReference option"
  ml_GroupKind :: "string \<Rightarrow> string \<Rightarrow> string"
  ml_GetCondition :: "PodIntentStatus \<Rightarrow> string \<Rightarrow> Condition option"
  ml_SemanticDeepEqual :: "strmap \<Rightarrow> strmap \<Rightarrow> bool"

type_synonym map_range = "(string, int) fmap \<Rightarrow> (string \<times> int) list"

datatype api_write = Created ConfigMap | Updated ConfigMap

subsection \<open>The counters\<close>

definition podIntentsCountMetricPrefix :: string where
  "podIntentsCountMetricPrefix = ''podintents_count''"
definition podIntentsReadyMetricPrefix :: string where
  "podIntentsReadyMetricPrefix = ''podintents_ready''"
definition podIntentsOwnerMetricPrefix :: string where
  "podIntentsOwnerMetricPrefix = ''podintents_owner''"
definition clusterPodConventionNamesMetricPrefix :: string where
  "clusterPodConventionNamesMetricPrefix = ''clusterpodconventions_names''"

lemmas metric_prefixes = podIntentsCountMetricPrefix_def podIntentsReadyMetricPrefix_def
  podIntentsOwnerMetricPrefix_def clusterPodConventionNamesMetricPrefix_def

definition count_of :: "(string, int) fmap \<Rightarrow> string \<Rightarrow> int" where
  "count_of m k = (case fmlookup m k of None \<Rightarrow> 0 | Some n \<Rightarrow> n)"

definition count_up :: "string \<Rightarrow> (string, int) fmap \<Rightarrow> (string, int) fmap" where
  "count_up k m = fmupd k (count_of m k + 1) m"

definition ready_label :: "metrics_lib \<Rightarrow> PodIntent \<Rightarrow> string" where
  "ready_label lib wd = (case ml_GetCondition lib (pi_Status wd) PodIntentConditionReady of
     None \<Rightarrow> ''unknown''
   | Some c \<Rightarrow> (if cond_Status c = CondTrue then ''true''
               else if cond_Status c = CondFalse then ''false'' else ''unknown''))"

definition owner_kind :: "metrics_lib \<Rightarrow> PodIntent \<Rightarrow> string option" where
  "owner_kind lib wd = map_option (\<lambda>ref. ml_GroupKind lib (or_APIVersion ref) (or_Kind ref))
     (ml_GetControllerOf lib (pi_Meta wd))"

fun count_intents :: "metrics_lib \<Rightarrow> PodIntent list \<Rightarrow> (string, int) fmap \<Rightarrow> (string, int) fmap \<Rightarrow>
    (string, int) fmap \<times> (string, int) fmap" where
  "count_intents lib [] statusMap groupKindMap = (statusMap, groupKindMap)"
| "count_intents lib (wd # podIntents) statusMap groupKindMap =
     count_intents lib podIntents (count_up (ready_label lib wd) statusMap)
       (case owner_kind lib wd of None \<Rightarrow> groupKindMap | Some groupKind \<Rightarrow> count_up groupKind groupKindMap)"

definition count_key :: "string \<Rightarrow> string \<Rightarrow> string" where
  "count_key prefix k = prefix @ ''_'' @ k @ ''_count''"

definition write_counts :: "string \<Rightarrow> (string \<times> int) list \<Rightarrow> (string, string) fmap \<Rightarrow> (string, string) fmap" where
  "write_counts prefix entries m = fold (\<lambda>(k, v). fmupd (count_key prefix k) (itoa v)) entries m"

definition buildConfigMapData :: "metrics_lib \<Rightarrow> map_range \<Rightarrow> PodIntent list \<Rightarrow>
    ClusterPodConvention list \<Rightarrow> (string, string) fmap" where
  "buildConfigMapData lib rng podIntents clusterPodConventions =
     (case count_intents lib podIntents fmempty fmempty of
        (statusMap, groupKindMap) \<Rightarrow>
          let m = write_counts podIntentsReadyMetricPrefix (rng statusMap) fmempty;
              m = write_counts podIntentsOwnerMetricPrefix (rng groupKindMap) m;
              m = fmupd podIntentsCountMetricPrefix (itoa (int (length podIntents))) m;
              conventionNames = map (\<lambda>os. m_Name (cpc_Meta os)) clusterPodConventions
          in fmupd clusterPodConventionNamesMetricPrefix
               (go_join [CHR 0x0A] (sort_strings conventionNames)) m)"

subsection \<open>The controller\<close>

definition configMapSemanticEquals :: "metrics_lib \<Rightarrow> ConfigMap \<Rightarrow> ConfigMap \<Rightarrow> bool" where
  "configMapSemanticEquals lib desired configMap = ml_SemanticDeepEqual lib (cfm_Data desired) (cfm_Data configMap)"

text \<open>Each result is the error and the writes sent to the API server.\<close>

definition createConfigMap :: "metrics_client \<Rightarrow> MetricsReconciler \<Rightarrow> strmap \<Rightarrow> go_error option \<times> api_write list" where
  "createConfigMap c r contents =
     (let configMap = \<lparr>cfm_Meta = zero_meta\<lparr>m_Name := mr_Name r, m_Namespace := mr_Namespace r\<rparr>, cfm_Data = contents\<rparr>
      in (mc_Create c configMap, [Created configMap]))"

definition reconcileConfigMap :: "metrics_client \<Rightarrow> metrics_lib \<Rightarrow> ConfigMap \<Rightarrow> strmap \<Rightarrow>
    go_error option \<times> api_write list" where
  "reconcileConfigMap c lib existing contents =
     (let configMap = existing\<lparr>cfm_Data := contents\<rparr>
      in if configMapSemanticEquals lib configMap existing then (None, [])
         else (mc_Update c configMap, [Updated configMap]))"

definition zero_config_map :: ConfigMap where
  "zero_config_map = \<lparr>cfm_Meta = zero_meta, cfm_Data = None\<rparr>"

definition metrics_reconcile :: "metrics_client \<Rightarrow> metrics_lib \<Rightarrow> map_range \<Rightarrow> MetricsReconciler \<Rightarrow> ConfigMap \<Rightarrow>
    go_error option \<times> api_write list" where
  "metrics_reconcile c lib rng r configMap =
     (case mc_ListPodIntents c of
        Inl err \<Rightarrow> (Some err, [])
      | Inr intents \<Rightarrow>
          (case mc_ListConventions c of
             Inl err \<Rightarrow> (Some err, [])
           | Inr clusterSources \<Rightarrow>
               let contents = Some (buildConfigMapData lib rng intents clusterSources) in
               if m_Name (cfm_Meta configMap) = [] then createConfigMap c r contents
               else reconcileConfigMap c lib configMap contents))"

definition MetricsReconciler_Reconcile :: "metrics_client \<Rightarrow> metrics_lib \<Rightarrow> map_range \<Rightarrow> MetricsReconciler \<Rightarrow>
    string \<Rightarrow> string \<Rightarrow> go_error option \<times> api_write list" where
  "MetricsReconciler_Reconcile c lib rng r ns name =
     (if ns \<noteq> mr_Namespace r \<or> name \<noteq> mr_Name r then (None, [])
      else (case mc_Get c ns name of
          GetFailed err \<Rightarrow> (Some err, [])
        | NotFound \<Rightarrow> metrics_reconcile c lib rng r zero_config_map
        | Found configMap \<Rightarrow>
            (if m_DeletionTimestamp (cfm_Meta configMap) \<noteq> None then (None, [])
             else metrics_reconcile c lib rng r configMap)))"

subsection \<open>The watches\<close>

datatype watched = ConfigMapObject string string | OtherObject

definition enqueueConfigMap :: "MetricsReconciler \<Rightarrow> watched \<Rightarrow> (string \<times> string) list" where
  "enqueueConfigMap r a = [(mr_Namespace r, mr_Name r)]"

fun metrics_event_filter :: "MetricsReconciler \<Rightarrow> watched \<Rightarrow> bool" where
  "metrics_event_filter r OtherObject = True"
| "metrics_event_filter r (ConfigMapObject ns name) = (ns = mr_Namespace r \<and> name = mr_Name r)"

subsection \<open>What the counters say\<close>

definition range_law :: "map_range \<Rightarrow> bool" where
  "range_law rng \<longleftrightarrow> (\<forall>m. distinct (map fst (rng m)) \<and> (\<forall>k v. (k, v) \<in> set (rng m) \<longleftrightarrow> fmlookup m k = Some v))"

definition how_many :: "('a \<Rightarrow> bool) \<Rightarrow> 'a list \<Rightarrow> int" where
  "how_many P xs = int (length (filter P xs))"

definition count_entry :: "int \<Rightarrow> string option" where
  "count_entry n = (if n = 0 then None else Some (itoa n))"

lemma how_many_simps [simp]:
  "how_many P [] = 0" "how_many P (x # xs) = (if P x then 1 else 0) + how_many P xs" "0 \<le> how_many P xs"
  by (simp_all add: how_many_def)

lemma count_of_up: "count_of (count_up k m) k' = count_of m k' + (if k = k' then 1 else 0)"
  by (simp add: count_of_def count_up_def)

lemma count_up_zero:
  "\<forall>k n. fmlookup m k = Some n \<longrightarrow> 0 < n \<Longrightarrow> fmlookup (count_up j m) k = Some n \<Longrightarrow> 0 < n"
  by (auto simp: count_up_def count_of_def split: if_splits option.splits) fastforce

lemma count_intents_counts:
  "count_of (fst (count_intents lib ps s g)) k = count_of s k + how_many (\<lambda>p. ready_label lib p = k) ps"
  "count_of (snd (count_intents lib ps s g)) k = count_of g k + how_many (\<lambda>p. owner_kind lib p = Some k) ps"
  by (induction lib ps s g rule: count_intents.induct) (auto simp: count_of_up split: option.splits)

definition all_positive :: "(string, int) fmap \<Rightarrow> bool" where
  "all_positive m \<longleftrightarrow> (\<forall>k n. fmlookup m k = Some n \<longrightarrow> 0 < n)"

lemma count_up_positive: "all_positive m \<Longrightarrow> all_positive (count_up j m)"
  unfolding all_positive_def using count_up_zero by blast

lemma count_intents_positive:
  "all_positive s \<Longrightarrow> all_positive g \<Longrightarrow>
   all_positive (fst (count_intents lib ps s g)) \<and> all_positive (snd (count_intents lib ps s g))"
  by (induction lib ps s g rule: count_intents.induct) (auto simp: count_up_positive split: option.splits)

lemma positive_lookup: "all_positive m \<Longrightarrow> fmlookup m k = (if count_of m k = 0 then None else Some (count_of m k))"
  by (fastforce simp: all_positive_def count_of_def split: option.splits)

lemma count_key_inj [simp]: "count_key p k = count_key p k' \<longleftrightarrow> k = k'"
  by (simp add: count_key_def)

lemma write_counts_lookup:
  "distinct (map fst entries) \<Longrightarrow>
   fmlookup (write_counts p entries m) (count_key p k) =
     (case map_of entries k of None \<Rightarrow> fmlookup m (count_key p k) | Some v \<Rightarrow> Some (itoa v))"
proof (induction entries arbitrary: m)
  case (Cons e entries)
  obtain a v where e: "e = (a, v)" by (cases e)
  with Cons.prems have "map_of entries a = None" by (auto simp: map_of_eq_None_iff)
  with Cons e show ?case by (auto simp: write_counts_def split: option.splits)
qed (simp add: write_counts_def)

lemma write_counts_other:
  "\<forall>k. key \<noteq> count_key p k \<Longrightarrow> fmlookup (write_counts p entries m) key = fmlookup m key"
  by (induction entries arbitrary: m) (auto simp: write_counts_def)

lemma write_range_lookup:
  assumes "range_law rng"
  shows "fmlookup (write_counts p (rng c) m) (count_key p k) =
    (case fmlookup c k of None \<Rightarrow> fmlookup m (count_key p k) | Some v \<Rightarrow> Some (itoa v))"
proof -
  have d: "distinct (map fst (rng c))" using assms by (simp add: range_law_def)
  have "map_of (rng c) k = fmlookup c k"
  proof (cases "fmlookup c k")
    case None
    with assms have "k \<notin> fst ` set (rng c)" by (force simp: range_law_def)
    with None show ?thesis by (simp add: map_of_eq_None_iff)
  next
    case (Some v)
    with assms have "(k, v) \<in> set (rng c)" by (simp add: range_law_def)
    with d Some show ?thesis by simp
  qed
  with write_counts_lookup [OF d] show ?thesis by simp
qed

lemma metric_keys:
  "count_key podIntentsReadyMetricPrefix k \<noteq> count_key podIntentsOwnerMetricPrefix k'"
  "count_key podIntentsReadyMetricPrefix k \<noteq> podIntentsCountMetricPrefix"
  "count_key podIntentsReadyMetricPrefix k \<noteq> clusterPodConventionNamesMetricPrefix"
  "count_key podIntentsOwnerMetricPrefix k \<noteq> podIntentsCountMetricPrefix"
  "count_key podIntentsOwnerMetricPrefix k \<noteq> clusterPodConventionNamesMetricPrefix"
  "podIntentsCountMetricPrefix \<noteq> clusterPodConventionNamesMetricPrefix"
  by (simp_all add: count_key_def metric_prefixes)

definition names_metric :: "ClusterPodConvention list \<Rightarrow> string" where
  "names_metric cs = go_join [CHR 0x0A] (sort_strings (map (\<lambda>os. m_Name (cpc_Meta os)) cs))"

lemma buildConfigMapData_lookup:
  assumes "range_law rng"
  shows "fmlookup (buildConfigMapData lib rng intents conventions) podIntentsCountMetricPrefix =
      Some (itoa (int (length intents)))"
    and "fmlookup (buildConfigMapData lib rng intents conventions) clusterPodConventionNamesMetricPrefix =
      Some (names_metric conventions)"
    and "fmlookup (buildConfigMapData lib rng intents conventions) (count_key podIntentsReadyMetricPrefix k) =
      count_entry (how_many (\<lambda>p. ready_label lib p = k) intents)"
    and "fmlookup (buildConfigMapData lib rng intents conventions) (count_key podIntentsOwnerMetricPrefix k) =
      count_entry (how_many (\<lambda>p. owner_kind lib p = Some k) intents)"
    and "key \<noteq> podIntentsCountMetricPrefix \<Longrightarrow> key \<noteq> clusterPodConventionNamesMetricPrefix \<Longrightarrow>
      \<forall>k. key \<noteq> count_key podIntentsReadyMetricPrefix k \<Longrightarrow> \<forall>k. key \<noteq> count_key podIntentsOwnerMetricPrefix k \<Longrightarrow>
      fmlookup (buildConfigMapData lib rng intents conventions) key = None"
proof -
  obtain s g where c: "count_intents lib intents fmempty fmempty = (s, g)" by (cases "count_intents lib intents fmempty fmempty")
  have "all_positive (fmempty :: (string, int) fmap)" by (simp add: all_positive_def)
  with c count_intents_positive [of fmempty fmempty lib intents] have pos: "all_positive s" "all_positive g" by auto
  have counts: "count_of s k = how_many (\<lambda>p. ready_label lib p = k) intents"
    "count_of g k = how_many (\<lambda>p. owner_kind lib p = Some k) intents" for k
    using count_intents_counts [of lib intents fmempty fmempty k] c by (simp_all add: count_of_def)
  note defs = buildConfigMapData_def c Let_def names_metric_def
  show "fmlookup (buildConfigMapData lib rng intents conventions) podIntentsCountMetricPrefix =
      Some (itoa (int (length intents)))"
    "fmlookup (buildConfigMapData lib rng intents conventions) clusterPodConventionNamesMetricPrefix =
      Some (names_metric conventions)"
    using metric_keys by (simp_all add: defs)
  show "fmlookup (buildConfigMapData lib rng intents conventions) (count_key podIntentsReadyMetricPrefix k) =
      count_entry (how_many (\<lambda>p. ready_label lib p = k) intents)"
    using metric_keys metric_keys [symmetric] pos counts
    by (simp add: defs write_counts_other write_range_lookup [OF assms] positive_lookup count_entry_def)
  show "fmlookup (buildConfigMapData lib rng intents conventions) (count_key podIntentsOwnerMetricPrefix k) =
      count_entry (how_many (\<lambda>p. owner_kind lib p = Some k) intents)"
    using metric_keys metric_keys [symmetric] pos counts
    by (simp add: defs write_counts_other write_range_lookup [OF assms] positive_lookup count_entry_def)
  show "key \<noteq> podIntentsCountMetricPrefix \<Longrightarrow> key \<noteq> clusterPodConventionNamesMetricPrefix \<Longrightarrow>
      \<forall>k. key \<noteq> count_key podIntentsReadyMetricPrefix k \<Longrightarrow> \<forall>k. key \<noteq> count_key podIntentsOwnerMetricPrefix k \<Longrightarrow>
      fmlookup (buildConfigMapData lib rng intents conventions) key = None"
    by (auto simp: defs write_counts_other)
qed

lemma how_many_partition:
  "(\<forall>x \<in> set xs. f x \<in> {a, b, c}) \<Longrightarrow> distinct [a, b, c] \<Longrightarrow>
   how_many (\<lambda>x. f x = a) xs + how_many (\<lambda>x. f x = b) xs + how_many (\<lambda>x. f x = c) xs = int (length xs)"
  by (induction xs) auto

text \<open>Reading a counter back: a missing entry counts as zero.\<close>

definition metric_value :: "(string, string) fmap \<Rightarrow> string \<Rightarrow> int" where
  "metric_value m k = (case fmlookup m k of None \<Rightarrow> 0
     | Some s \<Rightarrow> (case atoi s of Inl _ \<Rightarrow> - 1 | Inr n \<Rightarrow> n))"

lemma how_many_le: "how_many P xs \<le> int (length xs)"
  by (simp add: how_many_def)

subsection \<open>The properties of the counters\<close>

text \<open>Concrete values for the examples below.\<close>

definition sorted_range :: map_range where
  "sorted_range m = map (\<lambda>k. (k, the (fmlookup m k))) (sorted_list_of_fset (fmdom m))"

lemma sorted_range_law: "range_law sorted_range"
  by (auto simp: range_law_def sorted_range_def o_def fmlookup_dom_iff sorted_list_of_fset.rep_eq)

definition sample_metrics_lib :: metrics_lib where
  "sample_metrics_lib = \<lparr>ml_GetControllerOf = (\<lambda>m. find (\<lambda>r. or_Controller r = Some True) (m_OwnerReferences m)),
     ml_GroupKind = (\<lambda>version kind. kind @ ''.'' @ version),
     ml_GetCondition = (\<lambda>s t. find (\<lambda>c. cond_Type c = t) (st_Conditions s)),
     ml_SemanticDeepEqual = (\<lambda>a b. map_init a = map_init b)\<rparr>"

definition ready_intent :: "cond_status \<Rightarrow> PodIntent" where
  "ready_intent st = sample_intent\<lparr>pi_Status := (pi_Status sample_intent)\<lparr>st_Conditions :=
     [\<lparr>cond_Type = ConditionReady, cond_Status = st, cond_Reason = [], cond_Message = NoMessage\<rparr>]\<rparr>\<rparr>"

definition sample_metrics_client :: metrics_client where
  "sample_metrics_client = \<lparr>mc_Get = (\<lambda>ns name. NotFound),
     mc_ListPodIntents = Inr [ready_intent CondTrue, ready_intent CondFalse, ready_intent CondTrue],
     mc_ListConventions = Inr [], mc_Create = (\<lambda>_. None), mc_Update = (\<lambda>_. None)\<rparr>"

definition sample_metrics :: MetricsReconciler where
  "sample_metrics = \<lparr>mr_Namespace = ''system'', mr_Name = ''metrics''\<rparr>"

text \<open>C30: The data of the config map is determined by the intents and the conventions whatever the
  order in which Go iterates over its maps: the number of intents, the sorted names of the
  conventions, one counter for each readiness and for each controller kind that occurs, with the
  number of intents it occurs in, and nothing else.\<close>

theorem metrics_exact:
  assumes "range_law rng"
  shows "fmlookup (buildConfigMapData lib rng intents conventions) key =
    (if key = ''podintents_count'' then Some (itoa (int (length intents)))
     else if key = ''clusterpodconventions_names'' then Some (names_metric conventions)
     else if \<exists>k. key = count_key ''podintents_ready'' k
       then count_entry (how_many (\<lambda>p. count_key ''podintents_ready'' (ready_label lib p) = key) intents)
     else if \<exists>k. key = count_key ''podintents_owner'' k
       then count_entry (how_many (\<lambda>p. map_option (count_key ''podintents_owner'') (owner_kind lib p) = Some key) intents)
     else None)"
proof -
  note lookup = buildConfigMapData_lookup [OF assms, where lib = lib and intents = intents and conventions = conventions, unfolded metric_prefixes]
  have owner: "(map_option (count_key p) (owner_kind lib x) = Some (count_key p k)) \<longleftrightarrow> owner_kind lib x = Some k" for p x k
    by (cases "owner_kind lib x") auto
  show ?thesis
    using lookup(1,2) lookup(3) lookup(4) lookup(5) [of key] metric_keys(1) [unfolded metric_prefixes]
    by (auto simp: owner)
qed

lemma metrics_exact_witness:
  "fmlookup (buildConfigMapData sample_metrics_lib sorted_range [ready_intent CondTrue, ready_intent CondTrue] [])
     (count_key ''podintents_ready'' ''true'') = Some ''2''"
proof -
  have "fmlookup (buildConfigMapData sample_metrics_lib sorted_range [ready_intent CondTrue, ready_intent CondTrue] [])
      (count_key ''podintents_ready'' ''true'') =
    count_entry (how_many (\<lambda>p. count_key ''podintents_ready'' (ready_label sample_metrics_lib p) =
      count_key ''podintents_ready'' ''true'') [ready_intent CondTrue, ready_intent CondTrue])"
    using metrics_exact [OF sorted_range_law, where key = "count_key ''podintents_ready'' ''true''"]
    by (simp add: count_key_def)
  also have "\<dots> = Some ''2''" by code_simp
  finally show ?thesis .
qed

text \<open>The counters agree with each other: the three readiness counters add up to the number of
  intents, each read back from its decimal text, as long as that number is a Go \<open>int\<close>.\<close>

lemma metrics_counts_sum:
  assumes "range_law rng" and "length intents < 2 ^ 63"
  shows "let m = buildConfigMapData lib rng intents conventions in
    metric_value m ''podintents_ready_true_count'' + metric_value m ''podintents_ready_false_count'' +
    metric_value m ''podintents_ready_unknown_count'' = metric_value m ''podintents_count'' \<and>
    metric_value m ''podintents_count'' = int (length intents)"
proof -
  let ?m = "buildConfigMapData lib rng intents conventions"
  note lookup = buildConfigMapData_lookup [OF assms(1), where lib = lib and intents = intents and conventions = conventions, unfolded metric_prefixes]
  have small: "how_many P intents < 2 ^ 63" for P
    using how_many_le [of P intents] assms(2) by simp
  have low: "- (2 ^ 63) \<le> how_many P intents" for P
    by (rule order_trans [of _ 0]) simp_all
  have ready: "metric_value ?m (count_key ''podintents_ready'' k) = how_many (\<lambda>p. ready_label lib p = k) intents" for k
    using atoi_itoa [OF low small [of "\<lambda>p. ready_label lib p = k"]]
    by (simp add: metric_value_def lookup(3) count_entry_def)
  have total: "metric_value ?m ''podintents_count'' = int (length intents)"
    using atoi_itoa [of "int (length intents)"] assms(2) by (simp add: metric_value_def lookup(1))
  have parts: "\<forall>p \<in> set intents. ready_label lib p \<in> {''true'', ''false'', ''unknown''}"
    by (simp add: ready_label_def split: option.split)
  from ready [of "''true''"] ready [of "''false''"] ready [of "''unknown''"] how_many_partition [OF parts] total
  show ?thesis by (simp add: Let_def count_key_def)
qed

lemma metrics_counts_sum_witness:
  "metric_value (buildConfigMapData sample_metrics_lib sorted_range [ready_intent CondTrue, ready_intent CondFalse] [])
     ''podintents_count'' = 2"
  using metrics_counts_sum [OF sorted_range_law, of "[ready_intent CondTrue, ready_intent CondFalse]"
      sample_metrics_lib "[]"]
  by (simp add: Let_def)

subsection \<open>Convergence\<close>

text \<open>
  The API server as the controller sees it: it returns what was last written, and a write that is
  reported to have failed leaves it as it was.
\<close>

definition stored_client :: "metrics_client \<Rightarrow> ConfigMap option \<Rightarrow> metrics_client" where
  "stored_client c store = c\<lparr>mc_Get := (\<lambda>ns name. case store of None \<Rightarrow> NotFound | Some configMap \<Rightarrow> Found configMap)\<rparr>"

fun store_write :: "api_write \<Rightarrow> ConfigMap option" where
  "store_write (Created configMap) = Some configMap"
| "store_write (Updated configMap) = Some configMap"

definition store_after :: "go_error option \<times> api_write list \<Rightarrow> ConfigMap option \<Rightarrow> ConfigMap option" where
  "store_after run store = (case run of
     (None, w # _) \<Rightarrow> store_write w | _ \<Rightarrow> store)"

text \<open>Documented: semantic equality does not distinguish a nil map from an empty one.\<close>

definition semantic_law :: "metrics_lib \<Rightarrow> bool" where
  "semantic_law lib \<longleftrightarrow> (\<forall>a b. ml_SemanticDeepEqual lib a b \<longleftrightarrow> map_init a = map_init b)"

lemma map_init_simps [simp]: "map_init (Some m) = Some m" "map_init (map_init n) = map_init n"
  by (simp_all add: map_init_def split: option.split)

lemma stored_client_simps [simp]:
  "mc_ListPodIntents (stored_client c st) = mc_ListPodIntents c"
  "mc_ListConventions (stored_client c st) = mc_ListConventions c"
  "mc_Create (stored_client c st) = mc_Create c" "mc_Update (stored_client c st) = mc_Update c"
  "mc_Get (stored_client c st) ns name = (case st of None \<Rightarrow> NotFound | Some configMap \<Rightarrow> Found configMap)"
  by (simp_all add: stored_client_def)

text \<open>C31: One pass is enough: after a pass without an error over a config map that is not being
  deleted, the stored config map is the controller's own, holds the computed data and keeps the
  metadata it had, and a further pass over the same intents and conventions writes nothing.\<close>

theorem metrics_converges:
  assumes "semantic_law lib" and "mr_Name r \<noteq> []"
    and "\<forall>cm. store = Some cm \<longrightarrow> m_Name (cfm_Meta cm) = mr_Name r \<and> m_DeletionTimestamp (cfm_Meta cm) = None"
    and lists: "mc_ListPodIntents c = Inr intents" "mc_ListConventions c = Inr conventions"
    and run: "MetricsReconciler_Reconcile (stored_client c store) lib rng r (mr_Namespace r) (mr_Name r) = (None, writes)"
    and after: "store' = store_after (None, writes) store"
  shows "(\<exists>cm. store' = Some cm \<and> m_Name (cfm_Meta cm) = mr_Name r \<and>
      map_init (cfm_Data cm) = Some (buildConfigMapData lib rng intents conventions) \<and>
      (\<forall>old. store = Some old \<longrightarrow> cfm_Meta cm = cfm_Meta old)) \<and>
    MetricsReconciler_Reconcile (stored_client c store') lib rng r (mr_Namespace r) (mr_Name r) = (None, [])"
proof (cases store)
  case None
  with assms show ?thesis
    by (auto simp: MetricsReconciler_Reconcile_def metrics_reconcile_def createConfigMap_def reconcileConfigMap_def
        zero_config_map_def zero_meta_def store_after_def configMapSemanticEquals_def semantic_law_def Let_def)
next
  case (Some cm)
  with assms(2,3) have cm: "m_Name (cfm_Meta cm) = mr_Name r" "m_Name (cfm_Meta cm) \<noteq> []"
    "m_DeletionTimestamp (cfm_Meta cm) = None" by auto
  let ?data = "Some (buildConfigMapData lib rng intents conventions)"
  show ?thesis
  proof (cases "?data = map_init (cfm_Data cm)")
    case True
    with run Some cm lists assms(1) have "writes = []"
      by (simp add: MetricsReconciler_Reconcile_def metrics_reconcile_def reconcileConfigMap_def
          configMapSemanticEquals_def semantic_law_def Let_def)
    with True run Some cm after show ?thesis by (simp add: store_after_def)
  next
    case False
    with run Some cm lists assms(1) have w: "writes = [Updated (cm\<lparr>cfm_Data := ?data\<rparr>)]"
      by (auto simp: MetricsReconciler_Reconcile_def metrics_reconcile_def reconcileConfigMap_def
          configMapSemanticEquals_def semantic_law_def Let_def)
    with Some cm lists assms(1) after show ?thesis
      by (simp add: MetricsReconciler_Reconcile_def metrics_reconcile_def reconcileConfigMap_def store_after_def
          configMapSemanticEquals_def semantic_law_def Let_def)
  qed
qed

lemma metrics_converges_witness:
  "MetricsReconciler_Reconcile (stored_client sample_metrics_client
     (store_after (MetricsReconciler_Reconcile (stored_client sample_metrics_client None) sample_metrics_lib
        sorted_range sample_metrics ''system'' ''metrics'') None))
     sample_metrics_lib sorted_range sample_metrics ''system'' ''metrics'' = (None, [])"
proof -
  let ?run = "MetricsReconciler_Reconcile (stored_client sample_metrics_client None) sample_metrics_lib
    sorted_range sample_metrics (mr_Namespace sample_metrics) (mr_Name sample_metrics)"
  have "fst ?run = None"
    by (simp add: MetricsReconciler_Reconcile_def metrics_reconcile_def createConfigMap_def sample_metrics_client_def
        zero_config_map_def zero_meta_def Let_def)
  then have run: "?run = (None, snd ?run)" by (metis prod.collapse)
  have "MetricsReconciler_Reconcile (stored_client sample_metrics_client (store_after (None, snd ?run) None))
      sample_metrics_lib sorted_range sample_metrics (mr_Namespace sample_metrics) (mr_Name sample_metrics) = (None, [])"
    using metrics_converges [OF _ _ _ _ _ run refl, of
        "[ready_intent CondTrue, ready_intent CondFalse, ready_intent CondTrue]" "[]"]
    by (simp add: semantic_law_def sample_metrics_lib_def sample_metrics_def sample_metrics_client_def)
  then have "MetricsReconciler_Reconcile (stored_client sample_metrics_client (store_after ?run None))
      sample_metrics_lib sorted_range sample_metrics (mr_Namespace sample_metrics) (mr_Name sample_metrics) = (None, [])"
    by (simp only: run [symmetric])
  then show ?thesis by (simp add: sample_metrics_def)
qed

text \<open>The controller writes only its own config map: for any other request, and for a config map
  that is being deleted, it does nothing; every event it lets through asks for its own config map.\<close>

lemma metrics_own_map_only:
  "(snd (MetricsReconciler_Reconcile c lib rng r ns name) \<noteq> [] \<longrightarrow> ns = mr_Namespace r \<and> name = mr_Name r) \<and>
   (mc_Get c ns name = Found cm \<and> m_DeletionTimestamp (cfm_Meta cm) \<noteq> None \<longrightarrow>
      MetricsReconciler_Reconcile c lib rng r ns name = (None, [])) \<and>
   (metrics_event_filter r (ConfigMapObject ns name) \<longleftrightarrow> (ns, name) \<in> set (enqueueConfigMap r obj))"
  by (auto simp: MetricsReconciler_Reconcile_def enqueueConfigMap_def)

end
