(* ===== verification/Watches.thy ===== *)
theory Watches
  imports Reconciler Metrics
begin

text \<open>
  When a controller runs: the \<open>Setup\<close> functions of the sub-reconcilers
  (\<open>pkg/controllers/podintent_reconciler.go\<close>) and \<open>SetupWithManager\<close> of the metrics controller
  (\<open>pkg/controllers/metrics_reconciler.go\<close>) tell a builder which objects to watch and what an event
  on one enqueues. The builder, the handlers of controller-runtime and the tracker of
  \<open>reconciler.io/runtime\<close> are libraries: which requests an event leads to is the parameter
  \<open>event_lib\<close>, and their documented behaviour is \<open>event_law\<close>.
\<close>

subsection \<open>Events and handlers\<close>

type_synonym request = "string \<times> string"

datatype watched_kind =
    KindPodIntent | KindClusterPodConvention | KindCertificateRequest
  | KindSecret | KindServiceAccount | KindConfigMap

datatype event_type = CreateEvent | UpdateEvent | DeleteEvent | GenericEvent

record watch_event =
  we_Type :: event_type
  we_Kind :: watched_kind
  we_Namespace :: string
  we_Name :: string

text \<open>The references the tracker was given, each with the request of the object it was tracked for.\<close>

type_synonym tracker = "(request \<times> Reference) list"

datatype event_handler =
    EnqueueRequestForObject
  | Funcs
  | EnqueueTracked
  | EnqueueRequestsFromMapFunc "watched \<Rightarrow> request list"

record builder =
  bl_Watches :: "(watched_kind \<times> event_handler) list"
  bl_OnlyMetadata :: "watched_kind list"
  bl_CreateFunc :: "watched \<Rightarrow> bool"
  bl_UpdateFunc :: "watched \<Rightarrow> bool"

definition new_builder :: builder where
  "new_builder = \<lparr>bl_Watches = [], bl_OnlyMetadata = [], bl_CreateFunc = (\<lambda>_. True), bl_UpdateFunc = (\<lambda>_. True)\<rparr>"

definition For :: "watched_kind \<Rightarrow> builder \<Rightarrow> builder" where
  "For k b = b\<lparr>bl_Watches := bl_Watches b @ [(k, EnqueueRequestForObject)]\<rparr>"

definition Watches :: "watched_kind \<Rightarrow> event_handler \<Rightarrow> builder \<Rightarrow> builder" where
  "Watches k h b = b\<lparr>bl_Watches := bl_Watches b @ [(k, h)]\<rparr>"

definition only_metadata :: "watched_kind \<Rightarrow> builder \<Rightarrow> builder" where
  "only_metadata k b = b\<lparr>bl_OnlyMetadata := bl_OnlyMetadata b @ [k]\<rparr>"

text \<open>The type an object has for a handler that asks whether it is a config map.\<close>

definition watched_of :: "watch_event \<Rightarrow> watched" where
  "watched_of e = (if we_Kind e = KindConfigMap then ConfigMapObject (we_Namespace e) (we_Name e) else OtherObject)"

subsection \<open>What the controllers watch\<close>

definition ResolveConventions_Setup :: "builder \<Rightarrow> go_error option \<times> builder" where
  "ResolveConventions_Setup bldr =
     (None, Watches KindCertificateRequest EnqueueTracked (Watches KindClusterPodConvention Funcs bldr))"

definition BuildRegistryConfig_Setup :: "builder \<Rightarrow> go_error option \<times> builder" where
  "BuildRegistryConfig_Setup bldr =
     (None, Watches KindServiceAccount EnqueueTracked (only_metadata KindSecret (Watches KindSecret EnqueueTracked bldr)))"

text \<open>The framework watches the reconciled type and then sets up each sub-reconciler of the sequence;
  \<open>ApplyConventions\<close> has no set-up.\<close>

definition pod_intent_builder :: builder where
  "pod_intent_builder = snd (BuildRegistryConfig_Setup (snd (ResolveConventions_Setup (For KindPodIntent new_builder))))"

definition metrics_builder :: "MetricsReconciler \<Rightarrow> builder" where
  "metrics_builder r =
     (let enqueue = EnqueueRequestsFromMapFunc (enqueueConfigMap r)
      in Watches KindPodIntent enqueue (Watches KindClusterPodConvention enqueue
          ((For KindConfigMap new_builder)
             \<lparr>bl_CreateFunc := metrics_event_filter r, bl_UpdateFunc := metrics_event_filter r\<rparr>)))"

definition MetricsReconciler_SetupWithManager :: "(builder \<Rightarrow> go_error option) \<Rightarrow> MetricsReconciler \<Rightarrow> go_error option" where
  "MetricsReconciler_SetupWithManager Complete r = Complete (metrics_builder r)"

subsection \<open>What an event enqueues\<close>

fun kind_ref :: "watched_kind \<Rightarrow> string \<times> string" where
  "kind_ref KindPodIntent = (''PodIntent'', ''conventions.carto.run'')"
| "kind_ref KindClusterPodConvention = (''ClusterPodConvention'', ''conventions.carto.run'')"
| "kind_ref KindCertificateRequest = (''CertificateRequest'', ''cert-manager.io'')"
| "kind_ref KindSecret = (''Secret'', [])"
| "kind_ref KindServiceAccount = (''ServiceAccount'', [])"
| "kind_ref KindConfigMap = (''ConfigMap'', [])"

definition event_ref :: "watch_event \<Rightarrow> Reference" where
  "event_ref e = \<lparr>tr_Kind = fst (kind_ref (we_Kind e)), tr_APIGroup = snd (kind_ref (we_Kind e)),
     tr_Namespace = we_Namespace e, tr_Name = we_Name e\<rparr>"

type_synonym event_lib = "builder \<Rightarrow> tracker \<Rightarrow> watch_event \<Rightarrow> request list"

text \<open>
  Documented: an event passes the predicates of the builder (a predicate without a function for the
  type of the event lets it pass) and goes to the handlers of its kind. \<open>EnqueueRequestForObject\<close>
  enqueues the object, \<open>Funcs\<close> without functions nothing, \<open>EnqueueTracked\<close> every request the object
  is tracked for, \<open>EnqueueRequestsFromMapFunc\<close> what the function returns.
\<close>

fun handled :: "event_handler \<Rightarrow> tracker \<Rightarrow> watch_event \<Rightarrow> request set" where
  "handled EnqueueRequestForObject t e = {(we_Namespace e, we_Name e)}"
| "handled Funcs t e = {}"
| "handled EnqueueTracked t e = {k. (k, event_ref e) \<in> set t}"
| "handled (EnqueueRequestsFromMapFunc f) t e = set (f (watched_of e))"

definition passes :: "builder \<Rightarrow> watch_event \<Rightarrow> bool" where
  "passes b e = (case we_Type e of
     CreateEvent \<Rightarrow> bl_CreateFunc b (watched_of e)
   | UpdateEvent \<Rightarrow> bl_UpdateFunc b (watched_of e)
   | _ \<Rightarrow> True)"

definition event_law :: "event_lib \<Rightarrow> bool" where
  "event_law el \<longleftrightarrow> (\<forall>b t e. set (el b t e) =
     {k. passes b e \<and> (\<exists>h. (we_Kind e, h) \<in> set (bl_Watches b) \<and> k \<in> handled h t e)})"

lemmas builder_defs = new_builder_def For_def Watches_def only_metadata_def

lemma pod_intent_watches:
  "bl_Watches pod_intent_builder =
     [(KindPodIntent, EnqueueRequestForObject), (KindClusterPodConvention, Funcs), (KindCertificateRequest, EnqueueTracked),
      (KindSecret, EnqueueTracked), (KindServiceAccount, EnqueueTracked)]"
  "passes pod_intent_builder e"
  by (simp_all add: passes_def pod_intent_builder_def ResolveConventions_Setup_def BuildRegistryConfig_Setup_def builder_defs
      split: event_type.split)

lemma metrics_watches:
  "bl_Watches (metrics_builder r) =
     [(KindConfigMap, EnqueueRequestForObject), (KindClusterPodConvention, EnqueueRequestsFromMapFunc (enqueueConfigMap r)),
      (KindPodIntent, EnqueueRequestsFromMapFunc (enqueueConfigMap r))]"
  "passes (metrics_builder r) e \<longleftrightarrow>
     we_Type e \<in> {CreateEvent, UpdateEvent} \<longrightarrow> metrics_event_filter r (watched_of e)"
  by (auto simp: passes_def metrics_builder_def builder_defs Let_def split: event_type.split)

text \<open>The requests of the two controllers, event by event.\<close>

lemma pod_intent_requests:
  assumes "event_law el"
  shows "set (el pod_intent_builder t e) = (case we_Kind e of
      KindPodIntent \<Rightarrow> {(we_Namespace e, we_Name e)}
    | KindCertificateRequest \<Rightarrow> {k. (k, event_ref e) \<in> set t}
    | KindSecret \<Rightarrow> {k. (k, event_ref e) \<in> set t}
    | KindServiceAccount \<Rightarrow> {k. (k, event_ref e) \<in> set t}
    | _ \<Rightarrow> {})"
  using assms by (auto simp: event_law_def pod_intent_watches split: watched_kind.split)

lemma metrics_requests:
  assumes "event_law el"
  shows "set (el (metrics_builder r) t e) = (case we_Kind e of
      KindPodIntent \<Rightarrow> {(mr_Namespace r, mr_Name r)}
    | KindClusterPodConvention \<Rightarrow> {(mr_Namespace r, mr_Name r)}
    | KindConfigMap \<Rightarrow>
        (if we_Type e \<in> {CreateEvent, UpdateEvent} \<and> (we_Namespace e, we_Name e) \<noteq> (mr_Namespace r, mr_Name r)
         then {} else {(we_Namespace e, we_Name e)})
    | _ \<Rightarrow> {})"
  using assms
  by (auto simp: event_law_def metrics_watches watched_of_def enqueueConfigMap_def
      split: watched_kind.split)

text \<open>A builder that works as documented, to show that the law can hold.\<close>

fun plain_handle :: "event_handler \<Rightarrow> tracker \<Rightarrow> watch_event \<Rightarrow> request list" where
  "plain_handle EnqueueRequestForObject t e = [(we_Namespace e, we_Name e)]"
| "plain_handle Funcs t e = []"
| "plain_handle EnqueueTracked t e = map fst (filter (\<lambda>(k, r). r = event_ref e) t)"
| "plain_handle (EnqueueRequestsFromMapFunc f) t e = f (watched_of e)"

definition plain_events :: event_lib where
  "plain_events b t e = (if passes b e
     then concat (map (\<lambda>(k, h). if k = we_Kind e then plain_handle h t e else []) (bl_Watches b)) else [])"

lemma plain_handle_set: "set (plain_handle h t e) = handled h t e"
  by (cases h) force+

lemma plain_events_law: "event_law plain_events"
  by (force simp: event_law_def plain_events_def plain_handle_set split: if_splits)

end
