(* ===== verification/Stability.thy ===== *)
theory Stability
  imports Reconciler
begin

text \<open>
  A pass over an intent (\<open>pkg/controllers/podintent_reconciler.go\<close>) does the same to every status it
  may start from: the result, the tracked references and the marks it leaves do not depend on what
  an earlier pass wrote there. So repeating a pass with the same answers changes nothing, provided
  the condition manager forgets its marks when the conditions are initialised again
  (\<open>forget_law\<close>, documented for the manager: it keeps one condition of each type and the ones it does not manage).
\<close>

subsection \<open>Marks\<close>

datatype mark = MarkedFalse string cond_message | MarkedTrue string cond_message PodTemplateSpec

fun do_mark :: "cond_set_lib \<Rightarrow> mark \<Rightarrow> PodIntentStatus \<Rightarrow> PodIntentStatus" where
  "do_mark lib (MarkedFalse r m) x = x\<lparr>st_Conditions :=
     cm_MarkFalse (podintentCondSet lib) PodIntentConditionConventionsApplied r m (st_Conditions x)\<rparr>"
| "do_mark lib (MarkedTrue r m t) x = x\<lparr>st_Conditions :=
     cm_MarkTrue (podintentCondSet lib) PodIntentConditionConventionsApplied r m (st_Conditions x), st_Template := Some t\<rparr>"

definition do_marks :: "cond_set_lib \<Rightarrow> mark list \<Rightarrow> PodIntentStatus \<Rightarrow> PodIntentStatus" where
  "do_marks lib ms x = fold (do_mark lib) ms x"

lemma do_marks_simps [simp]:
  "do_marks lib [] x = x" "do_marks lib (ms @ ms') x = do_marks lib ms' (do_marks lib ms x)"
  "do_marks lib [n] x = do_mark lib n x"
  by (simp_all add: do_marks_def)

definition with_status :: "PodIntentStatus \<Rightarrow> rec_state \<Rightarrow> rec_state" where
  "with_status x s = s\<lparr>rs_parent := (rs_parent s)\<lparr>pi_Status := x\<rparr>\<rparr>"

lemma with_status_simps [simp]:
  "pi_Meta (rs_parent (with_status x s)) = pi_Meta (rs_parent s)" "pi_Spec (rs_parent (with_status x s)) = pi_Spec (rs_parent s)"
  "pi_Status (rs_parent (with_status x s)) = x" "rs_stash (with_status x s) = rs_stash s"
  "rs_tracked (with_status x s) = rs_tracked s"
  "mark_false lib r m (with_status x s) = with_status (do_mark lib (MarkedFalse r m) x) s"
  "StashConventions cs (with_status x s) = with_status x (StashConventions cs s)"
  "StashRegistryConfig rc (with_status x s) = with_status x (StashRegistryConfig rc s)"
  "track refs (with_status x s) = with_status x (track refs s)"
  "default_parent (with_status x s) = with_status x (default_parent s)"
  "RetrieveConventions (with_status x s) = RetrieveConventions s"
  "RetrieveRegistryConfig (with_status x s) = RetrieveRegistryConfig s"
  by (simp_all add: with_status_def mark_false_def GetConditionSet_def StashConventions_def StashRegistryConfig_def track_def
      default_parent_def RetrieveConventions_def RetrieveRegistryConfig_def)

lemma mark_true_with_status [simp]:
  "mark_true lib r m (set_status_template t (with_status x s)) = with_status (do_mark lib (MarkedTrue r m t) x) s"
  by (simp add: with_status_def mark_true_def set_status_template_def GetConditionSet_def)

definition applied_is :: "cond_set_lib \<Rightarrow> cond_status \<Rightarrow> PodIntentStatus \<Rightarrow> bool" where
  "applied_is lib v x \<longleftrightarrow> map_option cond_Status
     (cm_GetCondition (podintentCondSet lib) PodIntentConditionConventionsApplied (st_Conditions x)) = Some v"

lemma applied_after_false: "cond_set_law lib \<Longrightarrow> applied_is lib CondFalse (do_mark lib (MarkedFalse r m) x)"
  using applied_not_ready by (auto simp: cond_set_law_def applied_is_def podintentCondSet_def Let_def)

subsection \<open>Steps that do the same to every status\<close>

definition uniform :: "cond_set_lib \<Rightarrow> (PodIntentStatus \<Rightarrow> bool) \<Rightarrow> sub_reconciler_fn \<Rightarrow> rec_state \<Rightarrow> bool" where
  "uniform lib P r s \<longleftrightarrow> (\<exists>res ms u. \<forall>x. P x \<longrightarrow> r (with_status x s) = (res, with_status (do_marks lib ms x) u))"

text \<open>A step before the last: it leaves the status alone or fails it, whatever the status is.\<close>

definition early :: "cond_set_lib \<Rightarrow> sub_reconciler_fn \<Rightarrow> bool" where
  "early lib r \<longleftrightarrow> (\<forall>s. \<exists>res ms u. (ms = [] \<or> (\<exists>reason m. ms = [MarkedFalse reason m])) \<and>
     (\<forall>x. r (with_status x s) = (res, with_status (do_marks lib ms x) u)))"

lemma ResolveConventions_early: "early lib (ResolveConventions lib kl)"
  unfolding early_def
proof
  fix s :: rec_state
  show "\<exists>res ms u. (ms = [] \<or> (\<exists>reason m. ms = [MarkedFalse reason m])) \<and>
      (\<forall>x. ResolveConventions lib kl (with_status x s) = (res, with_status (do_marks lib ms x) u))"
  proof (cases "kl_ListConventions kl")
    case (Inl e)
    then show ?thesis by (intro exI [of _ "Inl e"] exI [of _ "[]"] exI [of _ s]) (simp add: ResolveConventions_def)
  next
    case (Inr items)
    show ?thesis
    proof (cases "build_conventions kl [] items")
      case (Inl e)
      with \<open>kl_ListConventions kl = Inr items\<close> show ?thesis
        by (intro exI [of _ "Inr False"] exI [of _ "[MarkedFalse ''CABundleResolutionFailed'' (FailedToAuthenticate e)]"] exI [of _ s])
          (simp add: ResolveConventions_def)
    next
      case (Inr cs)
      with \<open>kl_ListConventions kl = Inr items\<close> show ?thesis
        by (intro exI [of _ "Inr False"] exI [of _ "[]"] exI [of _ "StashConventions cs s"]) (simp add: ResolveConventions_def)
    qed
  qed
qed

lemma BuildRegistryConfig_early: "early lib (BuildRegistryConfig lib kl rc)"
  unfolding early_def
proof
  fix s :: rec_state
  let ?ns = "m_Namespace (pi_Meta (rs_parent s))" and ?secrets = "pi_ImagePullSecrets (pi_Spec (rs_parent s))"
  let ?s1 = "default_parent (track (map (secret_ref ?ns) ?secrets) s)"
  let ?account = "pi_ServiceAccountName (pi_Spec (rs_parent ?s1))"
  let ?s2 = "track [service_account_ref ?ns ?account] ?s1"
  show "\<exists>res ms u. (ms = [] \<or> (\<exists>reason m. ms = [MarkedFalse reason m])) \<and>
      (\<forall>x. BuildRegistryConfig lib kl rc (with_status x s) = (res, with_status (do_marks lib ms x) u))"
  proof (cases "rc_Client rc")
    case None
    then show ?thesis by (intro exI [of _ "Inl ErrClientNotSet"] exI [of _ "[]"] exI [of _ s]) (simp add: BuildRegistryConfig_def)
  next
    case (Some client)
    note client = Some
    show ?thesis
    proof (cases "kl_K8sChain kl client ?ns ?account ?secrets")
      case (Inl e)
      with client show ?thesis
        by (intro exI [of _ "Inr False"] exI [of _ "[MarkedFalse ''ImageResolutionFailed'' (FailedToAuthenticate e)]"] exI [of _ ?s1])
          (simp add: BuildRegistryConfig_def Let_def)
    next
      case kc: (Inr kc)
      show ?thesis
      proof (cases "kl_GetServiceAccount kl ?ns ?account")
        case (Inl e)
        with client kc show ?thesis
          by (intro exI [of _ "Inr False"] exI [of _ "[MarkedFalse ''ImageResolutionFailed'' (FailedToAuthenticate e)]"] exI [of _ ?s2])
            (simp add: BuildRegistryConfig_def Let_def)
      next
        case (Inr sa)
        with client kc show ?thesis
          by (intro exI [of _ "Inr False"] exI [of _ "[]"]
              exI [of _ "StashRegistryConfig \<lparr>rc_Keys = Some kc, rc_Cache = rc_Cache rc, rc_Client = rc_Client rc, rc_CACertPath = rc_CACertPath rc\<rparr>
                (track (map (secret_ref ?ns) (sa_ImagePullSecrets sa)) ?s2)"])
            (simp add: BuildRegistryConfig_def Let_def)
      qed
    qed
  qed
qed

text \<open>Applying the conventions does not read the status of the intent.\<close>

lemma apply_loop_status:
  "apply_loop resolve call cs (s\<lparr>ap_parent := (ap_parent s)\<lparr>pi_Status := x\<rparr>\<rparr>) =
     (case apply_loop resolve call cs s of (e, s') \<Rightarrow> (e, s'\<lparr>ap_parent := (ap_parent s')\<lparr>pi_Status := x\<rparr>\<rparr>))"
proof (induction cs arbitrary: s)
  case (Cons c cs)
  obtain configs err w where res: "resolve (Some (ap_workload s)) = (configs, err, w)"
    by (cases "resolve (Some (ap_workload s))") auto
  have moved: "after_resolve w (s\<lparr>ap_parent := (ap_parent s)\<lparr>pi_Status := x\<rparr>\<rparr>) =
      (after_resolve w s)\<lparr>ap_parent := (ap_parent (after_resolve w s))\<lparr>pi_Status := x\<rparr>\<rparr>"
    by (auto simp: after_resolve_def share_containers_def split: option.split)
  have kept: "after_response c resp (t\<lparr>ap_parent := q\<rparr>) = (after_response c resp t)\<lparr>ap_parent := q\<rparr>" for resp t q
    by (simp add: after_response_def Let_def)
  show ?case
    using Cons.IH [of "after_response c _ (after_resolve w s)"]
    by (auto simp: res moved kept Let_def split: option.split sum.split)
qed simp

lemma Conventions_Apply_status:
  "Conventions_Apply resolve call (Some (p\<lparr>pi_Status := x\<rparr>)) cs =
     (case Conventions_Apply resolve call (Some p) cs of
        (res, q) \<Rightarrow> (res, map_option (\<lambda>q. q\<lparr>pi_Status := x\<rparr>) q))"
proof -
  have "apply_start (p\<lparr>pi_Status := x\<rparr>) = (apply_start p)\<lparr>ap_parent := (ap_parent (apply_start p))\<lparr>pi_Status := x\<rparr>\<rparr>"
    by (simp add: apply_start_def applied_history_def)
  then show ?thesis
    unfolding Conventions_Apply_def option.case apply_loop_status by (simp only: apply_loop_status split: prod.split option.split) simp
qed

lemma ApplyConventions_failed: "uniform lib (applied_is lib CondFalse) (ApplyConventions lib as_selector rl wl wc) s"
  unfolding uniform_def
  by (intro exI [of _ "Inr False"] exI [of _ "[]"] exI [of _ s]) (simp add: ApplyConventions_def applied_is_def condition_of_def Let_def)

lemma ApplyConventions_unknown: "uniform lib (applied_is lib CondUnknown) (ApplyConventions lib as_selector rl wl wc) s"
proof -
  let ?run = "ApplyConventions lib as_selector rl wl wc"
  have past_guard: "?run (with_status x s) =
      (case Conventions_FilterAndSort as_selector (collected_labels_of (rs_parent s)) (RetrieveConventions s) of
         Inl err \<Rightarrow> (Inr False, mark_false lib ''LabelSelector'' (FilteringFailed err) (with_status x s))
       | Inr conventions \<Rightarrow>
           (case Conventions_Apply (ResolveImageMetadata rl (RetrieveRegistryConfig s)) (Convention_Apply wl wc)
                   (Some ((init_annotations (rs_parent s))\<lparr>pi_Status := x\<rparr>)) conventions of
              (res, parent) \<Rightarrow>
                let s1 = (case parent of None \<Rightarrow> with_status x s | Some p \<Rightarrow> (with_status x s)\<lparr>rs_parent := p\<rparr>) in
                (case res of
                   Inl err \<Rightarrow> (Inr True, mark_false lib ''ConventionsApplied'' (ErrorText err) s1)
                 | Inr w \<Rightarrow> (Inr False, mark_true lib ''Applied'' NoMessage (set_status_template (NewPodTemplateSpec w) s1)))))"
    if unknown: "applied_is lib CondUnknown x" for x
  proof -
    have "init_annotations (rs_parent (with_status x s)) = (init_annotations (rs_parent s))\<lparr>pi_Status := x\<rparr>"
      by (simp add: init_annotations_def with_status_def)
    moreover have "collected_labels_of (rs_parent (with_status x s)) = collected_labels_of (rs_parent s)"
      by (rule collected_labels_cong) simp_all
    moreover obtain c where "cm_GetCondition (podintentCondSet lib) PodIntentConditionConventionsApplied (st_Conditions x) = Some c"
        "cond_Status c = CondUnknown"
      using unknown by (auto simp: applied_is_def)
    ultimately show ?thesis by (simp add: ApplyConventions_def condition_of_def del: with_status_simps(6) split: sum.split)
  qed
  show ?thesis
  proof (cases "Conventions_FilterAndSort as_selector (collected_labels_of (rs_parent s)) (RetrieveConventions s)")
    case (Inl e)
    then show ?thesis unfolding uniform_def
      by (intro exI [of _ "Inr False"] exI [of _ "[MarkedFalse ''LabelSelector'' (FilteringFailed e)]"] exI [of _ s])
        (simp add: past_guard)
  next
    case (Inr cs)
    obtain res q where apply_cs: "Conventions_Apply (ResolveImageMetadata rl (RetrieveRegistryConfig s)) (Convention_Apply wl wc)
        (Some (init_annotations (rs_parent s))) cs = (res, q)" by fastforce
    let ?u = "case q of None \<Rightarrow> s | Some p \<Rightarrow> s\<lparr>rs_parent := p\<rparr>"
    have moved: "(with_status x s)\<lparr>rs_parent := p\<lparr>pi_Status := x\<rparr>\<rparr> = with_status x (s\<lparr>rs_parent := p\<rparr>)" for x p
      by (simp add: with_status_def)
    note run = past_guard Inr Conventions_Apply_status apply_cs moved
    show ?thesis
    proof (cases res)
      case (Inl e)
      then show ?thesis unfolding uniform_def
        by (intro exI [of _ "Inr True"] exI [of _ "[MarkedFalse ''ConventionsApplied'' (ErrorText e)]"] exI [of _ ?u])
          (cases q; simp add: run)
    next
      case (Inr w)
      then show ?thesis unfolding uniform_def
        by (intro exI [of _ "Inr False"] exI [of _ "[MarkedTrue ''Applied'' NoMessage (NewPodTemplateSpec w)]"] exI [of _ ?u])
          (cases q; simp add: run)
    qed
  qed
qed

subsection \<open>The whole pass\<close>

lemma then_do_uniform:
  assumes r: "\<forall>x. r (with_status x s) = (res, with_status (do_marks lib ms x) u)"
    and P: "\<And>x. P x \<Longrightarrow> Q (do_marks lib ms x)" and rest: "uniform lib Q rest u"
  shows "uniform lib P (then_do r rest) s"
proof -
  obtain res' ms' u' where rest: "\<And>x. Q x \<Longrightarrow> rest (with_status x u) = (res', with_status (do_marks lib ms' x) u')"
    using rest unfolding uniform_def by blast
  show ?thesis
  proof (cases res)
    case (Inl e)
    with r show ?thesis unfolding uniform_def
      by (intro exI [of _ "Inl e"] exI [of _ ms] exI [of _ u]) (simp add: then_do_def)
  next
    case (Inr q)
    show ?thesis unfolding uniform_def
      by (intro exI [of _ "case res' of Inl e \<Rightarrow> Inl e | Inr q' \<Rightarrow> Inr (q \<or> q')"] exI [of _ "ms @ ms'"] exI [of _ u'])
        (simp add: then_do_def r Inr rest P split: sum.split)
  qed
qed

lemma early_then:
  assumes law: "cond_set_law lib" and r: "early lib r"
    and rest: "\<And>u v. v \<in> {CondFalse, CondUnknown} \<Longrightarrow> uniform lib (applied_is lib v) rest u"
    and "v \<in> {CondFalse, CondUnknown}"
  shows "uniform lib (applied_is lib v) (then_do r rest) s"
proof -
  from r [unfolded early_def, THEN spec, of s] obtain res ms u where ms: "ms = [] \<or> (\<exists>reason m. ms = [MarkedFalse reason m])"
    and run: "\<forall>x. r (with_status x s) = (res, with_status (do_marks lib ms x) u)"
    by (elim exE conjE)
  from ms show ?thesis
  proof
    assume "ms = []"
    with run assms(4) show ?thesis by (intro then_do_uniform [OF run _ rest [of v]]) simp_all
  next
    assume "\<exists>reason m. ms = [MarkedFalse reason m]"
    with run show ?thesis by (intro then_do_uniform [OF run _ rest [of CondFalse]]) (auto simp: applied_after_false [OF law] simp del: do_mark.simps)
  qed
qed

lemma pass_uniform:
  assumes "sequence_law sq" and law: "cond_set_law lib"
  shows "uniform lib (applied_is lib CondUnknown) (PodIntentReconciler sq lib kl as_selector rl wl wc rc) s"
  unfolding PodIntentReconciler_eq [OF assms(1)]
  by (intro early_then law ResolveConventions_early BuildRegistryConfig_early)
    (auto intro: ApplyConventions_failed ApplyConventions_unknown)

subsection \<open>Repeating the marks\<close>

text \<open>Documented: initialising the conditions resets the managed ones, whatever was marked, and keeps the others.\<close>

definition forget_law :: "cond_set_lib \<Rightarrow> bool" where
  "forget_law lib \<longleftrightarrow> (\<forall>happy c reason msg r m cs. c \<noteq> ConditionReady \<longrightarrow>
     (let cm = lib happy [c]; init = (\<lambda>cs. cm_MarkUnknown cm c reason msg (cm_InitializeConditions cm cs)) in
        init (cm_MarkTrue cm c r m cs) = init cs \<and> init (cm_MarkFalse cm c r m cs) = init cs \<and> init (init cs) = init cs))"

lemma plain_cond_set_forgets: "forget_law plain_cond_set"
  by (auto simp: forget_law_def plain_cond_set_def plain_mark_def put_condition_def Let_def intro: filter_cong)

definition reset_conditions :: "cond_set_lib \<Rightarrow> Condition list \<Rightarrow> Condition list" where
  "reset_conditions lib cs = cm_MarkUnknown (podintentCondSet lib) PodIntentConditionConventionsApplied ''Initializing'' NoMessage
     (cm_InitializeConditions (podintentCondSet lib) cs)"

lemma InitializeConditions_reset:
  "st_Conditions (InitializeConditions lib x) = reset_conditions lib (st_Conditions x)"
  "st_Template (InitializeConditions lib x) = st_Template x"
  "st_ObservedGeneration (InitializeConditions lib x) = st_ObservedGeneration x"
  by (simp_all add: InitializeConditions_def reset_conditions_def Let_def)

lemma reset_forgets:
  assumes "forget_law lib"
  shows "reset_conditions lib (cm_MarkTrue (podintentCondSet lib) PodIntentConditionConventionsApplied r m cs) = reset_conditions lib cs"
    and "reset_conditions lib (cm_MarkFalse (podintentCondSet lib) PodIntentConditionConventionsApplied r m cs) = reset_conditions lib cs"
    and "reset_conditions lib (reset_conditions lib cs) = reset_conditions lib cs"
  using assms [unfolded forget_law_def, rule_format, OF applied_not_ready, of "''ConventionsApplied''" "''Initializing''" NoMessage r m cs]
  unfolding reset_conditions_def podintentCondSet_def Let_def by simp_all

lemma reset_marks:
  assumes "forget_law lib"
  shows "reset_conditions lib (st_Conditions (do_marks lib ms x)) = reset_conditions lib (st_Conditions x)"
proof (induction ms arbitrary: x)
  case (Cons n ms)
  have "reset_conditions lib (st_Conditions (do_mark lib n x)) = reset_conditions lib (st_Conditions x)"
    by (cases n) (simp_all add: reset_forgets [OF assms])
  with Cons show ?case by (simp add: do_marks_def)
qed simp

lemma do_marks_parts:
  "st_Conditions x = st_Conditions y \<Longrightarrow> st_Conditions (do_marks lib ms x) = st_Conditions (do_marks lib ms y)"
  "st_ObservedGeneration (do_marks lib ms x) = st_ObservedGeneration x"
  "(\<forall>x. st_Template (do_marks lib ms x) = st_Template x) \<or> (\<exists>t. \<forall>x. st_Template (do_marks lib ms x) = t)"
proof -
  have step: "st_Conditions x = st_Conditions y \<Longrightarrow> st_Conditions (do_mark lib n x) = st_Conditions (do_mark lib n y)"
    "st_ObservedGeneration (do_mark lib n x) = st_ObservedGeneration x" for n x y by (cases n; simp)+
  show "st_Conditions x = st_Conditions y \<Longrightarrow> st_Conditions (do_marks lib ms x) = st_Conditions (do_marks lib ms y)"
  proof (induction ms arbitrary: x y)
    case (Cons n ms)
    from Cons.IH [OF step(1) [OF Cons.prems]] show ?case by (simp add: do_marks_def)
  qed simp
  show "st_ObservedGeneration (do_marks lib ms x) = st_ObservedGeneration x"
    by (induction ms arbitrary: x) (simp_all add: do_marks_def step(2))
  show "(\<forall>x. st_Template (do_marks lib ms x) = st_Template x) \<or> (\<exists>t. \<forall>x. st_Template (do_marks lib ms x) = t)"
  proof (induction ms)
    case (Cons n ms)
    then show ?case by (cases n) (auto simp: do_marks_def)
  qed simp
qed

text \<open>Marking again what is already so marked changes nothing.\<close>

lemma repeated_marks:
  assumes law: "forget_law lib"
    and x: "x = (do_marks lib ms (InitializeConditions lib y))\<lparr>st_ObservedGeneration := g\<rparr>"
  shows "(do_marks lib ms (InitializeConditions lib x))\<lparr>st_ObservedGeneration := g\<rparr> = x"
proof (rule PodIntentStatus.equality)
  have "st_Conditions (InitializeConditions lib x) = st_Conditions (InitializeConditions lib y)"
    by (simp add: x reset_marks [OF law] reset_forgets [OF law] InitializeConditions_reset)
  from do_marks_parts(1) [OF this]
  show "st_Conditions ((do_marks lib ms (InitializeConditions lib x))\<lparr>st_ObservedGeneration := g\<rparr>) = st_Conditions x"
    by (subst (2) x) simp
  show "st_Template ((do_marks lib ms (InitializeConditions lib x))\<lparr>st_ObservedGeneration := g\<rparr>) = st_Template x"
    using do_marks_parts(3) [of lib ms] by (auto simp: x InitializeConditions_reset)
qed (simp_all add: x)

end
