(* ===== verification/Cluster.thy ===== *)
theory Cluster
  imports Watches Stability
begin

text \<open>
  The controllers in a cluster: the API server with its stored objects and admission webhooks, the
  work queues of the two controllers and the tracker, as a step relation. A step is a change of an
  object, accepted by admission and announced to the controllers, a pass of a controller over a
  queued request, a periodic enqueueing or a restart of the manager. A pass is one step and may see a
  failing API, registry or webhook; what it sees of the stored objects is as they are. \<open>Interleaving\<close>
  takes it apart.

  The resource reconciler of \<open>reconciler.io/runtime\<close>, which gets an intent, initialises its
  conditions, runs the sequence and writes a changed status, is a parameter with the documented
  behaviour \<open>resource_law\<close>; so is the keychain, whose only inputs are the named secrets, the service
  account and its secrets (\<open>dp_Chain\<close>).
\<close>

subsection \<open>State\<close>

record cluster =
  cl_Intents :: "(request, PodIntent) fmap"
  cl_Conventions :: "ClusterPodConvention list"
  cl_CertificateRequests :: "CertificateRequest list"
  cl_Secrets :: "(request, handle) fmap"
  cl_ServiceAccounts :: "(request, ServiceAccount) fmap"
  cl_ConfigMaps :: "(request, ConfigMap) fmap"
  cl_Tracker :: tracker
  cl_Queue :: "request list"
  cl_MetricsQueue :: "request list"

definition new_cluster :: cluster where
  "new_cluster = \<lparr>cl_Intents = fmempty, cl_Conventions = [], cl_CertificateRequests = [], cl_Secrets = fmempty,
     cl_ServiceAccounts = fmempty, cl_ConfigMaps = fmempty, cl_Tracker = [], cl_Queue = [], cl_MetricsQueue = []\<rparr>"

type_synonym registry_inputs = "ServiceAccount option \<times> (string \<times> handle option) list"
type_synonym resource_fn = "sub_reconciler_fn \<Rightarrow> PodIntent \<Rightarrow> bool result \<times> PodIntentStatus \<times> Reference list"

record deployment =
  dp_Sequence :: sequence_fn
  dp_Conditions :: cond_set_lib
  dp_Resource :: resource_fn
  dp_Events :: event_lib
  dp_Validation :: validation_lib
  dp_Aggregate :: aggregate_lib
  dp_Webhook :: WebhookConfig
  dp_Registry :: RegistryConfig
  dp_Chain :: "handle \<Rightarrow> registry_inputs \<Rightarrow> handle result"
  dp_Before :: time_before
  dp_MetricsLib :: metrics_lib
  dp_Metrics :: MetricsReconciler

definition object_key :: "MetaObjectMeta \<Rightarrow> request" where
  "object_key m = (m_Namespace m, m_Name m)"

subsection \<open>Changes of objects\<close>

datatype api_change =
    PutIntent PodIntent
  | DeleteIntent request
  | PutConvention ClusterPodConvention
  | DeleteConvention string
  | PutCertificateRequest CertificateRequest
  | DeleteCertificateRequest request
  | PutSecret request handle
  | DeleteSecret request
  | PutServiceAccount request ServiceAccount
  | DeleteServiceAccount request
  | PutConfigMap ConfigMap
  | DeleteConfigMap request

definition event_of :: "event_type \<Rightarrow> watched_kind \<Rightarrow> request \<Rightarrow> watch_event" where
  "event_of t k key = \<lparr>we_Type = t, we_Kind = k, we_Namespace = fst key, we_Name = snd key\<rparr>"

definition put_type :: "'a option \<Rightarrow> event_type" where
  "put_type old = (if old = None then CreateEvent else UpdateEvent)"

definition zero_status :: PodIntentStatus where
  "zero_status = \<lparr>st_Conditions = [], st_ObservedGeneration = 0, st_Template = None\<rparr>"

definition convention_name :: "ClusterPodConvention \<Rightarrow> string" where
  "convention_name c = m_Name (cpc_Meta c)"

text \<open>
  What the API server does with a change: the mutating webhook, then the validating one, which is
  given the stored object on an update; a write to an intent leaves its status alone. The result is
  the event the watchers see and the changed store, or \<open>None\<close> when the change is refused.
\<close>

definition put_intent :: "deployment \<Rightarrow> PodIntent \<Rightarrow> cluster \<Rightarrow> (watch_event \<times> cluster) option" where
  "put_intent dp p cl =
     (let key = object_key (pi_Meta p);
          old = fmlookup (cl_Intents cl) key;
          obj = (PodIntentDefaulter_Default p)\<lparr>pi_Status := (case old of None \<Rightarrow> zero_status | Some q \<Rightarrow> pi_Status q)\<rparr>;
          err = (case old of None \<Rightarrow> PodIntent_ValidateCreate (dp_Aggregate dp) obj
                 | Some q \<Rightarrow> PodIntent_ValidateUpdate (dp_Aggregate dp) q obj)
      in if err = None
         then Some (event_of (put_type old) KindPodIntent key, cl\<lparr>cl_Intents := fmupd key obj (cl_Intents cl)\<rparr>)
         else None)"

definition put_convention :: "deployment \<Rightarrow> ClusterPodConvention \<Rightarrow> cluster \<Rightarrow> (watch_event \<times> cluster) option" where
  "put_convention dp c cl =
     (let old = find (\<lambda>d. convention_name d = convention_name c) (cl_Conventions cl);
          obj = ClusterPodConvention_Default c;
          err = (case old of None \<Rightarrow> ClusterPodConvention_ValidateCreate (dp_Validation dp) (dp_Aggregate dp) obj
                 | Some d \<Rightarrow> ClusterPodConvention_ValidateUpdate (dp_Validation dp) (dp_Aggregate dp) d obj)
      in if err = Some None
         then Some (event_of (put_type old) KindClusterPodConvention ([], convention_name c),
           cl\<lparr>cl_Conventions := obj # filter (\<lambda>d. convention_name d \<noteq> convention_name c) (cl_Conventions cl)\<rparr>)
         else None)"

definition put_certificate_request :: "CertificateRequest \<Rightarrow> cluster \<Rightarrow> watch_event \<times> cluster" where
  "put_certificate_request r cl =
     (let key = object_key (cr_Meta r);
          old = find (\<lambda>s. object_key (cr_Meta s) = key) (cl_CertificateRequests cl)
      in (event_of (put_type old) KindCertificateRequest key,
          cl\<lparr>cl_CertificateRequests := r # filter (\<lambda>s. object_key (cr_Meta s) \<noteq> key) (cl_CertificateRequests cl)\<rparr>))"

fun api_store :: "deployment \<Rightarrow> api_change \<Rightarrow> cluster \<Rightarrow> (watch_event \<times> cluster) option" where
  "api_store dp (PutIntent p) cl = put_intent dp p cl"
| "api_store dp (DeleteIntent k) cl = Some (event_of DeleteEvent KindPodIntent k,
     cl\<lparr>cl_Intents := fmdrop k (cl_Intents cl)\<rparr>)"
| "api_store dp (PutConvention c) cl = put_convention dp c cl"
| "api_store dp (DeleteConvention name) cl = Some (event_of DeleteEvent KindClusterPodConvention ([], name),
     cl\<lparr>cl_Conventions := filter (\<lambda>d. convention_name d \<noteq> name) (cl_Conventions cl)\<rparr>)"
| "api_store dp (PutCertificateRequest r) cl = Some (put_certificate_request r cl)"
| "api_store dp (DeleteCertificateRequest k) cl = Some (event_of DeleteEvent KindCertificateRequest k,
     cl\<lparr>cl_CertificateRequests := filter (\<lambda>s. object_key (cr_Meta s) \<noteq> k) (cl_CertificateRequests cl)\<rparr>)"
| "api_store dp (PutSecret k h) cl = Some (event_of (put_type (fmlookup (cl_Secrets cl) k)) KindSecret k,
     cl\<lparr>cl_Secrets := fmupd k h (cl_Secrets cl)\<rparr>)"
| "api_store dp (DeleteSecret k) cl = Some (event_of DeleteEvent KindSecret k,
     cl\<lparr>cl_Secrets := fmdrop k (cl_Secrets cl)\<rparr>)"
| "api_store dp (PutServiceAccount k a) cl =
     Some (event_of (put_type (fmlookup (cl_ServiceAccounts cl) k)) KindServiceAccount k,
       cl\<lparr>cl_ServiceAccounts := fmupd k a (cl_ServiceAccounts cl)\<rparr>)"
| "api_store dp (DeleteServiceAccount k) cl = Some (event_of DeleteEvent KindServiceAccount k,
     cl\<lparr>cl_ServiceAccounts := fmdrop k (cl_ServiceAccounts cl)\<rparr>)"
| "api_store dp (PutConfigMap cm) cl =
     (let k = object_key (cfm_Meta cm)
      in Some (event_of (put_type (fmlookup (cl_ConfigMaps cl) k)) KindConfigMap k,
           cl\<lparr>cl_ConfigMaps := fmupd k cm (cl_ConfigMaps cl)\<rparr>))"
| "api_store dp (DeleteConfigMap k) cl = Some (event_of DeleteEvent KindConfigMap k,
     cl\<lparr>cl_ConfigMaps := fmdrop k (cl_ConfigMaps cl)\<rparr>)"

text \<open>An event reaches both controllers; the metrics controller tracks nothing.\<close>

definition deliver :: "deployment \<Rightarrow> watch_event \<Rightarrow> cluster \<Rightarrow> cluster" where
  "deliver dp e cl = cl\<lparr>cl_Queue := cl_Queue cl @ dp_Events dp pod_intent_builder (cl_Tracker cl) e,
     cl_MetricsQueue := cl_MetricsQueue cl @ dp_Events dp (metrics_builder (dp_Metrics dp)) [] e\<rparr>"

subsection \<open>What a pass sees\<close>

definition registry_inputs :: "cluster \<Rightarrow> string \<Rightarrow> string \<Rightarrow> string list \<Rightarrow> registry_inputs" where
  "registry_inputs cl ns account secrets =
     (let sa = fmlookup (cl_ServiceAccounts cl) (ns, account)
      in (sa, map (\<lambda>n. (n, fmlookup (cl_Secrets cl) (ns, n)))
            (secrets @ (case sa of None \<Rightarrow> [] | Some a \<Rightarrow> sa_ImagePullSecrets a))))"

definition sees :: "deployment \<Rightarrow> cluster \<Rightarrow> kube_lib \<Rightarrow> bool" where
  "sees dp cl kl \<longleftrightarrow>
     (\<forall>items. kl_ListConventions kl = Inr items \<longrightarrow> mset items = mset (cl_Conventions cl)) \<and>
     (\<forall>ns items. kl_ListCertificateRequests kl ns = Inr items \<longrightarrow>
        mset items = mset (filter (\<lambda>r. m_Namespace (cr_Meta r) = ns) (cl_CertificateRequests cl))) \<and>
     kl_Before kl = dp_Before dp \<and>
     (\<forall>client ns account secrets kc. kl_K8sChain kl client ns account secrets = Inr kc \<longrightarrow>
        dp_Chain dp client (registry_inputs cl ns account secrets) = Inr kc) \<and>
     (\<forall>ns name sa. kl_GetServiceAccount kl ns name = Inr sa \<longrightarrow> fmlookup (cl_ServiceAccounts cl) (ns, name) = Some sa)"

definition initialised :: "deployment \<Rightarrow> PodIntent \<Rightarrow> PodIntent" where
  "initialised dp p = p\<lparr>pi_Status := InitializeConditions (dp_Conditions dp) (pi_Status p)\<rparr>"

definition fresh_state :: "PodIntent \<Rightarrow> rec_state" where
  "fresh_state p = \<lparr>rs_parent = p, rs_stash = fmempty, rs_tracked = []\<rparr>"

definition resource_law :: "deployment \<Rightarrow> bool" where
  "resource_law dp \<longleftrightarrow> (\<exists>generation. \<forall>r p. dp_Resource dp r p =
     (case r (fresh_state (initialised dp p)) of (res, s) \<Rightarrow>
        (res, (pi_Status (rs_parent s))\<lparr>st_ObservedGeneration := generation (pi_Meta p)\<rparr>, rs_tracked s)))"

definition pod_pass :: "deployment \<Rightarrow> kube_lib \<Rightarrow> registry_lib \<Rightarrow> webhook_lib \<Rightarrow> PodIntent \<Rightarrow>
    bool result \<times> PodIntentStatus \<times> Reference list" where
  "pod_pass dp kl rl wl p = dp_Resource dp
     (PodIntentReconciler (dp_Sequence dp) (dp_Conditions dp) kl (vl_LabelSelectorAsSelector (dp_Validation dp))
        rl wl (dp_Webhook dp) (dp_Registry dp)) p"

text \<open>A failed pass and one that asks for it are queued again; a changed status is written and announced.\<close>

definition leave_queue :: "request \<Rightarrow> bool \<Rightarrow> request list \<Rightarrow> request list" where
  "leave_queue k again q = filter (\<lambda>j. j \<noteq> k) q @ (if again then [k] else [])"

definition finish_pass :: "deployment \<Rightarrow> request \<Rightarrow> PodIntent \<Rightarrow> bool result \<times> PodIntentStatus \<times> Reference list \<Rightarrow>
    cluster \<Rightarrow> cluster" where
  "finish_pass dp k p run cl = (case run of (res, st, refs) \<Rightarrow>
     (let cl = cl\<lparr>cl_Queue := leave_queue k (res \<noteq> Inr False) (cl_Queue cl), cl_Tracker := cl_Tracker cl @ map (Pair k) refs\<rparr>
      in if st = pi_Status p then cl
         else deliver dp (event_of UpdateEvent KindPodIntent k)
                (cl\<lparr>cl_Intents := fmupd k (p\<lparr>pi_Status := st\<rparr>) (cl_Intents cl)\<rparr>)))"

definition metrics_sees :: "cluster \<Rightarrow> metrics_client \<Rightarrow> bool" where
  "metrics_sees cl c \<longleftrightarrow>
     (\<forall>ns name. case mc_Get c ns name of
        GetFailed e \<Rightarrow> True
      | NotFound \<Rightarrow> fmlookup (cl_ConfigMaps cl) (ns, name) = None
      | Found cm \<Rightarrow> fmlookup (cl_ConfigMaps cl) (ns, name) = Some cm) \<and>
     (\<forall>intents. mc_ListPodIntents c = Inr intents \<longrightarrow>
        (\<exists>ks. distinct ks \<and> set ks = fmdom' (cl_Intents cl) \<and> intents = map (\<lambda>k. the (fmlookup (cl_Intents cl) k)) ks)) \<and>
     (\<forall>items. mc_ListConventions c = Inr items \<longrightarrow> mset items = mset (cl_Conventions cl))"

fun written :: "api_write \<Rightarrow> event_type \<times> ConfigMap" where
  "written (Created cm) = (CreateEvent, cm)"
| "written (Updated cm) = (UpdateEvent, cm)"

definition finish_metrics :: "deployment \<Rightarrow> request \<Rightarrow> go_error option \<times> api_write list \<Rightarrow> cluster \<Rightarrow> cluster" where
  "finish_metrics dp k run cl =
     (let cl = cl\<lparr>cl_MetricsQueue := leave_queue k (fst run \<noteq> None) (cl_MetricsQueue cl)\<rparr>
      in case run of
           (None, w # _) \<Rightarrow> (case written w of (t, cm) \<Rightarrow>
             deliver dp (event_of t KindConfigMap (object_key (cfm_Meta cm)))
               (cl\<lparr>cl_ConfigMaps := fmupd (object_key (cfm_Meta cm)) cm (cl_ConfigMaps cl)\<rparr>))
         | _ \<Rightarrow> cl)"

subsection \<open>Steps\<close>

text \<open>A manager that starts is told of every object there is; its queues and its tracker are empty.\<close>

definition initial_events :: "cluster \<Rightarrow> watch_event set" where
  "initial_events cl = event_of CreateEvent KindPodIntent ` fmdom' (cl_Intents cl) \<union>
     (\<lambda>c. event_of CreateEvent KindClusterPodConvention ([], convention_name c)) ` set (cl_Conventions cl) \<union>
     (\<lambda>r. event_of CreateEvent KindCertificateRequest (object_key (cr_Meta r))) ` set (cl_CertificateRequests cl) \<union>
     event_of CreateEvent KindSecret ` fmdom' (cl_Secrets cl) \<union>
     event_of CreateEvent KindServiceAccount ` fmdom' (cl_ServiceAccounts cl) \<union>
     event_of CreateEvent KindConfigMap ` fmdom' (cl_ConfigMaps cl)"

definition restarted :: "deployment \<Rightarrow> watch_event list \<Rightarrow> cluster \<Rightarrow> cluster" where
  "restarted dp es cl = fold (deliver dp) es (cl\<lparr>cl_Tracker := [], cl_Queue := [], cl_MetricsQueue := []\<rparr>)"

inductive cluster_step :: "deployment \<Rightarrow> cluster \<Rightarrow> cluster \<Rightarrow> bool" for dp where
  change: "api_store dp c cl = Some (e, cl1) \<Longrightarrow> cluster_step dp cl (deliver dp e cl1)"
| pass: "k \<in> set (cl_Queue cl) \<Longrightarrow> fmlookup (cl_Intents cl) k = Some p \<Longrightarrow> sees dp cl kl \<Longrightarrow>
    cluster_step dp cl (finish_pass dp k p (pod_pass dp kl rl wl p) cl)"
| conflict: "k \<in> set (cl_Queue cl) \<Longrightarrow> fmlookup (cl_Intents cl) k = Some p \<Longrightarrow> sees dp cl kl \<Longrightarrow>
    pod_pass dp kl rl wl p = (res, st, refs) \<Longrightarrow>
    cluster_step dp cl (cl\<lparr>cl_Tracker := cl_Tracker cl @ map (Pair k) refs\<rparr>)"
| gone: "k \<in> set (cl_Queue cl) \<Longrightarrow> fmlookup (cl_Intents cl) k = None \<Longrightarrow>
    cluster_step dp cl (cl\<lparr>cl_Queue := leave_queue k False (cl_Queue cl)\<rparr>)"
| metrics: "k \<in> set (cl_MetricsQueue cl) \<Longrightarrow> metrics_sees cl c \<Longrightarrow> range_law rng \<Longrightarrow>
    cluster_step dp cl (finish_metrics dp k
      (MetricsReconciler_Reconcile c (dp_MetricsLib dp) rng (dp_Metrics dp) (fst k) (snd k)) cl)"
| resync: "cluster_step dp cl (cl\<lparr>cl_Queue := cl_Queue cl @ ks, cl_MetricsQueue := cl_MetricsQueue cl @ ms\<rparr>)"
| restart: "set es = initial_events cl \<Longrightarrow> cluster_step dp cl (restarted dp es cl)"

definition reachable :: "deployment \<Rightarrow> cluster \<Rightarrow> bool" where
  "reachable dp cl \<longleftrightarrow> rtranclp (cluster_step dp) new_cluster cl"

text \<open>What the development assumes of the libraries, and of the configuration.\<close>

definition libraries_law :: "deployment \<Rightarrow> bool" where
  "libraries_law dp \<longleftrightarrow> sequence_law (dp_Sequence dp) \<and> cond_set_law (dp_Conditions dp) \<and> resource_law dp \<and>
     event_law (dp_Events dp) \<and> empty_selects_all (vl_LabelSelectorAsSelector (dp_Validation dp)) \<and>
     aggregates (dp_Aggregate dp) \<and> semantic_law (dp_MetricsLib dp)"

definition deployment_law :: "deployment \<Rightarrow> bool" where
  "deployment_law dp \<longleftrightarrow> libraries_law dp \<and> mr_Name (dp_Metrics dp) \<noteq> []"

lemmas deployment_laws = deployment_law_def libraries_law_def

subsection \<open>What is stored was admitted\<close>

definition convention_admitted :: "deployment \<Rightarrow> ClusterPodConvention \<Rightarrow> bool" where
  "convention_admitted dp c \<longleftrightarrow> convention_spec_ok (dp_Validation dp) (cpc_Spec c) \<and>
     ClusterPodConventionSpec_Default (cpc_Spec c) = cpc_Spec c"

definition intent_admitted :: "request \<Rightarrow> PodIntent \<Rightarrow> bool" where
  "intent_admitted k p \<longleftrightarrow> object_key (pi_Meta p) = k \<and> pi_ServiceAccountName (pi_Spec p) \<noteq> [] \<and>
     [] \<notin> set (pi_ImagePullSecrets (pi_Spec p))"

definition cluster_ok :: "deployment \<Rightarrow> cluster \<Rightarrow> bool" where
  "cluster_ok dp cl \<longleftrightarrow>
     (\<forall>c \<in> set (cl_Conventions cl). convention_admitted dp c) \<and> distinct (map convention_name (cl_Conventions cl)) \<and>
     (\<forall>k p. fmlookup (cl_Intents cl) k = Some p \<longrightarrow> intent_admitted k p) \<and>
     (\<forall>k cm. fmlookup (cl_ConfigMaps cl) k = Some cm \<longrightarrow> object_key (cfm_Meta cm) = k) \<and>
     (\<forall>(k, ref) \<in> set (cl_Tracker cl). registry_ref ref)"

lemma cluster_ok_intent: "cluster_ok dp cl \<Longrightarrow> fmlookup (cl_Intents cl) k = Some p \<Longrightarrow> intent_admitted k p"
  by (simp add: cluster_ok_def del: split_paired_All)

lemma deliver_simps [simp]:
  "cl_Intents (deliver dp e cl) = cl_Intents cl" "cl_Conventions (deliver dp e cl) = cl_Conventions cl"
  "cl_CertificateRequests (deliver dp e cl) = cl_CertificateRequests cl" "cl_Secrets (deliver dp e cl) = cl_Secrets cl"
  "cl_ServiceAccounts (deliver dp e cl) = cl_ServiceAccounts cl" "cl_ConfigMaps (deliver dp e cl) = cl_ConfigMaps cl"
  "cl_Tracker (deliver dp e cl) = cl_Tracker cl"
  by (simp_all add: deliver_def)

lemma cluster_ok_deliver [simp]: "cluster_ok dp (deliver dp e cl) = cluster_ok dp cl"
  by (simp add: cluster_ok_def)

lemma event_of_simps [simp]:
  "we_Type (event_of t k key) = t" "we_Kind (event_of t k key) = k"
  "we_Namespace (event_of t k key) = fst key" "we_Name (event_of t k key) = snd key"
  by (simp_all add: event_of_def)

lemma restarted_frame [simp]:
  "cl_Intents (restarted dp es cl) = cl_Intents cl" "cl_Conventions (restarted dp es cl) = cl_Conventions cl"
  "cl_ConfigMaps (restarted dp es cl) = cl_ConfigMaps cl" "cl_Tracker (restarted dp es cl) = []"
proof -
  have "cl_Intents (fold (deliver dp) es c) = cl_Intents c \<and> cl_Conventions (fold (deliver dp) es c) = cl_Conventions c \<and>
      cl_ConfigMaps (fold (deliver dp) es c) = cl_ConfigMaps c \<and> cl_Tracker (fold (deliver dp) es c) = cl_Tracker c" for c
    by (induction es arbitrary: c) simp_all
  then show "cl_Intents (restarted dp es cl) = cl_Intents cl" "cl_Conventions (restarted dp es cl) = cl_Conventions cl"
    "cl_ConfigMaps (restarted dp es cl) = cl_ConfigMaps cl" "cl_Tracker (restarted dp es cl) = []"
    by (simp_all add: restarted_def)
qed

lemma restarted_queues:
  "cl_Queue (restarted dp es cl) = concat (map (dp_Events dp pod_intent_builder []) es)"
  "cl_MetricsQueue (restarted dp es cl) = concat (map (dp_Events dp (metrics_builder (dp_Metrics dp)) []) es)"
proof -
  have "cl_Queue (fold (deliver dp) es c) = cl_Queue c @ concat (map (dp_Events dp pod_intent_builder (cl_Tracker c)) es) \<and>
      cl_MetricsQueue (fold (deliver dp) es c) =
        cl_MetricsQueue c @ concat (map (dp_Events dp (metrics_builder (dp_Metrics dp)) []) es)" for c
    by (induction es arbitrary: c) (simp_all add: deliver_def)
  then show "cl_Queue (restarted dp es cl) = concat (map (dp_Events dp pod_intent_builder []) es)"
    "cl_MetricsQueue (restarted dp es cl) = concat (map (dp_Events dp (metrics_builder (dp_Metrics dp)) []) es)"
    by (simp_all add: restarted_def)
qed

lemma distinct_put: "distinct (map f xs) \<Longrightarrow> distinct (map f (x # filter (\<lambda>y. f y \<noteq> f x) xs))"
  by (auto simp: distinct_map inj_on_def)

lemma put_intent_ok:
  assumes law: "aggregates (dp_Aggregate dp)" and "put_intent dp p cl = Some (e, cl')" and ok: "cluster_ok dp cl"
  shows "cluster_ok dp cl'"
proof -
  obtain obj where cl': "cl' = cl\<lparr>cl_Intents := fmupd (object_key (pi_Meta p)) obj (cl_Intents cl)\<rparr>"
    and obj: "pi_Meta obj = pi_Meta p" "pi_ServiceAccountName (pi_Spec obj) \<noteq> []" "[] \<notin> set (pi_ImagePullSecrets (pi_Spec obj))"
    using assms(2) law
    by (auto simp: put_intent_def Let_def PodIntentDefaulter_Default_def PodIntentSpec_Default_def PodIntent_ValidateCreate_def
        PodIntent_ValidateUpdate_def PodIntent_validate_def PodIntentSpec_validate_def aggregates_def pull_secret_errors_Nil
        split: option.splits if_splits)
  then show ?thesis using ok by (auto simp: cluster_ok_def intent_admitted_def)
qed

lemma put_convention_ok:
  assumes law: "aggregates (dp_Aggregate dp)" and "put_convention dp c cl = Some (e, cl')" and ok: "cluster_ok dp cl"
  shows "cluster_ok dp cl'"
proof -
  let ?obj = "ClusterPodConvention_Default c"
  have cl': "cl' = cl\<lparr>cl_Conventions := ?obj # filter (\<lambda>d. convention_name d \<noteq> convention_name c) (cl_Conventions cl)\<rparr>"
    and "ClusterPodConvention_ValidateCreate (dp_Validation dp) (dp_Aggregate dp) ?obj = Some None"
    using assms(2)
    by (auto simp: put_convention_def Let_def ClusterPodConvention_ValidateCreate_def ClusterPodConvention_ValidateUpdate_def
        split: option.splits if_splits)
  then have "convention_admitted dp ?obj"
    using law by (auto simp: convention_admitted_def ClusterPodConvention_ValidateCreate_def ClusterPodConvention_validate_def
        aggregates_def ClusterPodConvention_Default_def simp flip: spec_validate_ok)
  moreover have "convention_name ?obj = convention_name c"
    by (simp add: convention_name_def ClusterPodConvention_Default_def)
  ultimately show ?thesis
    using ok distinct_put [of convention_name "cl_Conventions cl" ?obj] by (auto simp: cluster_ok_def cl')
qed

lemma api_store_ok:
  assumes law: "aggregates (dp_Aggregate dp)" and "api_store dp c cl = Some (e, cl')" and ok: "cluster_ok dp cl"
  shows "cluster_ok dp cl'"
proof (cases c)
  case (PutIntent p)
  with assms put_intent_ok [OF law, of p] show ?thesis by simp
next
  case (PutConvention c)
  with assms put_convention_ok [OF law, of c] show ?thesis by simp
next
  case (DeleteConvention n)
  with assms show ?thesis by (auto simp: cluster_ok_def distinct_map_filter)
qed (use assms in \<open>auto simp: cluster_ok_def put_certificate_request_def Let_def split: if_splits\<close>)

lemma finish_metrics_ok:
  assumes ok: "cluster_ok dp cl" and sees: "metrics_sees cl c"
    and run: "run = MetricsReconciler_Reconcile c (dp_MetricsLib dp) rng (dp_Metrics dp) (fst k) (snd k)"
  shows "cluster_ok dp (finish_metrics dp k run cl)"
proof (cases "\<exists>w ws. run = (None, w # ws)")
  case True
  then obtain w ws where w: "run = (None, w # ws)" by blast
  obtain t cm where cm: "written w = (t, cm)" by fastforce
  show ?thesis
    using ok by (auto simp: finish_metrics_def w cm cluster_ok_def Let_def split_beta)
next
  case False
  then have "finish_metrics dp k run cl = cl\<lparr>cl_MetricsQueue := leave_queue k (fst run \<noteq> None) (cl_MetricsQueue cl)\<rparr>"
    by (cases run) (auto simp: finish_metrics_def Let_def split: option.split list.split)
  then show ?thesis using ok by (simp add: cluster_ok_def)
qed

text \<open>The reconciler's run inside a pass.\<close>

definition pass_run :: "deployment \<Rightarrow> kube_lib \<Rightarrow> registry_lib \<Rightarrow> webhook_lib \<Rightarrow> PodIntent \<Rightarrow> bool result \<times> rec_state" where
  "pass_run dp kl rl wl p = PodIntentReconciler (dp_Sequence dp) (dp_Conditions dp) kl
     (vl_LabelSelectorAsSelector (dp_Validation dp)) rl wl (dp_Webhook dp) (dp_Registry dp) (fresh_state (initialised dp p))"

lemma pod_pass_run:
  assumes "deployment_law dp" and "pod_pass dp kl rl wl p = (res, st, refs)"
  obtains g s where "pass_run dp kl rl wl p = (res, s)" "st = (pi_Status (rs_parent s))\<lparr>st_ObservedGeneration := g\<rparr>"
    "refs = rs_tracked s"
proof -
  obtain s where s: "pass_run dp kl rl wl p = (fst (pass_run dp kl rl wl p), s)" by (metis prod.collapse)
  obtain g where "pod_pass dp kl rl wl p = (case pass_run dp kl rl wl p of (res, s) \<Rightarrow>
      (res, (pi_Status (rs_parent s))\<lparr>st_ObservedGeneration := g (pi_Meta p)\<rparr>, rs_tracked s))"
    using assms(1) unfolding deployment_laws resource_law_def pod_pass_def pass_run_def by blast
  then show ?thesis using s assms(2) that by (cases "pass_run dp kl rl wl p") auto
qed

lemma pod_pass_refs:
  assumes law: "deployment_law dp" and run: "pod_pass dp kl rl wl p = (res, st, refs)" and "ref \<in> set refs"
  shows "registry_ref ref"
proof -
  obtain g s where s: "pass_run dp kl rl wl p = (res, s)" "refs = rs_tracked s" by (rule pod_pass_run [OF law run])
  have "\<forall>ref \<in> set (rs_tracked (snd (pass_run dp kl rl wl p))). registry_ref ref"
    unfolding pass_run_def using law by (intro pass_kinds) (simp_all add: deployment_laws fresh_state_def)
  with s assms(3) show ?thesis by simp
qed

lemma cluster_ok_step:
  assumes law: "deployment_law dp" and "cluster_step dp cl cl'" and "cluster_ok dp cl"
  shows "cluster_ok dp cl'"
  using assms(2,3)
proof (induction rule: cluster_step.induct)
  case (change c cl e cl1)
  then show ?case using law api_store_ok by (auto simp: deployment_laws)
next
  case (pass k cl p kl rl wl)
  obtain res st refs where run: "pod_pass dp kl rl wl p = (res, st, refs)" by (metis prod.exhaust)
  from pod_pass_refs [OF law run] pass(2,4) show ?case
    by (auto simp: finish_pass_def run cluster_ok_def intent_admitted_def Let_def split: if_splits)
next
  case (conflict k cl p kl rl wl res st refs)
  with pod_pass_refs [OF law conflict(4)] show ?case by (auto simp: cluster_ok_def)
next
  case (metrics k cl c rng)
  then show ?case by (simp add: finish_metrics_ok [OF _ _ refl])
qed (simp_all add: cluster_ok_def)

lemma reachable_induct [consumes 1, case_names start step]:
  assumes "reachable dp cl" and "P new_cluster"
    and "\<And>cl cl'. reachable dp cl \<Longrightarrow> cluster_step dp cl cl' \<Longrightarrow> P cl \<Longrightarrow> P cl'"
  shows "P cl"
  using assms(1) unfolding reachable_def
  by (induction rule: rtranclp_induct) (use assms(2,3) in \<open>auto simp: reachable_def\<close>)

lemma reachable_step: "reachable dp cl \<Longrightarrow> cluster_step dp cl cl' \<Longrightarrow> reachable dp cl'"
  by (simp add: reachable_def)

lemma new_cluster_ok: "cluster_ok dp new_cluster"
  by (simp add: cluster_ok_def new_cluster_def)

text \<open>What an invariant of the cluster has to show, and what it may rely on afterwards.\<close>

locale cluster_invariant =
  fixes I :: "deployment \<Rightarrow> cluster \<Rightarrow> bool"
  assumes holds_new: "deployment_law dp \<Longrightarrow> I dp new_cluster"
    and kept_by_step: "deployment_law dp \<Longrightarrow> reachable dp cl \<Longrightarrow> cluster_step dp cl cl' \<Longrightarrow> I dp cl \<Longrightarrow> I dp cl'"
begin

lemma holds:
  assumes "deployment_law dp" and "reachable dp cl"
  shows "I dp cl"
  using assms(2) by (induction rule: reachable_induct) (simp_all add: holds_new kept_by_step assms(1))

end

interpretation admitted: cluster_invariant cluster_ok
  by unfold_locales (simp_all add: new_cluster_ok cluster_ok_step)

lemmas reachable_ok = admitted.holds

subsection \<open>An intent that is not queued is settled\<close>

text \<open>What the registry configuration of an intent is built from.\<close>

definition account_name :: "PodIntent \<Rightarrow> string" where
  "account_name p = pi_ServiceAccountName (PodIntentSpec_Default (pi_Spec p))"

definition inputs_of :: "cluster \<Rightarrow> PodIntent \<Rightarrow> registry_inputs" where
  "inputs_of cl p = registry_inputs cl (m_Namespace (pi_Meta p)) (account_name p) (pi_ImagePullSecrets (pi_Spec p))"

definition input_refs :: "cluster \<Rightarrow> PodIntent \<Rightarrow> Reference set" where
  "input_refs cl p = insert (service_account_ref (m_Namespace (pi_Meta p)) (account_name p))
     (set (map (\<lambda>(n, _). secret_ref (m_Namespace (pi_Meta p)) n) (snd (inputs_of cl p))))"

lemma inputs_of_cong:
  "cl_Secrets cl = cl_Secrets cl' \<Longrightarrow> cl_ServiceAccounts cl = cl_ServiceAccounts cl' \<Longrightarrow> inputs_of cl p = inputs_of cl' p"
  by (simp add: inputs_of_def registry_inputs_def)

lemma inputs_of_deliver [simp]: "inputs_of (deliver dp e cl) p = inputs_of cl p"
  by (rule inputs_of_cong) simp_all

lemma inputs_of_secret:
  assumes "secret_ref (fst s) (snd s) \<notin> input_refs cl p" and "\<And>j. j \<noteq> s \<Longrightarrow> fmlookup m j = fmlookup (cl_Secrets cl) j"
  shows "inputs_of (cl\<lparr>cl_Secrets := m\<rparr>) p = inputs_of cl p"
proof -
  let ?ns = "m_Namespace (pi_Meta p)"
  let ?extra = "case fmlookup (cl_ServiceAccounts cl) (?ns, account_name p) of None \<Rightarrow> [] | Some a \<Rightarrow> sa_ImagePullSecrets a"
  have "fmlookup m (?ns, n) = fmlookup (cl_Secrets cl) (?ns, n)" if "n \<in> set (pi_ImagePullSecrets (pi_Spec p) @ ?extra)" for n
  proof -
    have "secret_ref ?ns n \<in> input_refs cl p" using that by (auto simp: input_refs_def inputs_of_def registry_inputs_def Let_def)
    then have "(?ns, n) \<noteq> s" using assms(1) by auto
    then show ?thesis by (rule assms(2))
  qed
  then show ?thesis by (simp add: inputs_of_def registry_inputs_def Let_def)
qed

lemma inputs_of_account:
  assumes "service_account_ref (fst s) (snd s) \<notin> input_refs cl p"
    and "\<And>j. j \<noteq> s \<Longrightarrow> fmlookup m j = fmlookup (cl_ServiceAccounts cl) j"
  shows "inputs_of (cl\<lparr>cl_ServiceAccounts := m\<rparr>) p = inputs_of cl p"
proof -
  have "s \<noteq> (m_Namespace (pi_Meta p), account_name p)" using assms(1) by (auto simp: input_refs_def)
  then have "fmlookup m (m_Namespace (pi_Meta p), account_name p) =
      fmlookup (cl_ServiceAccounts cl) (m_Namespace (pi_Meta p), account_name p)" using assms(2) by metis
  then show ?thesis by (simp add: inputs_of_def registry_inputs_def)
qed

text \<open>
  The last pass over the intent found the status it would write already there and asked for nothing;
  everything it tracked still is, and if that covers the inputs of the registry configuration they
  are today what they were then.
\<close>

definition settled :: "deployment \<Rightarrow> cluster \<Rightarrow> request \<Rightarrow> PodIntent \<Rightarrow> bool" where
  "settled dp cl k p \<longleftrightarrow> (\<exists>cl0 kl rl wl refs. reachable dp cl0 \<and> rtranclp (cluster_step dp) cl0 cl \<and> sees dp cl0 kl \<and>
     pod_pass dp kl rl wl p = (Inr False, pi_Status p, refs) \<and> Pair k ` set refs \<subseteq> set (cl_Tracker cl) \<and>
     (input_refs cl0 p \<subseteq> set refs \<longrightarrow> inputs_of cl p = inputs_of cl0 p))"

text \<open>What a step does to an intent that is not queued after it.\<close>

definition undisturbed :: "cluster \<Rightarrow> cluster \<Rightarrow> request \<Rightarrow> PodIntent \<Rightarrow> bool" where
  "undisturbed cl cl' k p \<longleftrightarrow> k \<notin> set (cl_Queue cl) \<and> fmlookup (cl_Intents cl) k = Some p \<and>
     set (cl_Tracker cl) \<subseteq> set (cl_Tracker cl') \<and>
     (Pair k ` input_refs cl p \<subseteq> set (cl_Tracker cl) \<longrightarrow> inputs_of cl' p = inputs_of cl p)"

lemma settled_undisturbed:
  assumes "settled dp cl k p" and "cluster_step dp cl cl'" and und: "undisturbed cl cl' k p"
  shows "settled dp cl' k p"
proof -
  obtain cl0 kl rl wl refs where before: "reachable dp cl0" "rtranclp (cluster_step dp) cl0 cl" "sees dp cl0 kl"
    "pod_pass dp kl rl wl p = (Inr False, pi_Status p, refs)" "Pair k ` set refs \<subseteq> set (cl_Tracker cl)"
    "input_refs cl0 p \<subseteq> set refs \<longrightarrow> inputs_of cl p = inputs_of cl0 p"
    using assms(1) unfolding settled_def by blast
  have "inputs_of cl' p = inputs_of cl0 p" if "input_refs cl0 p \<subseteq> set refs"
  proof -
    have same: "inputs_of cl p = inputs_of cl0 p" using before(6) that by blast
    then have "input_refs cl p = input_refs cl0 p" by (simp add: input_refs_def)
    then have "Pair k ` input_refs cl p \<subseteq> set (cl_Tracker cl)" using that before(5) by blast
    with und same show ?thesis by (simp add: undisturbed_def)
  qed
  moreover have "rtranclp (cluster_step dp) cl0 cl'" using before(2) assms(2) by simp
  moreover have "Pair k ` set refs \<subseteq> set (cl_Tracker cl')" using before(5) und by (auto simp: undisturbed_def)
  ultimately show ?thesis using before(1,3,4) unfolding settled_def by blast
qed

text \<open>A change of an object an intent's registry configuration was built from queues the intent.\<close>

lemma queue_deliver: "set (cl_Queue (deliver dp e cl)) = set (cl_Queue cl) \<union> set (dp_Events dp pod_intent_builder (cl_Tracker cl) e)"
  by (simp add: deliver_def)

lemma event_ref_simps [simp]:
  "event_ref (event_of t KindSecret k) = secret_ref (fst k) (snd k)"
  "event_ref (event_of t KindServiceAccount k) = service_account_ref (fst k) (snd k)"
  by (simp_all add: event_ref_def secret_ref_def service_account_ref_def)

lemma change_undisturbed:
  assumes law: "event_law (dp_Events dp)" and store: "api_store dp c cl = Some (e, cl1)"
    and idle: "k \<notin> set (cl_Queue (deliver dp e cl1))" and p: "fmlookup (cl_Intents cl1) k = Some p"
  shows "undisturbed cl (deliver dp e cl1) k p"
proof -
  have same: "cl_Queue cl1 = cl_Queue cl" "cl_Tracker cl1 = cl_Tracker cl"
    using store by (cases c; auto simp: put_intent_def put_convention_def put_certificate_request_def Let_def
        split: option.splits if_splits)+
  have quiet: "k \<notin> set (dp_Events dp pod_intent_builder (cl_Tracker cl) e)" and "k \<notin> set (cl_Queue cl)"
    using idle by (auto simp: queue_deliver same)
  note requests = quiet [unfolded pod_intent_requests [OF law]]
  have "fmlookup (cl_Intents cl) k = Some p"
    using p store requests by (cases c) (auto simp: put_intent_def put_convention_def put_certificate_request_def Let_def
        split: option.splits if_splits)
  moreover have "inputs_of cl1 p = inputs_of cl p" if tracked: "Pair k ` input_refs cl p \<subseteq> set (cl_Tracker cl)"
  proof (cases c)
    case (PutSecret s h)
    with store requests tracked show ?thesis by (auto intro!: inputs_of_secret [of s])
  next
    case (DeleteSecret s)
    with store requests tracked show ?thesis by (auto intro!: inputs_of_secret [of s])
  next
    case (PutServiceAccount s a)
    with store requests tracked show ?thesis by (auto intro!: inputs_of_account [of s])
  next
    case (DeleteServiceAccount s)
    with store requests tracked show ?thesis by (auto intro!: inputs_of_account [of s])
  qed (use store in \<open>auto intro!: inputs_of_cong simp: put_intent_def put_convention_def put_certificate_request_def Let_def
        split: option.splits if_splits\<close>)
  ultimately show ?thesis using \<open>k \<notin> set (cl_Queue cl)\<close> by (simp add: undisturbed_def same)
qed

lemma leave_queue_simps [simp]:
  "j \<noteq> k \<Longrightarrow> j \<in> set (leave_queue k again q) \<longleftrightarrow> j \<in> set q"
  "k \<in> set (leave_queue k again q) \<longleftrightarrow> again"
  by (auto simp: leave_queue_def)

lemma finish_pass_frame:
  assumes law: "event_law (dp_Events dp)" and ok: "intent_admitted j q" and "fmlookup (cl_Intents cl) j = Some q"
    and cl': "cl' = finish_pass dp j q (res, st, refs) cl" and idle: "k \<notin> set (cl_Queue cl')"
    and p: "fmlookup (cl_Intents cl') k = Some p"
  shows "if k = j then p = q \<and> res = Inr False \<and> st = pi_Status q \<and> set (cl_Tracker cl') = set (cl_Tracker cl) \<union> Pair k ` set refs \<and>
       inputs_of cl' p = inputs_of cl p
     else undisturbed cl cl' k p"
proof (cases "st = pi_Status q")
  case True
  then have "cl' = cl\<lparr>cl_Queue := leave_queue j (res \<noteq> Inr False) (cl_Queue cl), cl_Tracker := cl_Tracker cl @ map (Pair j) refs\<rparr>"
    by (simp add: cl' finish_pass_def)
  with idle p True assms(3) show ?thesis by (auto simp: undisturbed_def intro: inputs_of_cong)
next
  case False
  then have eq: "cl' = deliver dp (event_of UpdateEvent KindPodIntent j)
     (cl\<lparr>cl_Queue := leave_queue j (res \<noteq> Inr False) (cl_Queue cl), cl_Tracker := cl_Tracker cl @ map (Pair j) refs,
       cl_Intents := fmupd j (q\<lparr>pi_Status := st\<rparr>) (cl_Intents cl)\<rparr>)"
    by (simp add: cl' finish_pass_def)
  have "k \<noteq> j" using idle by (auto simp: eq queue_deliver pod_intent_requests [OF law])
  with idle p show ?thesis by (auto simp: eq queue_deliver undisturbed_def intro: inputs_of_cong)
qed

lemma metrics_frame:
  "cl_Queue (finish_metrics dp k run cl) = cl_Queue cl @ concat (map (dp_Events dp pod_intent_builder (cl_Tracker cl))
     (case run of (None, w # _) \<Rightarrow> [event_of (fst (written w)) KindConfigMap (object_key (cfm_Meta (snd (written w))))] | _ \<Rightarrow> []))"
  "cl_Intents (finish_metrics dp k run cl) = cl_Intents cl" "cl_Tracker (finish_metrics dp k run cl) = cl_Tracker cl"
  "cl_Conventions (finish_metrics dp k run cl) = cl_Conventions cl"
  "inputs_of (finish_metrics dp k run cl) p = inputs_of cl p"
  by (auto simp: finish_metrics_def deliver_def Let_def split_beta split: option.split list.split intro: inputs_of_cong)

text \<open>A manager that starts queues every intent.\<close>

lemma restart_queues_intent:
  assumes "event_law (dp_Events dp)" and "set es = initial_events cl" and "fmlookup (cl_Intents cl) k = Some p"
  shows "k \<in> set (cl_Queue (restarted dp es cl))"
proof -
  have "event_of CreateEvent KindPodIntent k \<in> set es"
    using assms(2,3) by (auto simp: initial_events_def fmlookup_dom'_iff)
  moreover have "k \<in> set (dp_Events dp pod_intent_builder [] (event_of CreateEvent KindPodIntent k))"
    by (simp add: pod_intent_requests [OF assms(1)])
  ultimately show ?thesis by (auto simp: restarted_queues)
qed

lemma settled_step:
  assumes law: "deployment_law dp" and reach: "reachable dp cl" and step: "cluster_step dp cl cl'"
    and IH: "\<And>k p. fmlookup (cl_Intents cl) k = Some p \<Longrightarrow> k \<notin> set (cl_Queue cl) \<Longrightarrow> settled dp cl k p"
    and p: "fmlookup (cl_Intents cl') k = Some p" and idle: "k \<notin> set (cl_Queue cl')"
  shows "settled dp cl' k p"
proof -
  have ev: "event_law (dp_Events dp)" using law by (simp add: deployment_laws)
  have kept: "settled dp cl' k p" if "undisturbed cl cl' k p"
    using settled_undisturbed [OF _ step that] IH that by (simp add: undisturbed_def)
  show ?thesis
    using step
  proof cases
    case (change c e cl1)
    from change_undisturbed [OF ev change(2), of k p] kept p idle show ?thesis by (simp add: change(1))
  next
    case (pass j q kl rl wl)
    obtain res st refs where run: "pod_pass dp kl rl wl q = (res, st, refs)" by (metis prod.exhaust)
    have "intent_admitted j q" using reachable_ok [OF law reach] pass(3) by (rule cluster_ok_intent)
    from finish_pass_frame [OF ev this pass(3) _ idle p, of res st refs] pass(1) run
    have frame: "if k = j then p = q \<and> res = Inr False \<and> st = pi_Status q \<and> set (cl_Tracker cl') = set (cl_Tracker cl) \<union> Pair k ` set refs \<and>
        inputs_of cl' p = inputs_of cl p else undisturbed cl cl' k p" by simp
    show ?thesis
    proof (cases "k = j")
      case True
      have "rtranclp (cluster_step dp) cl cl'" using step by simp
      with True frame run reach pass(4) show ?thesis unfolding settled_def by (metis Un_upper2)
    next
      case False
      with frame kept show ?thesis by simp
    qed
  next
    case (metrics j c rng)
    then have "undisturbed cl cl' k p" using p idle by (simp add: metrics_frame undisturbed_def)
    then show ?thesis by (rule kept)
  next
    case (gone j)
    have "k \<noteq> j" using gone p by auto
    with gone p idle have "undisturbed cl cl' k p" by (auto simp: undisturbed_def intro: inputs_of_cong)
    then show ?thesis by (rule kept)
  next
    case (conflict j)
    then have "undisturbed cl cl' k p" using p idle by (auto simp: undisturbed_def intro: inputs_of_cong)
    then show ?thesis by (rule kept)
  next
    case (restart es)
    with restart_queues_intent [OF ev restart(2), of k p] p idle show ?thesis by simp
  next
    case (resync ks ms)
    then have "undisturbed cl cl' k p" using p idle by (auto simp: undisturbed_def intro: inputs_of_cong)
    then show ?thesis by (rule kept)
  qed
qed

definition idle_settled :: "deployment \<Rightarrow> cluster \<Rightarrow> bool" where
  "idle_settled dp cl \<longleftrightarrow> (\<forall>k p. fmlookup (cl_Intents cl) k = Some p \<longrightarrow> k \<notin> set (cl_Queue cl) \<longrightarrow> settled dp cl k p)"

interpretation settled_when_idle: cluster_invariant idle_settled
proof
  fix dp cl cl' assume "deployment_law dp" "reachable dp cl" "cluster_step dp cl cl'" "idle_settled dp cl"
  then show "idle_settled dp cl'" using settled_step [of dp cl cl'] unfolding idle_settled_def by blast
qed (simp add: idle_settled_def new_cluster_def)

subsection \<open>The status of a settled intent\<close>

text \<open>Selecting cannot fail over what is stored, and a pass starts undecided.\<close>

lemma sees_admitted:
  assumes "deployment_law dp" and "reachable dp cl" and "sees dp cl kl"
  shows "\<not> pass_unselected kl (vl_LabelSelectorAsSelector (dp_Validation dp)) p"
proof (cases "kl_ListConventions kl")
  case (Inr items)
  with assms(3) have "mset items = mset (cl_Conventions cl)" by (simp add: sees_def)
  then have "set items = set (cl_Conventions cl)" by (rule mset_eq_setD)
  with reachable_ok [OF assms(1,2)]
  have "\<forall>i \<in> set items. convention_spec_ok (dp_Validation dp) (ClusterPodConventionSpec_Default (cpc_Spec i))"
    by (simp add: cluster_ok_def convention_admitted_def)
  with Inr assms(1) show ?thesis by (intro admitted_selected) (auto simp: deployment_laws)
qed (simp add: pass_unselected_def)

lemma fresh_unknown:
  "deployment_law dp \<Longrightarrow> applied_status (dp_Conditions dp) (fresh_state (initialised dp p)) = Some CondUnknown"
  by (simp add: deployment_laws applied_status_def condition_of_def fresh_state_def initialised_def
      initialize_conditions_unknown)

text \<open>A pass that built a registry configuration tracked all its inputs.\<close>

lemma pass_tracks_inputs:
  assumes law: "deployment_law dp" and sees: "sees dp cl kl"
    and run: "pass_run dp kl rl wl p = (Inr q, s)"
    and cfg: "registry_config_for kl (dp_Registry dp) (initialised dp p) rc'"
  shows "input_refs cl p \<subseteq> set (rs_tracked s)"
proof -
  let ?s0 = "fresh_state (initialised dp p)" and ?ns = "m_Namespace (pi_Meta p)" and ?lib = "dp_Conditions dp"
  obtain client kc sa where client: "rc_Client (dp_Registry dp) = Some client"
    and kc: "kl_K8sChain kl client ?ns (account_name p) (pi_ImagePullSecrets (pi_Spec p)) = Inr kc"
    and sa: "kl_GetServiceAccount kl ?ns (account_name p) = Inr sa"
    using cfg by (auto simp: registry_config_for_def account_name_def initialised_def)
  let ?t = "snd (ResolveConventions ?lib kl ?s0)"
  have t: "pi_Spec (rs_parent ?t) = pi_Spec p" "pi_Meta (rs_parent ?t) = pi_Meta p" "rs_tracked ?t = []"
    by (simp_all add: ResolveConventions_parent other_steps_tracked fresh_state_def initialised_def)
  have sq: "sequence_law (dp_Sequence dp)" using law by (simp add: deployment_laws)
  have name: "account_name p = (if pi_ServiceAccountName (pi_Spec p) = [] then ''default'' else pi_ServiceAccountName (pi_Spec p))"
    by (simp add: account_name_def PodIntentSpec_Default_def)
  have "rs_tracked s = rs_tracked (snd (BuildRegistryConfig ?lib kl (dp_Registry dp) ?t))"
    using pass_tracked [OF sq, of ?lib kl "vl_LabelSelectorAsSelector (dp_Validation dp)" rl wl "dp_Webhook dp" "dp_Registry dp" ?s0 q] run
    by (simp add: pass_run_def)
  also have "\<dots> = map (secret_ref ?ns) (pi_ImagePullSecrets (pi_Spec p)) @
      service_account_ref ?ns (account_name p) # map (secret_ref ?ns) (sa_ImagePullSecrets sa)"
    using registry_inputs_tracked [OF client, of ?t ?lib kl] unfolding Let_def t name [symmetric]
    by (simp add: kc sa)
  finally show ?thesis
    using sees sa by (auto simp: sees_def input_refs_def inputs_of_def registry_inputs_def Let_def)
qed

text \<open>What the status of a settled intent says, given the pass that wrote it.\<close>

lemma settled_status:
  assumes law: "deployment_law dp" and reach: "reachable dp cl0" and sees: "sees dp cl0 kl"
    and run: "pod_pass dp kl rl wl p = (Inr False, pi_Status p, refs)"
  shows "applied_status (dp_Conditions dp) (fresh_state p) = Some CondTrue \<and>
      ready_status (dp_Conditions dp) (fresh_state p) = Some CondTrue \<and> input_refs cl0 p \<subseteq> set refs \<and>
      (\<exists>w. st_Template (pi_Status p) = Some (NewPodTemplateSpec w) \<and>
         pass_applied kl (vl_LabelSelectorAsSelector (dp_Validation dp)) rl wl (dp_Webhook dp) (dp_Registry dp)
           (initialised dp p) (Inr w)) \<or>
    failed_because (dp_Conditions dp) (fresh_state p) ''CABundleResolutionFailed'' \<or>
    failed_because (dp_Conditions dp) (fresh_state p) ''ImageResolutionFailed''"
proof -
  let ?sel = "vl_LabelSelectorAsSelector (dp_Validation dp)" and ?lib = "dp_Conditions dp" and ?s0 = "fresh_state (initialised dp p)"
  obtain g s where s: "pass_run dp kl rl wl p = (Inr False, s)" "pi_Status p = (pi_Status (rs_parent s))\<lparr>st_ObservedGeneration := g\<rparr>"
    and refs: "refs = rs_tracked s" by (rule pod_pass_run [OF law run])
  then have same: "st_Conditions (pi_Status (rs_parent s)) = st_Conditions (pi_Status p)"
    "st_Template (pi_Status (rs_parent s)) = st_Template (pi_Status p)" by simp_all
  then have status: "applied_status ?lib s = applied_status ?lib (fresh_state p)" "ready_status ?lib s = ready_status ?lib (fresh_state p)"
    "failed_because ?lib s r = failed_because ?lib (fresh_state p) r" for r
    by (simp_all add: applied_status_def ready_status_def failed_because_def condition_of_def fresh_state_def)
  have "sequence_law (dp_Sequence dp)" "cond_set_law ?lib" using law by (simp_all add: deployment_laws)
  from pass_cases [OF this fresh_unknown [OF law, of p], where kl = kl and as_selector = ?sel and rl = rl and wl = wl and
      wc = "dp_Webhook dp" and rc = "dp_Registry dp", folded pass_run_def]
    sees_admitted [OF law reach sees]
  have "applied_status ?lib s = Some CondTrue \<and> ready_status ?lib s = Some CondTrue \<and>
      (\<exists>w. status_template s = Some (NewPodTemplateSpec w) \<and>
         pass_applied kl ?sel rl wl (dp_Webhook dp) (dp_Registry dp) (initialised dp p) (Inr w)) \<or>
    failed_because ?lib s ''CABundleResolutionFailed'' \<or> failed_because ?lib s ''ImageResolutionFailed''"
    by (auto simp: s fresh_state_def)
  moreover have "input_refs cl0 p \<subseteq> set refs"
    if "pass_applied kl ?sel rl wl (dp_Webhook dp) (dp_Registry dp) (initialised dp p) (Inr w)" for w
    using that pass_tracks_inputs [OF law sees s(1)] refs by (auto simp: pass_applied_def)
  ultimately show ?thesis by (auto simp: status status_template_def same)
qed

subsection \<open>A pass repeated\<close>

lemma fresh_with_status: "fresh_state (initialised dp (p\<lparr>pi_Status := x\<rparr>)) =
    with_status (InitializeConditions (dp_Conditions dp) x) (fresh_state p)"
  by (simp add: fresh_state_def initialised_def with_status_def)

lemma pod_pass_repeats:
  assumes law: "deployment_law dp" "forget_law (dp_Conditions dp)" and run: "pod_pass dp kl rl wl p = (res, st, refs)"
  shows "pod_pass dp kl rl wl (p\<lparr>pi_Status := st\<rparr>) = (res, st, refs)"
proof -
  let ?lib = "dp_Conditions dp"
  let ?r = "PodIntentReconciler (dp_Sequence dp) ?lib kl (vl_LabelSelectorAsSelector (dp_Validation dp)) rl wl (dp_Webhook dp) (dp_Registry dp)"
  have laws: "sequence_law (dp_Sequence dp)" "cond_set_law ?lib" "resource_law dp" using law(1) by (simp_all add: deployment_laws)
  obtain generation where resource: "dp_Resource dp ?r q = (case ?r (fresh_state (initialised dp q)) of (res, s) \<Rightarrow>
      (res, (pi_Status (rs_parent s))\<lparr>st_ObservedGeneration := generation (pi_Meta q)\<rparr>, rs_tracked s))" for q
    using laws(3) unfolding resource_law_def by blast
  obtain res' ms u where uniform: "applied_is ?lib CondUnknown x \<Longrightarrow> ?r (with_status x (fresh_state p)) = (res', with_status (do_marks ?lib ms x) u)" for x
    using pass_uniform [OF laws(1,2)] unfolding uniform_def by meson
  have unknown: "applied_is ?lib CondUnknown (InitializeConditions ?lib x)" for x
    using initialize_conditions_unknown [OF laws(2), of x] by (simp add: applied_is_def)
  have pass: "pod_pass dp kl rl wl (p\<lparr>pi_Status := x\<rparr>) = (res',
      (do_marks ?lib ms (InitializeConditions ?lib x))\<lparr>st_ObservedGeneration := generation (pi_Meta p)\<rparr>, rs_tracked u)" for x
    by (simp add: pod_pass_def resource fresh_with_status uniform [OF unknown])
  from pass [of "pi_Status p"] run have "res = res'" "refs = rs_tracked u"
    and st: "st = (do_marks ?lib ms (InitializeConditions ?lib (pi_Status p)))\<lparr>st_ObservedGeneration := generation (pi_Meta p)\<rparr>"
    by simp_all
  with pass [of st] repeated_marks [OF law(2) st] show ?thesis by simp
qed

lemma sees_finish_pass: "sees dp (finish_pass dp k p run cl) kl = sees dp cl kl"
proof -
  obtain res st refs where run: "run = (res, st, refs)" by (metis prod.exhaust)
  show ?thesis by (simp add: finish_pass_def run Let_def sees_def registry_inputs_def)
qed

lemma pass_then_idle:
  assumes law: "deployment_law dp" "forget_law (dp_Conditions dp)"
    and k: "k \<in> set (cl_Queue cl)" "fmlookup (cl_Intents cl) k = Some p" and sees: "sees dp cl kl"
    and run: "pod_pass dp kl rl wl p = (Inr False, st, refs)"
  shows "\<exists>cl'. rtranclp (cluster_step dp) cl cl' \<and> k \<notin> set (cl_Queue cl') \<and> cl_Intents cl' = fmupd k (p\<lparr>pi_Status := st\<rparr>) (cl_Intents cl)"
proof -
  have quiet: "k \<notin> set (cl_Queue (finish_pass dp k q (Inr False, pi_Status q, refs) c))"
    "cl_Intents (finish_pass dp k q (Inr False, pi_Status q, refs) c) = cl_Intents c" for q c
    by (simp_all add: finish_pass_def Let_def)
  let ?q = "p\<lparr>pi_Status := st\<rparr>" and ?cl1 = "finish_pass dp k p (Inr False, st, refs) cl"
  have first: "cluster_step dp cl ?cl1" using cluster_step.pass [OF k sees, of rl wl] by (simp add: run)
  show ?thesis
  proof (cases "st = pi_Status p")
    case True
    have "fmupd k p (cl_Intents cl) = cl_Intents cl" using k(2) by (intro fmap_ext) auto
    with True first quiet [where q = p and c = cl] show ?thesis by (intro exI [of _ ?cl1]) simp
  next
    case False
    then have eq: "?cl1 = deliver dp (event_of UpdateEvent KindPodIntent k)
       (cl\<lparr>cl_Queue := leave_queue k False (cl_Queue cl), cl_Tracker := cl_Tracker cl @ map (Pair k) refs,
         cl_Intents := fmupd k ?q (cl_Intents cl)\<rparr>)" by (simp add: finish_pass_def Let_def)
    let ?cl2 = "finish_pass dp k ?q (Inr False, st, refs) ?cl1"
    have "k \<in> set (cl_Queue ?cl1)" using law(1) by (simp add: eq queue_deliver pod_intent_requests deployment_laws)
    moreover have lookup: "fmlookup (cl_Intents ?cl1) k = Some ?q" by (simp add: eq)
    moreover have "sees dp ?cl1 kl" using sees by (simp add: sees_finish_pass)
    ultimately have second: "cluster_step dp ?cl1 ?cl2"
      using cluster_step.pass [of k ?cl1 ?q dp kl rl wl] by (simp add: pod_pass_repeats [OF law run])
    from first second have "rtranclp (cluster_step dp) cl ?cl2" by (rule rtranclp.rtrancl_into_rtrancl [OF r_into_rtranclp])
    moreover have "k \<notin> set (cl_Queue ?cl2)" "cl_Intents ?cl2 = cl_Intents ?cl1"
      using quiet [where q = ?q and c = ?cl1] by simp_all
    ultimately show ?thesis by (intro exI [of _ ?cl2]) (simp add: eq)
  qed
qed

subsection \<open>What a change asks for\<close>

text \<open>The requests of the intent controller a change leads to: an intent's own change, and a change
  of a secret or service account somebody was tracked for. That is all: conventions are watched with
  handlers without functions, and nobody is ever tracked for a certificate request.\<close>

fun requeued_by :: "tracker \<Rightarrow> api_change \<Rightarrow> request set" where
  "requeued_by t (PutIntent p) = {object_key (pi_Meta p)}"
| "requeued_by t (DeleteIntent k) = {k}"
| "requeued_by t (PutSecret s h) = {k. (k, secret_ref (fst s) (snd s)) \<in> set t}"
| "requeued_by t (DeleteSecret s) = {k. (k, secret_ref (fst s) (snd s)) \<in> set t}"
| "requeued_by t (PutServiceAccount s a) = {k. (k, service_account_ref (fst s) (snd s)) \<in> set t}"
| "requeued_by t (DeleteServiceAccount s) = {k. (k, service_account_ref (fst s) (snd s)) \<in> set t}"
| "requeued_by t _ = {}"

lemma no_certificate_request_tracked:
  assumes "cluster_ok dp cl" and "we_Kind e = KindCertificateRequest"
  shows "{k. (k, event_ref e) \<in> set (cl_Tracker cl)} = {}"
proof -
  have "\<not> registry_ref (event_ref e)"
    using assms(2) by (auto simp: registry_ref_def event_ref_def secret_ref_def service_account_ref_def)
  then show ?thesis using assms(1) by (auto simp: cluster_ok_def)
qed

lemma store_frame:
  assumes "api_store dp c cl = Some (e, cl1)"
  shows "cl_Queue cl1 = cl_Queue cl" "cl_MetricsQueue cl1 = cl_MetricsQueue cl" "cl_Tracker cl1 = cl_Tracker cl"
  using assms by (cases c; auto simp: put_intent_def put_convention_def put_certificate_request_def Let_def
      split: option.splits if_splits)+

lemma change_queues:
  assumes law: "deployment_law dp" and reach: "reachable dp cl" and store: "api_store dp c cl = Some (e, cl1)"
  shows "set (cl_Queue (deliver dp e cl1)) = set (cl_Queue cl) \<union> requeued_by (cl_Tracker cl) c"
proof -
  have ev: "event_law (dp_Events dp)" using law by (simp add: deployment_laws)
  have none: "{k. (k, event_ref e) \<in> set (cl_Tracker cl)} = {}" if "we_Kind e = KindCertificateRequest"
    using no_certificate_request_tracked [OF reachable_ok [OF law reach] that] .
  have "set (dp_Events dp pod_intent_builder (cl_Tracker cl) e) = requeued_by (cl_Tracker cl) c"
  proof (cases "we_Kind e = KindCertificateRequest")
    case True
    with store none show ?thesis
      by (cases c) (simp_all add: pod_intent_requests [OF ev] put_intent_def put_convention_def Let_def put_certificate_request_def
          split: option.splits if_splits, auto)
  next
    case False
    with store show ?thesis
      by (cases c) (auto simp: pod_intent_requests [OF ev] put_intent_def put_convention_def put_certificate_request_def Let_def
        split: option.splits if_splits)
  qed
  then show ?thesis by (simp add: queue_deliver store_frame [OF store])
qed

subsection \<open>The metrics config map\<close>

definition own_map :: "deployment \<Rightarrow> request" where
  "own_map dp = (mr_Namespace (dp_Metrics dp), mr_Name (dp_Metrics dp))"

text \<open>The stored config map has the data computed from what is stored.\<close>

definition listing :: "cluster \<Rightarrow> PodIntent list \<Rightarrow> bool" where
  "listing cl intents \<longleftrightarrow> (\<exists>ks. distinct ks \<and> set ks = fmdom' (cl_Intents cl) \<and>
     intents = map (\<lambda>k. the (fmlookup (cl_Intents cl) k)) ks)"

definition metrics_current :: "deployment \<Rightarrow> cluster \<Rightarrow> bool" where
  "metrics_current dp cl \<longleftrightarrow> (case fmlookup (cl_ConfigMaps cl) (own_map dp) of
     None \<Rightarrow> cl_Intents cl = fmempty \<and> cl_Conventions cl = []
   | Some cm \<Rightarrow> m_DeletionTimestamp (cfm_Meta cm) \<noteq> None \<or>
       (\<exists>intents items rng. listing cl intents \<and> mset items = mset (cl_Conventions cl) \<and> range_law rng \<and>
          map_init (cfm_Data cm) = Some (buildConfigMapData (dp_MetricsLib dp) rng intents items)))"

lemma metrics_current_cong:
  "cl_Intents cl = cl_Intents cl' \<Longrightarrow> cl_Conventions cl = cl_Conventions cl' \<Longrightarrow>
   fmlookup (cl_ConfigMaps cl) (own_map dp) = fmlookup (cl_ConfigMaps cl') (own_map dp) \<Longrightarrow>
   metrics_current dp cl = metrics_current dp cl'"
  by (simp add: metrics_current_def listing_def cong: option.case_cong)

lemma metrics_current_queue [simp]: "metrics_current dp (cl\<lparr>cl_MetricsQueue := q\<rparr>) = metrics_current dp cl"
  by (rule metrics_current_cong) simp_all

lemma metrics_queue_deliver: "set (cl_MetricsQueue (deliver dp e cl)) =
    set (cl_MetricsQueue cl) \<union> set (dp_Events dp (metrics_builder (dp_Metrics dp)) [] e)"
  by (simp add: deliver_def)

lemma metrics_event:
  assumes "event_law (dp_Events dp)"
  shows "own_map dp \<in> set (dp_Events dp (metrics_builder (dp_Metrics dp)) [] e) \<longleftrightarrow>
    we_Kind e = KindPodIntent \<or> we_Kind e = KindClusterPodConvention \<or>
    we_Kind e = KindConfigMap \<and> (we_Namespace e, we_Name e) = own_map dp"
  by (auto simp: metrics_requests [OF assms] own_map_def split: watched_kind.split)

text \<open>The changes the metrics controller acts on, and the intents a change leaves alone.\<close>

fun changes_metrics :: "request \<Rightarrow> api_change \<Rightarrow> bool" where
  "changes_metrics own (PutIntent p) = True"
| "changes_metrics own (DeleteIntent k) = True"
| "changes_metrics own (PutConvention c) = True"
| "changes_metrics own (DeleteConvention name) = True"
| "changes_metrics own (PutConfigMap cm) = (object_key (cfm_Meta cm) = own)"
| "changes_metrics own (DeleteConfigMap k) = (k = own)"
| "changes_metrics own _ = False"

lemma change_metrics:
  assumes "deployment_law dp" and store: "api_store dp c cl = Some (e, cl1)"
  shows "own_map dp \<in> set (cl_MetricsQueue (deliver dp e cl1)) \<longleftrightarrow>
    own_map dp \<in> set (cl_MetricsQueue cl) \<or> changes_metrics (own_map dp) c"
proof -
  have ev: "event_law (dp_Events dp)" using assms(1) by (simp add: deployment_laws)
  have "own_map dp \<in> set (dp_Events dp (metrics_builder (dp_Metrics dp)) [] e) \<longleftrightarrow> changes_metrics (own_map dp) c"
    using store by (cases c) (auto simp: metrics_event [OF ev] put_intent_def put_convention_def put_certificate_request_def Let_def
        split: option.splits if_splits)
  then show ?thesis by (simp add: metrics_queue_deliver store_frame [OF store])
qed

lemma change_intents:
  assumes "api_store dp c cl = Some (e, cl1)" and "j \<notin> requeued_by t c"
  shows "fmlookup (cl_Intents (deliver dp e cl1)) j = fmlookup (cl_Intents cl) j"
  using assms by (cases c) (auto simp: put_intent_def put_convention_def put_certificate_request_def Let_def
      split: option.splits if_splits)

text \<open>How computing the config map ends, and what a pass over the own config map found.\<close>

lemma metrics_reconcile_cases:
  assumes lib: "semantic_law lib"
  obtains (failed) e ws where "metrics_reconcile c lib rng r cm = (Some e, ws)"
  | (created) w where "m_Name (cfm_Meta cm) = []" "metrics_reconcile c lib rng r cm = (None, [w])"
      "object_key (cfm_Meta (snd (written w))) = (mr_Namespace r, mr_Name r)"
  | (updated) w where "m_Name (cfm_Meta cm) \<noteq> []" "metrics_reconcile c lib rng r cm = (None, [w])"
      "cfm_Meta (snd (written w)) = cfm_Meta cm"
  | (same) intents items where "m_Name (cfm_Meta cm) \<noteq> []" "metrics_reconcile c lib rng r cm = (None, [])"
      "mc_ListPodIntents c = Inr intents" "mc_ListConventions c = Inr items"
      "map_init (cfm_Data cm) = Some (buildConfigMapData lib rng intents items)"
proof (cases "\<exists>intents items. mc_ListPodIntents c = Inr intents \<and> mc_ListConventions c = Inr items")
  case False
  then have "fst (metrics_reconcile c lib rng r cm) \<noteq> None"
    by (cases "mc_ListPodIntents c"; cases "mc_ListConventions c") (simp_all add: metrics_reconcile_def)
  then show ?thesis using failed by (metis not_None_eq prod.collapse)
next
  case True
  then obtain intents items where lists: "mc_ListPodIntents c = Inr intents" "mc_ListConventions c = Inr items" by blast
  let ?data = "buildConfigMapData lib rng intents items" and ?run = "metrics_reconcile c lib rng r cm"
  let ?new = "\<lparr>cfm_Meta = zero_meta\<lparr>m_Name := mr_Name r, m_Namespace := mr_Namespace r\<rparr>, cfm_Data = Some ?data\<rparr>"
  note defs = metrics_reconcile_def lists createConfigMap_def reconcileConfigMap_def configMapSemanticEquals_def Let_def
  have same_data: "ml_SemanticDeepEqual lib a b \<longleftrightarrow> map_init b = map_init a" for a b using lib by (auto simp: semantic_law_def)
  show ?thesis
  proof (cases "m_Name (cfm_Meta cm) = []")
    case True
    then have "?run = (mc_Create c ?new, [Created ?new])" by (simp add: defs)
    with True show ?thesis using failed created [of "Created ?new"] by (cases "mc_Create c ?new") (auto simp: object_key_def)
  next
    case named: False
    let ?upd = "cm\<lparr>cfm_Data := Some ?data\<rparr>"
    show ?thesis
    proof (cases "map_init (cfm_Data cm) = Some ?data")
      case True
      with named have "?run = (None, [])" by (simp add: defs same_data)
      with named True lists show ?thesis by (intro same)
    next
      case False
      with named have "?run = (mc_Update c ?upd, [Updated ?upd])" by (simp add: defs same_data)
      with named show ?thesis using failed updated [of "Updated ?upd"] by (cases "mc_Update c ?upd") auto
    qed
  qed
qed

lemma metrics_sees_get: "metrics_sees cl c \<Longrightarrow> mc_Get c ns name = Found cm \<Longrightarrow> fmlookup (cl_ConfigMaps cl) (ns, name) = Some cm"
  unfolding metrics_sees_def by (drule conjunct1, drule spec [of _ ns], drule spec [of _ name]) simp

lemma metrics_pass_cases:
  assumes law: "deployment_law dp" and ok: "cluster_ok dp cl" and sees: "metrics_sees cl c" and rng: "range_law rng"
    and run: "run = MetricsReconciler_Reconcile c (dp_MetricsLib dp) rng (dp_Metrics dp)
      (mr_Namespace (dp_Metrics dp)) (mr_Name (dp_Metrics dp))"
  obtains (failed) e ws where "run = (Some e, ws)"
  | (wrote) w where "run = (None, [w])" "object_key (cfm_Meta (snd (written w))) = own_map dp"
  | (quiet) "run = (None, [])" "metrics_current dp cl"
proof (cases "mc_Get c (mr_Namespace (dp_Metrics dp)) (mr_Name (dp_Metrics dp))")
  case (GetFailed e)
  then show ?thesis by (intro failed) (simp add: run MetricsReconciler_Reconcile_def)
next
  case NotFound
  have lib: "semantic_law (dp_MetricsLib dp)" using law by (simp add: deployment_laws)
  from NotFound have now: "run = metrics_reconcile c (dp_MetricsLib dp) rng (dp_Metrics dp) zero_config_map"
    by (simp add: run MetricsReconciler_Reconcile_def)
  show ?thesis
  proof (rule metrics_reconcile_cases [OF lib, of c rng "dp_Metrics dp" zero_config_map, folded now])
    fix w assume "run = (None, [w])" "object_key (cfm_Meta (snd (written w))) = (mr_Namespace (dp_Metrics dp), mr_Name (dp_Metrics dp))"
    then show ?thesis by (intro wrote [of w]) (simp_all add: own_map_def)
  qed (use failed in \<open>simp_all add: zero_config_map_def zero_meta_def\<close>)
next
  case (Found cm)
  have lib: "semantic_law (dp_MetricsLib dp)" "mr_Name (dp_Metrics dp) \<noteq> []" using law by (simp_all add: deployment_laws)
  from Found sees have cm: "fmlookup (cl_ConfigMaps cl) (own_map dp) = Some cm"
    by (auto simp: own_map_def dest: metrics_sees_get)
  with ok have key: "object_key (cfm_Meta cm) = own_map dp" by (simp add: cluster_ok_def del: split_paired_All)
  with lib(2) have name: "m_Name (cfm_Meta cm) \<noteq> []" by (simp add: object_key_def own_map_def)
  show ?thesis
  proof (cases "m_DeletionTimestamp (cfm_Meta cm) = None")
    case True
    with Found have now: "run = metrics_reconcile c (dp_MetricsLib dp) rng (dp_Metrics dp) cm"
      by (simp add: run MetricsReconciler_Reconcile_def)
    show ?thesis
    proof (rule metrics_reconcile_cases [OF lib(1), of c rng "dp_Metrics dp" cm, folded now])
      fix intents items assume run: "run = (None, [])" and "mc_ListPodIntents c = Inr intents" "mc_ListConventions c = Inr items"
        and same: "map_init (cfm_Data cm) = Some (buildConfigMapData (dp_MetricsLib dp) rng intents items)"
      with sees have "listing cl intents" "mset items = mset (cl_Conventions cl)" by (simp_all add: metrics_sees_def listing_def)
      with same rng cm have "metrics_current dp cl" by (auto simp: metrics_current_def)
      with run show ?thesis by (rule quiet)
    next
      fix w assume "run = (None, [w])" "cfm_Meta (snd (written w)) = cfm_Meta cm"
      then show ?thesis using key by (intro wrote [of w]) simp_all
    qed (use failed name in simp_all)
  next
    case False
    with Found cm show ?thesis by (intro quiet) (auto simp: run MetricsReconciler_Reconcile_def metrics_current_def)
  qed
qed

text \<open>The config map is current whenever its own request is not queued.\<close>

definition metrics_ok :: "deployment \<Rightarrow> cluster \<Rightarrow> bool" where
  "metrics_ok dp cl \<longleftrightarrow> own_map dp \<in> set (cl_MetricsQueue cl) \<or> metrics_current dp cl"

lemma metrics_ok_frame:
  assumes "metrics_ok dp cl" and "set (cl_MetricsQueue cl) \<subseteq> set (cl_MetricsQueue cl')"
    and "cl_Intents cl = cl_Intents cl'" "cl_Conventions cl = cl_Conventions cl'" "cl_ConfigMaps cl = cl_ConfigMaps cl'"
  shows "metrics_ok dp cl'"
  using assms metrics_current_cong [of cl cl' dp] by (auto simp: metrics_ok_def)

lemma metrics_ok_change:
  assumes ev: "event_law (dp_Events dp)" and store: "api_store dp c cl = Some (e, cl1)" and ok: "metrics_ok dp cl"
  shows "metrics_ok dp (deliver dp e cl1)"
proof (cases "own_map dp \<in> set (dp_Events dp (metrics_builder (dp_Metrics dp)) [] e)")
  case False
  note quiet = False [unfolded metrics_event [OF ev]]
  then have "cl_Intents cl = cl_Intents cl1 \<and> cl_Conventions cl = cl_Conventions cl1 \<and>
      fmlookup (cl_ConfigMaps cl) (own_map dp) = fmlookup (cl_ConfigMaps cl1) (own_map dp)"
    using store by (cases c; auto simp: put_intent_def put_convention_def put_certificate_request_def Let_def
        split: option.splits if_splits)
  then have "metrics_current dp cl = metrics_current dp (deliver dp e cl1)" by (intro metrics_current_cong) simp_all
  with ok show ?thesis by (auto simp: metrics_ok_def metrics_queue_deliver store_frame [OF store])
qed (simp add: metrics_ok_def metrics_queue_deliver)

lemma metrics_ok_pass:
  assumes ev: "event_law (dp_Events dp)" and ok: "metrics_ok dp cl"
  shows "metrics_ok dp (finish_pass dp k p run cl)"
proof -
  obtain res st refs where run: "run = (res, st, refs)" by (metis prod.exhaust)
  show ?thesis
  proof (cases "st = pi_Status p")
    case True
    with ok show ?thesis by (auto simp: finish_pass_def run Let_def intro: metrics_ok_frame)
  qed (simp add: finish_pass_def run Let_def metrics_ok_def metrics_queue_deliver metrics_event [OF ev])
qed

lemma metrics_ok_restart:
  assumes ev: "event_law (dp_Events dp)" and ok: "metrics_ok dp cl" and es: "set es = initial_events cl"
  shows "metrics_ok dp (restarted dp es cl)"
proof (cases "\<exists>e \<in> set es. own_map dp \<in> set (dp_Events dp (metrics_builder (dp_Metrics dp)) [] e)")
  case True
  then show ?thesis by (auto simp: metrics_ok_def restarted_queues)
next
  case False
  then have none: "e \<in> initial_events cl \<Longrightarrow> we_Kind e \<noteq> KindPodIntent \<and> we_Kind e \<noteq> KindClusterPodConvention \<and>
      (we_Kind e = KindConfigMap \<longrightarrow> (we_Namespace e, we_Name e) \<noteq> own_map dp)" for e
    by (auto simp: es metrics_event [OF ev])
  have "cl_Intents cl = fmempty"
  proof (rule fmap_ext)
    fix k show "fmlookup (cl_Intents cl) k = fmlookup fmempty k"
      using none [of "event_of CreateEvent KindPodIntent k"]
      by (cases "fmlookup (cl_Intents cl) k") (auto simp: initial_events_def fmlookup_dom'_iff)
  qed
  moreover have "cl_Conventions cl = []"
    using none [of "event_of CreateEvent KindClusterPodConvention ([], convention_name (hd (cl_Conventions cl)))"]
    by (cases "cl_Conventions cl") (auto simp: initial_events_def)
  moreover have "fmlookup (cl_ConfigMaps cl) (own_map dp) = None"
    using none [of "event_of CreateEvent KindConfigMap (own_map dp)"]
    by (cases "fmlookup (cl_ConfigMaps cl) (own_map dp)") (auto simp: initial_events_def fmlookup_dom'_iff)
  ultimately show ?thesis by (simp add: metrics_ok_def metrics_current_def)
qed

lemma metrics_ok_metrics:
  assumes law: "deployment_law dp" and "cluster_ok dp cl" and ok: "metrics_ok dp cl"
    and sees: "metrics_sees cl c" and rng: "range_law rng"
    and run: "run = MetricsReconciler_Reconcile c (dp_MetricsLib dp) rng (dp_Metrics dp) (fst k) (snd k)"
  shows "metrics_ok dp (finish_metrics dp k run cl)"
proof (cases "k = own_map dp")
  case True
  have ev: "event_law (dp_Events dp)" using law by (simp add: deployment_laws)
  have "run = MetricsReconciler_Reconcile c (dp_MetricsLib dp) rng (dp_Metrics dp) (mr_Namespace (dp_Metrics dp)) (mr_Name (dp_Metrics dp))"
    by (simp add: run True own_map_def)
  from law assms(2) sees rng this show ?thesis
  proof (rule metrics_pass_cases)
    fix e ws assume "run = (Some e, ws)"
    then show ?thesis by (simp add: finish_metrics_def metrics_ok_def True)
  next
    fix w assume "run = (None, [w])" "object_key (cfm_Meta (snd (written w))) = own_map dp"
    then show ?thesis
      by (cases "written w") (simp add: finish_metrics_def metrics_ok_def metrics_queue_deliver metrics_event [OF ev])
  next
    assume "run = (None, [])" "metrics_current dp cl"
    then show ?thesis by (simp add: finish_metrics_def metrics_ok_def)
  qed
next
  case False
  then have "run = (None, [])" by (cases k) (auto simp: run MetricsReconciler_Reconcile_def own_map_def)
  with False ok show ?thesis by (simp add: finish_metrics_def metrics_ok_def)
qed

interpretation current_metrics: cluster_invariant metrics_ok
proof
  fix dp cl cl' assume law: "deployment_law dp" and reach: "reachable dp cl" and ok: "metrics_ok dp cl"
  have ev: "event_law (dp_Events dp)" using law by (simp add: deployment_laws)
  assume "cluster_step dp cl cl'"
  then show "metrics_ok dp cl'"
  proof cases
    case (change c e cl1)
    with metrics_ok_change [OF ev change(2) ok] show ?thesis by simp
  next
    case (pass k p kl rl wl)
    with metrics_ok_pass [OF ev ok] show ?thesis by simp
  next
    case (metrics k c rng)
    with metrics_ok_metrics [OF law reachable_ok [OF law reach] ok] show ?thesis by simp
  next
    case (restart es)
    with metrics_ok_restart [OF ev ok] show ?thesis by simp
  qed (use ok in \<open>auto intro: metrics_ok_frame\<close>)
qed (simp add: metrics_ok_def metrics_current_def new_cluster_def)

end
