(* ===== verification/Interleaving.thy ===== *)
theory Interleaving
  imports Cluster
begin

text \<open>
  \<open>BuildRegistryConfig\<close> (\<open>pkg/controllers/podintent_reconciler.go\<close>) while the cluster changes. \<open>Cluster\<close>
  takes a pass as one step; here its second sub-reconciler is the sequence of the calls it makes of
  the tracker and the API server, and between two of them any object may change, with the event
  delivered to whoever tracks the object at that moment. What the first sub-reconciler reads
  is not tracked and the third neither reads nor tracks stored objects, so they stay single
  steps at both ends.
\<close>

subsection \<open>The calls of the sub-reconciler\<close>

datatype build_action =
    CheckClient | TrackPullSecrets | DefaultSpec | NewKeychain | TrackAccount | GetAccount | TrackAccountSecrets | StashConfig

text \<open>The local variables of the function; \<open>bd_Return\<close> is what it returned.\<close>

record building =
  bd_State :: rec_state
  bd_imagePullSecrets :: "string list"
  bd_kc :: "handle option"
  bd_sa :: ServiceAccount
  bd_Return :: "bool result option"

definition start_building :: "rec_state \<Rightarrow> building" where
  "start_building s = \<lparr>bd_State = s, bd_imagePullSecrets = [], bd_kc = None, bd_sa = \<lparr>sa_ImagePullSecrets = []\<rparr>, bd_Return = None\<rparr>"

definition fails_with :: "cond_set_lib \<Rightarrow> go_error \<Rightarrow> building \<Rightarrow> building" where
  "fails_with lib err b = b\<lparr>bd_State := mark_false lib ''ImageResolutionFailed'' (FailedToAuthenticate err) (bd_State b),
     bd_Return := Some (Inr False)\<rparr>"

definition bd_parent :: "building \<Rightarrow> PodIntent" where
  "bd_parent b = rs_parent (bd_State b)"

definition serviceAccountName :: "building \<Rightarrow> string" where
  "serviceAccountName b = pi_ServiceAccountName (pi_Spec (bd_parent b))"

fun build_step :: "cond_set_lib \<Rightarrow> kube_lib \<Rightarrow> RegistryConfig \<Rightarrow> build_action \<Rightarrow> building \<Rightarrow> building" where
  "build_step lib kl rc CheckClient b =
     (if rc_Client rc = None then b\<lparr>bd_Return := Some (Inl ErrClientNotSet)\<rparr> else b)"
| "build_step lib kl rc TrackPullSecrets b =
     (let names = pi_ImagePullSecrets (pi_Spec (bd_parent b))
      in b\<lparr>bd_imagePullSecrets := names,
           bd_State := track (map (secret_ref (m_Namespace (pi_Meta (bd_parent b)))) names) (bd_State b)\<rparr>)"
| "build_step lib kl rc DefaultSpec b = b\<lparr>bd_State := default_parent (bd_State b)\<rparr>"
| "build_step lib kl rc NewKeychain b =
     (case kl_K8sChain kl (the (rc_Client rc)) (m_Namespace (pi_Meta (bd_parent b))) (serviceAccountName b) (bd_imagePullSecrets b) of
        Inl err \<Rightarrow> fails_with lib err b
      | Inr kc \<Rightarrow> b\<lparr>bd_kc := Some kc\<rparr>)"
| "build_step lib kl rc TrackAccount b =
     b\<lparr>bd_State := track [service_account_ref (m_Namespace (pi_Meta (bd_parent b))) (serviceAccountName b)] (bd_State b)\<rparr>"
| "build_step lib kl rc GetAccount b =
     (case kl_GetServiceAccount kl (m_Namespace (pi_Meta (bd_parent b))) (serviceAccountName b) of
        Inl err \<Rightarrow> fails_with lib err b
      | Inr sa \<Rightarrow> b\<lparr>bd_sa := sa\<rparr>)"
| "build_step lib kl rc TrackAccountSecrets b =
     b\<lparr>bd_State := track (map (secret_ref (m_Namespace (pi_Meta (bd_parent b)))) (sa_ImagePullSecrets (bd_sa b))) (bd_State b)\<rparr>"
| "build_step lib kl rc StashConfig b =
     b\<lparr>bd_State := StashRegistryConfig
         \<lparr>rc_Keys = bd_kc b, rc_Cache = rc_Cache rc, rc_Client = rc_Client rc, rc_CACertPath = rc_CACertPath rc\<rparr> (bd_State b),
       bd_Return := Some (Inr False)\<rparr>"

definition build_actions :: "build_action list" where
  "build_actions = [CheckClient, TrackPullSecrets, DefaultSpec, NewKeychain, TrackAccount, GetAccount, TrackAccountSecrets, StashConfig]"

text \<open>A function that has returned does nothing more.\<close>

definition do_action :: "cond_set_lib \<Rightarrow> kube_lib \<Rightarrow> RegistryConfig \<Rightarrow> build_action \<Rightarrow> building \<Rightarrow> building" where
  "do_action lib kl rc a b = (if bd_Return b = None then build_step lib kl rc a b else b)"

text \<open>Without interference the calls are \<open>BuildRegistryConfig\<close>.\<close>

lemma do_actions_BuildRegistryConfig:
  assumes "b = fold (do_action lib kl rc) build_actions (start_building s)"
  shows "bd_Return b = Some (fst (BuildRegistryConfig lib kl rc s)) \<and> bd_State b = snd (BuildRegistryConfig lib kl rc s)"
proof (cases "rc_Client rc")
  case None
  then show ?thesis
    by (simp add: assms build_actions_def do_action_def start_building_def BuildRegistryConfig_def)
next
  case (Some client)
  let ?ns = "m_Namespace (pi_Meta (rs_parent s))" and ?account = "pi_ServiceAccountName (PodIntentSpec_Default (pi_Spec (rs_parent s)))"
  note defs = assms build_actions_def do_action_def start_building_def fails_with_def BuildRegistryConfig_def Let_def
    bd_parent_def serviceAccountName_def track_def default_parent_def Some
  show ?thesis
  proof (cases "kl_K8sChain kl client ?ns ?account (pi_ImagePullSecrets (pi_Spec (rs_parent s)))")
    case (Inl e)
    then show ?thesis by (simp add: defs)
  next
    case (Inr kc)
    then show ?thesis by (cases "kl_GetServiceAccount kl ?ns ?account") (simp_all add: defs)
  qed
qed

subsection \<open>A pass with interference\<close>

text \<open>
  A worker takes the request from the queue, which an event puts there again. What a
  sub-reconciler tracks is in the tracker at once. The framework writes a changed status if
  the object is still the one it read, and queues the request again after an error.
\<close>

definition take_request :: "request \<Rightarrow> cluster \<Rightarrow> cluster" where
  "take_request k cl = cl\<lparr>cl_Queue := filter (\<lambda>j. j \<noteq> k) (cl_Queue cl)\<rparr>"

definition enqueue_if :: "bool \<Rightarrow> request \<Rightarrow> cluster \<Rightarrow> cluster" where
  "enqueue_if again k cl = cl\<lparr>cl_Queue := cl_Queue cl @ (if again then [k] else [])\<rparr>"

definition tracked_since :: "building \<Rightarrow> building \<Rightarrow> Reference list" where
  "tracked_since b b' = drop (length (rs_tracked (bd_State b))) (rs_tracked (bd_State b'))"

definition add_tracked :: "request \<Rightarrow> Reference list \<Rightarrow> cluster \<Rightarrow> cluster" where
  "add_tracked k refs cl = cl\<lparr>cl_Tracker := cl_Tracker cl @ map (Pair k) refs\<rparr>"

definition begin_pass :: "deployment \<Rightarrow> kube_lib \<Rightarrow> PodIntent \<Rightarrow> building" where
  "begin_pass dp kl p = (case ResolveConventions (dp_Conditions dp) kl (fresh_state (initialised dp p)) of
     (res, s) \<Rightarrow> (start_building s)\<lparr>bd_Return := (case res of Inl e \<Rightarrow> Some (Inl e) | Inr _ \<Rightarrow> None)\<rparr>)"

definition end_pass :: "deployment \<Rightarrow> registry_lib \<Rightarrow> webhook_lib \<Rightarrow> PodIntent \<Rightarrow> building \<Rightarrow>
    bool result \<times> PodIntentStatus \<times> Reference list" where
  "end_pass dp rl wl p b = dp_Resource dp (\<lambda>_. then_do (\<lambda>s. (the (bd_Return b), s))
     (ApplyConventions (dp_Conditions dp) (vl_LabelSelectorAsSelector (dp_Validation dp)) rl wl (dp_Webhook dp)) (bd_State b)) p"

datatype moment = Building cluster "build_action list" building | Written cluster building

inductive moment_step :: "deployment \<Rightarrow> request \<Rightarrow> PodIntent \<Rightarrow> moment \<Rightarrow> moment \<Rightarrow> bool" for dp k p where
  act: "sees dp cl kl \<Longrightarrow> b' = do_action (dp_Conditions dp) kl (dp_Registry dp) a b \<Longrightarrow>
    moment_step dp k p (Building cl (a # as) b) (Building (add_tracked k (tracked_since b b') cl) as b')"
| change: "api_store dp c cl = Some (e, cl1) \<Longrightarrow>
    moment_step dp k p (Building cl as b) (Building (deliver dp e cl1) as b)"
| metrics: "metrics_sees cl c \<Longrightarrow> range_law rng \<Longrightarrow>
    moment_step dp k p (Building cl as b) (Building (finish_metrics dp j
      (MetricsReconciler_Reconcile c (dp_MetricsLib dp) rng (dp_Metrics dp) (fst j) (snd j)) cl) as b)"
| resync: "moment_step dp k p (Building cl as b)
    (Building (cl\<lparr>cl_Queue := cl_Queue cl @ ks, cl_MetricsQueue := cl_MetricsQueue cl @ ms\<rparr>) as b)"
| unchanged: "end_pass dp rl wl p b = (res, pi_Status p, refs) \<Longrightarrow>
    moment_step dp k p (Building cl [] b) (Written (enqueue_if (res \<noteq> Inr False) k cl) b)"
| wrote: "end_pass dp rl wl p b = (res, st, refs) \<Longrightarrow> st \<noteq> pi_Status p \<Longrightarrow> fmlookup (cl_Intents cl) k = Some p \<Longrightarrow>
    moment_step dp k p (Building cl [] b) (Written (deliver dp (event_of UpdateEvent KindPodIntent k)
      ((enqueue_if (res \<noteq> Inr False) k cl)\<lparr>cl_Intents := fmupd k (p\<lparr>pi_Status := st\<rparr>) (cl_Intents cl)\<rparr>)) b)"
| conflict: "end_pass dp rl wl p b = (res, st, refs) \<Longrightarrow> st \<noteq> pi_Status p \<Longrightarrow>
    moment_step dp k p (Building cl [] b) (Written (enqueue_if True k cl) b)"

definition pass_starts :: "deployment \<Rightarrow> request \<Rightarrow> PodIntent \<Rightarrow> cluster \<Rightarrow> moment \<Rightarrow> bool" where
  "pass_starts dp k p cl m \<longleftrightarrow> k \<in> set (cl_Queue cl) \<and> fmlookup (cl_Intents cl) k = Some p \<and>
     (\<exists>kl. sees dp cl kl \<and> m = Building (take_request k cl) build_actions (begin_pass dp kl p))"


subsection \<open>Without interference a pass is the pass of the cluster\<close>

lemma sees_cong:
  "cl_Conventions cl = cl_Conventions cl' \<Longrightarrow> cl_CertificateRequests cl = cl_CertificateRequests cl' \<Longrightarrow>
   cl_Secrets cl = cl_Secrets cl' \<Longrightarrow> cl_ServiceAccounts cl = cl_ServiceAccounts cl' \<Longrightarrow> sees dp cl kl = sees dp cl' kl"
  by (simp add: sees_def registry_inputs_def)

lemma add_tracked_simps [simp]:
  "add_tracked k [] cl = cl" "add_tracked k rs (add_tracked k qs cl) = add_tracked k (qs @ rs) cl"
  "cl_Queue (add_tracked k rs cl) = cl_Queue cl" "cl_Intents (add_tracked k rs cl) = cl_Intents cl"
  "cl_Secrets (add_tracked k rs cl) = cl_Secrets cl" "cl_ServiceAccounts (add_tracked k rs cl) = cl_ServiceAccounts cl"
  "cl_Tracker (add_tracked k rs cl) = cl_Tracker cl @ map (Pair k) rs"
  "sees dp (add_tracked k rs cl) kl = sees dp cl kl" "sees dp (take_request k cl) kl = sees dp cl kl"
  by (simp_all add: add_tracked_def take_request_def) (rule sees_cong; simp)+

lemma mark_false_tracked [simp]: "rs_tracked (mark_false lib r m s) = rs_tracked s"
  by (simp add: mark_false_def)

lemma do_action_tracks: "\<exists>refs. rs_tracked (bd_State (do_action lib kl rc a b)) = rs_tracked (bd_State b) @ refs"
  by (cases a) (auto simp: do_action_def fails_with_def track_def default_parent_def StashRegistryConfig_def Let_def split: sum.split)

lemma tracked_since_eq: "rs_tracked (bd_State b') = rs_tracked (bd_State b) @ refs \<Longrightarrow> tracked_since b b' = refs"
  by (simp add: tracked_since_def)

lemma acts_run:
  assumes "sees dp cl kl"
  shows "\<exists>refs. rs_tracked (bd_State (fold (do_action (dp_Conditions dp) kl (dp_Registry dp)) as b)) = rs_tracked (bd_State b) @ refs \<and>
    rtranclp (moment_step dp k p) (Building cl as b)
      (Building (add_tracked k refs cl) [] (fold (do_action (dp_Conditions dp) kl (dp_Registry dp)) as b))"
  using assms
proof (induction as arbitrary: cl b)
  case (Cons a as)
  let ?do = "do_action (dp_Conditions dp) kl (dp_Registry dp)"
  obtain qs where qs: "rs_tracked (bd_State (?do a b)) = rs_tracked (bd_State b) @ qs" using do_action_tracks by blast
  have "sees dp (add_tracked k qs cl) kl" using Cons.prems by simp
  from Cons.IH [OF this, of "?do a b"] obtain rs
    where rs: "rs_tracked (bd_State (fold ?do as (?do a b))) = rs_tracked (bd_State (?do a b)) @ rs"
      "rtranclp (moment_step dp k p) (Building (add_tracked k qs cl) as (?do a b))
        (Building (add_tracked k (qs @ rs) cl) [] (fold ?do as (?do a b)))" by auto
  have "moment_step dp k p (Building cl (a # as) b) (Building (add_tracked k qs cl) as (?do a b))"
    using moment_step.act [OF Cons.prems refl, of k p a as b] by (simp add: tracked_since_eq [OF qs])
  then show ?case using rs qs by (auto intro: converse_rtranclp_into_rtranclp)
qed simp

lemma resource_cong:
  "deployment_law dp \<Longrightarrow> f (fresh_state (initialised dp p)) = g (fresh_state (initialised dp p)) \<Longrightarrow> dp_Resource dp f p = dp_Resource dp g p"
  unfolding deployment_laws resource_law_def by (elim conjE exE) simp

lemma ResolveConventions_requeue: "ResolveConventions lib kl s = (Inr q, t) \<Longrightarrow> q = False"
  by (auto simp: ResolveConventions_def split: sum.splits)

lemma returned_acts: "bd_Return b = Some r \<Longrightarrow> fold (do_action lib kl rc) as b = b"
  by (induction as) (simp_all add: do_action_def)

lemma begin_pass_cases:
  obtains (failed) e s where "ResolveConventions (dp_Conditions dp) kl (fresh_state (initialised dp p)) = (Inl e, s)"
      "begin_pass dp kl p = (start_building s)\<lparr>bd_Return := Some (Inl e)\<rparr>"
    | (listed) s where "ResolveConventions (dp_Conditions dp) kl (fresh_state (initialised dp p)) = (Inr False, s)"
      "begin_pass dp kl p = start_building s"
proof (cases "ResolveConventions (dp_Conditions dp) kl (fresh_state (initialised dp p))")
  case (Pair res s)
  show ?thesis
  proof (cases res)
    case (Inl e)
    with Pair show ?thesis by (intro failed) (simp_all add: begin_pass_def)
  next
    case (Inr q)
    with Pair have "q = False" by (intro ResolveConventions_requeue [of _ _ _ q s]) simp
    with Pair Inr show ?thesis by (intro listed) (simp_all add: begin_pass_def start_building_def)
  qed
qed

lemma begin_pass_untracked: "rs_tracked (bd_State (begin_pass dp kl p)) = []"
  using other_steps_tracked(1) [of "dp_Conditions dp" kl "fresh_state (initialised dp p)"]
  by (cases rule: begin_pass_cases [of dp kl p]) (simp_all add: start_building_def fresh_state_def)

lemma end_pass_atomic:
  assumes law: "deployment_law dp"
  shows "end_pass dp rl wl p (fold (do_action (dp_Conditions dp) kl (dp_Registry dp)) build_actions (begin_pass dp kl p)) =
    pod_pass dp kl rl wl p"
  unfolding end_pass_def pod_pass_def
proof (rule resource_cong [OF law])
  have seq: "sequence_law (dp_Sequence dp)" using law by (simp add: deployment_laws)
  let ?b = "fold (do_action (dp_Conditions dp) kl (dp_Registry dp)) build_actions (begin_pass dp kl p)"
  let ?apply = "ApplyConventions (dp_Conditions dp) (vl_LabelSelectorAsSelector (dp_Validation dp)) rl wl (dp_Webhook dp)"
  show "then_do (\<lambda>s. (the (bd_Return ?b), s)) ?apply (bd_State ?b) =
    PodIntentReconciler (dp_Sequence dp) (dp_Conditions dp) kl (vl_LabelSelectorAsSelector (dp_Validation dp)) rl wl
      (dp_Webhook dp) (dp_Registry dp) (fresh_state (initialised dp p))"
    unfolding PodIntentReconciler_eq [OF seq]
  proof (cases rule: begin_pass_cases [of dp kl p])
    case (failed e s)
    then have "?b = (start_building s)\<lparr>bd_Return := Some (Inl e)\<rparr>" by (simp add: returned_acts)
    with failed show "then_do (\<lambda>s. (the (bd_Return ?b), s)) ?apply (bd_State ?b) =
        then_do (ResolveConventions (dp_Conditions dp) kl) (then_do (BuildRegistryConfig (dp_Conditions dp) kl (dp_Registry dp)) ?apply)
          (fresh_state (initialised dp p))"
      by (simp add: then_do_def start_building_def)
  next
    case (listed s)
    then have b: "bd_Return ?b = Some (fst (BuildRegistryConfig (dp_Conditions dp) kl (dp_Registry dp) s))"
        "bd_State ?b = snd (BuildRegistryConfig (dp_Conditions dp) kl (dp_Registry dp) s)"
      using do_actions_BuildRegistryConfig [of ?b "dp_Conditions dp" kl "dp_Registry dp" s] by simp_all
    obtain res t where "BuildRegistryConfig (dp_Conditions dp) kl (dp_Registry dp) s = (res, t)" by (metis prod.exhaust)
    with b listed show "then_do (\<lambda>s. (the (bd_Return ?b), s)) ?apply (bd_State ?b) =
        then_do (ResolveConventions (dp_Conditions dp) kl) (then_do (BuildRegistryConfig (dp_Conditions dp) kl (dp_Registry dp)) ?apply)
          (fresh_state (initialised dp p))"
      by (auto simp: then_do_def split: sum.split prod.split)
  qed
qed

lemma end_pass_refs:
  assumes law: "deployment_law dp" and run: "end_pass dp rl wl p b = (res, st, refs)"
  shows "refs = rs_tracked (bd_State b)"
proof -
  let ?apply = "ApplyConventions (dp_Conditions dp) (vl_LabelSelectorAsSelector (dp_Validation dp)) rl wl (dp_Webhook dp)"
  have "rs_tracked (snd (then_do (\<lambda>s. (the (bd_Return b), s)) ?apply (bd_State b))) = rs_tracked (bd_State b)"
    by (rule then_do_keeps [where P = "\<lambda>s. rs_tracked s = rs_tracked (bd_State b)"]) (simp_all add: other_steps_tracked)
  moreover obtain g where "\<And>r. dp_Resource dp r p = (case r (fresh_state (initialised dp p)) of (res, s) \<Rightarrow>
      (res, (pi_Status (rs_parent s))\<lparr>st_ObservedGeneration := g (pi_Meta p)\<rparr>, rs_tracked s))"
    using law unfolding deployment_laws resource_law_def by blast
  ultimately show ?thesis using run by (simp add: end_pass_def split_beta)
qed

lemma enqueue_taken:
  "enqueue_if again k (add_tracked k refs (take_request k cl)) =
     cl\<lparr>cl_Queue := leave_queue k again (cl_Queue cl), cl_Tracker := cl_Tracker cl @ map (Pair k) refs\<rparr>"
  by (simp add: enqueue_if_def add_tracked_def take_request_def leave_queue_def)


subsection \<open>What interference leaves alone\<close>

text \<open>Between two moments the queue and the tracker grow, and as long as the intent is not queued
  nothing it is tracked for changes.\<close>

definition keeps_tracked :: "request \<Rightarrow> cluster \<Rightarrow> cluster \<Rightarrow> bool" where
  "keeps_tracked k cl cl' \<longleftrightarrow> set (cl_Queue cl) \<subseteq> set (cl_Queue cl') \<and> set (cl_Tracker cl) \<subseteq> set (cl_Tracker cl') \<and>
     (k \<notin> set (cl_Queue cl') \<longrightarrow>
       (\<forall>j. (k, secret_ref (fst j) (snd j)) \<in> set (cl_Tracker cl) \<longrightarrow> fmlookup (cl_Secrets cl') j = fmlookup (cl_Secrets cl) j) \<and>
       (\<forall>j. (k, service_account_ref (fst j) (snd j)) \<in> set (cl_Tracker cl) \<longrightarrow>
          fmlookup (cl_ServiceAccounts cl') j = fmlookup (cl_ServiceAccounts cl) j))"

lemma keeps_tracked_refl [simp]: "keeps_tracked k cl cl"
  by (simp add: keeps_tracked_def)

lemma keeps_tracked_trans: "keeps_tracked k cl cl' \<Longrightarrow> keeps_tracked k cl' cl'' \<Longrightarrow> keeps_tracked k cl cl''"
  unfolding keeps_tracked_def by (simp add: subset_eq) blast

lemma keeps_tracked_same:
  "cl_Secrets cl = cl_Secrets cl' \<Longrightarrow> cl_ServiceAccounts cl = cl_ServiceAccounts cl' \<Longrightarrow>
   set (cl_Queue cl) \<subseteq> set (cl_Queue cl') \<Longrightarrow> set (cl_Tracker cl) \<subseteq> set (cl_Tracker cl') \<Longrightarrow> keeps_tracked k cl cl'"
  by (simp add: keeps_tracked_def)

lemma keeps_tracked_change:
  assumes law: "event_law (dp_Events dp)" and store: "api_store dp c cl = Some (e, cl1)"
  shows "keeps_tracked k cl (deliver dp e cl1)"
proof -
  have same: "cl_Queue cl1 = cl_Queue cl" "cl_Tracker cl1 = cl_Tracker cl" by (simp_all add: store_frame [OF store])
  have "fmlookup (cl_Secrets cl1) j = fmlookup (cl_Secrets cl) j"
    if "k \<notin> set (cl_Queue (deliver dp e cl1))" "(k, secret_ref (fst j) (snd j)) \<in> set (cl_Tracker cl)" for j
    using that store by (cases c) (auto simp: queue_deliver same pod_intent_requests [OF law] put_intent_def put_convention_def
        put_certificate_request_def Let_def split: option.splits if_splits)
  moreover have "fmlookup (cl_ServiceAccounts cl1) j = fmlookup (cl_ServiceAccounts cl) j"
    if "k \<notin> set (cl_Queue (deliver dp e cl1))" "(k, service_account_ref (fst j) (snd j)) \<in> set (cl_Tracker cl)" for j
    using that store by (cases c) (auto simp: queue_deliver same pod_intent_requests [OF law] put_intent_def put_convention_def
        put_certificate_request_def Let_def split: option.splits if_splits)
  ultimately show ?thesis by (simp add: keeps_tracked_def same queue_deliver)
qed

lemma keeps_tracked_metrics: "keeps_tracked k cl (finish_metrics dp j run cl)"
proof (rule keeps_tracked_same)
  show "cl_Secrets cl = cl_Secrets (finish_metrics dp j run cl)" "cl_ServiceAccounts cl = cl_ServiceAccounts (finish_metrics dp j run cl)"
    by (simp_all add: finish_metrics_def Let_def split_beta split: option.split list.split)
qed (auto simp: metrics_frame)

fun cluster_at :: "moment \<Rightarrow> cluster" where
  "cluster_at (Building cl as b) = cl"
| "cluster_at (Written cl b) = cl"

lemma moment_keeps_tracked:
  assumes "event_law (dp_Events dp)" and "moment_step dp k p m m'"
  shows "keeps_tracked k (cluster_at m) (cluster_at m')"
  using assms(2)
proof cases
  case (change c cl e cl1)
  then show ?thesis by (simp add: keeps_tracked_change [OF assms(1)])
qed (auto simp: keeps_tracked_metrics queue_deliver enqueue_if_def intro: keeps_tracked_same)


subsection \<open>What holds at every moment of a pass\<close>

definition own_refs :: "PodIntent \<Rightarrow> Reference set" where
  "own_refs p = secret_ref (m_Namespace (pi_Meta p)) ` set (pi_ImagePullSecrets (pi_Spec p))"

text \<open>The local variables, by the calls still to come.\<close>

definition locals_ok :: "deployment \<Rightarrow> PodIntent \<Rightarrow> build_action list \<Rightarrow> building \<Rightarrow> bool" where
  "locals_ok dp p as b \<longleftrightarrow> bd_Return b = None \<longrightarrow>
     pi_Meta (bd_parent b) = pi_Meta p \<and>
     pi_Spec (bd_parent b) = (if DefaultSpec \<in> set as then pi_Spec p else PodIntentSpec_Default (pi_Spec p)) \<and>
     (TrackPullSecrets \<notin> set as \<longrightarrow> bd_imagePullSecrets b = pi_ImagePullSecrets (pi_Spec p)) \<and>
     (CheckClient \<notin> set as \<longrightarrow> rc_Client (dp_Registry dp) \<noteq> None)"

text \<open>What was tracked, and what the tracking has kept.\<close>

definition tracking_ok :: "request \<Rightarrow> PodIntent \<Rightarrow> build_action list \<Rightarrow> building \<Rightarrow> cluster \<Rightarrow> bool" where
  "tracking_ok k p as b cl \<longleftrightarrow>
     (TrackPullSecrets \<notin> set as \<longrightarrow> Pair k ` own_refs p \<subseteq> set (cl_Tracker cl)) \<and>
     (TrackAccount \<notin> set as \<or> GetAccount \<notin> set as \<longrightarrow>
        (k, service_account_ref (m_Namespace (pi_Meta p)) (account_name p)) \<in> set (cl_Tracker cl)) \<and>
     (GetAccount \<notin> set as \<and> k \<notin> set (cl_Queue cl) \<longrightarrow>
        fmlookup (cl_ServiceAccounts cl) (m_Namespace (pi_Meta p), account_name p) = Some (bd_sa b)) \<and>
     (TrackAccountSecrets \<notin> set as \<longrightarrow>
        Pair k ` secret_ref (m_Namespace (pi_Meta p)) ` set (sa_ImagePullSecrets (bd_sa b)) \<subseteq> set (cl_Tracker cl))"

definition keychain_ok :: "deployment \<Rightarrow> request \<Rightarrow> PodIntent \<Rightarrow> moment \<Rightarrow> cluster \<Rightarrow> handle \<Rightarrow> bool" where
  "keychain_ok dp k p m cl kc \<longleftrightarrow> (\<exists>client c0 as b. rc_Client (dp_Registry dp) = Some client \<and>
     rtranclp (moment_step dp k p) m (Building c0 as b) \<and> Pair k ` own_refs p \<subseteq> set (cl_Tracker c0) \<and>
     keeps_tracked k c0 cl \<and> dp_Chain dp client (inputs_of c0 p) = Inr kc)"

definition keychain_in :: "rec_state \<Rightarrow> handle option" where
  "keychain_in s = rc_Keys (RetrieveRegistryConfig s)"

fun moment_ok :: "deployment \<Rightarrow> request \<Rightarrow> PodIntent \<Rightarrow> moment \<Rightarrow> moment \<Rightarrow> bool" where
  "moment_ok dp k p m (Building cl as b) \<longleftrightarrow> (\<exists>i. as = drop i build_actions) \<and> locals_ok dp p as b \<and>
     (bd_Return b = None \<longrightarrow> tracking_ok k p as b cl \<and> keychain_in (bd_State b) = None \<and>
        (NewKeychain \<notin> set as \<longrightarrow> bd_kc b \<noteq> None)) \<and>
     (\<forall>kc. bd_kc b = Some kc \<longrightarrow> keychain_ok dp k p m cl kc) \<and>
     (keychain_in (bd_State b) \<noteq> None \<longrightarrow> keychain_in (bd_State b) = bd_kc b \<and> tracking_ok k p [] b cl)"
| "moment_ok dp k p m (Written cl b) \<longleftrightarrow> (\<forall>kc. keychain_in (bd_State b) = Some kc \<longrightarrow> keychain_ok dp k p m cl kc) \<and>
     (keychain_in (bd_State b) \<noteq> None \<longrightarrow> tracking_ok k p [] b cl)"

lemma tracking_ok_kept:
  assumes ok: "tracking_ok k p as b cl" and kept: "keeps_tracked k cl cl'"
  shows "tracking_ok k p as b cl'"
proof -
  let ?account = "(m_Namespace (pi_Meta p), account_name p)"
  have grow: "set (cl_Queue cl) \<subseteq> set (cl_Queue cl')" "set (cl_Tracker cl) \<subseteq> set (cl_Tracker cl')"
    using kept by (simp_all add: keeps_tracked_def)
  have "fmlookup (cl_ServiceAccounts cl') ?account = fmlookup (cl_ServiceAccounts cl) ?account"
    if "GetAccount \<notin> set as" "k \<notin> set (cl_Queue cl')"
    using kept that ok unfolding keeps_tracked_def tracking_ok_def by (metis fst_conv snd_conv)
  then show ?thesis using ok grow unfolding tracking_ok_def by (smt (verit) subset_trans subsetD)
qed

lemma keychain_ok_kept: "keychain_ok dp k p m cl kc \<Longrightarrow> keeps_tracked k cl cl' \<Longrightarrow> keychain_ok dp k p m cl' kc"
  unfolding keychain_ok_def by (blast intro: keeps_tracked_trans)


lemma moment_ok_kept:
  "moment_ok dp k p m (Building cl as b) \<Longrightarrow> keeps_tracked k cl cl' \<Longrightarrow> moment_ok dp k p m (Building cl' as b)"
  by (auto intro: tracking_ok_kept keychain_ok_kept)

lemma moment_ok_written:
  "moment_ok dp k p m (Building cl as b) \<Longrightarrow> keeps_tracked k cl cl' \<Longrightarrow> moment_ok dp k p m (Written cl' b)"
  by (cases "keychain_in (bd_State b)") (auto intro: tracking_ok_kept keychain_ok_kept dest: sym)


lemma actions_after:
  assumes "a # as = drop i build_actions"
  shows "as = (case a of
      CheckClient \<Rightarrow> [TrackPullSecrets, DefaultSpec, NewKeychain, TrackAccount, GetAccount, TrackAccountSecrets, StashConfig]
    | TrackPullSecrets \<Rightarrow> [DefaultSpec, NewKeychain, TrackAccount, GetAccount, TrackAccountSecrets, StashConfig]
    | DefaultSpec \<Rightarrow> [NewKeychain, TrackAccount, GetAccount, TrackAccountSecrets, StashConfig]
    | NewKeychain \<Rightarrow> [TrackAccount, GetAccount, TrackAccountSecrets, StashConfig]
    | TrackAccount \<Rightarrow> [GetAccount, TrackAccountSecrets, StashConfig]
    | GetAccount \<Rightarrow> [TrackAccountSecrets, StashConfig]
    | TrackAccountSecrets \<Rightarrow> [StashConfig]
    | StashConfig \<Rightarrow> [])"
proof -
  have "i < 8" using assms by (cases "i < 8") (simp_all add: build_actions_def)
  then consider "i = 0" | "i = 1" | "i = 2" | "i = 3" | "i = 4" | "i = 5" | "i = 6" | "i = 7" by linarith
  then show ?thesis using assms by cases (simp_all add: build_actions_def)
qed

lemma drop_Cons_Suc: "a # as = drop i xs \<Longrightarrow> as = drop (Suc i) xs"
  by (metis drop_Suc list.sel(3) tl_drop)

lemma keeps_tracked_add [simp]: "keeps_tracked k cl (add_tracked k refs cl)"
  by (rule keeps_tracked_same) auto

lemma state_simps [simp]:
  "keychain_in (track refs s) = keychain_in s" "keychain_in (default_parent s) = keychain_in s"
  "keychain_in (mark_false lib r msg s) = keychain_in s" "keychain_in (StashRegistryConfig rc s) = rc_Keys rc"
  "rs_parent (default_parent s) = (rs_parent s)\<lparr>pi_Spec := PodIntentSpec_Default (pi_Spec (rs_parent s))\<rparr>"
  by (simp_all add: keychain_in_def RetrieveRegistryConfig_def track_def default_parent_def mark_false_def StashRegistryConfig_def)

text \<open>The keychain is made from the inputs there are at that moment.\<close>

lemma new_keychain_ok:
  assumes ok: "moment_ok dp k p m (Building cl (NewKeychain # as) b)" and sees: "sees dp cl kl" and running: "bd_Return b = None"
    and reach: "rtranclp (moment_step dp k p) m (Building cl (NewKeychain # as) b)"
    and chain: "kl_K8sChain kl (the (rc_Client (dp_Registry dp))) (m_Namespace (pi_Meta (bd_parent b))) (serviceAccountName b)
      (bd_imagePullSecrets b) = Inr kc"
  shows "keychain_ok dp k p m cl kc"
proof -
  have after: "as = [TrackAccount, GetAccount, TrackAccountSecrets, StashConfig]" using ok actions_after by fastforce
  with ok running obtain client where client: "rc_Client (dp_Registry dp) = Some client" by (auto simp: locals_ok_def)
  have "pi_Meta (bd_parent b) = pi_Meta p" "serviceAccountName b = account_name p" "bd_imagePullSecrets b = pi_ImagePullSecrets (pi_Spec p)"
    using ok running by (simp_all add: after locals_ok_def serviceAccountName_def account_name_def)
  with chain client sees have "dp_Chain dp client (inputs_of cl p) = Inr kc" by (simp add: sees_def inputs_of_def)
  moreover have "Pair k ` own_refs p \<subseteq> set (cl_Tracker cl)" using ok running by (simp add: after tracking_ok_def)
  ultimately show ?thesis using client reach unfolding keychain_ok_def by (intro exI [of _ client] exI [of _ cl] exI) simp
qed


lemma moment_okI:
  assumes "\<exists>i. as = drop i build_actions"
    and "bd_Return b = None \<Longrightarrow> locals_ok dp p as b \<and> tracking_ok k p as b cl \<and> keychain_in (bd_State b) = None \<and> (NewKeychain \<notin> set as \<longrightarrow> bd_kc b \<noteq> None)"
    and "\<And>kc. bd_kc b = Some kc \<Longrightarrow> keychain_ok dp k p m cl kc"
    and "keychain_in (bd_State b) \<noteq> None \<Longrightarrow> keychain_in (bd_State b) = bd_kc b \<and> tracking_ok k p [] b cl"
  shows "moment_ok dp k p m (Building cl as b)"
  using assms by (simp add: locals_ok_def)

lemma moment_ok_act:
  assumes ok: "moment_ok dp k p m (Building cl (a # as) b)" and sees: "sees dp cl kl"
    and reach: "rtranclp (moment_step dp k p) m (Building cl (a # as) b)"
    and b': "b' = do_action (dp_Conditions dp) kl (dp_Registry dp) a b"
  shows "moment_ok dp k p m (Building (add_tracked k (tracked_since b b') cl) as b')"
proof (cases "bd_Return b")
  case (Some r)
  have "moment_ok dp k p m (Building cl as b)" using ok Some by (auto simp: locals_ok_def dest: drop_Cons_Suc)
  with Some show ?thesis by (simp add: b' do_action_def tracked_since_def)
next
  case None
  obtain i where i: "a # as = drop i build_actions" using ok by auto
  note after = actions_after [OF i]
  have rest: "\<exists>i. as = drop i build_actions" using drop_Cons_Suc [OF i] by blast
  let ?cl = "add_tracked k (tracked_since b b') cl"
  have step: "b' = build_step (dp_Conditions dp) kl (dp_Registry dp) a b" using None b' by (simp add: do_action_def)
  have locals: "locals_ok dp p (a # as) b" and track: "tracking_ok k p (a # as) b cl" and unbuilt: "keychain_in (bd_State b) = None"
    using ok None by simp_all
  have kc: "keychain_ok dp k p m ?cl kc" if "bd_kc b = Some kc" for kc
    using ok that by (auto intro: keychain_ok_kept)
  have got: "NewKeychain \<notin> set (a # as) \<Longrightarrow> bd_kc b \<noteq> None" using ok None by simp
  have parent: "pi_Meta (bd_parent b) = pi_Meta p"
    "pi_Spec (bd_parent b) = (if DefaultSpec \<in> set (a # as) then pi_Spec p else PodIntentSpec_Default (pi_Spec p))"
    using locals None by (simp_all add: locals_ok_def)
  note defs = locals_ok_def tracking_ok_def tracked_since_def bd_parent_def Let_def
  show ?thesis
  proof (cases a)
    case CheckClient
    with None locals track unbuilt kc show ?thesis
      by (intro moment_okI rest) (auto simp: step after defs split: if_splits)
  next
    case TrackPullSecrets
    then have "?cl = add_tracked k (map (secret_ref (m_Namespace (pi_Meta p))) (pi_ImagePullSecrets (pi_Spec p))) cl"
      using parent by (simp add: step after tracked_since_def Let_def)
    with TrackPullSecrets None locals track unbuilt kc show ?thesis
      by (intro moment_okI rest) (auto simp: step after defs own_refs_def)
  next
    case DefaultSpec
    then have "?cl = cl" by (simp add: step tracked_since_def)
    with DefaultSpec None locals track unbuilt kc show ?thesis
      by (intro moment_okI rest) (auto simp: step after defs)
  next
    case NewKeychain
    then have cl: "?cl = cl" by (simp add: step tracked_since_def fails_with_def split: sum.split)
    show ?thesis
    proof (cases "kl_K8sChain kl (the (rc_Client (dp_Registry dp))) (m_Namespace (pi_Meta (bd_parent b))) (serviceAccountName b)
        (bd_imagePullSecrets b)")
      case (Inl e)
      with NewKeychain unbuilt kc show ?thesis unfolding cl
        by (intro moment_okI rest) (auto simp: step fails_with_def)
    next
      case (Inr kc')
      from new_keychain_ok [OF ok [unfolded NewKeychain] sees None reach [unfolded NewKeychain] Inr]
      have "keychain_ok dp k p m cl kc'" .
      with Inr NewKeychain None locals track unbuilt show ?thesis unfolding cl
        by (intro moment_okI rest) (auto simp: step after defs)
    qed
  next
    case TrackAccount
    then have "?cl = add_tracked k [service_account_ref (m_Namespace (pi_Meta p)) (account_name p)] cl"
      using parent by (simp add: step after tracked_since_def serviceAccountName_def account_name_def)
    with TrackAccount None locals track unbuilt kc got show ?thesis
      by (intro moment_okI rest) (auto simp: step after defs)
  next
    case GetAccount
    then have cl: "?cl = cl" by (simp add: step tracked_since_def fails_with_def split: sum.split)
    have name: "m_Namespace (pi_Meta (bd_parent b)) = m_Namespace (pi_Meta p)" "serviceAccountName b = account_name p"
      using parent GetAccount by (simp_all add: after serviceAccountName_def account_name_def)
    show ?thesis
    proof (cases "kl_GetServiceAccount kl (m_Namespace (pi_Meta p)) (account_name p)")
      case (Inl e)
      with GetAccount unbuilt kc show ?thesis unfolding cl
        by (intro moment_okI rest) (auto simp: step name fails_with_def)
    next
      case (Inr sa)
      then have "fmlookup (cl_ServiceAccounts cl) (m_Namespace (pi_Meta p), account_name p) = Some sa"
        using sees by (simp add: sees_def)
      with Inr GetAccount None locals track unbuilt kc got show ?thesis unfolding cl
        by (intro moment_okI rest) (auto simp: step after defs name [unfolded bd_parent_def])
    qed
  next
    case TrackAccountSecrets
    then have "?cl = add_tracked k (map (secret_ref (m_Namespace (pi_Meta p))) (sa_ImagePullSecrets (bd_sa b))) cl"
      using parent by (simp add: step after tracked_since_def Let_def)
    with TrackAccountSecrets None locals track unbuilt kc got show ?thesis
      by (intro moment_okI rest) (auto simp: step after defs)
  next
    case StashConfig
    then have "?cl = cl" by (simp add: step tracked_since_def)
    with StashConfig track kc show ?thesis
      by (intro moment_okI rest) (auto simp: step after defs)
  qed
qed


lemma begin_pass_state:
  "pi_Meta (bd_parent (begin_pass dp kl p)) = pi_Meta p" "pi_Spec (bd_parent (begin_pass dp kl p)) = pi_Spec p"
  "keychain_in (bd_State (begin_pass dp kl p)) = None"
proof -
  let ?s = "snd (ResolveConventions (dp_Conditions dp) kl (fresh_state (initialised dp p)))"
  have s: "bd_State (begin_pass dp kl p) = ?s" by (auto simp: begin_pass_def start_building_def split: prod.split)
  show "pi_Meta (bd_parent (begin_pass dp kl p)) = pi_Meta p" "pi_Spec (bd_parent (begin_pass dp kl p)) = pi_Spec p"
    by (simp_all add: bd_parent_def s ResolveConventions_parent fresh_state_def initialised_def)
  have "keychain_in (fresh_state (initialised dp p)) = None"
    by (simp add: keychain_in_def RetrieveRegistryConfig_def fresh_state_def zero_registry_config_def)
  then show "keychain_in (bd_State (begin_pass dp kl p)) = None"
    using ResolveConventions_cases [of "dp_Conditions dp" kl "fresh_state (initialised dp p)"]
    by (auto simp: s) (simp add: keychain_in_def)
qed

lemma start_ok:
  assumes "pass_starts dp k p cl m"
  shows "moment_ok dp k p m m"
proof -
  obtain kl where m: "m = Building (take_request k cl) build_actions (begin_pass dp kl p)" using assms by (auto simp: pass_starts_def)
  have every: "a \<in> set build_actions" for a by (cases a) (simp_all add: build_actions_def)
  have "bd_kc (begin_pass dp kl p) = None" by (simp add: begin_pass_def start_building_def split: prod.split)
  then show ?thesis
    unfolding m by (intro moment_okI exI [of _ "0 :: nat"]) (simp_all add: every locals_ok_def tracking_ok_def begin_pass_state)
qed

lemma every_moment_ok:
  assumes law: "deployment_law dp" and start: "pass_starts dp k p cl m" and "rtranclp (moment_step dp k p) m m'"
  shows "moment_ok dp k p m m' \<and> keeps_tracked k (cluster_at m) (cluster_at m')"
  using assms(3)
proof (induction rule: rtranclp_induct)
  case base
  show ?case using start_ok [OF start] by simp
next
  case (step m1 m2)
  have ev: "event_law (dp_Events dp)" using law by (simp add: deployment_laws)
  have kept: "keeps_tracked k (cluster_at m1) (cluster_at m2)" by (rule moment_keeps_tracked [OF ev step(2)])
  from step(2) have "moment_ok dp k p m m2"
  proof cases
    case (act cl kl b' a b as)
    with moment_ok_act [OF _ act(3) _ act(4), of k p m as] step show ?thesis by simp
  qed (use step.IH kept in \<open>auto simp del: moment_ok.simps intro: moment_ok_kept moment_ok_written\<close>)
  with step.IH kept show ?case by (blast intro: keeps_tracked_trans)
qed

lemma inputs_kept:
  assumes kept: "keeps_tracked k cl cl'" and idle: "k \<notin> set (cl_Queue cl')" and tracked: "Pair k ` input_refs cl p \<subseteq> set (cl_Tracker cl)"
  shows "inputs_of cl' p = inputs_of cl p"
proof -
  let ?ns = "m_Namespace (pi_Meta p)"
  let ?extra = "case fmlookup (cl_ServiceAccounts cl) (?ns, account_name p) of None \<Rightarrow> [] | Some a \<Rightarrow> sa_ImagePullSecrets a"
  have account: "fmlookup (cl_ServiceAccounts cl') (?ns, account_name p) = fmlookup (cl_ServiceAccounts cl) (?ns, account_name p)"
    using kept idle tracked unfolding keeps_tracked_def input_refs_def by (metis fst_conv image_subset_iff insertI1 snd_conv)
  have "fmlookup (cl_Secrets cl') (?ns, n) = fmlookup (cl_Secrets cl) (?ns, n)"
    if "n \<in> set (pi_ImagePullSecrets (pi_Spec p) @ ?extra)" for n
  proof -
    have "secret_ref ?ns n \<in> input_refs cl p" using that by (auto simp: input_refs_def inputs_of_def registry_inputs_def Let_def)
    then show ?thesis using kept idle tracked unfolding keeps_tracked_def by (metis fst_conv image_subset_iff snd_conv)
  qed
  then show ?thesis by (simp add: inputs_of_def registry_inputs_def account Let_def)
qed

lemma own_secrets_kept:
  assumes kept: "keeps_tracked k cl cl'" and idle: "k \<notin> set (cl_Queue cl')" and tracked: "Pair k ` own_refs p \<subseteq> set (cl_Tracker cl)"
    and "n \<in> set (pi_ImagePullSecrets (pi_Spec p))"
  shows "fmlookup (cl_Secrets cl') (m_Namespace (pi_Meta p), n) = fmlookup (cl_Secrets cl) (m_Namespace (pi_Meta p), n)"
proof -
  have "(k, secret_ref (m_Namespace (pi_Meta p)) n) \<in> set (cl_Tracker cl)" using tracked assms(4) by (auto simp: own_refs_def)
  then show ?thesis using kept idle unfolding keeps_tracked_def by (metis fst_conv snd_conv)
qed

lemma tracked_at_end:
  assumes "tracking_ok k p [] b cl" and "k \<notin> set (cl_Queue cl)"
  shows "Pair k ` input_refs cl p \<subseteq> set (cl_Tracker cl)"
  using assms by (auto simp: tracking_ok_def own_refs_def input_refs_def inputs_of_def registry_inputs_def Let_def)

lemma inputs_of_taken [simp]: "inputs_of (take_request k cl) p = inputs_of cl p"
  by (rule inputs_of_cong) (simp_all add: take_request_def)

lemma keeps_tracked_idle: "keeps_tracked k cl cl' \<Longrightarrow> k \<notin> set (cl_Queue cl') \<Longrightarrow> k \<notin> set (cl_Queue cl)"
  by (auto simp: keeps_tracked_def)

end
