(* ===== verification/Manager.thy ===== *)
theory Manager
  imports Reconciler Metrics
begin

text \<open>
  \<open>cmd/manager/main.go\<close>: the binary that wires the controllers into the manager of
  controller-runtime. \<open>main\<close> is a sequence of calls into that library, each of which ends the
  process with status 1 and a log line when it fails; the manager is started last. The model keeps
  what was registered with the manager, the log and how the process ended. Parameters: the answers
  of the library calls (\<open>manager_lib\<close>), the environment and the parsed flags (other packages add
  flags to the same set, so parsing is not modelled).
\<close>

subsection \<open>Data\<close>

record flags =
  fl_metrics_addr :: string
  fl_probes_addr :: string
  fl_enable_leader_election :: bool

definition default_flags :: flags where
  "default_flags = \<lparr>fl_metrics_addr = '':0'', fl_probes_addr = '':8081'', fl_enable_leader_election = False\<rparr>"

definition cacheMountPath :: string where "cacheMountPath = ''/var/cache/ggcr''"
definition additionalCAMountPath :: string where
  "additionalCAMountPath = ''/var/conventions/tls/ca-certificates.crt''"
definition metricsconfigMapName :: string where "metricsconfigMapName = ''controller-manager-metrics-data''"

text \<open>Ten hours, in nanoseconds.\<close>

definition syncPeriod :: int where
  "syncPeriod = 10 * (60 * 60 * 1000000000)"

record manager_options =
  mo_Metrics_BindAddress :: string
  mo_HealthProbeBindAddress :: string
  mo_LeaderElection :: bool
  mo_LeaderElectionID :: string
  mo_SyncPeriod :: int
  mo_Cache_DisableFor :: "string list"

text \<open>What the manager is given to run, with the values the code passes.\<close>

datatype registration =
    PodIntentController int WebhookConfig RegistryConfig
  | PodIntentWebhook
  | ClusterPodConventionWebhook
  | MetricsController MetricsReconciler
  | HealthzCheck string
  | ReadyzCheck string

datatype log_line = LogInfo string | LogError go_error string "(string \<times> string) list"

datatype process_end = Exited nat | Returned

record process =
  mp_Registered :: "registration list"
  mp_Log :: "log_line list"
  mp_Started :: bool
  mp_End :: process_end

record manager_lib =
  mn_NewManager :: "manager_options \<Rightarrow> handle result"
  mn_NewForConfig :: "handle \<Rightarrow> handle result"
  mn_NewDefaultAuthenticationInfoResolver :: "string \<Rightarrow> handle result"
  mn_NewDefaultServiceResolver :: handle
  mn_NewFilesystemCache :: "string \<Rightarrow> handle"
  mn_Register :: "registration list \<Rightarrow> registration \<Rightarrow> go_error option"
  mn_Start :: "registration list \<Rightarrow> go_error option"

subsection \<open>main\<close>

definition log_line_of :: "log_line \<Rightarrow> process \<Rightarrow> process" where
  "log_line_of l p = p\<lparr>mp_Log := mp_Log p @ [l]\<rparr>"

definition exit_with :: "go_error \<Rightarrow> string \<Rightarrow> (string \<times> string) list \<Rightarrow> process \<Rightarrow> process" where
  "exit_with err msg kvs p = (log_line_of (LogError err msg kvs) p)\<lparr>mp_End := Exited 1\<rparr>"

text \<open>One \<open>if err = ...; err != nil\<close> statement that registers something, and what comes after it.\<close>

definition register_or_exit :: "manager_lib \<Rightarrow> registration \<Rightarrow> string \<Rightarrow> (string \<times> string) list \<Rightarrow>
    (process \<Rightarrow> process) \<Rightarrow> process \<Rightarrow> process" where
  "register_or_exit lib r msg kvs rest p =
     (case mn_Register lib (mp_Registered p) r of
        Some err \<Rightarrow> exit_with err msg kvs p
      | None \<Rightarrow> rest (p\<lparr>mp_Registered := mp_Registered p @ [r]\<rparr>))"

definition options_of :: "flags \<Rightarrow> manager_options" where
  "options_of fl = \<lparr>mo_Metrics_BindAddress = fl_metrics_addr fl, mo_HealthProbeBindAddress = fl_probes_addr fl,
     mo_LeaderElection = fl_enable_leader_election fl,
     mo_LeaderElectionID = ''conventions-controller-leader-election-helper'',
     mo_SyncPeriod = syncPeriod, mo_Cache_DisableFor = [''Secret'']\<rparr>"

definition webhook_config_of :: "manager_lib \<Rightarrow> handle \<Rightarrow> WebhookConfig" where
  "webhook_config_of lib authInfoResolver =
     \<lparr>wcfg_AuthInfoResolver = authInfoResolver, wcfg_ServiceResolver = mn_NewDefaultServiceResolver lib\<rparr>"

definition registry_config_of :: "manager_lib \<Rightarrow> handle \<Rightarrow> RegistryConfig" where
  "registry_config_of lib client = zero_registry_config
     \<lparr>rc_Cache := Some (mn_NewFilesystemCache lib cacheMountPath), rc_Client := Some client,
      rc_CACertPath := additionalCAMountPath\<rparr>"

definition metrics_reconciler_of :: "string \<Rightarrow> MetricsReconciler" where
  "metrics_reconciler_of namespace = \<lparr>mr_Namespace = namespace, mr_Name = metricsconfigMapName\<rparr>"

definition start_manager :: "manager_lib \<Rightarrow> process \<Rightarrow> process" where
  "start_manager lib p =
     (let p = (log_line_of (LogInfo ''starting manager'') p)\<lparr>mp_Started := True\<rparr>
      in case mn_Start lib (mp_Registered p) of
           Some err \<Rightarrow> exit_with err ''there was an error starting the manager'' [] p
         | None \<Rightarrow> p)"

definition register_all :: "manager_lib \<Rightarrow> string \<Rightarrow> WebhookConfig \<Rightarrow> RegistryConfig \<Rightarrow> process \<Rightarrow> process" where
  "register_all lib namespace wc rc =
     register_or_exit lib (PodIntentController syncPeriod wc rc)
       ''unable to create controller'' [(''controller'', ''PodIntent'')]
    (register_or_exit lib PodIntentWebhook
       ''unable to create webhook'' [(''webhook'', ''PodIntent'')]
    (register_or_exit lib ClusterPodConventionWebhook
       ''unable to create webhook'' [(''webhook'', ''ClusterPodConvention'')]
    (\<lambda>p. register_or_exit lib (MetricsController (metrics_reconciler_of namespace))
       ''unable to create controller'' [(''controller'', ''MetricsReconciler'')]
    (register_or_exit lib (HealthzCheck ''default'') ''unable to create health check'' []
    (register_or_exit lib (ReadyzCheck ''default'') ''unable to create ready check'' []
    (start_manager lib)))
       (log_line_of (LogInfo ''starting metrics reconciler'') p))))"

definition manager_main :: "manager_lib \<Rightarrow> string \<Rightarrow> flags \<Rightarrow> process" where
  "manager_main lib namespace fl =
     (let p = \<lparr>mp_Registered = [], mp_Log = [], mp_Started = False, mp_End = Returned\<rparr> in
      case mn_NewManager lib (options_of fl) of
        Inl err \<Rightarrow> exit_with err ''there was an error initializing a new `Manager` object'' [] p
      | Inr config \<Rightarrow>
     (case mn_NewForConfig lib config of
        Inl err \<Rightarrow> exit_with err ''there was an error creating a new clientset using config provided'' [] p
      | Inr client \<Rightarrow>
     (case mn_NewDefaultAuthenticationInfoResolver lib [] of
        Inl err \<Rightarrow> exit_with err ''there was an error creating a new authentication info resolver object'' [] p
      | Inr authInfoResolver \<Rightarrow>
          register_all lib namespace (webhook_config_of lib authInfoResolver) (registry_config_of lib client) p)))"

subsection \<open>What main does\<close>

text \<open>Everything a complete manager runs, in the order it is registered.\<close>

definition all_registrations :: "string \<Rightarrow> WebhookConfig \<Rightarrow> RegistryConfig \<Rightarrow> registration list" where
  "all_registrations namespace wc rc =
     [PodIntentController syncPeriod wc rc, PodIntentWebhook, ClusterPodConventionWebhook,
      MetricsController (metrics_reconciler_of namespace), HealthzCheck ''default'', ReadyzCheck ''default'']"

text \<open>The processes \<open>main\<close> can leave behind when the list \<open>regs\<close> is still to be registered.\<close>

definition ends_well :: "manager_lib \<Rightarrow> registration list \<Rightarrow> process \<Rightarrow> bool" where
  "ends_well lib regs q \<longleftrightarrow>
     (\<exists>rest. regs = mp_Registered q @ rest \<and> (mp_Started q \<longleftrightarrow> rest = []) \<and>
        (case mp_End q of
           Returned \<Rightarrow> mp_Started q \<and> mn_Start lib regs = None
         | Exited code \<Rightarrow> code = 1 \<and>
             (\<exists>e m kvs. mp_Log q \<noteq> [] \<and> last (mp_Log q) = LogError e m kvs \<and>
                (case rest of [] \<Rightarrow> mn_Start lib regs = Some e
                 | r # _ \<Rightarrow> mn_Register lib (mp_Registered q) r = Some e))))"

lemma register_or_exit_ends:
  assumes "regs = mp_Registered p @ r # rest" and "\<not> mp_Started p"
    and "\<And>p'. mp_Registered p' = mp_Registered p @ [r] \<Longrightarrow> \<not> mp_Started p' \<Longrightarrow> mp_End p' = mp_End p \<Longrightarrow>
      ends_well lib regs (k p')"
  shows "ends_well lib regs (register_or_exit lib r msg kvs k p)"
  using assms
  by (auto simp: register_or_exit_def ends_well_def exit_with_def log_line_of_def split: option.split)

lemma start_manager_ends:
  assumes "mp_Registered p = regs" and "mp_End p = Returned"
  shows "ends_well lib regs (start_manager lib p)"
  using assms
  by (auto simp: start_manager_def Let_def ends_well_def exit_with_def log_line_of_def split: option.split)

lemma register_all_ends:
  assumes "mp_Registered p = []" and "\<not> mp_Started p" and "mp_End p = Returned"
  shows "ends_well lib (all_registrations namespace wc rc) (register_all lib namespace wc rc p)"
  unfolding register_all_def all_registrations_def
  by (rule register_or_exit_ends register_or_exit_ends start_manager_ends | simp add: assms log_line_of_def)+

text \<open>What \<open>main\<close> gets from the libraries before it registers anything.\<close>

definition prepared :: "manager_lib \<Rightarrow> flags \<Rightarrow> WebhookConfig \<Rightarrow> RegistryConfig \<Rightarrow> bool" where
  "prepared lib fl wc rc \<longleftrightarrow> (\<exists>config client auth. mn_NewManager lib (options_of fl) = Inr config \<and>
     mn_NewForConfig lib config = Inr client \<and> mn_NewDefaultAuthenticationInfoResolver lib [] = Inr auth \<and>
     wc = \<lparr>wcfg_AuthInfoResolver = auth, wcfg_ServiceResolver = mn_NewDefaultServiceResolver lib\<rparr> \<and>
     rc = \<lparr>rc_Keys = None, rc_Cache = Some (mn_NewFilesystemCache lib ''/var/cache/ggcr''), rc_Client = Some client,
       rc_CACertPath = ''/var/conventions/tls/ca-certificates.crt''\<rparr>)"

lemma manager_main_cases:
  obtains (failed) e msg where
      "manager_main lib namespace fl = \<lparr>mp_Registered = [], mp_Log = [LogError e msg []], mp_Started = False, mp_End = Exited 1\<rparr>"
      "\<nexists>wc rc. prepared lib fl wc rc"
    | (prepared) wc rc where "prepared lib fl wc rc"
      "ends_well lib (all_registrations namespace wc rc) (manager_main lib namespace fl)"
proof (cases "\<exists>wc rc. prepared lib fl wc rc")
  case True
  then obtain wc rc where pr: "prepared lib fl wc rc" by blast
  then have "manager_main lib namespace fl = register_all lib namespace wc rc
      \<lparr>mp_Registered = [], mp_Log = [], mp_Started = False, mp_End = Returned\<rparr>"
    by (auto simp: prepared_def manager_main_def webhook_config_of_def registry_config_of_def zero_registry_config_def
        cacheMountPath_def additionalCAMountPath_def)
  with that(2) [OF pr] register_all_ends show thesis by simp
next
  case False
  then have "\<exists>e msg. manager_main lib namespace fl = \<lparr>mp_Registered = [], mp_Log = [LogError e msg []], mp_Started = False, mp_End = Exited 1\<rparr>"
    unfolding manager_main_def Let_def
    by (cases "mn_NewManager lib (options_of fl)"; cases "mn_NewForConfig lib (projr (mn_NewManager lib (options_of fl)))";
        cases "mn_NewDefaultAuthenticationInfoResolver lib []") (auto simp: prepared_def exit_with_def log_line_of_def)
  with False that(1) show thesis by blast
qed

lemma ends_well_registered:
  assumes "ends_well lib regs q"
  shows "mp_Started q \<longleftrightarrow> mp_Registered q = regs" and "set (mp_Registered q) \<subseteq> set regs"
  using assms by (auto simp: ends_well_def)

lemma ends_well_end:
  assumes "ends_well lib regs q"
  shows "mp_End q = Returned \<longleftrightarrow> mp_Started q \<and> mn_Start lib (mp_Registered q) = None"
    and "mp_End q = Returned \<or> mp_End q = Exited 1 \<and> (\<exists>log e msg kvs. mp_Log q = log @ [LogError e msg kvs])"
proof -
  obtain rest where rest: "regs = mp_Registered q @ rest" "mp_Started q \<longleftrightarrow> rest = []"
    and ends: "case mp_End q of
           Returned \<Rightarrow> mp_Started q \<and> mn_Start lib regs = None
         | Exited code \<Rightarrow> code = 1 \<and>
             (\<exists>e m kvs. mp_Log q \<noteq> [] \<and> last (mp_Log q) = LogError e m kvs \<and>
                (case rest of [] \<Rightarrow> mn_Start lib regs = Some e
                 | r # _ \<Rightarrow> mn_Register lib (mp_Registered q) r = Some e))"
    using assms unfolding ends_well_def by blast
  show "mp_End q = Returned \<longleftrightarrow> mp_Started q \<and> mn_Start lib (mp_Registered q) = None"
    using rest ends by (cases "mp_End q"; cases rest) auto
  show "mp_End q = Returned \<or> mp_End q = Exited 1 \<and> (\<exists>log e msg kvs. mp_Log q = log @ [LogError e msg kvs])"
  proof (cases "mp_End q")
    case (Exited code)
    with ends obtain e m kvs where "code = 1" "mp_Log q \<noteq> []" "last (mp_Log q) = LogError e m kvs" by auto
    with Exited show ?thesis by (metis append_butlast_last_id)
  qed simp
qed

text \<open>C26: The process \<open>main\<close> runs to its end exactly when the manager was started and stopped without
  an error; in every other case it exits with status 1, and the last line it logs is an error. The
  manager is started exactly when the libraries could be set up and every controller, webhook and
  check is registered, in order; the registry configuration the controller gets has a client, the
  cache and the mounted certificates, and no keys.\<close>

theorem manager_main_outcome:
  "(mp_End (manager_main lib namespace fl) = Returned \<longleftrightarrow> mp_Started (manager_main lib namespace fl) \<and>
      mn_Start lib (mp_Registered (manager_main lib namespace fl)) = None) \<and>
   (mp_End (manager_main lib namespace fl) = Returned \<or> mp_End (manager_main lib namespace fl) = Exited 1 \<and>
      (\<exists>log e msg kvs. mp_Log (manager_main lib namespace fl) = log @ [LogError e msg kvs])) \<and>
   (mp_Started (manager_main lib namespace fl) \<longleftrightarrow>
      (\<exists>wc rc. prepared lib fl wc rc \<and>
         mp_Registered (manager_main lib namespace fl) = all_registrations namespace wc rc))"
proof (cases rule: manager_main_cases [of lib namespace fl])
  case (failed e msg)
  then show ?thesis by auto
next
  case (prepared wc rc)
  have unique: "wc' = wc \<and> rc' = rc" if "prepared lib fl wc' rc'" for wc' rc'
    using that prepared(1) by (auto simp: prepared_def)
  have "mp_Started (manager_main lib namespace fl) \<longleftrightarrow>
      (\<exists>wc rc. prepared lib fl wc rc \<and> mp_Registered (manager_main lib namespace fl) = all_registrations namespace wc rc)"
    using prepared(1) unique ends_well_registered(1) [OF prepared(2)] by blast
  with ends_well_end [OF prepared(2)] show ?thesis by blast
qed

text \<open>C27: The pod intent controller that \<open>main\<close> registers has a registry client, so that a pass of it
  fails with an error only when listing the conventions does.\<close>

theorem manager_pass_errors:
  assumes "PodIntentController period wc rc \<in> set (mp_Registered (manager_main lib namespace fl))"
    and "sequence_law sq"
    and "fst (PodIntentReconciler sq cs kl as_selector rl wl wc rc s) = Inl e"
  shows "kl_ListConventions kl = Inl e"
proof (cases rule: manager_main_cases [of lib namespace fl])
  case (failed e msg)
  with assms(1) show ?thesis by simp
next
  case (prepared wc' rc')
  have "PodIntentController period wc rc \<in> set (all_registrations namespace wc' rc')"
    using assms(1) ends_well_registered(2) [OF prepared(2)] by blast
  then have "rc = rc'" by (simp add: all_registrations_def)
  with prepared(1) have "rc_Client rc \<noteq> None" by (auto simp: prepared_def)
  with pass_error [OF assms(2,3)] show ?thesis by simp
qed

subsection \<open>An example\<close>

definition sample_manager :: manager_lib where
  "sample_manager = \<lparr>mn_NewManager = (\<lambda>opts. Inr ''config''), mn_NewForConfig = Inr,
     mn_NewDefaultAuthenticationInfoResolver = Inr, mn_NewDefaultServiceResolver = [], mn_NewFilesystemCache = id,
     mn_Register = (\<lambda>rs r. None), mn_Start = (\<lambda>rs. None)\<rparr>"

lemma manager_pass_errors_witness:
  "kl_ListConventions (sample_kube\<lparr>kl_ListConventions := Inl (LibError ''down'')\<rparr>) = Inl (LibError ''down'')"
proof (rule manager_pass_errors [OF _ plain_sequence_law])
  let ?rc = "registry_config_of sample_manager ''config''" and ?wc = "webhook_config_of sample_manager []"
  show "PodIntentController syncPeriod ?wc ?rc \<in> set (mp_Registered (manager_main sample_manager ''ns'' default_flags))"
    by (simp add: sample_manager_def manager_main_def register_all_def register_or_exit_def log_line_of_def
        start_manager_def)
  show "fst (PodIntentReconciler plain_sequence plain_cond_set (sample_kube\<lparr>kl_ListConventions := Inl (LibError ''down'')\<rparr>)
      match_all sample_registry sample_hooks ?wc ?rc sample_state) = Inl (LibError ''down'')"
    by code_simp
qed

end
