(* ===== verification/ClusterProperties.thy ===== *)
theory ClusterProperties
  imports Cluster Manager
begin

text \<open>
  The properties of the controllers in a cluster (\<open>Cluster\<close>), for every reachable cluster, and a
  deployment whose libraries work as documented with the runs that show the properties can apply.
  The runs are computed: \<open>do_change\<close>, \<open>do_pass\<close> and \<open>do_metrics\<close> are steps with an API that answers.
\<close>

subsection \<open>A deployment and its runs\<close>

definition plain_resource :: "cond_set_lib \<Rightarrow> resource_fn" where
  "plain_resource lib r p =
     (case r (fresh_state (p\<lparr>pi_Status := InitializeConditions lib (pi_Status p)\<rparr>)) of (res, s) \<Rightarrow>
        (res, (pi_Status (rs_parent s))\<lparr>st_ObservedGeneration := 1\<rparr>, rs_tracked s))"

definition plain_deployment :: deployment where
  "plain_deployment = \<lparr>dp_Sequence = plain_sequence, dp_Conditions = plain_cond_set,
     dp_Resource = plain_resource plain_cond_set, dp_Events = plain_events, dp_Validation = accepting,
     dp_Aggregate = plain_aggregate, dp_Webhook = sample_webhook_config, dp_Registry = sample_registry_config,
     dp_Chain = (\<lambda>client inputs. Inr []), dp_Before = (<), dp_MetricsLib = sample_metrics_lib, dp_Metrics = sample_metrics\<rparr>"

lemma plain_deployment_law: "deployment_law plain_deployment"
proof -
  have "resource_law plain_deployment"
    unfolding resource_law_def by (rule exI [of _ "\<lambda>m. 1"]) (simp add: plain_deployment_def plain_resource_def initialised_def)
  then show ?thesis
    by (simp add: deployment_laws plain_deployment_def plain_sequence_law plain_cond_set_law plain_events_law
        plain_aggregate_aggregates accepting_def empty_selects_all_def semantic_law_def sample_metrics_lib_def
        sample_metrics_def)
qed

text \<open>The controller of metrics that \<open>main\<close> registers has a name, so a deployment that takes it from
  there needs only the libraries to work as documented.\<close>

lemma manager_deployment_law:
  assumes "MetricsController (dp_Metrics dp) \<in> set (mp_Registered (manager_main lib namespace fl))" and "libraries_law dp"
  shows "deployment_law dp"
proof (cases rule: manager_main_cases [of lib namespace fl])
  case (failed e msg)
  with assms(1) show ?thesis by simp
next
  case (prepared wc rc)
  have "MetricsController (dp_Metrics dp) \<in> set (all_registrations namespace wc rc)"
    using assms(1) ends_well_registered(2) [OF prepared(2)] by blast
  with assms(2) show ?thesis
    by (simp add: deployment_law_def all_registrations_def metrics_reconciler_of_def metricsconfigMapName_def)
qed

text \<open>An API that answers every call with what is stored.\<close>

definition kube_of :: "deployment \<Rightarrow> cluster \<Rightarrow> kube_lib" where
  "kube_of dp cl = \<lparr>kl_ListConventions = Inr (cl_Conventions cl),
     kl_ListCertificateRequests = (\<lambda>ns. Inr (filter (\<lambda>r. m_Namespace (cr_Meta r) = ns) (cl_CertificateRequests cl))),
     kl_Before = dp_Before dp,
     kl_K8sChain = (\<lambda>client ns account secrets. dp_Chain dp client (registry_inputs cl ns account secrets)),
     kl_GetServiceAccount = (\<lambda>ns name. case fmlookup (cl_ServiceAccounts cl) (ns, name) of
       None \<Rightarrow> Inl (LibError ''not found'') | Some sa \<Rightarrow> Inr sa)\<rparr>"

lemma sees_kube_of: "sees dp cl (kube_of dp cl)"
  by (simp add: sees_def kube_of_def split: option.split)

definition client_of :: "cluster \<Rightarrow> request list \<Rightarrow> metrics_client" where
  "client_of cl ks = \<lparr>mc_Get = (\<lambda>ns name. case fmlookup (cl_ConfigMaps cl) (ns, name) of None \<Rightarrow> NotFound | Some cm \<Rightarrow> Found cm),
     mc_ListPodIntents = Inr (map (\<lambda>k. the (fmlookup (cl_Intents cl) k)) ks),
     mc_ListConventions = Inr (cl_Conventions cl), mc_Create = (\<lambda>_. None), mc_Update = (\<lambda>_. None)\<rparr>"

lemma metrics_sees_client_of: "distinct ks \<Longrightarrow> set ks = fmdom' (cl_Intents cl) \<Longrightarrow> metrics_sees cl (client_of cl ks)"
  by (auto simp: metrics_sees_def client_of_def split: option.split)

definition do_change :: "deployment \<Rightarrow> api_change \<Rightarrow> cluster \<Rightarrow> cluster" where
  "do_change dp c cl = (case api_store dp c cl of None \<Rightarrow> cl | Some (e, cl1) \<Rightarrow> deliver dp e cl1)"

definition do_pass :: "deployment \<Rightarrow> registry_lib \<Rightarrow> webhook_lib \<Rightarrow> request \<Rightarrow> cluster \<Rightarrow> cluster" where
  "do_pass dp rl wl k cl = (case fmlookup (cl_Intents cl) k of
     None \<Rightarrow> cl
   | Some p \<Rightarrow> if k \<in> set (cl_Queue cl) then finish_pass dp k p (pod_pass dp (kube_of dp cl) rl wl p) cl else cl)"

definition do_metrics :: "deployment \<Rightarrow> request list \<Rightarrow> map_range \<Rightarrow> cluster \<Rightarrow> cluster" where
  "do_metrics dp ks rng cl =
     (if own_map dp \<in> set (cl_MetricsQueue cl) \<and> distinct ks \<and> set ks = fmdom' (cl_Intents cl)
      then finish_metrics dp (own_map dp) (MetricsReconciler_Reconcile (client_of cl ks) (dp_MetricsLib dp) rng (dp_Metrics dp)
        (fst (own_map dp)) (snd (own_map dp))) cl
      else cl)"

lemma reachable_new: "reachable dp new_cluster"
  by (simp add: reachable_def)

lemma reachable_change: "reachable dp cl \<Longrightarrow> reachable dp (do_change dp c cl)"
  by (auto simp: do_change_def split: option.split intro: reachable_step cluster_step.change)

lemma reachable_pass: "reachable dp cl \<Longrightarrow> reachable dp (do_pass dp rl wl k cl)"
  by (auto simp: do_pass_def split: option.split intro: reachable_step cluster_step.pass sees_kube_of)

lemma reachable_metrics: "reachable dp cl \<Longrightarrow> range_law rng \<Longrightarrow> reachable dp (do_metrics dp ks rng cl)"
  by (auto simp: do_metrics_def intro: reachable_step cluster_step.metrics metrics_sees_client_of)

lemmas reachable_runs = reachable_new reachable_change reachable_pass reachable_metrics

text \<open>An account and an intent are stored; the intent controller passes over the intent until it is
  no longer queued, then the metrics controller over its config map.\<close>

definition intent_key :: request where
  "intent_key = ([], ''intent'')"

definition stored_cluster :: cluster where
  "stored_cluster = do_change plain_deployment (PutIntent sample_intent)
     (do_change plain_deployment (PutServiceAccount ([], ''default'') \<lparr>sa_ImagePullSecrets = [''pull'']\<rparr>) new_cluster)"

definition settled_cluster :: cluster where
  "settled_cluster = (let pass = do_pass plain_deployment sample_registry sample_hooks intent_key;
       metrics = do_metrics plain_deployment [intent_key] sorted_range
     in metrics (metrics (pass (pass stored_cluster))))"

lemma reachable_settled_cluster: "reachable plain_deployment settled_cluster"
  by (simp add: settled_cluster_def stored_cluster_def Let_def reachable_runs sorted_range_law)

subsection \<open>What a reachable cluster promises\<close>

text \<open>C15: What is stored was admitted, in every cluster the API server and the controllers can reach:
  the stored conventions have names of their own, are defaulted and pass validation; a stored intent
  is kept under its own name and names a service account and no empty pull secret, whatever the
  controllers wrote to its status; the tracker holds only secrets and service accounts.\<close>

theorem stored_objects_admitted:
  assumes "deployment_law dp" and "reachable dp cl"
  shows "distinct (map convention_name (cl_Conventions cl)) \<and>
    (\<forall>c \<in> set (cl_Conventions cl). convention_spec_ok (dp_Validation dp) (cpc_Spec c) \<and>
       ClusterPodConventionSpec_Default (cpc_Spec c) = cpc_Spec c) \<and>
    (\<forall>k p. fmlookup (cl_Intents cl) k = Some p \<longrightarrow> object_key (pi_Meta p) = k \<and>
       pi_ServiceAccountName (pi_Spec p) \<noteq> [] \<and> [] \<notin> set (pi_ImagePullSecrets (pi_Spec p))) \<and>
    (\<forall>(k, ref) \<in> set (cl_Tracker cl). tr_Kind ref \<in> {''Secret'', ''ServiceAccount''})"
  using reachable_ok [OF assms]
  by (fastforce simp: cluster_ok_def convention_admitted_def intent_admitted_def registry_ref_def secret_ref_def
      service_account_ref_def)

lemma stored_objects_admitted_witness:
  "distinct (map convention_name (cl_Conventions settled_cluster)) \<and>
   (\<exists>p. fmlookup (cl_Intents settled_cluster) intent_key = Some p \<and> object_key (pi_Meta p) = intent_key \<and>
      pi_ServiceAccountName (pi_Spec p) \<noteq> [])"
proof -
  note all = stored_objects_admitted [OF plain_deployment_law reachable_settled_cluster]
  have "fmlookup (cl_Intents settled_cluster) intent_key \<noteq> None" by code_simp
  then show ?thesis using all by blast
qed



text \<open>C14: What a change leads to: the intent controller is asked for exactly the intent that changed, or
  the intents the changed secret or service account is tracked for, and the metrics controller for
  its config map exactly when an intent, a convention or that config map changed. A change of a
  convention or of a certificate request asks for no intent and leaves all of them as they were:
  new conventions and rotated CA bundles wait for the next pass.\<close>

theorem change_requeues:
  assumes "deployment_law dp" and "reachable dp cl" and "api_store dp c cl = Some (e, cl1)"
  shows "set (cl_Queue (deliver dp e cl1)) = set (cl_Queue cl) \<union> requeued_by (cl_Tracker cl) c \<and>
    (own_map dp \<in> set (cl_MetricsQueue (deliver dp e cl1)) \<longleftrightarrow>
       own_map dp \<in> set (cl_MetricsQueue cl) \<or> changes_metrics (own_map dp) c) \<and>
    (\<forall>j. j \<notin> requeued_by (cl_Tracker cl) c \<longrightarrow>
       fmlookup (cl_Intents (deliver dp e cl1)) j = fmlookup (cl_Intents cl) j)"
  using change_queues [OF assms] change_metrics [OF assms(1,3)] change_intents [OF assms(3)] by blast

lemma change_requeues_witness:
  "intent_key \<in> set (cl_Queue (do_change plain_deployment (PutSecret ([], ''pull'') []) settled_cluster))"
proof -
  let ?c = "PutSecret ([], ''pull'') []"
  obtain e cl1 where store: "api_store plain_deployment ?c settled_cluster = Some (e, cl1)" by simp
  have "intent_key \<in> requeued_by (cl_Tracker settled_cluster) ?c"
  proof -
    have "(intent_key, secret_ref [] ''pull'') \<in> set (cl_Tracker settled_cluster)" by code_simp
    then show ?thesis by simp
  qed
  then show ?thesis
    using change_requeues [OF plain_deployment_law reachable_settled_cluster store] by (simp only: do_change_def store) simp
qed

text \<open>C13: The metrics never lag unnoticed: in a reachable cluster, as long as the controller's request
  for its own config map is not queued, the stored config map, unless it is being deleted, holds the
  data computed from the intents and conventions that are stored now, and there is no config map
  only when there are none of either.\<close>

theorem metrics_up_to_date:
  assumes "deployment_law dp" and "reachable dp cl" and "own_map dp \<notin> set (cl_MetricsQueue cl)"
  shows "case fmlookup (cl_ConfigMaps cl) (own_map dp) of
     None \<Rightarrow> cl_Intents cl = fmempty \<and> cl_Conventions cl = []
   | Some cm \<Rightarrow> m_DeletionTimestamp (cfm_Meta cm) \<noteq> None \<or>
       (\<exists>intents items rng. listing cl intents \<and> mset items = mset (cl_Conventions cl) \<and> range_law rng \<and>
          map_init (cfm_Data cm) = Some (buildConfigMapData (dp_MetricsLib dp) rng intents items))"
  using current_metrics.holds [OF assms(1,2)] assms(3) by (simp add: metrics_ok_def metrics_current_def)

lemma metrics_up_to_date_witness:
  "\<exists>cm intents items rng. fmlookup (cl_ConfigMaps settled_cluster) (own_map plain_deployment) = Some cm \<and>
     listing settled_cluster intents \<and>
     map_init (cfm_Data cm) = Some (buildConfigMapData (dp_MetricsLib plain_deployment) rng intents items)"
proof -
  have "own_map plain_deployment \<notin> set (cl_MetricsQueue settled_cluster)" by code_simp
  note now = metrics_up_to_date [OF plain_deployment_law reachable_settled_cluster this]
  have "map_option (\<lambda>cm. m_DeletionTimestamp (cfm_Meta cm)) (fmlookup (cl_ConfigMaps settled_cluster) (own_map plain_deployment)) = Some None"
    by code_simp
  with now show ?thesis by (auto split: option.splits)
qed



end
