(* ===== verification/InterleavingProperties.thy ===== *)
theory InterleavingProperties
  imports Interleaving ClusterProperties
begin

text \<open>
  The properties of a pass that other changes interleave with (\<open>Interleaving\<close>): without interference
  it is the pass of \<open>Cluster\<close>; with any interference the keychain of an intent that is not queued again
  is current for all that was tracked when the pass began and for the intent's own pull secrets; a
  change of what was not can be missed. The runs at the end are computed.
\<close>

subsection \<open>Computed runs\<close>

text \<open>A keychain that holds the contents of its secrets, and an API that answers with what is stored.\<close>

definition reading_deployment :: deployment where
  "reading_deployment = plain_deployment\<lparr>dp_Chain := \<lambda>client (sa, secrets).
     Inr (concat (map (\<lambda>(n, secret). case secret of None \<Rightarrow> [] | Some h \<Rightarrow> h) secrets))\<rparr>"

lemma reading_deployment_law: "deployment_law reading_deployment"
  using plain_deployment_law by (simp add: reading_deployment_def deployment_laws resource_law_def initialised_def)

fun do_actions :: "deployment \<Rightarrow> request \<Rightarrow> build_action list \<Rightarrow> cluster \<times> building \<Rightarrow> cluster \<times> building" where
  "do_actions dp k [] (cl, b) = (cl, b)"
| "do_actions dp k (a # as) (cl, b) =
     (let b' = do_action (dp_Conditions dp) (kube_of dp cl) (dp_Registry dp) a b
      in do_actions dp k as (add_tracked k (tracked_since b b') cl, b'))"

lemma do_actions_run:
  "do_actions dp k as (cl, b) = (cl', b') \<Longrightarrow> rtranclp (moment_step dp k p) (Building cl (as @ rest) b) (Building cl' rest b')"
proof (induction as arbitrary: cl b)
  case (Cons a as)
  let ?b = "do_action (dp_Conditions dp) (kube_of dp cl) (dp_Registry dp) a b"
  have "moment_step dp k p (Building cl (a # as @ rest) b) (Building (add_tracked k (tracked_since b ?b) cl) (as @ rest) ?b)"
    by (rule moment_step.act [OF sees_kube_of refl])
  with Cons show ?case by (auto simp: Let_def intro: converse_rtranclp_into_rtranclp)
qed simp

lemma do_change_run: "rtranclp (moment_step dp k p) (Building cl as b) (Building (do_change dp c cl) as b)"
  by (cases "api_store dp c cl") (auto simp: do_change_def intro: r_into_rtranclp moment_step.change)

lemma enqueue_none [simp]:
  "cl_Queue (enqueue_if False k cl) = cl_Queue cl" "inputs_of (enqueue_if False k cl) p = inputs_of cl p"
  by (simp_all add: enqueue_if_def)

text \<open>An intent is settled when the service account gains a pull secret.\<close>

definition gaining_cluster :: cluster where
  "gaining_cluster = (let change = do_change reading_deployment;
       pass = do_pass reading_deployment sample_registry sample_hooks intent_key
     in change (PutServiceAccount ([], ''default'') \<lparr>sa_ImagePullSecrets = [''pull'']\<rparr>) (pass (pass (change (PutIntent sample_intent)
          (change (PutSecret ([], ''pull'') ''old'')
            (change (PutServiceAccount ([], ''default'') \<lparr>sa_ImagePullSecrets = []\<rparr>) new_cluster))))))"

lemma reachable_gaining_cluster: "reachable reading_deployment gaining_cluster"
  by (simp add: gaining_cluster_def Let_def reachable_runs)

definition gaining_intent :: PodIntent where
  "gaining_intent = the (fmlookup (cl_Intents gaining_cluster) intent_key)"

text \<open>The pass over it, in which the secret is changed right after the keychain was made.\<close>

definition half_way :: "cluster \<times> building" where
  "half_way = do_actions reading_deployment intent_key (take 4 build_actions)
     (take_request intent_key gaining_cluster, begin_pass reading_deployment (kube_of reading_deployment gaining_cluster) gaining_intent)"

definition secret_changed :: cluster where
  "secret_changed = do_change reading_deployment (PutSecret ([], ''pull'') ''new'') (fst half_way)"

definition overtaken :: "cluster \<times> building" where
  "overtaken = do_actions reading_deployment intent_key (drop 4 build_actions) (secret_changed, snd half_way)"

lemma overtaken_facts:
  "(intent_key \<in> set (cl_Queue gaining_cluster), fmlookup (cl_Intents gaining_cluster) intent_key = None,
    case end_pass reading_deployment sample_registry sample_hooks gaining_intent (snd overtaken) of
      (res, st, refs) \<Rightarrow> (res, st = pi_Status gaining_intent),
    cl_Queue (fst overtaken), rc_Keys (RetrieveRegistryConfig (bd_State (snd overtaken))),
    dp_Chain reading_deployment [] (inputs_of (fst overtaken) gaining_intent)) =
   (True, False, (Inr False, True), [], Some ''old'', Inr ''new'')"
  by code_simp





subsection \<open>What a pass promises while the cluster changes\<close>



text \<open>C17: A change can be missed: the keychain is made before the service account and its pull
  secrets are tracked. There is a deployment whose libraries work as documented and a run, from a
  reachable cluster, of a pass over an intent whose service account has just gained a pull secret, in
  which that secret changes right after the keychain is made: the pass leaves the intent out of the
  queue with a keychain of the old secret, while the inputs it is built from are those of the new
  one.\<close>

theorem overtaken_secret_change:
  "\<exists>dp k p cl0 m cl b client. deployment_law dp \<and> reachable dp cl0 \<and> pass_starts dp k p cl0 m \<and>
     rtranclp (moment_step dp k p) m (Written cl b) \<and> k \<notin> set (cl_Queue cl) \<and>
     rc_Client (dp_Registry dp) = Some client \<and>
     rc_Keys (RetrieveRegistryConfig (bd_State b)) = Some ''old'' \<and> dp_Chain dp client (inputs_of cl p) = Inr ''new''"
proof -
  let ?dp = reading_deployment and ?p = gaining_intent and ?step = "moment_step reading_deployment intent_key gaining_intent"
  let ?m = "Building (take_request intent_key gaining_cluster) build_actions (begin_pass ?dp (kube_of ?dp gaining_cluster) ?p)"
  note facts = overtaken_facts [unfolded prod.inject]
  have "pass_starts ?dp intent_key ?p gaining_cluster ?m"
    using facts sees_kube_of by (auto simp: pass_starts_def gaining_intent_def)
  have "rtranclp ?step ?m (Building (fst half_way) (drop 4 build_actions) (snd half_way))"
    using do_actions_run [of ?dp intent_key "take 4 build_actions" _ _ "fst half_way" "snd half_way" ?p "drop 4 build_actions"]
    by (simp add: half_way_def)
  also have "rtranclp ?step (Building (fst half_way) (drop 4 build_actions) (snd half_way))
      (Building secret_changed (drop 4 build_actions) (snd half_way))"
    unfolding secret_changed_def by (rule do_change_run)
  also have "rtranclp ?step (Building secret_changed (drop 4 build_actions) (snd half_way)) (Building (fst overtaken) [] (snd overtaken))"
    using do_actions_run [of ?dp intent_key "drop 4 build_actions" _ _ "fst overtaken" "snd overtaken" ?p "[]"]
    by (simp add: overtaken_def)
  also have "?step (Building (fst overtaken) [] (snd overtaken)) (Written (enqueue_if False intent_key (fst overtaken)) (snd overtaken))"
    using facts moment_step.unchanged [of ?dp sample_registry sample_hooks ?p "snd overtaken" "Inr False"]
    by (auto split: prod.splits)
  finally have "rtranclp ?step ?m (Written (enqueue_if False intent_key (fst overtaken)) (snd overtaken))" .
  moreover have "rc_Client (dp_Registry ?dp) = Some []"
    by (simp add: reading_deployment_def plain_deployment_def sample_registry_config_def)
  ultimately show ?thesis
    using facts \<open>pass_starts ?dp intent_key ?p gaining_cluster ?m\<close> reading_deployment_law reachable_gaining_cluster
    by (intro exI [of _ ?dp] exI [of _ intent_key] exI [of _ ?p] exI [of _ gaining_cluster] exI [of _ ?m]
        exI [of _ "enqueue_if False intent_key (fst overtaken)"] exI [of _ "snd overtaken"] exI [of _ "[]"]) simp
qed



end
