(* ===== verification/Schemes.thy ===== *)
theory Schemes
  imports Watches Convention
begin

text \<open>
  Which types the program can read and write: the \<open>groupversion_info.go\<close> files, the \<open>init\<close> functions
  that register the API types with the builder of their group, and the \<open>init\<close> function of
  \<open>cmd/manager/main.go\<close>, which adds the groups to the scheme of the manager. The scheme itself and
  the groups of Kubernetes are libraries (\<open>scheme_lib\<close>) with the documented behaviour \<open>scheme_law\<close>.
\<close>

subsection \<open>Groups and builders\<close>

record GroupVersion =
  gv_Group :: string
  gv_Version :: string

record SchemeBuilder =
  sb_GroupVersion :: GroupVersion
  sb_Kinds :: "string list"

definition Register :: "string list \<Rightarrow> SchemeBuilder \<Rightarrow> SchemeBuilder" where
  "Register kinds b = b\<lparr>sb_Kinds := sb_Kinds b @ kinds\<rparr>"

definition conventions_GroupVersion :: GroupVersion where
  "conventions_GroupVersion = \<lparr>gv_Group = ''conventions.carto.run'', gv_Version = ''v1alpha1''\<rparr>"

definition certmanager_GroupVersion :: GroupVersion where
  "certmanager_GroupVersion = \<lparr>gv_Group = ''cert-manager.io'', gv_Version = ''v1''\<rparr>"

definition webhooks_GroupVersion :: GroupVersion where
  "webhooks_GroupVersion = \<lparr>gv_Group = ''webhooks.conventions.carto.run'', gv_Version = ''v1alpha1''\<rparr>"

text \<open>The builders after the \<open>init\<close> functions of their package have run.\<close>

definition init_clusterpodconvention :: "SchemeBuilder \<Rightarrow> SchemeBuilder" where
  "init_clusterpodconvention = Register [''ClusterPodConvention'', ''ClusterPodConventionList'']"

definition init_podintent :: "SchemeBuilder \<Rightarrow> SchemeBuilder" where
  "init_podintent = Register [''PodIntent'', ''PodIntentList'']"

definition init_certificaterequest :: "SchemeBuilder \<Rightarrow> SchemeBuilder" where
  "init_certificaterequest = Register [''CertificateRequest'', ''CertificateRequestList'']"

definition init_podconventioncontext :: "SchemeBuilder \<Rightarrow> SchemeBuilder" where
  "init_podconventioncontext = Register [''PodConventionContext'']"

definition conventions_SchemeBuilder :: SchemeBuilder where
  "conventions_SchemeBuilder =
     init_podintent (init_clusterpodconvention \<lparr>sb_GroupVersion = conventions_GroupVersion, sb_Kinds = []\<rparr>)"

definition certmanager_SchemeBuilder :: SchemeBuilder where
  "certmanager_SchemeBuilder = init_certificaterequest \<lparr>sb_GroupVersion = certmanager_GroupVersion, sb_Kinds = []\<rparr>"

definition webhooks_SchemeBuilder :: SchemeBuilder where
  "webhooks_SchemeBuilder = init_podconventioncontext \<lparr>sb_GroupVersion = webhooks_GroupVersion, sb_Kinds = []\<rparr>"

subsection \<open>The scheme of the manager\<close>

record 's scheme_lib =
  sl_NewScheme :: 's
  sl_AddToScheme :: "SchemeBuilder \<Rightarrow> 's \<Rightarrow> go_error option \<times> 's"
  sl_ClientGoAddToScheme :: "'s \<Rightarrow> go_error option \<times> 's"
  sl_Recognizes :: "'s \<Rightarrow> GroupVersion \<Rightarrow> string \<Rightarrow> bool"

text \<open>The errors are dropped.\<close>

definition manager_init :: "'s scheme_lib \<Rightarrow> 's" where
  "manager_init lib =
     (let scheme = sl_NewScheme lib;
          (_, scheme) = sl_ClientGoAddToScheme lib scheme;
          (_, scheme) = sl_AddToScheme lib conventions_SchemeBuilder scheme;
          (_, scheme) = sl_AddToScheme lib certmanager_SchemeBuilder scheme
      in scheme)"

text \<open>
  Documented: adding a builder to a scheme makes the scheme recognise the registered kinds in the
  group and version of the builder, and it goes on recognising what it did; the groups of
  Kubernetes have secrets, service accounts and config maps in the core group.
\<close>

definition core_GroupVersion :: GroupVersion where
  "core_GroupVersion = \<lparr>gv_Group = [], gv_Version = ''v1''\<rparr>"

definition scheme_law :: "'s scheme_lib \<Rightarrow> bool" where
  "scheme_law lib \<longleftrightarrow>
     (\<forall>b s gv k. sl_Recognizes lib (snd (sl_AddToScheme lib b s)) gv k \<longleftrightarrow>
        sl_Recognizes lib s gv k \<or> gv = sb_GroupVersion b \<and> k \<in> set (sb_Kinds b)) \<and>
     (\<forall>s gv k. sl_Recognizes lib s gv k \<longrightarrow> sl_Recognizes lib (snd (sl_ClientGoAddToScheme lib s)) gv k) \<and>
     (\<forall>s. \<forall>k \<in> {''Secret'', ''ServiceAccount'', ''ConfigMap''}.
        sl_Recognizes lib (snd (sl_ClientGoAddToScheme lib s)) core_GroupVersion k)"

definition kind_version :: "watched_kind \<Rightarrow> GroupVersion" where
  "kind_version k = (case k of
     KindPodIntent \<Rightarrow> conventions_GroupVersion
   | KindClusterPodConvention \<Rightarrow> conventions_GroupVersion
   | KindCertificateRequest \<Rightarrow> certmanager_GroupVersion
   | _ \<Rightarrow> core_GroupVersion)"

text \<open>The tracker's references name the groups the types are registered in.\<close>

lemma kind_version_group: "gv_Group (kind_version k) = snd (kind_ref k)"
  by (cases k) (simp_all add: kind_version_def conventions_GroupVersion_def certmanager_GroupVersion_def core_GroupVersion_def)

lemmas scheme_builders = conventions_SchemeBuilder_def certmanager_SchemeBuilder_def webhooks_SchemeBuilder_def
  init_podintent_def init_clusterpodconvention_def init_certificaterequest_def init_podconventioncontext_def Register_def

lemma manager_scheme_kinds:
  assumes "scheme_law lib"
  shows "sl_Recognizes lib (manager_init lib) gv k \<longleftrightarrow>
    sl_Recognizes lib (snd (sl_ClientGoAddToScheme lib (sl_NewScheme lib))) gv k \<or>
    gv = conventions_GroupVersion \<and> k \<in> {''PodIntent'', ''PodIntentList'', ''ClusterPodConvention'', ''ClusterPodConventionList''} \<or>
    gv = certmanager_GroupVersion \<and> k \<in> {''CertificateRequest'', ''CertificateRequestList''}"
  using assms by (auto simp: scheme_law_def manager_init_def Let_def split_beta scheme_builders)

text \<open>The manager can watch every kind its controllers watch, and list what they list.\<close>

lemma watched_kinds_recognized:
  assumes "scheme_law lib"
  shows "sl_Recognizes lib (manager_init lib) (kind_version k) (fst (kind_ref k))"
proof -
  have "sl_Recognizes lib (snd (sl_ClientGoAddToScheme lib (sl_NewScheme lib))) core_GroupVersion kind"
    if "kind \<in> {''Secret'', ''ServiceAccount'', ''ConfigMap''}" for kind
    using assms that unfolding scheme_law_def by blast
  then show ?thesis
    by (cases k) (simp_all add: manager_scheme_kinds [OF assms] kind_version_def)
qed

lemma listed_kinds_recognized:
  assumes "scheme_law lib"
  shows "sl_Recognizes lib (manager_init lib) conventions_GroupVersion ''PodIntentList''"
    and "sl_Recognizes lib (manager_init lib) conventions_GroupVersion ''ClusterPodConventionList''"
    and "sl_Recognizes lib (manager_init lib) certmanager_GroupVersion ''CertificateRequestList''"
  by (simp_all add: manager_scheme_kinds [OF assms])

text \<open>The client of a convention webhook is given the group of the requests it sends, and adding that
  group to its scheme makes the scheme recognise the request.\<close>

lemma webhook_scheme:
  assumes "scheme_law lib"
  shows "webhook_group = gv_Group webhooks_GroupVersion @ ''/'' @ gv_Version webhooks_GroupVersion"
    and "sl_Recognizes lib (snd (sl_AddToScheme lib webhooks_SchemeBuilder s)) webhooks_GroupVersion ''PodConventionContext''"
  using assms by (simp_all add: webhook_group_def webhooks_GroupVersion_def scheme_law_def scheme_builders)

text \<open>A scheme that works as documented.\<close>

definition plain_schemes :: "(GroupVersion \<times> string) list scheme_lib" where
  "plain_schemes = \<lparr>sl_NewScheme = [], sl_AddToScheme = (\<lambda>b s. (None, s @ map (Pair (sb_GroupVersion b)) (sb_Kinds b))),
     sl_ClientGoAddToScheme = (\<lambda>s. (None, s @ map (Pair core_GroupVersion) [''Secret'', ''ServiceAccount'', ''ConfigMap''])),
     sl_Recognizes = (\<lambda>s gv k. (gv, k) \<in> set s)\<rparr>"

lemma plain_schemes_law: "scheme_law plain_schemes"
  by (auto simp: scheme_law_def plain_schemes_def)

end
