(* ===== verification/SpringProperties.thy ===== *)
theory SpringProperties
  imports WebhookTypes GoStrings GoSort
begin

text \<open>
  The parts the Spring convention server is built from, under
  \<open>samples/spring-convention-server/resources\<close>: the application properties kept in the
  \<open>JAVA_TOOL_OPTIONS\<close> variable of a container (\<open>spring_properties.go\<close>), the dependencies listed by
  an image's bills of materials (\<open>dependencies.go\<close>) and the helpers of \<open>conventions.go\<close>. The
  properties are a Go map that is shared and never nil here, so operations return it updated.
  Parameters: the CycloneDX decoder and the semantic versions of \<open>Masterminds/semver\<close>.
\<close>

subsection \<open>Helpers\<close>

definition setAnnotation :: "string \<Rightarrow> string \<Rightarrow> CorePodTemplateSpec \<Rightarrow> CorePodTemplateSpec" where
  "setAnnotation key v pts = pts\<lparr>pts_Meta := (pts_Meta pts)
     \<lparr>m_Annotations := map_put (m_Annotations (pts_Meta pts)) key v\<rparr>\<rparr>"

definition setLabel :: "string \<Rightarrow> string \<Rightarrow> CorePodTemplateSpec \<Rightarrow> CorePodTemplateSpec" where
  "setLabel key v pts = pts\<lparr>pts_Meta := (pts_Meta pts)
     \<lparr>m_Labels := map_put (m_Labels (pts_Meta pts)) key v\<rparr>\<rparr>"

text \<open>A pointer into the container's variables is the index of the variable.\<close>

fun find_env :: "nat \<Rightarrow> EnvVar list \<Rightarrow> string \<Rightarrow> nat option" where
  "find_env i [] name = None"
| "find_env i (e # es) name = (if ev_Name e = name then Some i else find_env (Suc i) es name)"

definition findEnvVar :: "Container \<Rightarrow> string \<Rightarrow> nat option" where
  "findEnvVar container name = find_env 0 (c_Env container) name"

fun find_port :: "ContainerPort list \<Rightarrow> 32 word \<Rightarrow> ContainerPort option" where
  "find_port [] port = None"
| "find_port (p # ps) port = (if cp_ContainerPort p = port then Some p else find_port ps port)"

fun findContainerPort :: "Container list \<Rightarrow> 32 word \<Rightarrow> string \<times> ContainerPort option" where
  "findContainerPort [] port = ([], None)"
| "findContainerPort (c # cs) port =
     (case find_port (c_Ports c) port of
        Some p \<Rightarrow> (c_Name c, Some p)
      | None \<Rightarrow> findContainerPort cs port)"

subsection \<open>Application properties\<close>

type_synonym props = "(string, string) fmap"

definition prop_get :: "props \<Rightarrow> string \<Rightarrow> string" where
  "prop_get p k = (case fmlookup p k of None \<Rightarrow> [] | Some v \<Rightarrow> v)"

definition props_Default :: "string \<Rightarrow> string \<Rightarrow> props \<Rightarrow> string \<times> props" where
  "props_Default key defaultValue p =
     (let p = (case fmlookup p key of None \<Rightarrow> fmupd key defaultValue p | Some _ \<Rightarrow> p) in (prop_get p key, p))"

definition JAVA_TOOL_OPTIONS :: string where
  "JAVA_TOOL_OPTIONS = ''JAVA_TOOL_OPTIONS''"

definition set_env_value :: "nat \<Rightarrow> string \<Rightarrow> Container \<Rightarrow> Container" where
  "set_env_value i v c = c\<lparr>c_Env := (c_Env c)[i := (c_Env c ! i)\<lparr>ev_Value := v\<rparr>]\<rparr>"

fun split_options :: "string list \<Rightarrow> string list \<Rightarrow> props \<Rightarrow> string list \<times> props" where
  "split_options [] keep p = (keep, p)"
| "split_options (c # cs) keep p =
     (if \<not> has_prefix c ''-D'' \<or> \<not> contains_char c (CHR ''='')
      then split_options cs (keep @ [c]) p
      else (case go_split2 (CHR ''='') (drop 2 c) of
          k # v # _ \<Rightarrow> split_options cs keep (fmupd k v p)
        | _ \<Rightarrow> split_options cs keep p))"

definition FromContainer :: "Container \<Rightarrow> props \<Rightarrow> props \<times> Container" where
  "FromContainer c p =
     (case findEnvVar c JAVA_TOOL_OPTIONS of
        None \<Rightarrow> (p, c)
      | Some i \<Rightarrow>
          (case split_options (go_split (CHR '' '') (ev_Value (c_Env c ! i))) [] p of
             (keep, p') \<Rightarrow> (p', set_env_value i (go_join '' '' keep) c)))"

definition property_option :: "string \<Rightarrow> string \<Rightarrow> string" where
  "property_option k v = ''-D'' @ k @ ''='' @ v"

definition property_options :: "props \<Rightarrow> string list" where
  "property_options p = map (\<lambda>k. property_option k (prop_get p k)) (sorted_list_of_fset (fmdom p))"

definition ToContainer :: "props \<Rightarrow> Container \<Rightarrow> Container" where
  "ToContainer p c =
     (let properties = property_options p in
      case findEnvVar c JAVA_TOOL_OPTIONS of
        Some i \<Rightarrow> set_env_value i (trim_space (ev_Value (c_Env c ! i) @ '' '' @ go_join '' '' properties)) c
      | None \<Rightarrow> c\<lparr>c_Env := c_Env c @ [\<lparr>ev_Name = JAVA_TOOL_OPTIONS, ev_Value = go_join '' '' properties, ev_other = []\<rparr>]\<rparr>)"

subsection \<open>Dependencies\<close>

record semver_lib =
  sv_NewVersion :: "string \<Rightarrow> handle result"
  sv_NewConstraint :: "string \<Rightarrow> handle result"
  sv_Check :: "handle \<Rightarrow> handle \<Rightarrow> bool"

fun NewDependenciesBOM :: "cdx_lib \<Rightarrow> BOM list \<Rightarrow> CdxBOM list" where
  "NewDependenciesBOM unmarshal [] = []"
| "NewDependenciesBOM unmarshal (b # boms) =
     (case AsCycloneDX unmarshal b of
        Inl err \<Rightarrow> NewDependenciesBOM unmarshal boms
      | Inr cdx \<Rightarrow> cdx # NewDependenciesBOM unmarshal boms)"

definition bom_components :: "CdxBOM \<Rightarrow> CdxComponent list" where
  "bom_components b = (case cdx_Components b of None \<Rightarrow> [] | Some cs \<Rightarrow> cs)"

fun find_component :: "CdxComponent list \<Rightarrow> string \<Rightarrow> CdxComponent option" where
  "find_component [] name = None"
| "find_component (c # cs) name = (if cc_Name c = name then Some c else find_component cs name)"

fun Dependency :: "CdxBOM list \<Rightarrow> string \<Rightarrow> CdxComponent option" where
  "Dependency [] name = None"
| "Dependency (b # boms) name =
     (case find_component (bom_components b) name of
        Some c \<Rightarrow> Some c
      | None \<Rightarrow> Dependency boms name)"

fun component_in :: "CdxComponent list \<Rightarrow> string set \<Rightarrow> bool" where
  "component_in [] n = False"
| "component_in (c # cs) n = (if cc_Name c \<in> n then True else component_in cs n)"

fun HasDependency :: "CdxBOM list \<Rightarrow> string list \<Rightarrow> bool" where
  "HasDependency [] names = False"
| "HasDependency (b # boms) names =
     (if component_in (bom_components b) (set names) then True else HasDependency boms names)"

definition is_digit :: "char \<Rightarrow> bool" where
  "is_digit c \<longleftrightarrow> CHR ''0'' \<le> c \<and> c \<le> CHR ''9''"

text \<open>One or more digits followed by a dot, as at the start of the pattern.\<close>

definition digits_dot :: "string \<Rightarrow> (string \<times> string) option" where
  "digits_dot s = (let d = takeWhile is_digit s; r = dropWhile is_digit s in
     if d \<noteq> [] \<and> r \<noteq> [] \<and> hd r = CHR ''.'' then Some (d, tl r) else None)"

definition normalizeVersion :: "string \<Rightarrow> string" where
  "normalizeVersion version =
     (case digits_dot version of None \<Rightarrow> version | Some (a, r) \<Rightarrow>
     (case digits_dot r of None \<Rightarrow> version | Some (b, r) \<Rightarrow>
     (case digits_dot r of None \<Rightarrow> version
      | Some (c, r) \<Rightarrow> a @ ''.'' @ b @ ''.'' @ c @ ''-'' @ r)))"

definition HasDependencyConstraint :: "semver_lib \<Rightarrow> CdxBOM list \<Rightarrow> string \<Rightarrow> string \<Rightarrow> bool" where
  "HasDependencyConstraint sv m name constraint =
     (case Dependency m name of
        None \<Rightarrow> False
      | Some d \<Rightarrow>
          (case sv_NewVersion sv (normalizeVersion (cc_Version d)) of
             Inl err \<Rightarrow> False
           | Inr v \<Rightarrow> (case sv_NewConstraint sv constraint of Inl err \<Rightarrow> False | Inr c \<Rightarrow> sv_Check sv c v)))"

subsection \<open>What dependencies say\<close>

lemma component_in_iff: "component_in cs n \<longleftrightarrow> (\<exists>c \<in> set cs. cc_Name c \<in> n)"
  by (induction cs) auto

lemma find_component_iff: "find_component cs name \<noteq> None \<longleftrightarrow> (\<exists>c \<in> set cs. cc_Name c = name)"
  by (induction cs) auto

lemma find_component_name: "find_component cs name = Some c \<Longrightarrow> cc_Name c = name"
  by (induction cs) (auto split: if_splits)

lemma Dependency_name: "Dependency m name = Some c \<Longrightarrow> cc_Name c = name"
  by (induction m) (auto split: option.splits dest: find_component_name)

lemma Dependency_iff: "Dependency m name \<noteq> None \<longleftrightarrow> (\<exists>b \<in> set m. \<exists>c \<in> set (bom_components b). cc_Name c = name)"
proof (induction m)
  case (Cons b m)
  then show ?case
    using find_component_iff [of "bom_components b" name] by (auto split: option.splits)
qed simp

lemma HasDependency_iff: "HasDependency m names \<longleftrightarrow> (\<exists>n \<in> set names. Dependency m n \<noteq> None)"
proof -
  have "HasDependency m names \<longleftrightarrow> (\<exists>b \<in> set m. \<exists>c \<in> set (bom_components b). cc_Name c \<in> set names)"
    by (induction m) (auto simp: component_in_iff)
  then show ?thesis by (simp only: Dependency_iff) blast
qed

lemma digits_dot_append: "digits_dot s = Some (d, r) \<Longrightarrow> s = d @ ''.'' @ r \<and> d \<noteq> [] \<and> (\<forall>c \<in> set d. is_digit c)"
proof -
  assume "digits_dot s = Some (d, r)"
  then have d: "d = takeWhile is_digit s" "d \<noteq> []" and r: "dropWhile is_digit s \<noteq> []" "hd (dropWhile is_digit s) = CHR ''.''"
      "r = tl (dropWhile is_digit s)"
    by (auto simp: digits_dot_def Let_def split: if_splits)
  from r have "dropWhile is_digit s = CHR ''.'' # r" by (metis list.collapse)
  then have "s = d @ CHR ''.'' # r" using d(1) by (metis takeWhile_dropWhile_id)
  moreover have "\<forall>c \<in> set d. is_digit c" using d(1) set_takeWhileD by metis
  ultimately show ?thesis using d(2) by simp
qed

lemma takeWhile_digits: "\<forall>c \<in> set d. is_digit c \<Longrightarrow> \<not> is_digit x \<Longrightarrow> takeWhile is_digit (d @ x # r) = d"
  by (simp add: takeWhile_append)

lemma dropWhile_digits: "\<forall>c \<in> set d. is_digit c \<Longrightarrow> \<not> is_digit x \<Longrightarrow> dropWhile is_digit (d @ x # r) = x # r"
  by (simp add: dropWhile_append)

lemma not_digit [simp]: "\<not> is_digit (CHR ''.'')" "\<not> is_digit (CHR ''-'')"
  by (simp_all add: is_digit_def)

lemma digits_dot_dot: "d \<noteq> [] \<Longrightarrow> \<forall>c \<in> set d. is_digit c \<Longrightarrow> digits_dot (d @ ''.'' @ r) = Some (d, r)"
  by (simp add: digits_dot_def Let_def takeWhile_digits dropWhile_digits)

lemma digits_dot_dash: "\<forall>c \<in> set d. is_digit c \<Longrightarrow> digits_dot (d @ ''-'' @ r) = None"
  by (simp add: digits_dot_def Let_def takeWhile_digits dropWhile_digits)

definition numeral_dots :: "string \<Rightarrow> string \<Rightarrow> string \<Rightarrow> bool" where
  "numeral_dots a b c \<longleftrightarrow> a \<noteq> [] \<and> b \<noteq> [] \<and> c \<noteq> [] \<and> (\<forall>x \<in> set (a @ b @ c). is_digit x)"

lemma normalizeVersion_four:
  "numeral_dots a b c \<Longrightarrow> normalizeVersion (a @ ''.'' @ b @ ''.'' @ c @ ''.'' @ r) = a @ ''.'' @ b @ ''.'' @ c @ ''-'' @ r"
  unfolding normalizeVersion_def numeral_dots_def
  by (subst digits_dot_dot, simp, simp, simp only: option.case prod.case,
      subst digits_dot_dot, simp, simp, simp only: option.case prod.case,
      subst digits_dot_dot, simp, simp, simp)

lemma normalizeVersion_dash:
  "numeral_dots a b c \<Longrightarrow> normalizeVersion (a @ ''.'' @ b @ ''.'' @ c @ ''-'' @ r) = a @ ''.'' @ b @ ''.'' @ c @ ''-'' @ r"
  unfolding normalizeVersion_def numeral_dots_def
  by (subst digits_dot_dot, simp, simp, simp only: option.case prod.case,
      subst digits_dot_dot, simp, simp, simp only: option.case prod.case,
      subst digits_dot_dash, simp, simp)

lemma normalizeVersion_cases:
  "normalizeVersion v = v \<or> (\<exists>a b c r. numeral_dots a b c \<and> v = a @ ''.'' @ b @ ''.'' @ c @ ''.'' @ r \<and>
     normalizeVersion v = a @ ''.'' @ b @ ''.'' @ c @ ''-'' @ r)"
proof (cases "normalizeVersion v = v")
  case False
  then obtain a r1 b r2 c r3 where "digits_dot v = Some (a, r1)" "digits_dot r1 = Some (b, r2)" "digits_dot r2 = Some (c, r3)"
    by (auto simp: normalizeVersion_def split: option.splits prod.splits)
  then have "numeral_dots a b c" "v = a @ ''.'' @ b @ ''.'' @ c @ ''.'' @ r3"
    by (auto simp: numeral_dots_def dest!: digits_dot_append)
  with normalizeVersion_four show ?thesis by blast
qed simp

text \<open>Normalising a version turns the four-part form \<open>a.b.c.rest\<close> that semantic versions reject
  into \<open>a.b.c-rest\<close> and leaves every other version alone; it is idempotent.\<close>

lemma normalize_version:
  "(\<forall>a b c r. numeral_dots a b c \<longrightarrow>
      normalizeVersion (a @ ''.'' @ b @ ''.'' @ c @ ''.'' @ r) = a @ ''.'' @ b @ ''.'' @ c @ ''-'' @ r) \<and>
   (normalizeVersion v \<noteq> v \<longrightarrow> (\<exists>a b c r. numeral_dots a b c \<and> v = a @ ''.'' @ b @ ''.'' @ c @ ''.'' @ r)) \<and>
   normalizeVersion (normalizeVersion v) = normalizeVersion v"
  using normalizeVersion_cases [of v] normalizeVersion_four normalizeVersion_dash by metis

lemma normalize_version_witness:
  "normalizeVersion ''2.3.0.RELEASE'' = ''2.3.0-RELEASE'' \<and>
   normalizeVersion (normalizeVersion ''2.3.0.RELEASE'') = normalizeVersion ''2.3.0.RELEASE''"
proof
  have "numeral_dots ''2'' ''3'' ''0''" by (simp add: numeral_dots_def is_digit_def)
  with normalize_version show "normalizeVersion ''2.3.0.RELEASE'' = ''2.3.0-RELEASE''" by fastforce
  show "normalizeVersion (normalizeVersion ''2.3.0.RELEASE'') = normalizeVersion ''2.3.0.RELEASE''"
    using normalize_version by blast
qed

subsection \<open>Reading the properties back\<close>

lemma ascii_not_space_code:
  "ascii_char (hd s) \<Longrightarrow> s \<noteq> [] \<Longrightarrow> q \<in> set space_codes \<Longrightarrow> \<not> has_prefix s q"
  by (cases s) (auto simp: space_codes_def ascii_char_def less_char_def less_eq_char_def)

lemma ascii_not_rev_code:
  "ascii_char (hd s) \<Longrightarrow> s \<noteq> [] \<Longrightarrow> q \<in> set (map rev space_codes) \<Longrightarrow> \<not> has_prefix s q"
  by (cases s) (auto simp: space_codes_def ascii_char_def less_char_def less_eq_char_def)

lemma trim_space_id: "s \<noteq> [] \<Longrightarrow> ascii_char (hd s) \<Longrightarrow> ascii_char (last s) \<Longrightarrow> trim_space s = s"
  unfolding trim_space_def
  by (subst (2) trim_codes_id, use ascii_not_space_code in blast, subst trim_codes_id)
    (use ascii_not_rev_code [of "rev s"] in \<open>auto simp: hd_rev\<close>)

lemma trim_space_blank:
  assumes "s \<noteq> []" "ascii_char (hd s)" "ascii_char (last s)"
  shows "trim_space (CHR '' '' # s) = s"
proof -
  have "find (\<lambda>p. p \<noteq> [] \<and> has_prefix (CHR '' '' # s) p) space_codes = Some [CHR '' '']"
    by (simp add: space_codes_def)
  then have "trim_codes space_codes (CHR '' '' # s) = trim_codes space_codes s"
    by (subst trim_codes.simps) simp
  then have "trim_space (CHR '' '' # s) = trim_space s" by (simp add: trim_space_def)
  with trim_space_id [OF assms] show ?thesis by simp
qed

text \<open>Which options are read as properties, and which properties survive being written.\<close>

definition is_property_option :: "string \<Rightarrow> bool" where
  "is_property_option c \<longleftrightarrow> has_prefix c ''-D'' \<and> contains_char c (CHR ''='')"

definition writable :: "props \<Rightarrow> bool" where
  "writable p \<longleftrightarrow> (\<forall>k v. fmlookup p k = Some v \<longrightarrow> CHR ''='' \<notin> set k \<and> CHR '' '' \<notin> set k \<and> CHR '' '' \<notin> set v \<and>
     (v = [] \<or> ascii_char (last v)))"

lemma split_options_keep:
  "\<forall>c \<in> set cs. \<not> is_property_option c \<Longrightarrow> split_options (cs @ rest) keep p = split_options rest (keep @ cs) p"
  by (induction cs arbitrary: keep) (auto simp: is_property_option_def)

lemma split_options_properties:
  "\<forall>k \<in> set ks. CHR ''='' \<notin> set k \<Longrightarrow>
   split_options (map (\<lambda>k. property_option k (f k)) ks) keep p = (keep, fold (\<lambda>k. fmupd k (f k)) ks p)"
proof (induction ks arbitrary: p)
  case (Cons k ks)
  have "has_prefix (property_option k (f k)) ''-D''" "contains_char (property_option k (f k)) (CHR ''='')"
    by (simp_all add: property_option_def contains_char_def)
  moreover have "go_split2 (CHR ''='') (drop 2 (property_option k (f k))) = [k, f k]"
    using Cons.prems go_split2_sep [of "CHR ''=''" k "f k"] by (simp add: property_option_def)
  ultimately show ?case using Cons by simp
qed simp

lemma fold_fmupd_lookup:
  "distinct ks \<Longrightarrow> fmlookup (fold (\<lambda>k. fmupd k (f k)) ks q) x = (if x \<in> set ks then Some (f x) else fmlookup q x)"
  by (induction ks arbitrary: q) auto

lemma keys_set: "x \<in> set (sorted_list_of_fset (fmdom p)) \<longleftrightarrow> fmlookup p x \<noteq> None"
  by (simp add: sorted_list_of_fset.rep_eq fmlookup_dom_iff)

lemma keys_distinct: "distinct (sorted_list_of_fset (fmdom p))"
  by (simp add: sorted_list_of_fset.rep_eq)

lemma fold_properties:
  "fold (\<lambda>k. fmupd k (prop_get p k)) (sorted_list_of_fset (fmdom p)) q = q ++\<^sub>f p"
proof (rule fmap_ext)
  fix x
  have "x |\<in>| fmdom p \<longleftrightarrow> fmlookup p x \<noteq> None" by (simp add: fmlookup_dom_iff)
  then show "fmlookup (fold (\<lambda>k. fmupd k (prop_get p k)) (sorted_list_of_fset (fmdom p)) q) x = fmlookup (q ++\<^sub>f p) x"
    by (cases "fmlookup p x") (simp_all add: fold_fmupd_lookup [OF keys_distinct] keys_set prop_get_def)
qed

lemma property_options_props:
  "writable p \<Longrightarrow> split_options (property_options p) keep q = (keep, q ++\<^sub>f p)"
  unfolding property_options_def
  by (subst split_options_properties)
    (auto simp: fold_properties writable_def keys_set)

lemma property_options_no_blank: "writable p \<Longrightarrow> \<forall>c \<in> set (property_options p). CHR '' '' \<notin> set c"
  by (auto simp: property_options_def property_option_def writable_def prop_get_def keys_set)

lemma property_options_Nil: "property_options p = [] \<longleftrightarrow> p = fmempty"
proof -
  have "property_options p = [] \<longleftrightarrow> (\<forall>x. fmlookup p x = None)"
    by (metis property_options_def keys_set list.map_disc_iff equals0D ex_in_conv set_empty)
  then show ?thesis by (auto intro: fmap_ext)
qed

lemma last_go_join: "xs \<noteq> [] \<Longrightarrow> last xs \<noteq> [] \<Longrightarrow> last (go_join sep xs) = last (last xs) \<and> go_join sep xs \<noteq> []"
  by (induction sep xs rule: go_join.induct) auto

lemma hd_go_join: "xs \<noteq> [] \<Longrightarrow> hd xs \<noteq> [] \<Longrightarrow> hd (go_join sep xs) = hd (hd xs)"
  by (induction sep xs rule: go_join.induct) auto

lemma joined_properties:
  assumes "writable p" "p \<noteq> fmempty"
  shows "go_join '' '' (property_options p) \<noteq> []" "ascii_char (hd (go_join '' '' (property_options p)))"
    "ascii_char (last (go_join '' '' (property_options p)))"
proof -
  let ?ks = "sorted_list_of_fset (fmdom p)"
  have ne: "property_options p \<noteq> []" using assms(2) by (simp add: property_options_Nil)
  then have ks: "?ks \<noteq> []" by (simp add: property_options_def)
  have hd: "hd (property_options p) = property_option (hd ?ks) (prop_get p (hd ?ks))"
    and last: "last (property_options p) = property_option (last ?ks) (prop_get p (last ?ks))"
    using ks by (simp_all add: property_options_def hd_map last_map)
  from last_in_set [OF ks] obtain v where v: "fmlookup p (last ?ks) = Some v"
    by (auto simp: keys_set)
  then have val: "prop_get p (last ?ks) = v" "v = [] \<or> ascii_char (last v)"
    using assms(1) by (auto simp: prop_get_def writable_def)
  show "go_join '' '' (property_options p) \<noteq> []"
    using last_go_join [OF ne] last by (simp add: property_option_def)
  show "ascii_char (hd (go_join '' '' (property_options p)))"
    using hd_go_join [OF ne] hd by (simp add: property_option_def ascii_char_def less_char_def less_eq_char_def)
  show "ascii_char (last (go_join '' '' (property_options p)))"
    using last_go_join [OF ne, of "'' ''"] last val
    by (auto simp: property_option_def ascii_char_def less_char_def less_eq_char_def)
qed

lemma find_env_Some: "find_env n es name = Some i \<Longrightarrow> n \<le> i \<and> i - n < length es \<and> ev_Name (es ! (i - n)) = name"
proof (induction n es name rule: find_env.induct)
  case (2 n e es name)
  then show ?case
    by (cases "ev_Name e = name") (auto simp: nth_Cons' Suc_le_eq)
qed simp

lemma find_env_map: "map ev_Name es = map ev_Name es' \<Longrightarrow> find_env n es name = find_env n es' name"
proof (induction es arbitrary: n es')
  case (Cons e es)
  then show ?case by (cases es') auto
qed simp

lemma find_env_append:
  "find_env n es name = None \<Longrightarrow> find_env n (es @ [e]) name = (if ev_Name e = name then Some (n + length es) else None)"
  by (induction n es name rule: find_env.induct) (auto split: if_splits)

lemma set_env_value_simps:
  assumes "findEnvVar c name = Some i"
  shows "findEnvVar (set_env_value i v c) n = findEnvVar c n"
    and "ev_Value (c_Env (set_env_value i v c) ! i) = v"
    and "set_env_value i u (set_env_value i v c) = set_env_value i u c"
    and "set_env_value i (ev_Value (c_Env c ! i)) c = c"
proof -
  from assms have i: "i < length (c_Env c)" by (auto simp: findEnvVar_def dest: find_env_Some)
  then have "map ev_Name (c_Env (set_env_value i v c)) = map ev_Name (c_Env c)"
    by (simp add: set_env_value_def map_list_update_id)
  then show "findEnvVar (set_env_value i v c) n = findEnvVar c n"
    unfolding findEnvVar_def by (rule find_env_map)
  show "ev_Value (c_Env (set_env_value i v c) ! i) = v"
    and "set_env_value i u (set_env_value i v c) = set_env_value i u c"
    and "set_env_value i (ev_Value (c_Env c ! i)) c = c"
    using i by (simp_all add: set_env_value_def)
qed

lemma split_joined_options:
  "writable p \<Longrightarrow> p \<noteq> fmempty \<Longrightarrow> \<forall>c \<in> set cs. CHR '' '' \<notin> set c \<Longrightarrow>
   go_split (CHR '' '') (go_join '' '' (cs @ property_options p)) = cs @ property_options p"
  using property_options_no_blank [of p] by (intro go_split_join) (auto simp: property_options_Nil)

lemma read_written:
  assumes p: "writable p" "p \<noteq> fmempty" and v: "v = [] \<or> ascii_char (hd v)"
    and clean: "\<forall>c \<in> set (go_split (CHR '' '') v). \<not> is_property_option c"
  shows "\<exists>keep. split_options (go_split (CHR '' '') (trim_space (v @ '' '' @ go_join '' '' (property_options p)))) [] q =
      (keep, q ++\<^sub>f p) \<and> go_join '' '' keep = v"
proof (cases "v = []")
  case True
  have "trim_space (CHR '' '' # go_join '' '' (property_options p)) = go_join '' '' (property_options p)"
    by (rule trim_space_blank [OF joined_properties [OF p]])
  then show ?thesis
    using True split_joined_options [OF p, of "[]"] property_options_props [OF p(1)] by simp
next
  case False
  let ?J = "go_join '' '' (property_options p)"
  have "trim_space (v @ '' '' @ ?J) = v @ '' '' @ ?J"
    using False v joined_properties [OF p] by (intro trim_space_id) auto
  also have "\<dots> = go_join '' '' (go_split (CHR '' '') v @ property_options p)"
    using p(2) by (simp add: go_join_append property_options_Nil go_join_split)
  finally have "go_split (CHR '' '') (trim_space (v @ '' '' @ ?J)) = go_split (CHR '' '') v @ property_options p"
    using go_split_pieces by (simp add: split_joined_options [OF p])
  with clean p show ?thesis
    by (simp add: split_options_keep property_options_props go_join_split)
qed

text \<open>C34: Properties written to a container are read back: when the options already there are not
  properties, writing a non-empty set of properties whose keys and values the format can carry and
  reading the container again yields exactly those properties, over the ones there were, and leaves
  the other options as they were.\<close>

theorem properties_roundtrip:
  assumes "writable p" and "p \<noteq> fmempty"
    and "\<forall>i. findEnvVar c JAVA_TOOL_OPTIONS = Some i \<longrightarrow>
      (ev_Value (c_Env c ! i) = [] \<or> ascii_char (hd (ev_Value (c_Env c ! i)))) \<and>
      (\<forall>opt \<in> set (go_split (CHR '' '') (ev_Value (c_Env c ! i))). \<not> is_property_option opt)"
  shows "FromContainer (ToContainer p c) q = (q ++\<^sub>f p,
    (case findEnvVar c JAVA_TOOL_OPTIONS of Some _ \<Rightarrow> c
     | None \<Rightarrow> c\<lparr>c_Env := c_Env c @ [\<lparr>ev_Name = JAVA_TOOL_OPTIONS, ev_Value = [], ev_other = []\<rparr>]\<rparr>))"
proof (cases "findEnvVar c JAVA_TOOL_OPTIONS")
  case None
  then have "findEnvVar (ToContainer p c) JAVA_TOOL_OPTIONS = Some (length (c_Env c))"
    by (simp add: findEnvVar_def ToContainer_def Let_def find_env_append)
  with None show ?thesis
    using split_joined_options [OF assms(1,2), of "[]"]
    by (simp add: FromContainer_def ToContainer_def Let_def property_options_props [OF assms(1)] set_env_value_def)
next
  case (Some i)
  with assms read_written [OF assms(1,2), of "ev_Value (c_Env c ! i)" q]
  obtain keep where "split_options (go_split (CHR '' '') (trim_space (ev_Value (c_Env c ! i) @ '' '' @
        go_join '' '' (property_options p)))) [] q = (keep, q ++\<^sub>f p)"
    and "go_join '' '' keep = ev_Value (c_Env c ! i)"
    by blast
  then show ?thesis
    using Some by (simp add: FromContainer_def ToContainer_def Let_def set_env_value_simps [OF Some])
qed

lemma properties_roundtrip_witness:
  "fst (FromContainer (ToContainer (fmupd ''server.port'' ''8080'' fmempty)
     ((plain_container ''app'' ''img'')\<lparr>c_Env := [\<lparr>ev_Name = ''JAVA_TOOL_OPTIONS'', ev_Value = ''-Xmx1g'', ev_other = []\<rparr>]\<rparr>))
     fmempty) = fmupd ''server.port'' ''8080'' fmempty"
  by (subst properties_roundtrip)
    (auto simp: writable_def findEnvVar_def JAVA_TOOL_OPTIONS_def plain_container_def ascii_char_def less_char_def
      less_eq_char_def is_property_option_def split: if_splits)

end
