(* ===== verification/WebhookServer.thy ===== *)
theory WebhookServer
  imports WebhookTypes
begin

text \<open>
  \<open>webhook/server.go\<close>: what a convention server is built from. \<open>ConventionHandler\<close> turns a
  convention, a function that edits a pod template, into an HTTP handler; \<open>certWatcher\<close> keeps the
  TLS key pair fresh; \<open>NewConventionServer\<close> starts the server with it. The response writer of
  \<open>net/http\<close> is modelled as the handler sees it: the first \<open>WriteHeader\<close> fixes the status and the
  headers, a later one is ignored, and writing the body first sends status 200. Parameters: the JSON
  codec of a context, reading the two files and parsing the key pair (\<open>tls_lib\<close>).
\<close>

subsection \<open>The response writer\<close>

record response_writer =
  rw_Header :: "(string, string) fmap"
  rw_Sent :: "(nat \<times> (string, string) fmap) option"
  rw_Body :: string

definition new_response :: response_writer where
  "new_response = \<lparr>rw_Header = fmempty, rw_Sent = None, rw_Body = []\<rparr>"

definition set_header :: "string \<Rightarrow> string \<Rightarrow> response_writer \<Rightarrow> response_writer" where
  "set_header k v w = w\<lparr>rw_Header := fmupd k v (rw_Header w)\<rparr>"

definition write_header :: "nat \<Rightarrow> response_writer \<Rightarrow> response_writer" where
  "write_header code w = (case rw_Sent w of
     None \<Rightarrow> w\<lparr>rw_Sent := Some (code, rw_Header w)\<rparr> | Some _ \<Rightarrow> w)"

definition write_body :: "string \<Rightarrow> response_writer \<Rightarrow> response_writer" where
  "write_body bytes w = (let w = write_header 200 w in w\<lparr>rw_Body := rw_Body w @ bytes\<rparr>)"

text \<open>The status the client receives: a handler that returns without writing anything sends 200.\<close>

definition response_status :: "response_writer \<Rightarrow> nat" where
  "response_status w = (case rw_Sent w of None \<Rightarrow> 200 | Some (code, _) \<Rightarrow> code)"

subsection \<open>ConventionHandler\<close>

text \<open>
  A convention receives a pointer to a copy of the template and the image configurations; it returns
  labels and an error and leaves the copy in some state.
\<close>

type_synonym convention_fn =
  "CorePodTemplateSpec \<Rightarrow> ImageConfig list \<Rightarrow> (string list \<times> go_error option) \<times> CorePodTemplateSpec"

record json_lib =
  js_Decode :: "string \<Rightarrow> PodConventionContext result"
  js_Encode :: "PodConventionContext \<Rightarrow> string result"

text \<open>The body of a request: none, or what reading it gives.\<close>

type_synonym request_body = "string result option"

definition decode_request :: "json_lib \<Rightarrow> request_body \<Rightarrow> PodConventionContext result" where
  "decode_request js body = (case body of
     None \<Rightarrow> Inr zero_context
   | Some (Inl err) \<Rightarrow> Inl err
   | Some (Inr reqBody) \<Rightarrow> js_Decode js reqBody)"

definition answered_context :: "PodConventionContext \<Rightarrow> string list \<Rightarrow> CorePodTemplateSpec \<Rightarrow> PodConventionContext" where
  "answered_context wc labels pts =
     wc\<lparr>pcc_Status := \<lparr>pct_Template = pts, pct_AppliedConventions = labels\<rparr>\<rparr>"

definition ConventionHandler :: "json_lib \<Rightarrow> convention_fn \<Rightarrow> request_body \<Rightarrow> response_writer \<Rightarrow> response_writer" where
  "ConventionHandler js convention body w =
     (case decode_request js body of
        Inl err \<Rightarrow> write_header 400 w
      | Inr wc \<Rightarrow>
          let w = set_header ''Content-Type'' ''application/json'' w in
          (case convention (pcs_Template (pcc_Spec wc)) (pcs_ImageConfig (pcc_Spec wc)) of
             ((appliedConventions, err), pts) \<Rightarrow>
               let w = (case err of None \<Rightarrow> w | Some _ \<Rightarrow> write_header 500 w) in
               (case js_Encode js (answered_context wc appliedConventions pts) of
                  Inl err \<Rightarrow> w
                | Inr bytes \<Rightarrow> write_body bytes w)))"

definition healthz_handler :: "response_writer \<Rightarrow> response_writer" where
  "healthz_handler w = write_header 200 w"

subsection \<open>certWatcher\<close>

record key_pair =
  kp_Certificate :: "string list"
  kp_Leaf :: "handle option"

record tls_lib =
  tl_X509KeyPair :: "string \<Rightarrow> string \<Rightarrow> key_pair result"
  tl_ParseCertificate :: "string \<Rightarrow> handle result"

record cert_watcher =
  cw_CrtFile :: string
  cw_KeyFile :: string
  cw_keyPair :: "key_pair option"

type_synonym file_system = "string \<Rightarrow> string result"

text \<open>\<open>None\<close> is the panic of indexing an empty chain; otherwise the error and the watcher.\<close>

definition certWatcher_Load :: "tls_lib \<Rightarrow> file_system \<Rightarrow> cert_watcher \<Rightarrow> (go_error option \<times> cert_watcher) option" where
  "certWatcher_Load tls fs w =
     (case fs (cw_CrtFile w) of Inl err \<Rightarrow> Some (Some err, w)
      | Inr crt \<Rightarrow>
     (case fs (cw_KeyFile w) of Inl err \<Rightarrow> Some (Some err, w)
      | Inr key \<Rightarrow>
     (case tl_X509KeyPair tls crt key of Inl err \<Rightarrow> Some (Some err, w)
      | Inr keyPair \<Rightarrow>
          (case kp_Leaf keyPair of
             Some leaf \<Rightarrow> Some (None, w\<lparr>cw_keyPair := Some keyPair\<rparr>)
           | None \<Rightarrow>
               (case kp_Certificate keyPair of
                  [] \<Rightarrow> None
                | der # _ \<Rightarrow>
                    (case tl_ParseCertificate tls der of
                       Inl err \<Rightarrow> Some (Some err, w)
                     | Inr leaf \<Rightarrow> Some (None, w\<lparr>cw_keyPair := Some keyPair\<rparr>)))))))"

definition certWatcher_GetCertificate :: "cert_watcher \<Rightarrow> key_pair option" where
  "certWatcher_GetCertificate w = cw_keyPair w"

subsection \<open>NewConventionServer\<close>

definition CertMountPath :: string where
  "CertMountPath = ''/config/certs''"

definition new_watcher :: cert_watcher where
  "new_watcher = \<lparr>cw_CrtFile = CertMountPath @ ''/tls.crt'', cw_KeyFile = CertMountPath @ ''/tls.key'', cw_keyPair = None\<rparr>"

text \<open>
  Starting loads the key pair once and returns the error of that; the running server is the watcher
  its goroutines share. A ticker reloads the pair, logging a failure; a handshake asks for the
  certificate; a done context closes the server. The mutex makes each of these one step.
\<close>

definition NewConventionServer :: "tls_lib \<Rightarrow> file_system \<Rightarrow> cert_watcher result option" where
  "NewConventionServer tls fs =
     (case certWatcher_Load tls fs new_watcher of
        None \<Rightarrow> None
      | Some (Some err, _) \<Rightarrow> Some (Inl err)
      | Some (None, w) \<Rightarrow> Some (Inr w))"

datatype server_state = Serving cert_watcher | Closed

datatype server_event = Tick file_system | Handshake "key_pair option" | ContextDone

inductive server_step :: "tls_lib \<Rightarrow> server_state \<Rightarrow> server_event \<Rightarrow> server_state \<Rightarrow> bool" for tls where
  tick: "certWatcher_Load tls fs w = Some (err, w') \<Longrightarrow> server_step tls (Serving w) (Tick fs) (Serving w')"
| handshake: "cert = certWatcher_GetCertificate w \<Longrightarrow> server_step tls (Serving w) (Handshake cert) (Serving w)"
| closing: "server_step tls (Serving w) ContextDone Closed"

inductive_cases tick_E: "server_step tls (Serving w) (Tick fs) s"
inductive_simps server_closed_simps [simp]: "server_step tls Closed e s"


subsection \<open>The handler, specified\<close>

definition json_law :: "json_lib \<Rightarrow> bool" where
  "json_law js \<longleftrightarrow> (\<forall>wc bytes. js_Encode js wc = Inr bytes \<longrightarrow> js_Decode js bytes = Inr wc)"

lemma write_simps [simp]:
  "response_status (write_header code new_response) = code"
  "response_status (set_header k v w) = response_status w"
  "response_status (write_body bytes w) = response_status w"
  "rw_Body (write_header code w) = rw_Body w" "rw_Body (set_header k v w) = rw_Body w"
  "rw_Body (write_body bytes w) = rw_Body w @ bytes"
  "rw_Body new_response = []" "response_status new_response = 200"
  "response_status (write_header code (set_header k v new_response)) = code"
  by (simp_all add: response_status_def write_header_def set_header_def write_body_def new_response_def
      split: option.split)

text \<open>C20: The handler answers 400 without a body exactly when the request cannot be read or decoded;
  otherwise the status is 500 when the convention reports an error and 200 when not, and in both
  cases, an error included, the body is the request's context with the convention's labels and the
  edited template in its status.\<close>

theorem handler_response:
  fixes js convention body
  defines "w \<equiv> ConventionHandler js convention body new_response"
  shows "case decode_request js body of
      Inl _ \<Rightarrow> response_status w = 400 \<and> rw_Body w = []
    | Inr wc \<Rightarrow>
        (case convention (pcs_Template (pcc_Spec wc)) (pcs_ImageConfig (pcc_Spec wc)) of
           ((labels, err), pts) \<Rightarrow> response_status w = (if err = None then 200 else 500) \<and>
             rw_Body w = (case js_Encode js (answered_context wc labels pts) of Inl _ \<Rightarrow> [] | Inr bytes \<Rightarrow> bytes))"
  unfolding w_def by (auto simp: ConventionHandler_def Let_def split: sum.split option.split)

subsection \<open>The key pair, specified\<close>

text \<open>Documented: a key pair has at least one certificate.\<close>

definition tls_law :: "tls_lib \<Rightarrow> bool" where
  "tls_law tls \<longleftrightarrow> (\<forall>crt key pair. tl_X509KeyPair tls crt key = Inr pair \<longrightarrow> kp_Certificate pair \<noteq> [])"

definition loadable :: "tls_lib \<Rightarrow> file_system \<Rightarrow> key_pair \<Rightarrow> bool" where
  "loadable tls fs pair \<longleftrightarrow> (\<exists>crt key. fs ''/config/certs/tls.crt'' = Inr crt \<and> fs ''/config/certs/tls.key'' = Inr key \<and>
     tl_X509KeyPair tls crt key = Inr pair \<and>
     (kp_Leaf pair = None \<longrightarrow> is_ok (tl_ParseCertificate tls (hd (kp_Certificate pair)))))"

definition right_files :: "cert_watcher \<Rightarrow> bool" where
  "right_files w \<longleftrightarrow> cw_CrtFile w = ''/config/certs/tls.crt'' \<and> cw_KeyFile w = ''/config/certs/tls.key''"

lemma Load_cases:
  assumes "right_files w" and "certWatcher_Load tls fs w = Some (err, w')"
  shows "right_files w' \<and> (case err of
      Some _ \<Rightarrow> w' = w \<and> (\<forall>pair. \<not> loadable tls fs pair)
    | None \<Rightarrow> (\<exists>pair. cw_keyPair w' = Some pair \<and> loadable tls fs pair))"
  using assms
  by (auto simp: certWatcher_Load_def right_files_def loadable_def split: sum.splits option.splits list.splits)

lemma Load_no_panic: "tls_law tls \<Longrightarrow> certWatcher_Load tls fs w \<noteq> None"
  by (auto simp: certWatcher_Load_def tls_law_def split: sum.splits option.splits list.splits)






text \<open>Concrete values for the examples below.\<close>

definition plain_tls :: tls_lib where
  "plain_tls = \<lparr>tl_X509KeyPair = (\<lambda>crt key. if key = [] then Inl (LibError ''no key'')
       else Inr \<lparr>kp_Certificate = [crt], kp_Leaf = None\<rparr>), tl_ParseCertificate = Inr\<rparr>"

definition files :: "string \<Rightarrow> file_system" where
  "files key path = Inr (if path = ''/config/certs/tls.key'' then key else ''crt'')"


text \<open>C39: The server is live: while its context is not done it can always take a reload and a
  handshake, whatever the files hold, provided a parsed key pair has a certificate; starting it
  fails with an error exactly when no key pair can be loaded.\<close>

theorem server_live:
  assumes "tls_law tls"
  shows "(\<exists>w'. server_step tls (Serving w) (Tick fs) (Serving w')) \<and>
    (\<exists>cert. server_step tls (Serving w) (Handshake cert) (Serving w)) \<and>
    (\<exists>r. NewConventionServer tls fs = Some r \<and> (is_ok r \<longleftrightarrow> (\<exists>pair. loadable tls fs pair)))"
proof -
  obtain err w' where load: "certWatcher_Load tls fs w = Some (err, w')"
    using Load_no_panic [OF assms, of fs w] by auto
  obtain err0 w0 where load0: "certWatcher_Load tls fs new_watcher = Some (err0, w0)"
    using Load_no_panic [OF assms, of fs new_watcher] by auto
  have files: "right_files new_watcher" by (simp add: right_files_def new_watcher_def CertMountPath_def)
  have "\<exists>r. NewConventionServer tls fs = Some r \<and> (is_ok r \<longleftrightarrow> (\<exists>pair. loadable tls fs pair))"
    using Load_cases [OF files load0] load0 by (cases err0) (auto simp: NewConventionServer_def)
  with load show ?thesis by (blast intro: server_step.intros)
qed

lemma server_live_witness:
  "\<exists>r. NewConventionServer plain_tls (files []) = Some r \<and> (is_ok r \<longleftrightarrow> (\<exists>pair. loadable plain_tls (files []) pair))"
proof -
  have "tls_law plain_tls" by (auto simp: tls_law_def plain_tls_def)
  from server_live [OF this, of new_watcher "files []"] show ?thesis by blast
qed

end
