(* ===== verification/SampleServers.thy ===== *)
theory SampleServers
  imports WebhookServer ImageMetadata
begin

text \<open>
  The two small convention servers of \<open>samples\<close>: \<open>convention-server\<close>, which adds an environment
  variable to every container, and \<open>dumper-server\<close>, which prints the request and returns the
  template as it is, with a handler of its own. The locale \<open>template_convention\<close> is what the
  controller can rely on when it sends a template to a convention: it leaves the images of the
  containers alone. Parameters: the JSON codec and the YAML text the dumper prints.
\<close>

subsection \<open>The contract of a convention\<close>

locale template_convention =
  fixes convention :: convention_fn
  assumes keeps_images:
    "map c_Image (ps_InitContainers (pts_Spec (snd (convention t imgs)))) = map c_Image (ps_InitContainers (pts_Spec t))"
    "map c_Image (ps_Containers (pts_Spec (snd (convention t imgs)))) = map c_Image (ps_Containers (pts_Spec t))"
begin

lemma keeps_image_list: "image_list (snd (convention t imgs)) = image_list t"
  by (simp add: image_list_def getImagesSet_eq container_images_def keeps_images)

text \<open>What the resolver finds in a template does not change when a convention has edited it.\<close>

lemma keeps_metadata:
  "fst (ResolveImageMetadata rl rc (Some (snd (convention t imgs)))) = fst (ResolveImageMetadata rl rc (Some t)) \<and>
   fst (snd (ResolveImageMetadata rl rc (Some (snd (convention t imgs))))) = fst (snd (ResolveImageMetadata rl rc (Some t)))"
  by (simp add: ResolveImageMetadata_Some keeps_image_list Let_def)

end

text \<open>A convention that has nothing left to do on its own result.\<close>

locale settling_convention = template_convention +
  assumes settles: "snd (fst (convention t imgs)) = None \<Longrightarrow> snd (convention (snd (convention t imgs)) imgs) = snd (convention t imgs)"
begin

lemma settles_again:
  "snd (fst (convention t imgs)) = None \<Longrightarrow>
   snd (convention (snd (convention (snd (convention t imgs)) imgs)) imgs) = snd (convention t imgs)"
  by (simp add: settles)

end

subsection \<open>convention-server\<close>

fun has_env :: "string \<Rightarrow> EnvVar list \<Rightarrow> bool" where
  "has_env name [] = False"
| "has_env name (e # es) = (if ev_Name e = name then True else has_env name es)"

definition addEnvVar :: "Container \<Rightarrow> EnvVar \<Rightarrow> bool \<times> Container" where
  "addEnvVar container envvar =
     (if has_env (ev_Name envvar) (c_Env container) then (False, container)
      else (True, container\<lparr>c_Env := c_Env container @ [envvar]\<rparr>))"

definition hello_var :: EnvVar where
  "hello_var = \<lparr>ev_Name = ''CONVENTION_SERVER'', ev_Value = ''HELLO FROM CONVENTION'', ev_other = []\<rparr>"

fun add_to_all :: "bool \<Rightarrow> Container list \<Rightarrow> bool \<times> Container list" where
  "add_to_all applied [] = (applied, [])"
| "add_to_all applied (c # cs) =
     (case addEnvVar c hello_var of
        (added, c') \<Rightarrow>
          (case add_to_all (if added then True else applied) cs of (applied', cs') \<Rightarrow> (applied', c' # cs')))"

definition conventionHandler :: convention_fn where
  "conventionHandler template images =
     (case add_to_all False (ps_Containers (pts_Spec template)) of
        (applied, containers) \<Rightarrow>
          ((if applied then [''add-env-var''] else [], None),
           template\<lparr>pts_Spec := (pts_Spec template)\<lparr>ps_Containers := containers\<rparr>\<rparr>))"

lemma has_env_iff: "has_env name es \<longleftrightarrow> (\<exists>e \<in> set es. ev_Name e = name)"
  by (induction es) auto

lemma add_to_all_eq:
  "add_to_all applied cs = (applied \<or> (\<exists>c \<in> set cs. \<not> has_env (ev_Name hello_var) (c_Env c)),
     map (\<lambda>c. snd (addEnvVar c hello_var)) cs)"
proof (induction cs arbitrary: applied)
  case (Cons c cs)
  then show ?case by (simp add: addEnvVar_def)
qed simp

lemma addEnvVar_simps [simp]:
  "c_Image (snd (addEnvVar c e)) = c_Image c" "c_Name (snd (addEnvVar c e)) = c_Name c"
  "has_env (ev_Name e) (c_Env (snd (addEnvVar c e)))"
  by (auto simp: addEnvVar_def has_env_iff)

lemma addEnvVar_again: "snd (addEnvVar (snd (addEnvVar c e)) e) = snd (addEnvVar c e)"
  by (simp add: addEnvVar_def [of "snd (addEnvVar c e)"])

lemma conventionHandler_template:
  "snd (conventionHandler t imgs) = t\<lparr>pts_Spec := (pts_Spec t)
     \<lparr>ps_Containers := map (\<lambda>c. snd (addEnvVar c hello_var)) (ps_Containers (pts_Spec t))\<rparr>\<rparr>"
  by (simp add: conventionHandler_def add_to_all_eq)

interpretation hello_convention: settling_convention conventionHandler
  by unfold_locales (simp_all add: conventionHandler_template addEnvVar_again)

text \<open>The sample convention gives every container the variable: one that has it is left as it is,
  the others get it appended; the label is returned exactly when a container changed, and running
  it on its own result changes nothing and returns no label.\<close>

lemma sample_convention_correct:
  shows "case conventionHandler t imgs of
      ((labels, err), t') \<Rightarrow> err = None \<and>
        (labels = [''add-env-var'']) = (t' \<noteq> t) \<and> (labels = []) = (t' = t) \<and>
        list_all (\<lambda>c. has_env ''CONVENTION_SERVER'' (c_Env c)) (ps_Containers (pts_Spec t')) \<and>
        list_all2 (\<lambda>c c'. c' = c \<or> (\<not> has_env ''CONVENTION_SERVER'' (c_Env c) \<and> c' = c\<lparr>c_Env := c_Env c @ [hello_var]\<rparr>))
          (ps_Containers (pts_Spec t)) (ps_Containers (pts_Spec t')) \<and>
        conventionHandler t' imgs = (([], None), t')"
proof -
  let ?cs = "ps_Containers (pts_Spec t)" and ?add = "\<lambda>c. snd (addEnvVar c hello_var)"
  let ?missing = "\<exists>c \<in> set ?cs. \<not> has_env (ev_Name hello_var) (c_Env c)"
  have name: "ev_Name hello_var = ''CONVENTION_SERVER''" by (simp add: hello_var_def)
  have grow: "?add c \<noteq> c" if "\<not> has_env (ev_Name hello_var) (c_Env c)" for c
    using that by (metis addEnvVar_simps(3))
  have same: "t\<lparr>pts_Spec := (pts_Spec t)\<lparr>ps_Containers := cs\<rparr>\<rparr> = t \<longleftrightarrow> cs = ?cs" for cs
    by (cases t; cases "pts_Spec t") auto
  have changed: "map ?add ?cs = ?cs \<longleftrightarrow> \<not> ?missing"
  proof -
    have "map ?add ?cs = map id ?cs \<longleftrightarrow> (\<forall>c \<in> set ?cs. ?add c = id c)" by (rule map_eq_conv)
    moreover have "?add c = id c \<longleftrightarrow> has_env (ev_Name hello_var) (c_Env c)" for c
      using grow [of c] by (auto simp: addEnvVar_def)
    ultimately show ?thesis by simp
  qed
  have again: "conventionHandler (snd (conventionHandler t imgs)) imgs = (([], None), snd (conventionHandler t imgs))"
    by (simp add: conventionHandler_def add_to_all_eq addEnvVar_again)
  have rel: "list_all2 (\<lambda>c c'. c' = c \<or> (\<not> has_env ''CONVENTION_SERVER'' (c_Env c) \<and> c' = c\<lparr>c_Env := c_Env c @ [hello_var]\<rparr>))
      ?cs (map ?add ?cs)"
    by (auto simp: list_all2_map2 list_all2_same addEnvVar_def name)
  have all: "list_all (\<lambda>c. has_env ''CONVENTION_SERVER'' (c_Env c)) (map ?add ?cs)"
    using addEnvVar_simps(3) [of hello_var] by (simp add: list_all_iff name)
  show ?thesis
    using again rel all changed same
    by (simp add: conventionHandler_def add_to_all_eq)
qed

subsection \<open>dumper-server\<close>

text \<open>The handler with what it prints: nothing when the YAML text cannot be made.\<close>

definition dumper_conventionHandler :: "json_lib \<Rightarrow> (PodConventionContext \<Rightarrow> string result) \<Rightarrow> request_body \<Rightarrow>
    response_writer \<Rightarrow> string list \<times> response_writer" where
  "dumper_conventionHandler js to_yaml body w =
     (case decode_request js body of
        Inl err \<Rightarrow> ([], write_header 400 w)
      | Inr wc \<Rightarrow>
          let printed = (case body of None \<Rightarrow> []
                | Some _ \<Rightarrow> (case to_yaml wc of Inl err \<Rightarrow> [] | Inr d \<Rightarrow> [''---'', d]));
              w = set_header ''Content-Type'' ''application/json'' w
          in case js_Encode js (answered_context wc [''dumper''] (pcs_Template (pcc_Spec wc))) of
               Inl err \<Rightarrow> (printed, w)
             | Inr bytes \<Rightarrow> (printed, write_body bytes w))"

definition dumper_convention :: convention_fn where
  "dumper_convention template images = (([''dumper''], None), template)"

interpretation dumper: settling_convention dumper_convention
  by unfold_locales (simp_all add: dumper_convention_def)

text \<open>The dumper's own handler answers every request as the library's handler does for a
  convention that returns the template unchanged with the label \<open>dumper\<close>; what it prints besides
  is the request, once, and only when it could be decoded.\<close>

lemma dumper_handler_equiv:
  "snd (dumper_conventionHandler js to_yaml body w) = ConventionHandler js dumper_convention body w \<and>
   fst (dumper_conventionHandler js to_yaml body w) =
     (case body of Some (Inr bytes) \<Rightarrow>
        (case js_Decode js bytes of Inl _ \<Rightarrow> [] | Inr wc \<Rightarrow>
           (case to_yaml wc of Inl _ \<Rightarrow> [] | Inr d \<Rightarrow> [''---'', d])) | _ \<Rightarrow> [])"
  by (auto simp: dumper_conventionHandler_def ConventionHandler_def dumper_convention_def decode_request_def Let_def
      split: sum.split option.split)

subsection \<open>Starting a sample server\<close>

text \<open>The three \<open>main\<close> functions of the samples differ in the handler they register for \<open>/\<close>.\<close>

datatype 'h main_outcome = LogFatal string go_error | Panics | Listening string 'h cert_watcher

definition listen_addr :: "string \<Rightarrow> string" where
  "listen_addr port_env = '':'' @ (if port_env = [] then ''9000'' else port_env)"

definition serve_main :: "'h \<Rightarrow> go_error option \<Rightarrow> string \<Rightarrow> tls_lib \<Rightarrow> file_system \<Rightarrow> 'h main_outcome" where
  "serve_main handler logger_err port_env tls fs = (case logger_err of
     Some err \<Rightarrow> LogFatal ''failed to create logger'' err
   | None \<Rightarrow> (case NewConventionServer tls fs of
       None \<Rightarrow> Panics
     | Some (Inl err) \<Rightarrow> LogFatal [] err
     | Some (Inr w) \<Rightarrow> Listening (listen_addr port_env) handler w))"

definition sample_main where
  "sample_main js = serve_main (ConventionHandler js conventionHandler)"

definition dumper_main where
  "dumper_main js to_yaml = serve_main (dumper_conventionHandler js to_yaml)"

end
