(* ===== verification/Spring.thy ===== *)
theory Spring
  imports SpringProperties SampleServers
begin

text \<open>
  The Spring convention server (\<open>samples/spring-convention-server\<close>): the conventions of
  \<open>springboot.go\<close> and \<open>serviceintent.go\<close> and the loop of \<open>server.go\<close> that runs them over the
  containers of a template. A convention is one of the two implementations of the \<open>Convention\<close>
  interface; applying it may edit the template and the shared application properties and may fail.
  \<open>int32\<close> values are 32-bit words, so the conversion of a port wraps as in Go; the grace period is
  computed with the rounding of IEEE double precision (\<open>round53\<close>).
\<close>

subsection \<open>The conventions of springboot.go\<close>

type_synonym spring_state = "CorePodTemplateSpec \<times> props"
type_synonym spring_applicable = "semver_lib \<Rightarrow> CdxBOM list \<Rightarrow> bool"
type_synonym spring_apply = "semver_lib \<Rightarrow> CdxBOM list \<Rightarrow> nat \<Rightarrow> spring_state \<Rightarrow> go_error option \<times> spring_state"

record BasicConvention =
  bc_Id :: string
  bc_Applicable :: "spring_applicable option"
  bc_Apply :: spring_apply

record SpringBootServiceIntent =
  si_Id :: string
  si_LabelName :: string
  si_Dependencies :: "string list"

datatype SpringConvention = Basic BasicConvention | ServiceIntent SpringBootServiceIntent

definition container_at :: "nat \<Rightarrow> CorePodTemplateSpec \<Rightarrow> Container" where
  "container_at i t = ps_Containers (pts_Spec t) ! i"

definition set_container :: "nat \<Rightarrow> Container \<Rightarrow> CorePodTemplateSpec \<Rightarrow> CorePodTemplateSpec" where
  "set_container i c t = t\<lparr>pts_Spec := (pts_Spec t)\<lparr>ps_Containers := (ps_Containers (pts_Spec t))[i := c]\<rparr>\<rparr>"

definition applicable_boot :: spring_applicable where
  "applicable_boot sv deps = HasDependency deps [''spring-boot'']"

definition apply_boot :: spring_apply where
  "apply_boot sv deps i st = (case st of (t, p) \<Rightarrow>
     let t = setLabel ''conventions.carto.run/framework'' ''spring-boot'' t in
     (case Dependency deps ''spring-boot'' of
        None \<Rightarrow> (None, (t, p))
      | Some dep \<Rightarrow> (None, (setAnnotation ''boot.spring.io/version'' (cc_Version dep) t, p))))"

definition applicable_graceful :: spring_applicable where
  "applicable_graceful sv deps \<longleftrightarrow> HasDependencyConstraint sv deps ''spring-boot'' ''>= 2.3.0-0'' \<and>
     HasDependency deps [''spring-boot-starter-tomcat'', ''spring-boot-starter-jetty'',
       ''spring-boot-starter-reactor-netty'', ''spring-boot-starter-undertow'']"

text \<open>
  \<open>0.8 * float64(k)\<close>: the constant is \<open>3602879701896397 / 2^52\<close>; converting an integer and the
  product round to 53 significant bits, to even on a tie.
\<close>

fun bit_len :: "nat \<Rightarrow> nat" where
  "bit_len n = (if n = 0 then 0 else Suc (bit_len (n div 2)))"

declare bit_len.simps [simp del]

definition round53 :: "nat \<Rightarrow> nat" where
  "round53 p = (let s = bit_len p - 53; q = p div 2 ^ s; r = p mod 2 ^ s in
     (if 2 * r < 2 ^ s \<or> (2 * r = 2 ^ s \<and> even q) then q else q + 1) * 2 ^ s)"

definition boot_grace_seconds :: "int \<Rightarrow> int" where
  "boot_grace_seconds k = (sgn k * int (round53 (round53 (nat \<bar>k\<bar>) * 3602879701896397))) div 2 ^ 52"

definition apply_graceful :: spring_apply where
  "apply_graceful sv deps i st = (case st of (t, p) \<Rightarrow>
     let k8s = (case ps_TerminationGracePeriodSeconds (pts_Spec t) of None \<Rightarrow> 30 | Some k \<Rightarrow> k);
         t = t\<lparr>pts_Spec := (pts_Spec t)\<lparr>ps_TerminationGracePeriodSeconds := Some k8s\<rparr>\<rparr>
     in (None, (t, fmupd ''server.shutdown.grace-period'' (itoa (boot_grace_seconds k8s) @ ''s'') p)))"

definition applicable_web :: spring_applicable where
  "applicable_web sv deps \<longleftrightarrow> HasDependency deps [''spring-boot''] \<and> HasDependency deps [''spring-web'']"

definition port32 :: "int \<Rightarrow> 32 word" where
  "port32 port = word_of_int port"

definition apply_web :: spring_apply where
  "apply_web sv deps i st = (case st of (t, p) \<Rightarrow>
     (case props_Default ''server.port'' ''8080'' p of (serverPort, p) \<Rightarrow>
     (case atoi serverPort of
        Inl err \<Rightarrow> (Some err, (t, p))
      | Inr port \<Rightarrow>
          let c = container_at i t in
          (case findContainerPort (ps_Containers (pts_Spec t)) (port32 port) of
             (name, None) \<Rightarrow> (None, (set_container i (c\<lparr>c_Ports := c_Ports c @
                 [\<lparr>cp_ContainerPort = port32 port, cp_Protocol = ''TCP'', cp_other = []\<rparr>]\<rparr>) t, p))
           | (name, Some cp) \<Rightarrow>
               if name \<noteq> c_Name c then (Some (ErrPortInUse serverPort name), (t, p)) else (None, (t, p))))))"

definition applicable_actuator :: spring_applicable where
  "applicable_actuator sv deps = HasDependency deps [''spring-boot-actuator'']"

definition management_scheme :: "props \<Rightarrow> string" where
  "management_scheme p = (if prop_get p ''management.server.ssl.enabled'' = ''true'' then ''HTTPS'' else ''HTTP'')"

definition apply_actuator :: spring_apply where
  "apply_actuator sv deps i st = (case st of (t, p) \<Rightarrow>
     (case props_Default ''management.server.port'' (prop_get p ''server.port'') p of (managementPort, p) \<Rightarrow>
     (case props_Default ''management.endpoints.web.base-path'' ''/actuator'' p of (managementBasePath, p) \<Rightarrow>
        (None, (setAnnotation ''boot.spring.io/actuator''
           (to_lower (management_scheme p) @ ''://:'' @ managementPort @ managementBasePath) t, p)))))"

definition zero_handler :: ProbeHandler where
  "zero_handler = \<lparr>ph_HTTPGet = None, ph_other = None\<rparr>"

definition zero_probe :: Probe where
  "zero_probe = \<lparr>pr_Handler = zero_handler, pr_InitialDelaySeconds = 0, pr_PeriodSeconds = 0,
     pr_FailureThreshold = 0, pr_other = []\<rparr>"

definition startup_probe :: Probe where
  "startup_probe = zero_probe\<lparr>pr_InitialDelaySeconds := 1, pr_PeriodSeconds := 1, pr_FailureThreshold := 120\<rparr>"

definition http_get :: "string \<Rightarrow> int \<Rightarrow> string \<Rightarrow> ProbeHandler" where
  "http_get path port scheme = \<lparr>ph_HTTPGet = Some \<lparr>hg_Path = path, hg_Port = IntVal (port32 port),
     hg_Scheme = scheme, hg_other = []\<rparr>, ph_other = None\<rparr>"

text \<open>\<open>if probe == nil { probe = initial }; if probe.ProbeHandler is zero { probe.ProbeHandler = h }\<close>\<close>

definition define_probe :: "Probe \<Rightarrow> ProbeHandler \<Rightarrow> Probe option \<Rightarrow> Probe" where
  "define_probe initial h probe =
     (let pr = (case probe of None \<Rightarrow> initial | Some pr \<Rightarrow> pr)
      in if pr_Handler pr = zero_handler then pr\<lparr>pr_Handler := h\<rparr> else pr)"

definition probe_endpoints :: "semver_lib \<Rightarrow> CdxBOM list \<Rightarrow> string \<times> string" where
  "probe_endpoints sv deps =
     (if HasDependencyConstraint sv deps ''spring-boot-actuator'' ''>= 2.3.0-0''
      then (''/health/liveness'', ''/health/readiness'') else (''/info'', ''/info''))"

definition define_probes :: "string \<Rightarrow> int \<Rightarrow> string \<Rightarrow> string \<times> string \<Rightarrow> Container \<Rightarrow> Container" where
  "define_probes basePath port scheme endpoints c =
     (let liveness = define_probe zero_probe (http_get (basePath @ fst endpoints) port scheme) (c_LivenessProbe c);
          readiness = define_probe zero_probe (http_get (basePath @ snd endpoints) port scheme) (c_ReadinessProbe c);
          startup = define_probe startup_probe (pr_Handler liveness) (c_StartupProbe c)
      in c\<lparr>c_LivenessProbe := Some liveness, c_ReadinessProbe := Some readiness, c_StartupProbe := Some startup\<rparr>)"

definition apply_probes :: spring_apply where
  "apply_probes sv deps i st = (case st of (t, p) \<Rightarrow>
     (case props_Default ''management.health.probes.enabled'' ''true'' p of (v, p) \<Rightarrow>
        if v \<noteq> ''true'' then (None, (t, p))
        else (case atoi (prop_get p ''management.server.port'') of
            Inl err \<Rightarrow> (Some err, (t, p))
          | Inr managementPort \<Rightarrow>
              (None, (set_container i (define_probes (prop_get p ''management.endpoints.web.base-path'')
                 managementPort (management_scheme p) (probe_endpoints sv deps) (container_at i t)) t, p)))))"

subsection \<open>Service intents\<close>

fun apply_service_intent :: "string \<Rightarrow> CdxBOM list \<Rightarrow> nat \<Rightarrow> string list \<Rightarrow> CorePodTemplateSpec \<Rightarrow> CorePodTemplateSpec" where
  "apply_service_intent label deps i [] t = t"
| "apply_service_intent label deps i (d # ds) t =
     (case Dependency deps d of
        None \<Rightarrow> apply_service_intent label deps i ds t
      | Some dbom \<Rightarrow> setAnnotation label (cc_Name dbom @ ''/'' @ cc_Version dbom)
          (setLabel label (c_Name (container_at i t)) t))"

subsection \<open>The interface\<close>

fun GetId :: "SpringConvention \<Rightarrow> string" where
  "GetId (Basic o1) = bc_Id o1"
| "GetId (ServiceIntent o1) = si_Id o1"

fun IsApplicable :: "SpringConvention \<Rightarrow> spring_applicable" where
  "IsApplicable (Basic o1) sv deps = (case bc_Applicable o1 of None \<Rightarrow> True | Some f \<Rightarrow> f sv deps)"
| "IsApplicable (ServiceIntent o1) sv deps = HasDependency deps (si_Dependencies o1)"

fun ApplyConvention :: "SpringConvention \<Rightarrow> spring_apply" where
  "ApplyConvention (Basic o1) sv deps i st = bc_Apply o1 sv deps i st"
| "ApplyConvention (ServiceIntent o1) sv deps i st =
     (None, (apply_service_intent (si_LabelName o1) deps i (si_Dependencies o1) (fst st), snd st))"

definition service_intent :: "string \<Rightarrow> string list \<Rightarrow> SpringConvention" where
  "service_intent name deps = ServiceIntent \<lparr>si_Id = ''service-intent-'' @ name,
     si_LabelName = ''services.conventions.carto.run/'' @ name, si_Dependencies = deps\<rparr>"

definition SpringBootConventions :: "SpringConvention list" where
  "SpringBootConventions =
    [Basic \<lparr>bc_Id = ''spring-boot'', bc_Applicable = Some applicable_boot, bc_Apply = apply_boot\<rparr>,
     Basic \<lparr>bc_Id = ''spring-boot-graceful-shutdown'', bc_Applicable = Some applicable_graceful, bc_Apply = apply_graceful\<rparr>,
     Basic \<lparr>bc_Id = ''spring-boot-web'', bc_Applicable = Some applicable_web, bc_Apply = apply_web\<rparr>,
     Basic \<lparr>bc_Id = ''spring-boot-actuator'', bc_Applicable = Some applicable_actuator, bc_Apply = apply_actuator\<rparr>,
     Basic \<lparr>bc_Id = ''spring-boot-actuator-probes'', bc_Applicable = Some applicable_actuator, bc_Apply = apply_probes\<rparr>,
     service_intent ''mysql'' [''mysql-connector-java'', ''r2dbc-mysql''],
     service_intent ''postgres'' [''postgresql'', ''r2dbc-postgresql''],
     service_intent ''mongodb'' [''mongodb-driver-core''],
     service_intent ''rabbitmq'' [''amqp-client''],
     service_intent ''redis'' [''jedis''],
     service_intent ''kafka'' [''kafka-clients''],
     service_intent ''kafka-streams'' [''kafka-streams'']]"

subsection \<open>The server's convention\<close>

fun run_conventions :: "semver_lib \<Rightarrow> CdxBOM list \<Rightarrow> nat \<Rightarrow> SpringConvention list \<Rightarrow> string list \<Rightarrow> spring_state \<Rightarrow>
    go_error option \<times> string list \<times> spring_state" where
  "run_conventions sv deps i [] applied st = (None, applied, st)"
| "run_conventions sv deps i (o1 # os) applied st =
     (if \<not> IsApplicable o1 sv deps then run_conventions sv deps i os applied st
      else (case ApplyConvention o1 sv deps i st of
          (Some err, st) \<Rightarrow> (Some err, applied @ [GetId o1], st)
        | (None, st) \<Rightarrow> run_conventions sv deps i os (applied @ [GetId o1]) st))"

text \<open>
  The context a convention is run in holds the dependencies and the properties of its container under
  keys of their own types. The properties are a Go map: what is stashed is the reference, and the
  conventions change the map it stands for.
\<close>

datatype context_key = dependenciesBOMKey | springApplicationPropertiesKey

datatype 'r context_value = BOMValue "CdxBOM list" | PropertiesValue 'r

type_synonym 'r go_context = "(context_key \<times> 'r context_value) list"

definition with_value :: "'r go_context \<Rightarrow> context_key \<Rightarrow> 'r context_value \<Rightarrow> 'r go_context" where
  "with_value ctx k v = (k, v) # ctx"

definition StashDependenciesBOM :: "'r go_context \<Rightarrow> CdxBOM list \<Rightarrow> 'r go_context" where
  "StashDependenciesBOM ctx deps = with_value ctx dependenciesBOMKey (BOMValue deps)"

definition GetDependenciesBOM :: "'r go_context \<Rightarrow> CdxBOM list option" where
  "GetDependenciesBOM ctx = (case map_of ctx dependenciesBOMKey of
     Some (BOMValue deps) \<Rightarrow> Some deps | _ \<Rightarrow> None)"

definition StashSpringApplicationProperties :: "'r go_context \<Rightarrow> 'r \<Rightarrow> 'r go_context" where
  "StashSpringApplicationProperties ctx ref = with_value ctx springApplicationPropertiesKey (PropertiesValue ref)"

text \<open>Without a stashed map a fresh empty one is returned, here \<open>fresh\<close>.\<close>

definition GetSpringApplicationProperties :: "'r \<Rightarrow> 'r go_context \<Rightarrow> 'r" where
  "GetSpringApplicationProperties fresh ctx = (case map_of ctx springApplicationPropertiesKey of
     Some (PropertiesValue ref) \<Rightarrow> ref | _ \<Rightarrow> fresh)"

definition container_context :: "CdxBOM list \<Rightarrow> 'r \<Rightarrow> 'r go_context" where
  "container_context deps ref = StashDependenciesBOM (StashSpringApplicationProperties [] ref) deps"

text \<open>So every convention is given the dependencies and the properties of its container, which the
  model passes as arguments.\<close>

lemma container_context_values:
  "GetDependenciesBOM (container_context deps ref) = Some deps"
  "GetSpringApplicationProperties fresh (container_context deps ref) = ref"
  by (simp_all add: container_context_def StashDependenciesBOM_def StashSpringApplicationProperties_def with_value_def
      GetDependenciesBOM_def GetSpringApplicationProperties_def)

definition image_map :: "ImageConfig list \<Rightarrow> (string, ImageConfig) fmap" where
  "image_map images = fold (\<lambda>config. fmupd (ic_Image config) config) images fmempty"

definition spring_container :: "semver_lib \<Rightarrow> cdx_lib \<Rightarrow> (string, ImageConfig) fmap \<Rightarrow> nat \<Rightarrow> string list \<Rightarrow>
    CorePodTemplateSpec \<Rightarrow> go_error option \<times> string list \<times> CorePodTemplateSpec" where
  "spring_container sv cdx imageMap i applied t =
     (case fmlookup imageMap (c_Image (container_at i t)) of
        None \<Rightarrow> (None, applied, t)
      | Some img \<Rightarrow>
          (case FromContainer (container_at i t) fmempty of (p, c) \<Rightarrow>
          (case run_conventions sv (NewDependenciesBOM cdx (ic_BOMs img)) i SpringBootConventions applied
                  (set_container i c t, p) of
             (Some err, applied, (t, p)) \<Rightarrow> (Some err, applied, t)
           | (None, applied, (t, p)) \<Rightarrow> (None, applied, set_container i (ToContainer p (container_at i t)) t))))"

fun spring_containers :: "semver_lib \<Rightarrow> cdx_lib \<Rightarrow> (string, ImageConfig) fmap \<Rightarrow> nat list \<Rightarrow> string list \<Rightarrow>
    CorePodTemplateSpec \<Rightarrow> go_error option \<times> string list \<times> CorePodTemplateSpec" where
  "spring_containers sv cdx imageMap [] applied t = (None, applied, t)"
| "spring_containers sv cdx imageMap (i # is) applied t =
     (case spring_container sv cdx imageMap i applied t of
        (Some err, applied, t) \<Rightarrow> (Some err, applied, t)
      | (None, applied, t) \<Rightarrow> spring_containers sv cdx imageMap is applied t)"

definition addSpringBootConventions :: "semver_lib \<Rightarrow> cdx_lib \<Rightarrow> convention_fn" where
  "addSpringBootConventions sv cdx template images =
     (case spring_containers sv cdx (image_map images) [0..<length (ps_Containers (pts_Spec template))] [] template of
        (Some err, applied, t) \<Rightarrow> (([], Some err), t)
      | (None, applied, t) \<Rightarrow> ((applied, None), t))"

definition spring_main where
  "spring_main js sv cdx = serve_main (ConventionHandler js (addSpringBootConventions sv cdx))"

subsection \<open>The frame of a convention\<close>

text \<open>An edit of container \<open>i\<close> that keeps its name and image and everything in the other containers.\<close>

definition edits :: "nat \<Rightarrow> CorePodTemplateSpec \<Rightarrow> CorePodTemplateSpec \<Rightarrow> bool" where
  "edits i t t' \<longleftrightarrow> ps_InitContainers (pts_Spec t') = ps_InitContainers (pts_Spec t) \<and>
     (\<exists>c. ps_Containers (pts_Spec t') = (ps_Containers (pts_Spec t))[i := c] \<and>
        c_Name c = c_Name (container_at i t) \<and> c_Image c = c_Image (container_at i t))"

lemma edits_refl [simp]: "edits i t t"
  by (auto simp: edits_def container_at_def intro!: exI [of _ "ps_Containers (pts_Spec t) ! i"])

lemma edits_same_containers:
  "ps_InitContainers (pts_Spec t') = ps_InitContainers (pts_Spec t) \<Longrightarrow>
   ps_Containers (pts_Spec t') = ps_Containers (pts_Spec t) \<Longrightarrow> edits i t t'"
  by (auto simp: edits_def container_at_def intro!: exI [of _ "ps_Containers (pts_Spec t) ! i"])

lemma edits_set_container:
  "c_Name c = c_Name (container_at i t) \<Longrightarrow> c_Image c = c_Image (container_at i t) \<Longrightarrow> edits i t (set_container i c t)"
  by (auto simp: edits_def set_container_def)

lemma edits_length: "edits i t t' \<Longrightarrow> length (ps_Containers (pts_Spec t')) = length (ps_Containers (pts_Spec t))"
  by (auto simp: edits_def)

lemma edits_other: "edits i t t' \<Longrightarrow> j \<noteq> i \<Longrightarrow> container_at j t' = container_at j t"
  by (auto simp: edits_def container_at_def)

lemma edits_image: "edits i t t' \<Longrightarrow> i < length (ps_Containers (pts_Spec t)) \<Longrightarrow> c_Image (container_at j t') = c_Image (container_at j t)"
  by (cases "i = j") (auto simp: edits_def container_at_def)

lemma edits_name: "edits i t t' \<Longrightarrow> i < length (ps_Containers (pts_Spec t)) \<Longrightarrow> c_Name (container_at j t') = c_Name (container_at j t)"
  by (cases "i = j") (auto simp: edits_def container_at_def)

lemma edits_trans:
  "edits i t t' \<Longrightarrow> edits i t' t'' \<Longrightarrow> i < length (ps_Containers (pts_Spec t)) \<Longrightarrow> edits i t t''"
  using edits_image [of i t t' i] edits_name [of i t t' i] by (auto simp: edits_def)

locale spring_method =
  fixes ap :: spring_apply
  assumes method_edits: "edits i t (fst (snd (ap sv deps i (t, p))))"

lemma setLabel_edits [simp]: "edits i t (setLabel k v t)" "edits i t (setAnnotation k v t)"
  by (simp_all add: edits_same_containers setLabel_def setAnnotation_def)

lemma label_spec [simp]: "pts_Spec (setLabel k v t) = pts_Spec t" "pts_Spec (setAnnotation k v t) = pts_Spec t"
  by (simp_all add: setLabel_def setAnnotation_def)

interpretation boot: spring_method apply_boot
  by unfold_locales (auto simp: apply_boot_def Let_def edits_same_containers split: option.split)

interpretation graceful: spring_method apply_graceful
  by unfold_locales (simp add: apply_graceful_def Let_def edits_same_containers)

interpretation web: spring_method apply_web
  by unfold_locales
    (auto simp: apply_web_def Let_def intro: edits_set_container split: prod.split sum.split option.split)

interpretation actuator: spring_method apply_actuator
  by unfold_locales (simp add: apply_actuator_def split: prod.split)

interpretation probes: spring_method apply_probes
  by unfold_locales
    (auto simp: apply_probes_def define_probes_def Let_def intro: edits_set_container split: prod.split sum.split)

lemma apply_service_intent_spec: "pts_Spec (apply_service_intent label deps i ds t) = pts_Spec t"
  by (induction label deps i ds t rule: apply_service_intent.induct) (auto split: option.split)

interpretation service: spring_method "ApplyConvention (ServiceIntent o1)"
  by unfold_locales (simp add: edits_same_containers apply_service_intent_spec)

lemma Basic_method: "spring_method ap \<Longrightarrow> spring_method (ApplyConvention (Basic \<lparr>bc_Id = n, bc_Applicable = a, bc_Apply = ap\<rparr>))"
  by (simp add: spring_method_def)

lemma SpringBootConventions_methods: "o1 \<in> set SpringBootConventions \<Longrightarrow> spring_method (ApplyConvention o1)"
  by (auto simp: SpringBootConventions_def service_intent_def
      intro: Basic_method service.spring_method_axioms boot.spring_method_axioms graceful.spring_method_axioms
        web.spring_method_axioms actuator.spring_method_axioms probes.spring_method_axioms)

lemma run_conventions_edits:
  "\<forall>o1 \<in> set os. spring_method (ApplyConvention o1) \<Longrightarrow> i < length (ps_Containers (pts_Spec t)) \<Longrightarrow>
   run_conventions sv deps i os applied (t, p) = (err, applied', (t', p')) \<Longrightarrow> edits i t t'"
proof (induction os arbitrary: applied t p)
  case (Cons o1 os)
  obtain e t1 p1 where ap: "ApplyConvention o1 sv deps i (t, p) = (e, (t1, p1))"
    by (cases "ApplyConvention o1 sv deps i (t, p)") auto
  have "edits i t t1"
    using spring_method.method_edits [of "ApplyConvention o1" i t sv deps p] Cons.prems(1) ap by simp
  with Cons ap show ?case
    by (auto split: if_splits option.splits intro: edits_trans simp: edits_length)
qed simp

lemma run_conventions_labels:
  "run_conventions sv deps i os applied st = (None, applied', st') \<Longrightarrow>
   applied' = applied @ map GetId (filter (\<lambda>o1. IsApplicable o1 sv deps) os)"
proof (induction os arbitrary: applied st)
  case (Cons o1 os)
  then show ?case
    by (cases "ApplyConvention o1 sv deps i st")
      (auto dest!: Cons.IH split: if_splits option.splits)
qed simp

lemma FromContainer_simps [simp]:
  "c_Name (snd (FromContainer c p)) = c_Name c" "c_Image (snd (FromContainer c p)) = c_Image c"
  by (auto simp: FromContainer_def set_env_value_def split: option.split prod.split)

lemma ToContainer_simps [simp]:
  "c_Name (ToContainer p c) = c_Name c" "c_Image (ToContainer p c) = c_Image c"
  by (auto simp: ToContainer_def set_env_value_def Let_def split: option.split)

lemma spring_container_edits:
  assumes i: "i < length (ps_Containers (pts_Spec t))"
    and run: "spring_container sv cdx m i applied t = (err, applied', t')"
  shows "edits i t t'"
proof (cases "fmlookup m (c_Image (container_at i t))")
  case (Some img)
  obtain p c where from_c: "FromContainer (container_at i t) fmempty = (p, c)" by fastforce
  let ?t = "set_container i c t"
  have t: "edits i t ?t"
    using FromContainer_simps [of "container_at i t" fmempty] by (intro edits_set_container) (simp_all add: from_c)
  obtain e ap t1 p1 where run1: "run_conventions sv (NewDependenciesBOM cdx (ic_BOMs img)) i SpringBootConventions
      applied (?t, p) = (e, ap, (t1, p1))"
    by (metis prod.collapse)
  have "edits i ?t t1"
    using run_conventions_edits [OF _ _ run1] SpringBootConventions_methods i t by (auto simp: edits_length)
  with t i have t1: "edits i t t1" by (auto intro: edits_trans)
  have "t' = t1 \<or> t' = set_container i (ToContainer p1 (container_at i t1)) t1"
    using run Some by (auto simp: spring_container_def from_c run1 split: option.splits)
  moreover have "edits i t1 (set_container i (ToContainer p1 (container_at i t1)) t1)"
    by (rule edits_set_container) simp_all
  ultimately show ?thesis using t1 i edits_trans by blast
qed (use run in \<open>simp add: spring_container_def\<close>)

subsection \<open>The whole template\<close>

text \<open>The labels the conventions give a container, from the metadata of its image.\<close>

definition container_labels :: "semver_lib \<Rightarrow> cdx_lib \<Rightarrow> (string, ImageConfig) fmap \<Rightarrow> string \<Rightarrow> string list" where
  "container_labels sv cdx m img = (case fmlookup m img of
     None \<Rightarrow> []
   | Some config \<Rightarrow> map GetId (filter (\<lambda>o1. IsApplicable o1 sv (NewDependenciesBOM cdx (ic_BOMs config))) SpringBootConventions))"

lemma spring_container_labels:
  "spring_container sv cdx m i applied t = (None, applied', t') \<Longrightarrow>
   applied' = applied @ container_labels sv cdx m (c_Image (container_at i t))"
  by (auto simp: spring_container_def container_labels_def split: option.splits prod.splits dest!: run_conventions_labels)

definition same_shape :: "CorePodTemplateSpec \<Rightarrow> CorePodTemplateSpec \<Rightarrow> bool" where
  "same_shape t t' \<longleftrightarrow> ps_InitContainers (pts_Spec t') = ps_InitContainers (pts_Spec t) \<and>
     map c_Image (ps_Containers (pts_Spec t')) = map c_Image (ps_Containers (pts_Spec t)) \<and>
     map c_Name (ps_Containers (pts_Spec t')) = map c_Name (ps_Containers (pts_Spec t))"

lemma edits_same_shape: "edits i t t' \<Longrightarrow> i < length (ps_Containers (pts_Spec t)) \<Longrightarrow> same_shape t t'"
  by (auto simp: edits_def same_shape_def container_at_def map_list_update_id)

lemma same_shape_image:
  "same_shape t t' \<Longrightarrow> i < length (ps_Containers (pts_Spec t)) \<Longrightarrow> c_Image (container_at i t') = c_Image (container_at i t)"
  unfolding same_shape_def container_at_def by (metis length_map nth_map)

lemma same_shape_trans: "same_shape t t' \<Longrightarrow> same_shape t' t'' \<Longrightarrow> same_shape t t''"
  by (simp add: same_shape_def)

lemma same_shape_length: "same_shape t t' \<Longrightarrow> length (ps_Containers (pts_Spec t')) = length (ps_Containers (pts_Spec t))"
  unfolding same_shape_def by (metis length_map)

lemma spring_containers_frame:
  "\<forall>i \<in> set is. i < length (ps_Containers (pts_Spec t)) \<Longrightarrow>
   spring_containers sv cdx m is applied t = (err, applied', t') \<Longrightarrow>
   same_shape t t' \<and>
   (\<forall>j < length (ps_Containers (pts_Spec t)). fmlookup m (c_Image (container_at j t)) = None \<longrightarrow> container_at j t' = container_at j t) \<and>
   (err = None \<longrightarrow> applied' = applied @ concat (map (\<lambda>i. container_labels sv cdx m (c_Image (container_at i t))) is))"
proof (induction "is" arbitrary: applied t)
  case Nil
  then show ?case by (simp add: same_shape_def)
next
  case (Cons i "is")
  obtain e ap t1 where one: "spring_container sv cdx m i applied t = (e, ap, t1)"
    by (metis prod.collapse)
  have ed: "edits i t t1" and i: "i < length (ps_Containers (pts_Spec t))"
    using spring_container_edits [OF _ one] Cons.prems(1) by auto
  have shape: "same_shape t t1" by (rule edits_same_shape [OF ed i])
  have keep: "container_at j t1 = container_at j t" if "fmlookup m (c_Image (container_at j t)) = None" for j
    using that one edits_other [OF ed, of j] by (cases "i = j") (auto simp: spring_container_def)
  have labels: "e = None \<Longrightarrow> ap = applied @ container_labels sv cdx m (c_Image (container_at i t))"
    using one spring_container_labels by blast
  show ?case
  proof (cases e)
    case (Some x)
    with Cons.prems(2) one shape keep show ?thesis by auto
  next
    case None
    with Cons.prems(2) one have rest: "spring_containers sv cdx m is ap t1 = (err, applied', t')" by simp
    have bound: "\<forall>i \<in> set is. i < length (ps_Containers (pts_Spec t1))"
      using Cons.prems(1) same_shape_length [OF shape] by simp
    have images: "\<forall>i \<in> set is. c_Image (container_at i t1) = c_Image (container_at i t)"
      using Cons.prems(1) same_shape_image [OF shape] by simp
    then have "map (\<lambda>i. container_labels sv cdx m (c_Image (container_at i t1))) is =
        map (\<lambda>i. container_labels sv cdx m (c_Image (container_at i t))) is" by simp
    with Cons.IH [OF bound rest] shape keep labels [OF None] same_shape_length [OF shape] show ?thesis
      by (auto intro: same_shape_trans)
  qed
qed

lemma map_upt_containers:
  "map (\<lambda>i. f (c_Image (container_at i t))) [0..<length (ps_Containers (pts_Spec t))] =
   map (\<lambda>c. f (c_Image c)) (ps_Containers (pts_Spec t))"
  by (rule nth_equalityI) (simp_all add: container_at_def)

lemma addSpringBootConventions_frame:
  "case addSpringBootConventions sv cdx t imgs of ((labels, err), t') \<Rightarrow> same_shape t t' \<and>
     (\<forall>j < length (ps_Containers (pts_Spec t)).
        fmlookup (image_map imgs) (c_Image (ps_Containers (pts_Spec t) ! j)) = None \<longrightarrow>
        ps_Containers (pts_Spec t') ! j = ps_Containers (pts_Spec t) ! j) \<and>
     labels = (if err = None
       then concat (map (\<lambda>c. container_labels sv cdx (image_map imgs) (c_Image c)) (ps_Containers (pts_Spec t))) else [])"
proof -
  let ?is = "[0..<length (ps_Containers (pts_Spec t))]"
  obtain err applied t' where run: "spring_containers sv cdx (image_map imgs) ?is [] t = (err, applied, t')"
    by (metis prod.collapse)
  have bound: "\<forall>i \<in> set ?is. i < length (ps_Containers (pts_Spec t))" by simp
  from spring_containers_frame [OF bound run] show ?thesis
    by (cases err) (simp_all add: addSpringBootConventions_def run map_upt_containers, simp_all add: container_at_def)
qed

interpretation spring_convention: template_convention "addSpringBootConventions sv cdx"
proof
  fix t imgs
  show "map c_Image (ps_InitContainers (pts_Spec (snd (addSpringBootConventions sv cdx t imgs)))) =
      map c_Image (ps_InitContainers (pts_Spec t))"
    and "map c_Image (ps_Containers (pts_Spec (snd (addSpringBootConventions sv cdx t imgs)))) =
      map c_Image (ps_Containers (pts_Spec t))"
    using addSpringBootConventions_frame [where sv = sv and cdx = cdx and t = t and imgs = imgs] by (auto simp: same_shape_def split: prod.splits)
qed

text \<open>C35: The Spring server keeps the number, names and images of all containers and the init
  containers, does not touch a container without metadata for its image, and on success returns the
  ids of the conventions applicable to each container's dependencies, in order; after an error it
  returns no label.\<close>

theorem spring_outcome:
  "case addSpringBootConventions sv cdx t imgs of ((labels, err), t') \<Rightarrow>
     ps_InitContainers (pts_Spec t') = ps_InitContainers (pts_Spec t) \<and>
     map c_Image (ps_Containers (pts_Spec t')) = map c_Image (ps_Containers (pts_Spec t)) \<and>
     map c_Name (ps_Containers (pts_Spec t')) = map c_Name (ps_Containers (pts_Spec t)) \<and>
     (\<forall>j < length (ps_Containers (pts_Spec t)).
        fmlookup (image_map imgs) (c_Image (ps_Containers (pts_Spec t) ! j)) = None \<longrightarrow>
        ps_Containers (pts_Spec t') ! j = ps_Containers (pts_Spec t) ! j) \<and>
     labels = (if err = None
       then concat (map (\<lambda>c. container_labels sv cdx (image_map imgs) (c_Image c)) (ps_Containers (pts_Spec t))) else [])"
  using addSpringBootConventions_frame [where sv = sv and cdx = cdx and t = t and imgs = imgs] by (auto simp: same_shape_def split: prod.splits)

definition sample_cdx :: cdx_lib where
  "sample_cdx raw = Inr \<lparr>cdx_Components = Some [\<lparr>cc_Name = raw, cc_Version = ''2.7.0'', cc_other = []\<rparr>], cdx_other = []\<rparr>"

definition sample_images :: "ImageConfig list" where
  "sample_images = [\<lparr>ic_Image = ''img'', ic_BOMs = [\<lparr>bom_Name = ''b'', bom_Raw = ''spring-boot''\<rparr>],
     ic_Config = \<lparr>cf_Labels = None, cf_other = []\<rparr>\<rparr>]"

definition sample_semver :: semver_lib where
  "sample_semver = \<lparr>sv_NewVersion = Inr, sv_NewConstraint = Inr, sv_Check = (\<lambda>c v. True)\<rparr>"

lemma spring_outcome_witness:
  "fst (addSpringBootConventions sample_semver sample_cdx (plain_template ''img'') sample_images) = ([''spring-boot''], None) \<and>
   map c_Image (ps_Containers (pts_Spec (snd (addSpringBootConventions sample_semver sample_cdx (plain_template ''img'') sample_images)))) = [''img'']"
proof
  show "fst (addSpringBootConventions sample_semver sample_cdx (plain_template ''img'') sample_images) = ([''spring-boot''], None)"
    by code_simp
  show "map c_Image (ps_Containers (pts_Spec (snd (addSpringBootConventions sample_semver sample_cdx (plain_template ''img'') sample_images)))) = [''img'']"
    using spring_outcome [where sv = sample_semver and cdx = sample_cdx and t = "plain_template ''img''" and imgs = sample_images]
    by (simp add: plain_template_def plain_container_def split: prod.splits)
qed

subsection \<open>The grace period\<close>

lemma bit_len_bounds: "0 < p \<Longrightarrow> 2 ^ (bit_len p - 1) \<le> p \<and> p < 2 ^ bit_len p \<and> 0 < bit_len p"
proof (induction p rule: bit_len.induct)
  case (1 n)
  show ?case
  proof (cases "n div 2 = 0")
    case True
    with 1(2) have "n = 1" by auto
    then show ?thesis by (simp add: bit_len.simps [of "Suc 0"] bit_len.simps [of 0])
  next
    case False
    then have "2 ^ (bit_len (n div 2) - 1) \<le> n div 2 \<and> n div 2 < 2 ^ bit_len (n div 2) \<and> 0 < bit_len (n div 2)"
      using 1 by auto
    moreover from this obtain b where "bit_len (n div 2) = Suc b" by (cases "bit_len (n div 2)") auto
    ultimately show ?thesis using 1(2) by (simp add: bit_len.simps [of n]) linarith
  qed
qed

lemma bit_len_le: "p < 2 ^ b \<Longrightarrow> bit_len p \<le> b"
proof (cases "p = 0")
  case False
  assume "p < 2 ^ b"
  with bit_len_bounds [of p] False have "(2 :: nat) ^ (bit_len p - 1) < 2 ^ b" by (meson le_less_trans neq0_conv)
  then have "bit_len p - 1 < b" by simp
  then show ?thesis by simp
qed (simp add: bit_len.simps [of 0])

lemma round53_small: "p < 2 ^ 53 \<Longrightarrow> round53 p = p"
  using bit_len_le [of p 53] by (simp add: round53_def Let_def)

lemma round53_lower: "2 ^ (bit_len p - 53) dvd m \<Longrightarrow> m \<le> p \<Longrightarrow> m \<le> round53 p"
proof -
  assume dvd: "2 ^ (bit_len p - 53) dvd m" and le: "m \<le> p"
  let ?s = "(2 :: nat) ^ (bit_len p - 53)"
  from dvd have "m = m div ?s * ?s" by simp
  also have "\<dots> \<le> p div ?s * ?s" using le by (simp add: div_le_mono)
  also have "\<dots> \<le> round53 p" by (simp add: round53_def Let_def)
  finally show ?thesis .
qed

lemma round53_upper: "2 * round53 p \<le> 2 * p + 2 ^ (bit_len p - 53)"
proof -
  let ?s = "(2 :: nat) ^ (bit_len p - 53)"
  have p: "p = p div ?s * ?s + p mod ?s" by (rule div_mult_mod_eq [symmetric])
  have "p mod ?s < ?s" by simp
  show ?thesis
  proof (cases "2 * (p mod ?s) < ?s \<or> 2 * (p mod ?s) = ?s \<and> even (p div ?s)")
    case True
    then have "round53 p = p div ?s * ?s" by (simp add: round53_def Let_def)
    with p show ?thesis by linarith
  next
    case False
    then have "round53 p = p div ?s * ?s + ?s" by (simp add: round53_def Let_def)
    with False p show ?thesis by linarith
  qed
qed

lemma boot_grace_nat:
  assumes k: "(k :: nat) < 2 ^ 50"
  shows "round53 (k * 3602879701896397) div 2 ^ 52 = 4 * k div 5"
proof -
  let ?p = "k * 3602879701896397" and ?n = "4 * k div 5"
  have five: "5 * ?p = 4 * k * 2 ^ 52 + k" by simp
  have n: "5 * ?n \<le> 4 * k" "4 * k < 5 * (?n + 1)" by auto
  have "?p < 2 ^ 50 * 2 ^ 52" using k by simp
  then have len: "bit_len ?p \<le> 102" by (intro bit_len_le) simp
  have low: "?n * 2 ^ 52 \<le> ?p"
  proof -
    have "5 * (?n * 2 ^ 52) \<le> 4 * k * 2 ^ 52" using n(1) by simp
    with five show ?thesis by linarith
  qed
  have "(2 :: nat) ^ (bit_len ?p - 53) dvd 2 ^ 52" using len by (intro le_imp_power_dvd) simp
  then have lower: "?n * 2 ^ 52 \<le> round53 ?p"
    using low by (intro round53_lower) (auto intro: dvd_mult)
  have "(2 :: nat) ^ (bit_len ?p - 53) \<le> 2 ^ 49" using len by (intro power_increasing) simp_all
  with round53_upper [of ?p] have "2 * round53 ?p \<le> 2 * ?p + 2 ^ 49" by linarith
  moreover have "5 * ?p + 5 * 2 ^ 48 < 5 * ((?n + 1) * 2 ^ 52)"
  proof -
    have "4 * k + 1 \<le> 5 * (?n + 1)" using n(2) by simp
    then have "(4 * k + 1) * 2 ^ 52 \<le> 5 * (?n + 1) * 2 ^ 52" by simp
    then have "4 * k * 2 ^ 52 + 2 ^ 52 \<le> 5 * ((?n + 1) * 2 ^ 52)" by (simp add: algebra_simps)
    with five k show ?thesis by simp
  qed
  ultimately have upper: "round53 ?p < (?n + 1) * 2 ^ 52" by simp
  show ?thesis
    using lower upper by (intro div_nat_eqI) (simp_all add: mult.commute)
qed

text \<open>C37: The share of the grace period given to the application, computed in double precision, is
  exactly four fifths rounded down for every grace period below \<open>2^50\<close> seconds: neither the constant
  \<open>0.8\<close>, which is not representable, nor the rounding of the product shows.\<close>

theorem grace_period_exact:
  assumes "0 \<le> k" and "k < 2 ^ 50"
  shows "boot_grace_seconds k = 4 * k div 5"
proof -
  have k: "nat k < 2 ^ 50" using assms by (simp add: nat_less_iff)
  then have "round53 (nat k) = nat k" by (intro round53_small) simp
  moreover have "sgn k * int x = (if k = 0 then 0 else int x)" for x using assms(1) by (simp add: sgn_if)
  moreover have "int (round53 (nat k * 3602879701896397)) div 2 ^ 52 = 4 * k div 5"
    using arg_cong [OF boot_grace_nat [OF k], of int] assms(1) by (simp add: zdiv_int)
  ultimately show ?thesis using assms(1) by (auto simp: boot_grace_seconds_def abs_of_nonneg)
qed

lemma grace_period_exact_witness: "boot_grace_seconds 30 = 24"
  using grace_period_exact [of 30] by simp

subsection \<open>Ports\<close>

definition has_port :: "Container \<Rightarrow> 32 word \<Rightarrow> bool" where
  "has_port c port \<longleftrightarrow> port \<in> cp_ContainerPort ` set (c_Ports c)"


lemma find_port_None: "find_port ps port = None \<longleftrightarrow> port \<notin> cp_ContainerPort ` set ps"
  by (induction ps) auto


lemma findContainerPort_None:
  "findContainerPort cs port = (name, None) \<Longrightarrow> \<forall>c \<in> set cs. \<not> has_port c port"
  by (induction cs) (auto simp: has_port_def find_port_None split: option.splits)


lemma props_Default_eq:
  "props_Default k d p = (case fmlookup p k of None \<Rightarrow> (d, fmupd k d p) | Some v \<Rightarrow> (v, p))"
  by (simp add: props_Default_def prop_get_def Let_def split: option.split)



subsection \<open>The actuator without a port\<close>

lemma actuator_probes_fail:
  assumes "applicable_actuator sv deps" and "fmlookup p ''server.port'' = None"
    and "fmlookup p ''management.server.port'' = None"
    and "fmlookup p ''management.health.probes.enabled'' = None"
  shows "fst (run_conventions sv deps i (drop 3 SpringBootConventions) applied (t, p)) = Some (ErrSyntax [])"
  using assms
  by (simp add: SpringBootConventions_def apply_actuator_def apply_probes_def props_Default_eq prop_get_def
      split: option.split)

lemma run_conventions_append:
  "run_conventions sv deps i (os @ os') applied st =
    (case run_conventions sv deps i os applied st of
       (Some e, r) \<Rightarrow> (Some e, r) | (None, applied', st') \<Rightarrow> run_conventions sv deps i os' applied' st')"
  by (induction os arbitrary: applied st) (auto split: option.split prod.split)

lemma boot_graceful_props:
  assumes "\<not> applicable_web sv deps"
  shows "\<exists>applied' t' p'. run_conventions sv deps i (take 3 SpringBootConventions) applied (t, p) = (None, applied', (t', p')) \<and>
    (\<forall>k. k \<noteq> ''server.shutdown.grace-period'' \<longrightarrow> fmlookup p' k = fmlookup p k)"
  using assms
  by (auto simp: SpringBootConventions_def apply_boot_def apply_graceful_def Let_def split: option.split)

text \<open>C38: For an image with the actuator but not both Spring Boot and Spring Web, the probes convention reads the empty
  management port the actuator convention has just defaulted it to: unless a port or the probes
  are configured, the run fails with the syntax error of converting an empty number.\<close>

theorem actuator_without_port:
  assumes "HasDependency deps [''spring-boot-actuator'']"
    and "\<not> (HasDependency deps [''spring-boot''] \<and> HasDependency deps [''spring-web''])"
    and "fmlookup p ''server.port'' = None" and "fmlookup p ''management.server.port'' = None"
    and "fmlookup p ''management.health.probes.enabled'' = None"
  shows "fst (run_conventions sv deps i SpringBootConventions applied (t, p)) = Some (ErrSyntax [])"
proof -
  have act: "applicable_actuator sv deps" "\<not> applicable_web sv deps"
    using assms(1,2) by (simp_all add: applicable_actuator_def applicable_web_def)
  from boot_graceful_props [OF act(2), of i applied t p] obtain applied' t' p' where
    first: "run_conventions sv deps i (take 3 SpringBootConventions) applied (t, p) = (None, applied', (t', p'))"
    and keep: "\<forall>k. k \<noteq> ''server.shutdown.grace-period'' \<longrightarrow> fmlookup p' k = fmlookup p k" by blast
  have "fst (run_conventions sv deps i (take 3 SpringBootConventions @ drop 3 SpringBootConventions) applied (t, p)) =
      Some (ErrSyntax [])"
    unfolding run_conventions_append first
    using actuator_probes_fail [OF act(1)] keep assms(3-5) by simp
  then show ?thesis by simp
qed

lemma actuator_without_port_witness:
  "fst (run_conventions sample_semver [\<lparr>cdx_Components = Some [\<lparr>cc_Name = ''spring-boot-actuator'', cc_Version = ''2.7.0'',
     cc_other = []\<rparr>], cdx_other = []\<rparr>] 0 SpringBootConventions [] (plain_template ''img'', fmempty)) = Some (ErrSyntax [])"
  by (rule actuator_without_port) (simp_all add: bom_components_def)

end
