(* ===== verification/FakeServer.thy ===== *)
theory FakeServer
  imports WebhookServer GoStrings
begin

text \<open>
  \<open>pkg/binding/fake/conventionserver.go\<close>: the convention server the controller is tested against.
  One handler serves every convention; the path of the request chooses the edit, and what follows a
  semicolon in the path is a query whose \<open>host\<close> names the registry of the image to add. The codec
  is that of \<open>WebhookServer\<close>; \<open>url.ParseQuery\<close> is Go's, translated.
\<close>

subsection \<open>url.ParseQuery\<close>

definition hex_val :: "char \<Rightarrow> nat option" where
  "hex_val c = (let n = of_char c :: nat in
     if 48 \<le> n \<and> n \<le> 57 then Some (n - 48)
     else if 97 \<le> n \<and> n \<le> 102 then Some (n - 87)
     else if 65 \<le> n \<and> n \<le> 70 then Some (n - 55)
     else None)"

fun query_unescape :: "string \<Rightarrow> string option" where
  "query_unescape [] = Some []"
| "query_unescape (c # s) =
     (if c = CHR ''%'' then
        (case s of
           h # l # s' \<Rightarrow>
             (case (hex_val h, hex_val l) of
                (Some hv, Some lv) \<Rightarrow> map_option (\<lambda>r. char_of (16 * hv + lv) # r) (query_unescape s')
              | _ \<Rightarrow> None)
         | _ \<Rightarrow> None)
      else if c = CHR ''+'' then map_option (\<lambda>r. CHR '' '' # r) (query_unescape s)
      else map_option (\<lambda>r. c # r) (query_unescape s))"

text \<open>\<open>strings.Cut\<close>: what comes before and after the first separator.\<close>

definition go_cut :: "char \<Rightarrow> string \<Rightarrow> string \<times> string" where
  "go_cut c s = (takeWhile (\<lambda>x. x \<noteq> c) s, drop 1 (dropWhile (\<lambda>x. x \<noteq> c) s))"

text \<open>The pairs of a query in order; a pair that is empty, has a semicolon or is badly escaped is
  skipped.\<close>

definition query_pair :: "string \<Rightarrow> (string \<times> string) list" where
  "query_pair key =
     (if contains_char key (CHR '';'') then []
      else if key = [] then []
      else case go_cut (CHR ''='') key of
        (k, v) \<Rightarrow> (case (query_unescape k, query_unescape v) of (Some k', Some v') \<Rightarrow> [(k', v')] | _ \<Rightarrow> []))"

definition parse_query :: "string \<Rightarrow> (string \<times> string) list" where
  "parse_query query = concat (map query_pair (go_split (CHR ''&'') query))"

definition query_get :: "(string \<times> string) list \<Rightarrow> string \<Rightarrow> string" where
  "query_get vals key = (case map_of vals key of None \<Rightarrow> [] | Some v \<Rightarrow> v)"

subsection \<open>The handler\<close>

definition split_path :: "string \<Rightarrow> string \<times> string" where
  "split_path url_path = (case go_split2 (CHR '';'') url_path of
     [_] \<Rightarrow> (url_path, [])
   | [p, q] \<Rightarrow> (p, query_get (parse_query q) ''host'')
   | _ \<Rightarrow> ([], []))"

definition defaultEnvVar :: EnvVar where
  "defaultEnvVar = \<lparr>ev_Name = ''KEY'', ev_Value = ''VALUE'', ev_other = []\<rparr>"

definition defaultLabel :: string where
  "defaultLabel = ''test-convention'' @ ''/default-label''"

definition test_container :: "string \<Rightarrow> string \<Rightarrow> Container" where
  "test_container name img = \<lparr>c_Name = name, c_Image = img, c_Command = [], c_Env = [], c_Ports = [],
     c_LivenessProbe = None, c_ReadinessProbe = None, c_StartupProbe = None, c_other = []\<rparr>"

definition set_containers :: "Container list \<Rightarrow> PodConventionContext \<Rightarrow> PodConventionContext" where
  "set_containers cs x = x\<lparr>pcc_Status := (pcc_Status x)\<lparr>pct_Template := (pct_Template (pcc_Status x))
     \<lparr>pts_Spec := (pts_Spec (pct_Template (pcc_Status x)))\<lparr>ps_Containers := cs\<rparr>\<rparr>\<rparr>\<rparr>"

definition append_container :: "Container \<Rightarrow> PodConventionContext \<Rightarrow> PodConventionContext" where
  "append_container c x = set_containers (ps_Containers (pts_Spec (pct_Template (pcc_Status x))) @ [c]) x"

definition set_applied :: "string list \<Rightarrow> PodConventionContext \<Rightarrow> PodConventionContext" where
  "set_applied labels x = x\<lparr>pcc_Status := (pcc_Status x)\<lparr>pct_AppliedConventions := labels\<rparr>\<rparr>"

definition validResponse :: "PodConventionContext \<Rightarrow> PodConventionContext" where
  "validResponse reqObj = zero_context\<lparr>pcc_Meta := pcc_Meta reqObj,
     pcc_Status := \<lparr>pct_Template = pcs_Template (pcc_Spec reqObj), pct_AppliedConventions = []\<rparr>\<rparr>"

definition encode_to :: "json_lib \<Rightarrow> PodConventionContext \<Rightarrow> response_writer \<Rightarrow> response_writer" where
  "encode_to js x w = (case js_Encode js x of Inl err \<Rightarrow> w | Inr bytes \<Rightarrow> write_body bytes w)"

definition webhookHandler :: "json_lib \<Rightarrow> string \<Rightarrow> request_body \<Rightarrow> response_writer \<Rightarrow> response_writer" where
  "webhookHandler js url_path body w =
     (case decode_request js body of
        Inl err \<Rightarrow> write_header 400 w
      | Inr reqObj \<Rightarrow>
          let resp = validResponse reqObj;
              (path, registryHost) = split_path url_path;
              json = set_header ''Content-Type'' ''application/json'' w
          in if path = ''/svcpath'' then
               encode_to js (set_applied [defaultLabel, ''path/svcpath'']
                 (set_containers [(test_container ''test-workload'' ''ubuntu'')\<lparr>c_Env := [defaultEnvVar]\<rparr>] resp)) json
             else if path = ''/addlogsidecar'' then
               encode_to js (set_applied [defaultLabel, ''path/addlogsidecar'']
                 (append_container ((test_container ''logsidecar'' ''prom/prometheus'')\<lparr>c_Command := [''log-away'']\<rparr>) resp)) json
             else if path = ''/hellosidecar'' then
               encode_to js (set_applied [''path/hellosidecar'']
                 (append_container ((test_container ''hellosidecar'' (registryHost @ ''/hello''))
                    \<lparr>c_Command := [''/bin/sleep'', ''100'']\<rparr>) resp)) json
             else if path = ''/wrongobj'' then
               write_body ([CHR 0x22] @ ''invalid-resp-string'' @ [CHR 0x22, CHR 0x0A]) json
             else if path = ''/badimage'' then
               encode_to js (set_applied [''path/addbadimagesidecar'']
                 (append_container (test_container ''badimage'' (registryHost @ ''/badimage'')) resp)) json
             else if path = ''/labelonly'' then
               encode_to js (set_applied [defaultLabel, ''path/addonlylabel''] resp) json
             else if path = ''/'' then
               encode_to js (set_applied [defaultLabel]
                 (append_container ((test_container ''test-workload'' ''ubuntu'')\<lparr>c_Env := [defaultEnvVar]\<rparr>) resp)) json
             else w)"

subsection \<open>The service resolver\<close>

definition ResolveEndpoint :: "string \<Rightarrow> string \<Rightarrow> string \<Rightarrow> 32 word \<Rightarrow> string result" where
  "ResolveEndpoint base namespace name port = Inr base"

subsection \<open>Starting the server\<close>

record fake_server =
  fs_Certificates :: "key_pair list"
  fs_Handler :: "string \<Rightarrow> request_body \<Rightarrow> response_writer \<Rightarrow> response_writer"

text \<open>The three PEM constants of the source are the arguments \<open>serverCert\<close>, \<open>serverKey\<close> and \<open>caCert\<close>.\<close>

definition NewFakeConventionServer ::
    "tls_lib \<Rightarrow> json_lib \<Rightarrow> string \<Rightarrow> string \<Rightarrow> string \<Rightarrow> (fake_server \<times> string) result" where
  "NewFakeConventionServer tls js serverCert serverKey caCert =
     (case tl_X509KeyPair tls serverCert serverKey of
        Inl err \<Rightarrow> Inl err
      | Inr cert \<Rightarrow> Inr (\<lparr>fs_Certificates = [cert], fs_Handler = webhookHandler js\<rparr>, caCert))"

subsection \<open>Paths and hosts\<close>

text \<open>A host that needs no escaping in the query.\<close>

definition plain_host :: "string \<Rightarrow> bool" where
  "plain_host h \<longleftrightarrow> set h \<inter> {CHR ''%'', CHR ''+'', CHR ''&'', CHR '';''} = {}"

lemma query_unescape_plain: "CHR ''%'' \<notin> set h \<Longrightarrow> CHR ''+'' \<notin> set h \<Longrightarrow> query_unescape h = Some h"
  by (induction h) auto

lemma parse_query_host:
  assumes "plain_host h"
  shows "query_get (parse_query (''host='' @ h)) ''host'' = h"
proof -
  have "go_split (CHR ''&'') (''host='' @ h) = [''host='' @ h]"
    using assms by (intro go_split_no_sep) (auto simp: plain_host_def)
  moreover have "query_pair (''host='' @ h) = [(''host'', h)]"
    using assms by (auto simp: query_pair_def go_cut_def contains_char_def plain_host_def query_unescape_plain)
  ultimately show ?thesis by (simp add: parse_query_def query_get_def)
qed

lemma split_path_host:
  "CHR '';'' \<notin> set p \<Longrightarrow> plain_host h \<Longrightarrow> split_path (p @ '';host='' @ h) = (p, h)"
  using go_split2_sep [of "CHR '';''" p "''host='' @ h"] parse_query_host [of h]
  by (simp add: split_path_def)

lemma split_path_plain: "CHR '';'' \<notin> set p \<Longrightarrow> split_path p = (p, [])"
  by (simp add: split_path_def go_split2_def)

subsection \<open>The edits, specified\<close>

text \<open>The conventions the server offers, the path of each and the container it adds.\<close>

datatype fake_convention = AddDefault | AddLogSidecar | AddHello string | AddBadImage string | LabelOnly

fun fake_path :: "fake_convention \<Rightarrow> string" where
  "fake_path AddDefault = ''/''"
| "fake_path AddLogSidecar = ''/addlogsidecar''"
| "fake_path (AddHello h) = ''/hellosidecar'' @ '';host='' @ h"
| "fake_path (AddBadImage h) = ''/badimage'' @ '';host='' @ h"
| "fake_path LabelOnly = ''/labelonly''"

fun fake_hosts_plain :: "fake_convention \<Rightarrow> bool" where
  "fake_hosts_plain (AddHello h) = plain_host h"
| "fake_hosts_plain (AddBadImage h) = plain_host h"
| "fake_hosts_plain _ = True"

fun fake_adds :: "fake_convention \<Rightarrow> (string \<times> string) list" where
  "fake_adds AddDefault = [(''test-workload'', ''ubuntu'')]"
| "fake_adds AddLogSidecar = [(''logsidecar'', ''prom/prometheus'')]"
| "fake_adds (AddHello h) = [(''hellosidecar'', h @ ''/hello'')]"
| "fake_adds (AddBadImage h) = [(''badimage'', h @ ''/badimage'')]"
| "fake_adds LabelOnly = []"

lemma status_simps [simp]:
  "pcc_Meta (validResponse req) = pcc_Meta req"
  "pcc_Meta (set_containers cs x) = pcc_Meta x" "pcc_Meta (set_applied ls x) = pcc_Meta x"
  "pcc_Meta (append_container c x) = pcc_Meta x"
  "pct_Template (pcc_Status (validResponse req)) = pcs_Template (pcc_Spec req)"
  "pct_Template (pcc_Status (set_applied ls x)) = pct_Template (pcc_Status x)"
  "pct_AppliedConventions (pcc_Status (set_applied ls x)) = ls"
  "ps_Containers (pts_Spec (pct_Template (pcc_Status (append_container c x)))) =
     ps_Containers (pts_Spec (pct_Template (pcc_Status x))) @ [c]"
  "pts_Spec (pct_Template (pcc_Status (append_container c x))) =
     (pts_Spec (pct_Template (pcc_Status x)))\<lparr>ps_Containers := ps_Containers (pts_Spec (pct_Template (pcc_Status x))) @ [c]\<rparr>"
  "pts_Meta (pct_Template (pcc_Status (append_container c x))) = pts_Meta (pct_Template (pcc_Status x))"
  by (simp_all add: validResponse_def set_containers_def set_applied_def append_container_def)

lemma test_container_simps [simp]:
  "c_Name (test_container n i) = n" "c_Image (test_container n i) = i"
  by (simp_all add: test_container_def)

lemma handler_path:
  assumes "js_Decode js bytes = Inr req" and "fake_hosts_plain k"
  shows "\<exists>resp c labels. webhookHandler js (fake_path k) (Some (Inr bytes)) new_response =
      encode_to js resp (set_header ''Content-Type'' ''application/json'' new_response) \<and>
    resp = set_applied labels (if k = LabelOnly then validResponse req else append_container c (validResponse req)) \<and>
    labels \<noteq> [] \<and> (k \<noteq> LabelOnly \<longrightarrow> [(c_Name c, c_Image c)] = fake_adds k)"
proof (cases k)
  case (AddHello h)
  with assms split_path_host [of "''/hellosidecar''" h] show ?thesis
    by (force simp: webhookHandler_def decode_request_def)
next
  case (AddBadImage h)
  with assms split_path_host [of "''/badimage''" h] show ?thesis
    by (force simp: webhookHandler_def decode_request_def)
qed (use assms in \<open>force simp: webhookHandler_def decode_request_def split_path_plain\<close>)+

text \<open>A codec for the example below.\<close>

definition zero_js :: json_lib where
  "zero_js = \<lparr>js_Decode = (\<lambda>_. Inr zero_context), js_Encode = (\<lambda>_. Inr ''x'')\<rparr>"

text \<open>For each of its conventions and each host that needs no escaping, the fake server answers a
  request that decodes with status 200 and the encoding of a context that has the metadata of the
  request and its template with the one container of the path, if any, added at the end of the
  containers, and at least one label.\<close>

lemma fake_server_edit:
  assumes "js_Decode js bytes = Inr req" and "fake_hosts_plain k"
  shows "\<exists>resp. response_status (webhookHandler js (fake_path k) (Some (Inr bytes)) new_response) = 200 \<and>
    rw_Body (webhookHandler js (fake_path k) (Some (Inr bytes)) new_response) =
      (case js_Encode js resp of Inl _ \<Rightarrow> [] | Inr body \<Rightarrow> body) \<and>
    pcc_Meta resp = pcc_Meta req \<and> pct_AppliedConventions (pcc_Status resp) \<noteq> [] \<and>
    pts_Meta (pct_Template (pcc_Status resp)) = pts_Meta (pcs_Template (pcc_Spec req)) \<and>
    ps_InitContainers (pts_Spec (pct_Template (pcc_Status resp))) = ps_InitContainers (pts_Spec (pcs_Template (pcc_Spec req))) \<and>
    (\<exists>added. ps_Containers (pts_Spec (pct_Template (pcc_Status resp))) =
         ps_Containers (pts_Spec (pcs_Template (pcc_Spec req))) @ added \<and>
       map (\<lambda>c. (c_Name c, c_Image c)) added = fake_adds k)"
proof -
  from handler_path [OF assms] obtain resp c labels where
    handler: "webhookHandler js (fake_path k) (Some (Inr bytes)) new_response =
      encode_to js resp (set_header ''Content-Type'' ''application/json'' new_response)"
    and resp: "resp = set_applied labels (if k = LabelOnly then validResponse req else append_container c (validResponse req))"
    and labels: "labels \<noteq> []" and added: "k \<noteq> LabelOnly \<longrightarrow> [(c_Name c, c_Image c)] = fake_adds k"
    by blast
  have "response_status (encode_to js resp (set_header ''Content-Type'' ''application/json'' new_response)) = 200"
    "rw_Body (encode_to js resp (set_header ''Content-Type'' ''application/json'' new_response)) =
      (case js_Encode js resp of Inl _ \<Rightarrow> [] | Inr body \<Rightarrow> body)"
    by (simp_all add: encode_to_def split: sum.split)
  then show ?thesis
    using handler resp labels added
    by (intro exI [of _ resp] conjI exI [of _ "if k = LabelOnly then [] else [c]"]) (auto simp: set_applied_def)
qed

lemma fake_server_edit_witness:
  "\<exists>resp :: PodConventionContext. response_status (webhookHandler zero_js ''/hellosidecar;host=reg:5000'' (Some (Inr [])) new_response) = 200 \<and>
     map (\<lambda>c. (c_Name c, c_Image c)) (ps_Containers (pts_Spec (pct_Template (pcc_Status resp)))) =
       [(''hellosidecar'', ''reg:5000/hello'')]"
proof -
  have "ps_Containers (pts_Spec (pcs_Template (pcc_Spec zero_context))) = []"
    by (simp add: zero_context_def zero_template_def zero_pod_spec_def)
  note empty = this
  have path: "fake_path (AddHello ''reg:5000'') = ''/hellosidecar;host=reg:5000''" by simp
  have "js_Decode zero_js [] = Inr zero_context" "fake_hosts_plain (AddHello ''reg:5000'')"
    by (simp_all add: zero_js_def plain_host_def)
  from fake_server_edit [OF this] obtain resp :: PodConventionContext and added where
    "response_status (webhookHandler zero_js ''/hellosidecar;host=reg:5000'' (Some (Inr [])) new_response) = 200"
    "ps_Containers (pts_Spec (pct_Template (pcc_Status resp))) = added"
    "map (\<lambda>c. (c_Name c, c_Image c)) added = fake_adds (AddHello ''reg:5000'')"
    unfolding path empty append_Nil by blast
  then show ?thesis by (intro exI [of _ resp]) simp
qed

end
