(* ===== verification/YamlExpander.thy ===== *)
theory YamlExpander
  imports Prelude
begin

text \<open>
  \<open>cmd/yaml-expander/main.go\<close>: the build tool that reads a stream of YAML or JSON documents and
  writes each one that is not empty as YAML, followed by a separator line. Its loop ends only when
  the decoder reports the end of the input or an error, so it is a \<open>partial_function (option)\<close> in
  which \<open>None\<close> is a loop that never ends. Parameters: the decoder, a state with a step that gives
  the next document, and \<open>yaml.Marshal\<close>.
\<close>

type_synonym yaml_doc = "(string, handle) fmap"

datatype decoded = Doc yaml_doc | EndOfInput | DecodeError go_error

datatype expand_end = Finished | Fatal go_error

definition separator :: string where
  "separator = [CHR 0x0A] @ ''---'' @ [CHR 0x0A]"

partial_function (option) expand ::
    "('s \<Rightarrow> decoded \<times> 's) \<Rightarrow> (yaml_doc \<Rightarrow> string result) \<Rightarrow> 's \<Rightarrow> string \<Rightarrow> (expand_end \<times> string) option" where
  "expand decode marshal st out =
     (case decode st of
        (EndOfInput, st') \<Rightarrow> Some (Finished, out)
      | (DecodeError err, st') \<Rightarrow> Some (Fatal err, out)
      | (Doc doc, st') \<Rightarrow>
          if doc = fmempty then expand decode marshal st' out
          else (case marshal doc of
                  Inl err \<Rightarrow> Some (Fatal err, out)
                | Inr b \<Rightarrow> expand decode marshal st' ((out @ b) @ separator)))"

definition expander_main :: "('s \<Rightarrow> decoded \<times> 's) \<Rightarrow> (yaml_doc \<Rightarrow> string result) \<Rightarrow> 's \<Rightarrow> (expand_end \<times> string) option" where
  "expander_main decode marshal stdin = expand decode marshal stdin []"

declare expand.simps [code]

subsection \<open>The loop, specified\<close>

text \<open>The documents a decoder delivers one after the other.\<close>

inductive delivers :: "('s \<Rightarrow> decoded \<times> 's) \<Rightarrow> 's \<Rightarrow> yaml_doc list \<Rightarrow> 's \<Rightarrow> bool" for decode where
  none: "delivers decode st [] st"
| next_doc: "decode st = (Doc d, st1) \<Longrightarrow> delivers decode st1 ds st2 \<Longrightarrow> delivers decode st (d # ds) st2"

inductive_cases delivers_ConsE: "delivers decode st (d # ds) st2"

definition doc_text :: "(yaml_doc \<Rightarrow> string result) \<Rightarrow> yaml_doc \<Rightarrow> string" where
  "doc_text marshal d = (if d = fmempty then [] else case marshal d of Inl _ \<Rightarrow> [] | Inr b \<Rightarrow> b @ separator)"

definition printable :: "(yaml_doc \<Rightarrow> string result) \<Rightarrow> yaml_doc \<Rightarrow> bool" where
  "printable marshal d \<longleftrightarrow> d = fmempty \<or> is_ok (marshal d)"

text \<open>Where the loop stops: the end of the input, a decoding error or a document that cannot be printed.\<close>

definition stops_at :: "('s \<Rightarrow> decoded \<times> 's) \<Rightarrow> (yaml_doc \<Rightarrow> string result) \<Rightarrow> 's \<Rightarrow> expand_end \<Rightarrow> bool" where
  "stops_at decode marshal st fin \<longleftrightarrow> (case fst (decode st) of
     EndOfInput \<Rightarrow> fin = Finished
   | DecodeError err \<Rightarrow> fin = Fatal err
   | Doc d \<Rightarrow> d \<noteq> fmempty \<and> (\<exists>err. marshal d = Inl err \<and> fin = Fatal err))"

lemma expand_stop: "stops_at decode marshal st fin \<Longrightarrow> expand decode marshal st out = Some (fin, out)"
  by (subst expand.simps) (auto simp: stops_at_def split: decoded.splits prod.splits)

lemma expand_doc:
  "decode st = (Doc d, st') \<Longrightarrow> printable marshal d \<Longrightarrow>
   expand decode marshal st out = expand decode marshal st' (out @ doc_text marshal d)"
  by (subst expand.simps) (auto simp: printable_def doc_text_def is_ok_iff)

lemma expand_reaches:
  "delivers decode st ds st' \<Longrightarrow> \<forall>d \<in> set ds. printable marshal d \<Longrightarrow> stops_at decode marshal st' fin \<Longrightarrow>
   expand decode marshal st out = Some (fin, out @ concat (map (doc_text marshal) ds))"
  by (induction arbitrary: out rule: delivers.induct) (simp_all add: expand_stop expand_doc)

lemma expand_stops:
  assumes "expand decode marshal st out = Some r"
  shows "\<exists>ds st'. delivers decode st ds st' \<and> (\<forall>d \<in> set ds. printable marshal d) \<and> stops_at decode marshal st' (fst r)"
proof (rule expand.raw_induct [where P = "\<lambda>decode marshal st out r.
    \<exists>ds st'. delivers decode st ds st' \<and> (\<forall>d \<in> set ds. printable marshal d) \<and> stops_at decode marshal st' (fst r)",
    OF _ assms])
  fix expand decode marshal st out r
  assume IH: "\<And>decode marshal st out r. expand decode marshal st out = Some r \<Longrightarrow>
      \<exists>ds st'. delivers decode st ds st' \<and> (\<forall>d \<in> set ds. printable marshal d) \<and> stops_at decode marshal st' (fst r)"
    and run: "(case decode st of
        (EndOfInput, st') \<Rightarrow> Some (Finished, out)
      | (DecodeError err, st') \<Rightarrow> Some (Fatal err, out)
      | (Doc doc, st') \<Rightarrow>
          if doc = fmempty then expand decode marshal st' out
          else (case marshal doc of
                  Inl err \<Rightarrow> Some (Fatal err, out)
                | Inr b \<Rightarrow> expand decode marshal st' ((out @ b) @ separator))) = Some r"
  show "\<exists>ds st'. delivers decode st ds st' \<and> (\<forall>d \<in> set ds. printable marshal d) \<and> stops_at decode marshal st' (fst r)"
  proof (cases "stops_at decode marshal st (fst r)")
    case True
    then show ?thesis by (intro exI [of _ "[]"] exI [of _ st]) (simp add: delivers.none)
  next
    case False
    with run obtain d st1 out1 where step: "decode st = (Doc d, st1)" "printable marshal d" "expand decode marshal st1 out1 = Some r"
      by (auto simp: stops_at_def printable_def split: prod.splits decoded.splits if_splits sum.splits)
    from IH [OF step(3)] obtain ds st' where
      "delivers decode st1 ds st'" "\<forall>d \<in> set ds. printable marshal d" "stops_at decode marshal st' (fst r)" by blast
    with step show ?thesis by (intro exI [of _ "d # ds"] exI [of _ st']) (simp add: delivers.next_doc)
  qed
qed

text \<open>C40: The tool ends exactly when the decoder, after finitely many documents that are empty or can be
  printed, reaches the end of the input, a decoding error or a document that cannot be printed; it
  ends well in the first case and with the error in the others, and it has written the documents
  before that point that are not empty, in order, each followed by a separator.\<close>

theorem expander_terminates:
  "expander_main decode marshal stdin = Some (fin, out) \<longleftrightarrow>
    (\<exists>ds st. delivers decode stdin ds st \<and> (\<forall>d \<in> set ds. printable marshal d) \<and> stops_at decode marshal st fin \<and>
       out = concat (map (doc_text marshal) ds))"
  (is "?run \<longleftrightarrow> ?spec")
proof
  assume ?run
  then have run: "expand decode marshal stdin [] = Some (fin, out)" by (simp add: expander_main_def)
  from expand_stops [OF this] obtain ds st where
    ds: "delivers decode stdin ds st" "\<forall>d \<in> set ds. printable marshal d" "stops_at decode marshal st fin" by auto
  with expand_reaches [OF ds, of "[]"] run show ?spec by auto
next
  assume ?spec
  then show ?run by (auto simp: expander_main_def dest: expand_reaches [where out = "[]"])
qed

text \<open>A decoder over a list of documents.\<close>

fun list_decoder :: "yaml_doc list \<Rightarrow> decoded \<times> yaml_doc list" where
  "list_decoder [] = (EndOfInput, [])"
| "list_decoder (d # ds) = (Doc d, ds)"

lemma list_decoder_delivers: "delivers list_decoder ds ds []"
  by (induction ds) (auto intro: delivers.intros)

lemma expander_terminates_witness:
  "expander_main list_decoder (\<lambda>d. Inr ''a: b'') [fmempty, fmupd ''a'' ''b'' fmempty] = Some (Finished, ''a: b'' @ separator)"
  unfolding expander_terminates
  by (intro exI [of _ "[fmempty, fmupd ''a'' ''b'' fmempty]"] exI [of _ "[]"] conjI list_decoder_delivers)
    (auto simp: printable_def stops_at_def doc_text_def dest: arg_cong [of _ _ "\<lambda>m. fmlookup m ''a''"])

end
