(* ===== verification/Memory.thy ===== *)
theory Memory
  imports Prelude
begin

text \<open>
  The part of Go's memory that deep copies are about. A value carries the addresses of the objects it
  refers to: a pointer, a slice and a map are \<open>NilRef\<close> or a \<open>Ref\<close> of an address and the object
  there. Allocation takes the next free address and a function that allocates is passed it and
  returns the one after it. \<open>*out = *in\<close> copies the addresses with the value, so a copy that forgets
  a field shares it. The contract of a deep copy is the locale \<open>deep_copy\<close>: the copy is equal to the
  original up to addresses and all its addresses are new and different. The rules in
  \<open>deep_copies\<close> build it up along a type.
\<close>

named_theorems deep_copies \<open>how the contract of a deep copy is composed\<close>

type_synonym addr = nat

datatype 'a ref = NilRef | Ref addr 'a

type_synonym 'a copier = "'a \<Rightarrow> addr \<Rightarrow> 'a \<times> addr"

subsection \<open>What the generated code is made of\<close>

text \<open>\<open>*out = *in\<close> for a type without references.\<close>

definition copy_plain :: "'a copier" where
  "copy_plain x n = (x, n)"

text \<open>\<open>*out = new(T); (*in).DeepCopyInto(*out)\<close> unless the pointer is nil.\<close>

fun copy_new :: "'a copier \<Rightarrow> 'a ref copier" where
  "copy_new into NilRef n = (NilRef, n)"
| "copy_new into (Ref a x) n = (case into x (Suc n) of (y, n') \<Rightarrow> (Ref n y, n'))"

text \<open>\<open>for i := range *in { (*in)[i].DeepCopyInto(&(*out)[i]) }\<close>.\<close>

fun copy_each :: "'a copier \<Rightarrow> 'a list copier" where
  "copy_each into [] n = ([], n)"
| "copy_each into (x # xs) n =
     (case into x n of (y, n1) \<Rightarrow> (case copy_each into xs n1 of (ys, n2) \<Rightarrow> (y # ys, n2)))"

text \<open>\<open>*out = make([]T, len(*in))\<close> followed by that loop, unless the slice is nil.\<close>

definition copy_slice :: "'a copier \<Rightarrow> 'a list ref copier" where
  "copy_slice into = copy_new (copy_each into)"

text \<open>\<open>*out = make([]T, len(*in)); copy(*out, *in)\<close> for elements without references.\<close>

definition copy_elements :: "'a list ref copier" where
  "copy_elements = copy_new copy_plain"

text \<open>\<open>for key, val := range *in { (*out)[key] = val }\<close> into a new map; the order does not matter.\<close>

definition copy_entries :: "(string, string) fmap copier" where
  "copy_entries m n = (fold (\<lambda>k out. case fmlookup m k of None \<Rightarrow> out | Some v \<Rightarrow> fmupd k v out)
     (sorted_list_of_fset (fmdom m)) fmempty, n)"

definition copy_map :: "(string, string) fmap ref copier" where
  "copy_map = copy_new copy_entries"

text \<open>\<open>runtime.Object(c)\<close> of a pointer: the nil interface for a nil pointer.\<close>

definition as_object :: "'a ref \<times> addr \<Rightarrow> 'a ref option \<times> addr" where
  "as_object r = (case r of (NilRef, n) \<Rightarrow> (None, n) | (Ref a x, n) \<Rightarrow> (Some (Ref a x), n))"

subsection \<open>Addresses\<close>

fun addrs_ref :: "('a \<Rightarrow> addr list) \<Rightarrow> 'a ref \<Rightarrow> addr list" where
  "addrs_ref f NilRef = []"
| "addrs_ref f (Ref a x) = a # f x"

fun strip_ref :: "('a \<Rightarrow> 'a) \<Rightarrow> 'a ref \<Rightarrow> 'a ref" where
  "strip_ref f NilRef = NilRef"
| "strip_ref f (Ref a x) = Ref 0 (f x)"

abbreviation no_addrs :: "'a \<Rightarrow> addr list" where
  "no_addrs \<equiv> \<lambda>_. []"

subsection \<open>The contract\<close>

locale deep_copy =
  fixes into :: "'a copier" and strip :: "'a \<Rightarrow> 'a" and addrs :: "'a \<Rightarrow> addr list"
  assumes copy_same: "strip (fst (into x n)) = strip x"
    and copy_fresh: "set (addrs (fst (into x n))) \<subseteq> {n..<snd (into x n)}"
    and copy_distinct: "distinct (addrs (fst (into x n)))"
    and copy_grows: "n \<le> snd (into x n)"
begin

text \<open>A copy shares nothing with anything allocated before it.\<close>

lemma copy_disjoint: "(\<And>a. a \<in> set old \<Longrightarrow> a < n) \<Longrightarrow> set (addrs (fst (into x n))) \<inter> set old = {}"
  using copy_fresh [of x n] by fastforce

lemma copy_separate:
  assumes "\<forall>a \<in> set (addrs x). a < n"
  shows "\<exists>y n'. copy_new into (Ref p x) n = (Ref n y, n') \<and> strip y = strip x \<and> distinct (n # addrs y) \<and>
    set (n # addrs y) \<inter> set (addrs x) = {}"
proof -
  let ?y = "fst (into x (Suc n))"
  have fresh: "set (addrs ?y) \<subseteq> {Suc n..<snd (into x (Suc n))}" by (rule copy_fresh)
  have "copy_new into (Ref p x) n = (Ref n ?y, snd (into x (Suc n)))" by (simp add: split_beta)
  moreover have "distinct (n # addrs ?y)" using fresh copy_distinct [of x "Suc n"] by force
  moreover have "set (n # addrs ?y) \<inter> set (addrs x) = {}" using fresh assms by force
  ultimately show ?thesis using copy_same [of x "Suc n"] by blast
qed

end

lemma deep_copy_plain [deep_copies]: "deep_copy copy_plain strip no_addrs"
  by unfold_locales (simp_all add: copy_plain_def)

lemma deep_copy_new [deep_copies]:
  fixes into :: "'a copier"
  assumes "deep_copy into strip addrs"
  shows "deep_copy (copy_new into) (strip_ref strip) (addrs_ref addrs)"
proof
  fix p :: "'a ref" and n :: addr
  show "strip_ref strip (fst (copy_new into p n)) = strip_ref strip p"
    by (cases p) (simp_all add: split_beta deep_copy.copy_same [OF assms])
  have fresh: "set (addrs (fst (into x (Suc n)))) \<subseteq> {Suc n..<snd (into x (Suc n))}" for x
    by (rule deep_copy.copy_fresh [OF assms])
  have grows: "Suc n \<le> snd (into x (Suc n))" for x
    by (rule deep_copy.copy_grows [OF assms])
  show "n \<le> snd (copy_new into p n)"
    using grows by (cases p) (simp_all add: split_beta Suc_leD)
  show "set (addrs_ref addrs (fst (copy_new into p n))) \<subseteq> {n..<snd (copy_new into p n)}"
  proof (cases p)
    case (Ref a x)
    from fresh [of x] have "set (addrs (fst (into x (Suc n)))) \<subseteq> {n..<snd (into x (Suc n))}" by force
    with grows [of x] show ?thesis by (simp add: Ref split_beta Suc_le_eq)
  qed simp
  show "distinct (addrs_ref addrs (fst (copy_new into p n)))"
  proof (cases p)
    case (Ref a x)
    from fresh [of x] have "n \<notin> set (addrs (fst (into x (Suc n))))" by force
    then show ?thesis by (simp add: Ref split_beta deep_copy.copy_distinct [OF assms])
  qed simp
qed

lemma deep_copy_each [deep_copies]:
  assumes "deep_copy into strip addrs"
  shows "deep_copy (copy_each into) (map strip) (\<lambda>xs. concat (map addrs xs))"
proof
  note laws = deep_copy.copy_same [OF assms] deep_copy.copy_fresh [OF assms]
    deep_copy.copy_distinct [OF assms] deep_copy.copy_grows [OF assms]
  show grows: "n \<le> snd (copy_each into xs n)" for xs n
    by (induction xs arbitrary: n) (auto simp: split_beta intro: order_trans [OF laws(4)])
  show "map strip (fst (copy_each into xs n)) = map strip xs" for xs n
    by (induction xs arbitrary: n) (auto simp: split_beta laws(1))
  have fresh: "set (concat (map addrs (fst (copy_each into xs n)))) \<subseteq> {n..<snd (copy_each into xs n)}" for xs n
  proof (induction xs arbitrary: n)
    case (Cons x xs)
    have "set (addrs (fst (into x n))) \<subseteq> {n..<snd (copy_each into (x # xs) n)}"
      using laws(2) [of x n] grows [of "snd (into x n)" xs] by (fastforce simp: split_beta)
    moreover have "set (concat (map addrs (fst (copy_each into xs (snd (into x n)))))) \<subseteq> {n..<snd (copy_each into (x # xs) n)}"
      using Cons [of "snd (into x n)"] laws(4) [of n x] by (fastforce simp: split_beta)
    ultimately show ?case by (simp add: split_beta)
  qed simp
  then show "set (concat (map addrs (fst (copy_each into xs n)))) \<subseteq> {n..<snd (copy_each into xs n)}" for xs n .
  show "distinct (concat (map addrs (fst (copy_each into xs n))))" for xs n
  proof (induction xs arbitrary: n)
    case (Cons x xs)
    have "set (addrs (fst (into x n))) \<inter> set (concat (map addrs (fst (copy_each into xs (snd (into x n)))))) = {}"
      using laws(2) [of x n] fresh [of xs "snd (into x n)"] by fastforce
    with Cons laws(3) [of x n] show ?case by (simp add: split_beta)
  qed simp
qed

lemma deep_copy_slice [deep_copies]:
  "deep_copy into strip addrs \<Longrightarrow>
   deep_copy (copy_slice into) (strip_ref (map strip)) (addrs_ref (\<lambda>xs. concat (map addrs xs)))"
  unfolding copy_slice_def by (intro deep_copies)

lemma deep_copy_elements [deep_copies]: "deep_copy copy_elements (strip_ref id) (addrs_ref no_addrs)"
  unfolding copy_elements_def by (intro deep_copies)

lemma copy_entries_eq: "copy_entries m n = (m, n)"
proof -
  have "fmlookup (fold (\<lambda>k out. case fmlookup m k of None \<Rightarrow> out | Some v \<Rightarrow> fmupd k v out) ks acc) k =
      (if k \<in> set ks \<and> fmlookup m k \<noteq> None then fmlookup m k else fmlookup acc k)" for ks acc k
    by (induction ks arbitrary: acc) (auto split: option.splits)
  then show ?thesis
    by (auto simp: copy_entries_def sorted_list_of_fset.rep_eq fmlookup_dom'_iff fmdom'_alt_def [symmetric]
        intro!: fmap_ext)
qed

lemma deep_copy_map [deep_copies]: "deep_copy copy_map (strip_ref id) (addrs_ref no_addrs)"
proof -
  have "copy_entries = copy_plain" by (intro ext) (simp add: copy_entries_eq copy_plain_def)
  then show ?thesis unfolding copy_map_def by (simp add: deep_copies)
qed

subsection \<open>Structs\<close>

text \<open>Two fields copied one after the other.\<close>

definition copy_pair :: "'a copier \<Rightarrow> 'b copier \<Rightarrow> ('a \<times> 'b) copier" where
  "copy_pair c d p n = (case c (fst p) n of (x, n1) \<Rightarrow> (case d (snd p) n1 of (y, n2) \<Rightarrow> ((x, y), n2)))"

lemma deep_copy_pair [deep_copies]:
  fixes c :: "'a copier" and d :: "'b copier"
  assumes c: "deep_copy c s a" and d: "deep_copy d t b"
  shows "deep_copy (copy_pair c d) (map_prod s t) (\<lambda>p. a (fst p) @ b (snd p))"
proof
  fix p :: "'a \<times> 'b" and n :: addr
  let ?n1 = "snd (c (fst p) n)"
  have n1: "n \<le> ?n1" "?n1 \<le> snd (d (snd p) ?n1)"
    using deep_copy.copy_grows [OF c] deep_copy.copy_grows [OF d] by auto
  then show "n \<le> snd (copy_pair c d p n)" by (simp add: copy_pair_def split_beta)
  have fresh: "set (a (fst (c (fst p) n))) \<subseteq> {n..<?n1}" "set (b (fst (d (snd p) ?n1))) \<subseteq> {?n1..<snd (d (snd p) ?n1)}"
    using deep_copy.copy_fresh [OF c] deep_copy.copy_fresh [OF d] by auto
  with n1 show "set (a (fst (fst (copy_pair c d p n))) @ b (snd (fst (copy_pair c d p n)))) \<subseteq> {n..<snd (copy_pair c d p n)}"
    by (fastforce simp: copy_pair_def split_beta)
  have "set (a (fst (c (fst p) n))) \<inter> set (b (fst (d (snd p) ?n1))) = {}"
    using fresh by fastforce
  then show "distinct (a (fst (fst (copy_pair c d p n))) @ b (snd (fst (copy_pair c d p n))))"
    using deep_copy.copy_distinct [OF c] deep_copy.copy_distinct [OF d] by (simp add: copy_pair_def split_beta)
  show "map_prod s t (fst (copy_pair c d p n)) = map_prod s t p"
    using deep_copy.copy_same [OF c] deep_copy.copy_same [OF d]
    by (simp add: copy_pair_def split_beta prod_eq_iff)
qed

text \<open>
  The same loop over a map whose values have references of their own. Go visits the entries in any
  order; the order of the keys taken here decides only which new address a value gets.
\<close>

definition map_entries :: "(string, 'a) fmap \<Rightarrow> (string \<times> 'a) list" where
  "map_entries m = map (\<lambda>k. (k, the (fmlookup m k))) (sorted_list_of_fset (fmdom m))"

definition copy_values :: "'a copier \<Rightarrow> (string, 'a) fmap copier" where
  "copy_values into m n =
     (case copy_each (copy_pair copy_plain into) (map_entries m) n of (es, n') \<Rightarrow> (fmap_of_list es, n'))"

lemma map_entries_keys: "map fst (map_entries m) = sorted_list_of_fset (fmdom m)"
  by (simp add: map_entries_def comp_def)

lemma map_of_keys: "map_of (map (\<lambda>k. (k, f k)) ks) k = (if k \<in> set ks then Some (f k) else None)"
  by (induction ks) auto

lemma fmap_of_map_entries: "fmap_of_list (map_entries m) = m"
proof (rule fmap_ext)
  fix k
  have "k \<in> set (sorted_list_of_fset (fmdom m)) \<longleftrightarrow> fmlookup m k \<noteq> None"
    by (simp add: sorted_list_of_fset.rep_eq fmlookup_dom_iff)
  then show "fmlookup (fmap_of_list (map_entries m)) k = fmlookup m k"
    by (cases "fmlookup m k") (simp_all only: map_entries_def fmlookup_of_list map_of_keys option.sel option.distinct simp_thms if_True if_False)
qed

lemma map_entries_of_list:
  assumes "sorted (map fst es)" and "distinct (map fst es)"
  shows "map_entries (fmap_of_list es) = es"
proof -
  have keys: "sorted_list_of_fset (fmdom (fmap_of_list es)) = map fst es"
    using assms by (simp add: sorted_list_of_fset.rep_eq fset_of_list.rep_eq sorted_list_of_set.idem_if_sorted_distinct flip: set_map)
  have "map (\<lambda>k. (k, the (map_of es k))) (map fst es) = es"
    using assms(2) by (intro map_idI [THEN trans [OF map_map]]) (auto simp: comp_def)
  then show ?thesis by (simp add: map_entries_def keys fmlookup_of_list del: fmdom_fmap_of_list)
qed

lemma sorted_keys: "sorted (sorted_list_of_fset A)" "distinct (sorted_list_of_fset A)"
  by (simp_all add: sorted_list_of_fset.rep_eq)

lemma copy_each_keys: "map fst (fst (copy_each (copy_pair copy_plain into) es n)) = map fst es"
  by (induction es arbitrary: n) (simp_all add: copy_pair_def copy_plain_def split_beta)

lemma map_entries_copy_values:
  "map_entries (fst (copy_values into m n)) = fst (copy_each (copy_pair copy_plain into) (map_entries m) n)"
  by (simp add: copy_values_def split_beta map_entries_of_list copy_each_keys map_entries_keys sorted_keys)

lemma fmmap_entries: "fmmap f m = fmap_of_list (map (map_prod id f) (map_entries m))"
  by (subst fmap_of_map_entries [symmetric]) (simp add: fmmap_of_list apsnd_def)

lemma deep_copy_values [deep_copies]:
  assumes "deep_copy into strip addrs"
  shows "deep_copy (copy_values into) (fmmap strip) (\<lambda>m. concat (map (addrs \<circ> snd) (map_entries m)))"
proof
  have entries: "deep_copy (copy_each (copy_pair copy_plain into)) (map (map_prod id strip))
      (\<lambda>es. concat (map (addrs \<circ> snd) es))"
    using deep_copy_each [OF deep_copy_pair [OF deep_copy_plain [of id] assms]] by (simp add: comp_def)
  fix m :: "(string, 'a) fmap" and n
  note laws = deep_copy.copy_same [OF entries] deep_copy.copy_fresh [OF entries]
    deep_copy.copy_distinct [OF entries] deep_copy.copy_grows [OF entries]
  show "fmmap strip (fst (copy_values into m n)) = fmmap strip m"
    by (simp add: fmmap_entries map_entries_copy_values laws(1))
  have snd: "snd (copy_values into m n) = snd (copy_each (copy_pair copy_plain into) (map_entries m) n)"
    by (simp add: copy_values_def split_beta)
  show "set (concat (map (addrs \<circ> snd) (map_entries (fst (copy_values into m n))))) \<subseteq> {n..<snd (copy_values into m n)}"
    unfolding map_entries_copy_values snd by (rule laws(2))
  show "distinct (concat (map (addrs \<circ> snd) (map_entries (fst (copy_values into m n)))))"
    unfolding map_entries_copy_values by (rule laws(3))
  show "n \<le> snd (copy_values into m n)"
    unfolding snd by (rule laws(4))
qed

text \<open>A struct whose copied fields are read by \<open>get\<close> and written by \<open>put\<close> over a shallow copy.\<close>

lemma deep_copy_struct:
  assumes "deep_copy c s a"
    and "\<And>x n. into x n = (put x (fst (c (get x) n)), snd (c (get x) n))"
    and "\<And>x u. get (put x u) = u" and "\<And>x u v. put (put x u) v = put x v"
    and "\<And>x. strip x = put x (s (get x))" and "\<And>x. addrs x = a (get x)"
  shows "deep_copy into strip addrs"
  using assms(1) by (simp add: deep_copy_def assms(2-6))

end
