(* ===== verification/DeepCopy.thy ===== *)
theory DeepCopy
  imports Memory
begin

text \<open>
  \<open>pkg/apis/conventions/v1alpha1/zz_generated.deepcopy.go\<close>: the deep copies of the API types, one
  \<open>DeepCopyInto\<close>, \<open>DeepCopy\<close> and, for the kinds, \<open>DeepCopyObject\<close> for each type, on the memory
  model of \<open>Memory\<close>. The controller relies on them when it defaults a convention it got from the
  cache. For each type there are the function that erases addresses (\<open>_strip\<close>), that of its
  addresses (\<open>_addrs\<close>) and the fact that its copy is deep. The deep copies of the libraries' types
  are parameters (\<open>copy_lib\<close>), documented to be deep copies (\<open>deep_lib\<close>).
\<close>

subsection \<open>The types of the libraries\<close>

record lib_value =
  lv_data :: handle
  lv_addrs :: "addr list"

definition lib_strip :: "lib_value \<Rightarrow> lib_value" where
  "lib_strip v = v\<lparr>lv_addrs := map (\<lambda>_. 0) (lv_addrs v)\<rparr>"

record copy_lib =
  cl_ObjectMeta :: "lib_value copier"
  cl_ListMeta :: "lib_value copier"
  cl_LabelSelector :: "lib_value copier"
  cl_WebhookClientConfig :: "lib_value copier"
  cl_Status :: "lib_value copier"
  cl_PodSpec :: "lib_value copier"
  cl_CorePodTemplateSpec :: "lib_value copier"
  cl_ConfigFile :: "lib_value copier"

abbreviation lib_deep :: "lib_value copier \<Rightarrow> bool" where
  "lib_deep c \<equiv> deep_copy c lib_strip lv_addrs"

definition deep_lib :: "copy_lib \<Rightarrow> bool" where
  "deep_lib lib \<longleftrightarrow> lib_deep (cl_ObjectMeta lib) \<and> lib_deep (cl_ListMeta lib) \<and> lib_deep (cl_LabelSelector lib) \<and>
     lib_deep (cl_WebhookClientConfig lib) \<and> lib_deep (cl_Status lib) \<and> lib_deep (cl_PodSpec lib) \<and>
     lib_deep (cl_CorePodTemplateSpec lib) \<and> lib_deep (cl_ConfigFile lib)"

lemma deep_lib_copies [deep_copies]:
  assumes "deep_lib lib"
  shows "lib_deep (cl_ObjectMeta lib)" "lib_deep (cl_ListMeta lib)" "lib_deep (cl_LabelSelector lib)"
    "lib_deep (cl_WebhookClientConfig lib)" "lib_deep (cl_Status lib)" "lib_deep (cl_PodSpec lib)"
    "lib_deep (cl_CorePodTemplateSpec lib)" "lib_deep (cl_ConfigFile lib)"
  using assms by (simp_all add: deep_lib_def)

text \<open>A library that moves every address of a value to a new one, to show that \<open>deep_lib\<close> can hold.\<close>

definition relocate :: "lib_value copier" where
  "relocate v n = (v\<lparr>lv_addrs := [n..<n + length (lv_addrs v)]\<rparr>, n + length (lv_addrs v))"

definition relocating_lib :: copy_lib where
  "relocating_lib = \<lparr>cl_ObjectMeta = relocate, cl_ListMeta = relocate, cl_LabelSelector = relocate,
     cl_WebhookClientConfig = relocate, cl_Status = relocate, cl_PodSpec = relocate,
     cl_CorePodTemplateSpec = relocate, cl_ConfigFile = relocate\<rparr>"

interpretation relocating: deep_copy relocate lib_strip lv_addrs
  by unfold_locales (auto simp: relocate_def lib_strip_def map_replicate_const)

lemma relocating_lib_deep: "deep_lib relocating_lib"
  by (simp add: deep_lib_def relocating_lib_def relocating.deep_copy_axioms)

record MemTypeMeta =
  tm_Kind :: string
  tm_APIVersion :: string

subsection \<open>ObjectMeta and PodTemplateSpec\<close>

record MemObjectMeta =
  hm_Name :: string
  hm_GenerateName :: string
  hm_Namespace :: string
  hm_Labels :: "(string, string) fmap ref"
  hm_Annotations :: "(string, string) fmap ref"

record MemPodTemplateSpec =
  ht_ObjectMeta :: MemObjectMeta
  ht_Spec :: lib_value

definition ObjectMeta_DeepCopyInto :: "MemObjectMeta copier" where
  "ObjectMeta_DeepCopyInto inp n =
     (let out = inp;
          (labels, n) = copy_map (hm_Labels inp) n;
          (annotations, n) = copy_map (hm_Annotations inp) n
      in (out\<lparr>hm_Labels := labels, hm_Annotations := annotations\<rparr>, n))"

definition PodTemplateSpec_DeepCopyInto :: "copy_lib \<Rightarrow> MemPodTemplateSpec copier" where
  "PodTemplateSpec_DeepCopyInto lib inp n =
     (let out = inp;
          (meta, n) = ObjectMeta_DeepCopyInto (ht_ObjectMeta inp) n;
          (spec, n) = cl_PodSpec lib (ht_Spec inp) n
      in (out\<lparr>ht_ObjectMeta := meta, ht_Spec := spec\<rparr>, n))"

definition ObjectMeta_strip :: "MemObjectMeta \<Rightarrow> MemObjectMeta" where
  "ObjectMeta_strip x = x\<lparr>hm_Labels := strip_ref id (hm_Labels x), hm_Annotations := strip_ref id (hm_Annotations x)\<rparr>"
definition ObjectMeta_addrs :: "MemObjectMeta \<Rightarrow> addr list" where
  "ObjectMeta_addrs x = addrs_ref no_addrs (hm_Labels x) @ addrs_ref no_addrs (hm_Annotations x)"

definition PodTemplateSpec_strip :: "MemPodTemplateSpec \<Rightarrow> MemPodTemplateSpec" where
  "PodTemplateSpec_strip x = x\<lparr>ht_ObjectMeta := ObjectMeta_strip (ht_ObjectMeta x), ht_Spec := lib_strip (ht_Spec x)\<rparr>"
definition PodTemplateSpec_addrs :: "MemPodTemplateSpec \<Rightarrow> addr list" where
  "PodTemplateSpec_addrs x = ObjectMeta_addrs (ht_ObjectMeta x) @ lv_addrs (ht_Spec x)"

lemmas struct_simps = copy_pair_def split_beta Let_def

lemma ObjectMeta_deep [deep_copies]: "deep_copy ObjectMeta_DeepCopyInto ObjectMeta_strip ObjectMeta_addrs"
  by (rule deep_copy_struct [where get = "\<lambda>x. (hm_Labels x, hm_Annotations x)"
        and put = "\<lambda>x (l, a). x\<lparr>hm_Labels := l, hm_Annotations := a\<rparr>",
        OF deep_copy_pair [OF deep_copy_map deep_copy_map]])
    (simp_all add: ObjectMeta_DeepCopyInto_def ObjectMeta_strip_def ObjectMeta_addrs_def struct_simps)

interpretation object_meta: deep_copy ObjectMeta_DeepCopyInto ObjectMeta_strip ObjectMeta_addrs
  by (rule ObjectMeta_deep)

lemma PodTemplateSpec_deep [deep_copies]:
  assumes "deep_lib lib"
  shows "deep_copy (PodTemplateSpec_DeepCopyInto lib) PodTemplateSpec_strip PodTemplateSpec_addrs"
  by (rule deep_copy_struct [where get = "\<lambda>x. (ht_ObjectMeta x, ht_Spec x)"
        and put = "\<lambda>x (m, s). x\<lparr>ht_ObjectMeta := m, ht_Spec := s\<rparr>",
        OF deep_copy_pair [OF ObjectMeta_deep deep_lib_copies(6) [OF assms]]])
    (simp_all add: PodTemplateSpec_DeepCopyInto_def PodTemplateSpec_strip_def PodTemplateSpec_addrs_def struct_simps)

definition ObjectMeta_DeepCopy :: "MemObjectMeta ref copier" where
  "ObjectMeta_DeepCopy inp n = copy_new ObjectMeta_DeepCopyInto inp n"

definition PodTemplateSpec_DeepCopy :: "copy_lib \<Rightarrow> MemPodTemplateSpec ref copier" where
  "PodTemplateSpec_DeepCopy lib inp n = copy_new (PodTemplateSpec_DeepCopyInto lib) inp n"

subsection \<open>ClusterPodConvention\<close>

record MemClusterPodConventionWebhookCertificate =
  hwc_Namespace :: string
  hwc_Name :: string

definition ClusterPodConventionWebhookCertificate_DeepCopyInto :: "MemClusterPodConventionWebhookCertificate copier" where
  "ClusterPodConventionWebhookCertificate_DeepCopyInto = copy_plain"

lemma ClusterPodConventionWebhookCertificate_deep [deep_copies]:
  "deep_copy ClusterPodConventionWebhookCertificate_DeepCopyInto id no_addrs"
  unfolding ClusterPodConventionWebhookCertificate_DeepCopyInto_def by (rule deep_copy_plain)

record MemClusterPodConventionWebhook =
  hw_ClientConfig :: lib_value
  hw_Certificate :: "MemClusterPodConventionWebhookCertificate ref"

definition ClusterPodConventionWebhook_DeepCopyInto :: "copy_lib \<Rightarrow> MemClusterPodConventionWebhook copier" where
  "ClusterPodConventionWebhook_DeepCopyInto lib inp n =
     (let out = inp;
          (clientConfig, n) = cl_WebhookClientConfig lib (hw_ClientConfig inp) n;
          (certificate, n) = copy_new ClusterPodConventionWebhookCertificate_DeepCopyInto (hw_Certificate inp) n
      in (out\<lparr>hw_ClientConfig := clientConfig, hw_Certificate := certificate\<rparr>, n))"

definition ClusterPodConventionWebhook_strip :: "MemClusterPodConventionWebhook \<Rightarrow> MemClusterPodConventionWebhook" where
  "ClusterPodConventionWebhook_strip x = x\<lparr>hw_ClientConfig := lib_strip (hw_ClientConfig x),
     hw_Certificate := strip_ref id (hw_Certificate x)\<rparr>"
definition ClusterPodConventionWebhook_addrs :: "MemClusterPodConventionWebhook \<Rightarrow> addr list" where
  "ClusterPodConventionWebhook_addrs x =
     lv_addrs (hw_ClientConfig x) @
     addrs_ref no_addrs (hw_Certificate x)"

lemma ClusterPodConventionWebhook_deep [deep_copies]:
  assumes law: "deep_lib lib"
  shows "deep_copy (ClusterPodConventionWebhook_DeepCopyInto lib)
    ClusterPodConventionWebhook_strip ClusterPodConventionWebhook_addrs"
  by (rule deep_copy_struct [where get = "\<lambda>x. (hw_ClientConfig x, hw_Certificate x)"
        and put = "\<lambda>x (a, b). x\<lparr>hw_ClientConfig := a, hw_Certificate := b\<rparr>",
        OF deep_copy_pair [OF deep_lib_copies(4) [OF law]
           deep_copy_new [OF ClusterPodConventionWebhookCertificate_deep]
          ]])
    (simp_all add: ClusterPodConventionWebhook_DeepCopyInto_def ClusterPodConventionWebhook_strip_def
      ClusterPodConventionWebhook_addrs_def struct_simps)

record MemClusterPodConventionSpec =
  hcs_Selectors :: "lib_value list ref"
  hcs_SelectorTarget :: string
  hcs_Priority :: string
  hcs_Webhook :: "MemClusterPodConventionWebhook ref"

definition ClusterPodConventionSpec_DeepCopyInto :: "copy_lib \<Rightarrow> MemClusterPodConventionSpec copier" where
  "ClusterPodConventionSpec_DeepCopyInto lib inp n =
     (let out = inp;
          (selectors, n) = copy_slice (cl_LabelSelector lib) (hcs_Selectors inp) n;
          (webhook, n) = copy_new (ClusterPodConventionWebhook_DeepCopyInto lib) (hcs_Webhook inp) n
      in (out\<lparr>hcs_Selectors := selectors, hcs_Webhook := webhook\<rparr>, n))"

definition ClusterPodConventionSpec_strip :: "MemClusterPodConventionSpec \<Rightarrow> MemClusterPodConventionSpec" where
  "ClusterPodConventionSpec_strip x = x\<lparr>hcs_Selectors := strip_ref (map lib_strip) (hcs_Selectors x),
     hcs_Webhook := strip_ref ClusterPodConventionWebhook_strip (hcs_Webhook x)\<rparr>"
definition ClusterPodConventionSpec_addrs :: "MemClusterPodConventionSpec \<Rightarrow> addr list" where
  "ClusterPodConventionSpec_addrs x =
     addrs_ref (\<lambda>xs. concat (map lv_addrs xs)) (hcs_Selectors x) @
     addrs_ref ClusterPodConventionWebhook_addrs (hcs_Webhook x)"

lemma ClusterPodConventionSpec_deep [deep_copies]:
  assumes law: "deep_lib lib"
  shows "deep_copy (ClusterPodConventionSpec_DeepCopyInto lib)
    ClusterPodConventionSpec_strip ClusterPodConventionSpec_addrs"
  by (rule deep_copy_struct [where get = "\<lambda>x. (hcs_Selectors x, hcs_Webhook x)"
        and put = "\<lambda>x (a, b). x\<lparr>hcs_Selectors := a, hcs_Webhook := b\<rparr>",
        OF deep_copy_pair [OF deep_copy_slice [OF deep_lib_copies(3) [OF law]]
           deep_copy_new [OF ClusterPodConventionWebhook_deep [OF law]]
          ]])
    (simp_all add: ClusterPodConventionSpec_DeepCopyInto_def ClusterPodConventionSpec_strip_def
      ClusterPodConventionSpec_addrs_def struct_simps)

record MemClusterPodConvention =
  hc_TypeMeta :: MemTypeMeta
  hc_ObjectMeta :: lib_value
  hc_Spec :: MemClusterPodConventionSpec

definition ClusterPodConvention_DeepCopyInto :: "copy_lib \<Rightarrow> MemClusterPodConvention copier" where
  "ClusterPodConvention_DeepCopyInto lib inp n =
     (let out = inp\<lparr>hc_TypeMeta := hc_TypeMeta inp\<rparr>;
          (objectMeta, n) = cl_ObjectMeta lib (hc_ObjectMeta inp) n;
          (spec, n) = ClusterPodConventionSpec_DeepCopyInto lib (hc_Spec inp) n
      in (out\<lparr>hc_ObjectMeta := objectMeta, hc_Spec := spec\<rparr>, n))"

definition ClusterPodConvention_strip :: "MemClusterPodConvention \<Rightarrow> MemClusterPodConvention" where
  "ClusterPodConvention_strip x = x\<lparr>hc_ObjectMeta := lib_strip (hc_ObjectMeta x),
     hc_Spec := ClusterPodConventionSpec_strip (hc_Spec x)\<rparr>"
definition ClusterPodConvention_addrs :: "MemClusterPodConvention \<Rightarrow> addr list" where
  "ClusterPodConvention_addrs x =
     lv_addrs (hc_ObjectMeta x) @
     ClusterPodConventionSpec_addrs (hc_Spec x)"

lemma ClusterPodConvention_deep [deep_copies]:
  assumes law: "deep_lib lib"
  shows "deep_copy (ClusterPodConvention_DeepCopyInto lib)
    ClusterPodConvention_strip ClusterPodConvention_addrs"
  by (rule deep_copy_struct [where get = "\<lambda>x. (hc_ObjectMeta x, hc_Spec x)"
        and put = "\<lambda>x (a, b). x\<lparr>hc_ObjectMeta := a, hc_Spec := b\<rparr>",
        OF deep_copy_pair [OF deep_lib_copies(1) [OF law]
           ClusterPodConventionSpec_deep [OF law]
          ]])
    (simp_all add: ClusterPodConvention_DeepCopyInto_def ClusterPodConvention_strip_def
      ClusterPodConvention_addrs_def struct_simps)

record MemClusterPodConventionList =
  hcl_TypeMeta :: MemTypeMeta
  hcl_ListMeta :: lib_value
  hcl_Items :: "MemClusterPodConvention list ref"

definition ClusterPodConventionList_DeepCopyInto :: "copy_lib \<Rightarrow> MemClusterPodConventionList copier" where
  "ClusterPodConventionList_DeepCopyInto lib inp n =
     (let out = inp\<lparr>hcl_TypeMeta := hcl_TypeMeta inp\<rparr>;
          (listMeta, n) = cl_ListMeta lib (hcl_ListMeta inp) n;
          (items, n) = copy_slice (ClusterPodConvention_DeepCopyInto lib) (hcl_Items inp) n
      in (out\<lparr>hcl_ListMeta := listMeta, hcl_Items := items\<rparr>, n))"

definition ClusterPodConventionList_strip :: "MemClusterPodConventionList \<Rightarrow> MemClusterPodConventionList" where
  "ClusterPodConventionList_strip x = x\<lparr>hcl_ListMeta := lib_strip (hcl_ListMeta x),
     hcl_Items := strip_ref (map ClusterPodConvention_strip) (hcl_Items x)\<rparr>"
definition ClusterPodConventionList_addrs :: "MemClusterPodConventionList \<Rightarrow> addr list" where
  "ClusterPodConventionList_addrs x =
     lv_addrs (hcl_ListMeta x) @
     addrs_ref (\<lambda>xs. concat (map ClusterPodConvention_addrs xs)) (hcl_Items x)"

lemma ClusterPodConventionList_deep [deep_copies]:
  assumes law: "deep_lib lib"
  shows "deep_copy (ClusterPodConventionList_DeepCopyInto lib)
    ClusterPodConventionList_strip ClusterPodConventionList_addrs"
  by (rule deep_copy_struct [where get = "\<lambda>x. (hcl_ListMeta x, hcl_Items x)"
        and put = "\<lambda>x (a, b). x\<lparr>hcl_ListMeta := a, hcl_Items := b\<rparr>",
        OF deep_copy_pair [OF deep_lib_copies(2) [OF law]
           deep_copy_slice [OF ClusterPodConvention_deep [OF law]]
          ]])
    (simp_all add: ClusterPodConventionList_DeepCopyInto_def ClusterPodConventionList_strip_def
      ClusterPodConventionList_addrs_def struct_simps)

type_synonym MemClusterPodConventionDefaults = unit

definition ClusterPodConventionDefaults_DeepCopyInto :: "MemClusterPodConventionDefaults copier" where
  "ClusterPodConventionDefaults_DeepCopyInto = copy_plain"

type_synonym MemClusterPodConventionValidator = unit

definition ClusterPodConventionValidator_DeepCopyInto :: "MemClusterPodConventionValidator copier" where
  "ClusterPodConventionValidator_DeepCopyInto = copy_plain"

definition ClusterPodConventionWebhookCertificate_DeepCopy :: "MemClusterPodConventionWebhookCertificate ref copier" where
  "ClusterPodConventionWebhookCertificate_DeepCopy inp n = copy_new ClusterPodConventionWebhookCertificate_DeepCopyInto inp n"

definition ClusterPodConventionWebhook_DeepCopy :: "copy_lib \<Rightarrow> MemClusterPodConventionWebhook ref copier" where
  "ClusterPodConventionWebhook_DeepCopy lib inp n = copy_new (ClusterPodConventionWebhook_DeepCopyInto lib) inp n"

definition ClusterPodConventionSpec_DeepCopy :: "copy_lib \<Rightarrow> MemClusterPodConventionSpec ref copier" where
  "ClusterPodConventionSpec_DeepCopy lib inp n = copy_new (ClusterPodConventionSpec_DeepCopyInto lib) inp n"

definition ClusterPodConventionDefaults_DeepCopy :: "MemClusterPodConventionDefaults ref copier" where
  "ClusterPodConventionDefaults_DeepCopy inp n = copy_new ClusterPodConventionDefaults_DeepCopyInto inp n"

definition ClusterPodConventionValidator_DeepCopy :: "MemClusterPodConventionValidator ref copier" where
  "ClusterPodConventionValidator_DeepCopy inp n = copy_new ClusterPodConventionValidator_DeepCopyInto inp n"

definition ClusterPodConvention_DeepCopy :: "copy_lib \<Rightarrow> MemClusterPodConvention ref copier" where
  "ClusterPodConvention_DeepCopy lib inp n = copy_new (ClusterPodConvention_DeepCopyInto lib) inp n"
definition ClusterPodConvention_DeepCopyObject :: "copy_lib \<Rightarrow> MemClusterPodConvention ref \<Rightarrow> addr \<Rightarrow> MemClusterPodConvention ref option \<times> addr" where
  "ClusterPodConvention_DeepCopyObject lib inp n = as_object (ClusterPodConvention_DeepCopy lib inp n)"

definition ClusterPodConventionList_DeepCopy :: "copy_lib \<Rightarrow> MemClusterPodConventionList ref copier" where
  "ClusterPodConventionList_DeepCopy lib inp n = copy_new (ClusterPodConventionList_DeepCopyInto lib) inp n"
definition ClusterPodConventionList_DeepCopyObject :: "copy_lib \<Rightarrow> MemClusterPodConventionList ref \<Rightarrow> addr \<Rightarrow> MemClusterPodConventionList ref option \<times> addr" where
  "ClusterPodConventionList_DeepCopyObject lib inp n = as_object (ClusterPodConventionList_DeepCopy lib inp n)"

subsection \<open>PodIntent\<close>

record MemPodIntentSpec =
  hps_ServiceAccountName :: string
  hps_ImagePullSecrets :: "string list ref"
  hps_Template :: MemPodTemplateSpec

definition PodIntentSpec_DeepCopyInto :: "copy_lib \<Rightarrow> MemPodIntentSpec copier" where
  "PodIntentSpec_DeepCopyInto lib inp n =
     (let out = inp;
          (imagePullSecrets, n) = copy_elements (hps_ImagePullSecrets inp) n;
          (template, n) = PodTemplateSpec_DeepCopyInto lib (hps_Template inp) n
      in (out\<lparr>hps_ImagePullSecrets := imagePullSecrets, hps_Template := template\<rparr>, n))"

definition PodIntentSpec_strip :: "MemPodIntentSpec \<Rightarrow> MemPodIntentSpec" where
  "PodIntentSpec_strip x = x\<lparr>hps_ImagePullSecrets := strip_ref id (hps_ImagePullSecrets x),
     hps_Template := PodTemplateSpec_strip (hps_Template x)\<rparr>"
definition PodIntentSpec_addrs :: "MemPodIntentSpec \<Rightarrow> addr list" where
  "PodIntentSpec_addrs x =
     addrs_ref no_addrs (hps_ImagePullSecrets x) @
     PodTemplateSpec_addrs (hps_Template x)"

lemma PodIntentSpec_deep [deep_copies]:
  assumes law: "deep_lib lib"
  shows "deep_copy (PodIntentSpec_DeepCopyInto lib)
    PodIntentSpec_strip PodIntentSpec_addrs"
  by (rule deep_copy_struct [where get = "\<lambda>x. (hps_ImagePullSecrets x, hps_Template x)"
        and put = "\<lambda>x (a, b). x\<lparr>hps_ImagePullSecrets := a, hps_Template := b\<rparr>",
        OF deep_copy_pair [OF deep_copy_elements
           PodTemplateSpec_deep [OF law]
          ]])
    (simp_all add: PodIntentSpec_DeepCopyInto_def PodIntentSpec_strip_def
      PodIntentSpec_addrs_def struct_simps)

record MemPodIntentStatus =
  hpt_Status :: lib_value
  hpt_Template :: "MemPodTemplateSpec ref"

definition PodIntentStatus_DeepCopyInto :: "copy_lib \<Rightarrow> MemPodIntentStatus copier" where
  "PodIntentStatus_DeepCopyInto lib inp n =
     (let out = inp;
          (status, n) = cl_Status lib (hpt_Status inp) n;
          (template, n) = copy_new (PodTemplateSpec_DeepCopyInto lib) (hpt_Template inp) n
      in (out\<lparr>hpt_Status := status, hpt_Template := template\<rparr>, n))"

definition PodIntentStatus_strip :: "MemPodIntentStatus \<Rightarrow> MemPodIntentStatus" where
  "PodIntentStatus_strip x = x\<lparr>hpt_Status := lib_strip (hpt_Status x),
     hpt_Template := strip_ref PodTemplateSpec_strip (hpt_Template x)\<rparr>"
definition PodIntentStatus_addrs :: "MemPodIntentStatus \<Rightarrow> addr list" where
  "PodIntentStatus_addrs x =
     lv_addrs (hpt_Status x) @
     addrs_ref PodTemplateSpec_addrs (hpt_Template x)"

lemma PodIntentStatus_deep [deep_copies]:
  assumes law: "deep_lib lib"
  shows "deep_copy (PodIntentStatus_DeepCopyInto lib)
    PodIntentStatus_strip PodIntentStatus_addrs"
  by (rule deep_copy_struct [where get = "\<lambda>x. (hpt_Status x, hpt_Template x)"
        and put = "\<lambda>x (a, b). x\<lparr>hpt_Status := a, hpt_Template := b\<rparr>",
        OF deep_copy_pair [OF deep_lib_copies(5) [OF law]
           deep_copy_new [OF PodTemplateSpec_deep [OF law]]
          ]])
    (simp_all add: PodIntentStatus_DeepCopyInto_def PodIntentStatus_strip_def
      PodIntentStatus_addrs_def struct_simps)

record MemPodIntent =
  hp_TypeMeta :: MemTypeMeta
  hp_ObjectMeta :: lib_value
  hp_Spec :: MemPodIntentSpec
  hp_Status :: MemPodIntentStatus

definition PodIntent_DeepCopyInto :: "copy_lib \<Rightarrow> MemPodIntent copier" where
  "PodIntent_DeepCopyInto lib inp n =
     (let out = inp\<lparr>hp_TypeMeta := hp_TypeMeta inp\<rparr>;
          (objectMeta, n) = cl_ObjectMeta lib (hp_ObjectMeta inp) n;
          (spec, n) = PodIntentSpec_DeepCopyInto lib (hp_Spec inp) n;
          (status, n) = PodIntentStatus_DeepCopyInto lib (hp_Status inp) n
      in (out\<lparr>hp_ObjectMeta := objectMeta, hp_Spec := spec, hp_Status := status\<rparr>, n))"

definition PodIntent_strip :: "MemPodIntent \<Rightarrow> MemPodIntent" where
  "PodIntent_strip x = x\<lparr>hp_ObjectMeta := lib_strip (hp_ObjectMeta x),
     hp_Spec := PodIntentSpec_strip (hp_Spec x),
     hp_Status := PodIntentStatus_strip (hp_Status x)\<rparr>"
definition PodIntent_addrs :: "MemPodIntent \<Rightarrow> addr list" where
  "PodIntent_addrs x =
     lv_addrs (hp_ObjectMeta x) @
     PodIntentSpec_addrs (hp_Spec x) @
     PodIntentStatus_addrs (hp_Status x)"

lemma PodIntent_deep [deep_copies]:
  assumes law: "deep_lib lib"
  shows "deep_copy (PodIntent_DeepCopyInto lib)
    PodIntent_strip PodIntent_addrs"
  by (rule deep_copy_struct [where get = "\<lambda>x. (hp_ObjectMeta x, hp_Spec x, hp_Status x)"
        and put = "\<lambda>x (a, b, c). x\<lparr>hp_ObjectMeta := a, hp_Spec := b, hp_Status := c\<rparr>",
        OF deep_copy_pair [OF deep_lib_copies(1) [OF law]
           deep_copy_pair [OF PodIntentSpec_deep [OF law]
           PodIntentStatus_deep [OF law]
          ]
          ]])
    (simp_all add: PodIntent_DeepCopyInto_def PodIntent_strip_def
      PodIntent_addrs_def struct_simps)

record MemPodIntentList =
  hpl_TypeMeta :: MemTypeMeta
  hpl_ListMeta :: lib_value
  hpl_Items :: "MemPodIntent list ref"

definition PodIntentList_DeepCopyInto :: "copy_lib \<Rightarrow> MemPodIntentList copier" where
  "PodIntentList_DeepCopyInto lib inp n =
     (let out = inp\<lparr>hpl_TypeMeta := hpl_TypeMeta inp\<rparr>;
          (listMeta, n) = cl_ListMeta lib (hpl_ListMeta inp) n;
          (items, n) = copy_slice (PodIntent_DeepCopyInto lib) (hpl_Items inp) n
      in (out\<lparr>hpl_ListMeta := listMeta, hpl_Items := items\<rparr>, n))"

definition PodIntentList_strip :: "MemPodIntentList \<Rightarrow> MemPodIntentList" where
  "PodIntentList_strip x = x\<lparr>hpl_ListMeta := lib_strip (hpl_ListMeta x),
     hpl_Items := strip_ref (map PodIntent_strip) (hpl_Items x)\<rparr>"
definition PodIntentList_addrs :: "MemPodIntentList \<Rightarrow> addr list" where
  "PodIntentList_addrs x =
     lv_addrs (hpl_ListMeta x) @
     addrs_ref (\<lambda>xs. concat (map PodIntent_addrs xs)) (hpl_Items x)"

lemma PodIntentList_deep [deep_copies]:
  assumes law: "deep_lib lib"
  shows "deep_copy (PodIntentList_DeepCopyInto lib)
    PodIntentList_strip PodIntentList_addrs"
  by (rule deep_copy_struct [where get = "\<lambda>x. (hpl_ListMeta x, hpl_Items x)"
        and put = "\<lambda>x (a, b). x\<lparr>hpl_ListMeta := a, hpl_Items := b\<rparr>",
        OF deep_copy_pair [OF deep_lib_copies(2) [OF law]
           deep_copy_slice [OF PodIntent_deep [OF law]]
          ]])
    (simp_all add: PodIntentList_DeepCopyInto_def PodIntentList_strip_def
      PodIntentList_addrs_def struct_simps)

type_synonym MemPodIntentDefaulter = unit

definition PodIntentDefaulter_DeepCopyInto :: "MemPodIntentDefaulter copier" where
  "PodIntentDefaulter_DeepCopyInto = copy_plain"

type_synonym MemPodIntentValidator = unit

definition PodIntentValidator_DeepCopyInto :: "MemPodIntentValidator copier" where
  "PodIntentValidator_DeepCopyInto = copy_plain"

definition PodIntentSpec_DeepCopy :: "copy_lib \<Rightarrow> MemPodIntentSpec ref copier" where
  "PodIntentSpec_DeepCopy lib inp n = copy_new (PodIntentSpec_DeepCopyInto lib) inp n"

definition PodIntentStatus_DeepCopy :: "copy_lib \<Rightarrow> MemPodIntentStatus ref copier" where
  "PodIntentStatus_DeepCopy lib inp n = copy_new (PodIntentStatus_DeepCopyInto lib) inp n"

definition PodIntentDefaulter_DeepCopy :: "MemPodIntentDefaulter ref copier" where
  "PodIntentDefaulter_DeepCopy inp n = copy_new PodIntentDefaulter_DeepCopyInto inp n"

definition PodIntentValidator_DeepCopy :: "MemPodIntentValidator ref copier" where
  "PodIntentValidator_DeepCopy inp n = copy_new PodIntentValidator_DeepCopyInto inp n"

definition PodIntent_DeepCopy :: "copy_lib \<Rightarrow> MemPodIntent ref copier" where
  "PodIntent_DeepCopy lib inp n = copy_new (PodIntent_DeepCopyInto lib) inp n"
definition PodIntent_DeepCopyObject :: "copy_lib \<Rightarrow> MemPodIntent ref \<Rightarrow> addr \<Rightarrow> MemPodIntent ref option \<times> addr" where
  "PodIntent_DeepCopyObject lib inp n = as_object (PodIntent_DeepCopy lib inp n)"

definition PodIntentList_DeepCopy :: "copy_lib \<Rightarrow> MemPodIntentList ref copier" where
  "PodIntentList_DeepCopy lib inp n = copy_new (PodIntentList_DeepCopyInto lib) inp n"
definition PodIntentList_DeepCopyObject :: "copy_lib \<Rightarrow> MemPodIntentList ref \<Rightarrow> addr \<Rightarrow> MemPodIntentList ref option \<times> addr" where
  "PodIntentList_DeepCopyObject lib inp n = as_object (PodIntentList_DeepCopy lib inp n)"

subsection \<open>The types of a convention webhook\<close>

record MemBOM =
  hb_Name :: string
  hb_Raw :: "char list ref"

definition BOM_DeepCopyInto :: "MemBOM copier" where
  "BOM_DeepCopyInto inp n =
     (let out = inp;
          (raw, n) = copy_elements (hb_Raw inp) n
      in (out\<lparr>hb_Raw := raw\<rparr>, n))"

definition BOM_strip :: "MemBOM \<Rightarrow> MemBOM" where
  "BOM_strip x = x\<lparr>hb_Raw := strip_ref id (hb_Raw x)\<rparr>"
definition BOM_addrs :: "MemBOM \<Rightarrow> addr list" where
  "BOM_addrs x =
     addrs_ref no_addrs (hb_Raw x)"

lemma BOM_deep [deep_copies]:
  shows "deep_copy BOM_DeepCopyInto
    BOM_strip BOM_addrs"
  by (rule deep_copy_struct [where get = "\<lambda>x. hb_Raw x"
        and put = "\<lambda>x a. x\<lparr>hb_Raw := a\<rparr>",
        OF deep_copy_elements])
    (simp_all add: BOM_DeepCopyInto_def BOM_strip_def
      BOM_addrs_def struct_simps)

record MemImageConfig =
  hi_Image :: string
  hi_BOMs :: "MemBOM list ref"
  hi_Config :: lib_value

definition ImageConfig_DeepCopyInto :: "copy_lib \<Rightarrow> MemImageConfig copier" where
  "ImageConfig_DeepCopyInto lib inp n =
     (let out = inp;
          (bOMs, n) = copy_slice BOM_DeepCopyInto (hi_BOMs inp) n;
          (config, n) = cl_ConfigFile lib (hi_Config inp) n
      in (out\<lparr>hi_BOMs := bOMs, hi_Config := config\<rparr>, n))"

definition ImageConfig_strip :: "MemImageConfig \<Rightarrow> MemImageConfig" where
  "ImageConfig_strip x = x\<lparr>hi_BOMs := strip_ref (map BOM_strip) (hi_BOMs x),
     hi_Config := lib_strip (hi_Config x)\<rparr>"
definition ImageConfig_addrs :: "MemImageConfig \<Rightarrow> addr list" where
  "ImageConfig_addrs x =
     addrs_ref (\<lambda>xs. concat (map BOM_addrs xs)) (hi_BOMs x) @
     lv_addrs (hi_Config x)"

lemma ImageConfig_deep [deep_copies]:
  assumes law: "deep_lib lib"
  shows "deep_copy (ImageConfig_DeepCopyInto lib)
    ImageConfig_strip ImageConfig_addrs"
  by (rule deep_copy_struct [where get = "\<lambda>x. (hi_BOMs x, hi_Config x)"
        and put = "\<lambda>x (a, b). x\<lparr>hi_BOMs := a, hi_Config := b\<rparr>",
        OF deep_copy_pair [OF deep_copy_slice [OF BOM_deep]
           deep_lib_copies(8) [OF law]
          ]])
    (simp_all add: ImageConfig_DeepCopyInto_def ImageConfig_strip_def
      ImageConfig_addrs_def struct_simps)

record MemPodConventionContextSpec =
  hxs_Template :: lib_value
  hxs_ImageConfig :: "MemImageConfig list ref"

definition PodConventionContextSpec_DeepCopyInto :: "copy_lib \<Rightarrow> MemPodConventionContextSpec copier" where
  "PodConventionContextSpec_DeepCopyInto lib inp n =
     (let out = inp;
          (template, n) = cl_CorePodTemplateSpec lib (hxs_Template inp) n;
          (imageConfig, n) = copy_slice (ImageConfig_DeepCopyInto lib) (hxs_ImageConfig inp) n
      in (out\<lparr>hxs_Template := template, hxs_ImageConfig := imageConfig\<rparr>, n))"

definition PodConventionContextSpec_strip :: "MemPodConventionContextSpec \<Rightarrow> MemPodConventionContextSpec" where
  "PodConventionContextSpec_strip x = x\<lparr>hxs_Template := lib_strip (hxs_Template x),
     hxs_ImageConfig := strip_ref (map ImageConfig_strip) (hxs_ImageConfig x)\<rparr>"
definition PodConventionContextSpec_addrs :: "MemPodConventionContextSpec \<Rightarrow> addr list" where
  "PodConventionContextSpec_addrs x =
     lv_addrs (hxs_Template x) @
     addrs_ref (\<lambda>xs. concat (map ImageConfig_addrs xs)) (hxs_ImageConfig x)"

lemma PodConventionContextSpec_deep [deep_copies]:
  assumes law: "deep_lib lib"
  shows "deep_copy (PodConventionContextSpec_DeepCopyInto lib)
    PodConventionContextSpec_strip PodConventionContextSpec_addrs"
  by (rule deep_copy_struct [where get = "\<lambda>x. (hxs_Template x, hxs_ImageConfig x)"
        and put = "\<lambda>x (a, b). x\<lparr>hxs_Template := a, hxs_ImageConfig := b\<rparr>",
        OF deep_copy_pair [OF deep_lib_copies(7) [OF law]
           deep_copy_slice [OF ImageConfig_deep [OF law]]
          ]])
    (simp_all add: PodConventionContextSpec_DeepCopyInto_def PodConventionContextSpec_strip_def
      PodConventionContextSpec_addrs_def struct_simps)

record MemPodConventionContextStatus =
  hxt_Template :: lib_value
  hxt_AppliedConventions :: "string list ref"

definition PodConventionContextStatus_DeepCopyInto :: "copy_lib \<Rightarrow> MemPodConventionContextStatus copier" where
  "PodConventionContextStatus_DeepCopyInto lib inp n =
     (let out = inp;
          (template, n) = cl_CorePodTemplateSpec lib (hxt_Template inp) n;
          (appliedConventions, n) = copy_elements (hxt_AppliedConventions inp) n
      in (out\<lparr>hxt_Template := template, hxt_AppliedConventions := appliedConventions\<rparr>, n))"

definition PodConventionContextStatus_strip :: "MemPodConventionContextStatus \<Rightarrow> MemPodConventionContextStatus" where
  "PodConventionContextStatus_strip x = x\<lparr>hxt_Template := lib_strip (hxt_Template x),
     hxt_AppliedConventions := strip_ref id (hxt_AppliedConventions x)\<rparr>"
definition PodConventionContextStatus_addrs :: "MemPodConventionContextStatus \<Rightarrow> addr list" where
  "PodConventionContextStatus_addrs x =
     lv_addrs (hxt_Template x) @
     addrs_ref no_addrs (hxt_AppliedConventions x)"

lemma PodConventionContextStatus_deep [deep_copies]:
  assumes law: "deep_lib lib"
  shows "deep_copy (PodConventionContextStatus_DeepCopyInto lib)
    PodConventionContextStatus_strip PodConventionContextStatus_addrs"
  by (rule deep_copy_struct [where get = "\<lambda>x. (hxt_Template x, hxt_AppliedConventions x)"
        and put = "\<lambda>x (a, b). x\<lparr>hxt_Template := a, hxt_AppliedConventions := b\<rparr>",
        OF deep_copy_pair [OF deep_lib_copies(7) [OF law]
           deep_copy_elements
          ]])
    (simp_all add: PodConventionContextStatus_DeepCopyInto_def PodConventionContextStatus_strip_def
      PodConventionContextStatus_addrs_def struct_simps)

definition BOM_DeepCopy :: "MemBOM ref copier" where
  "BOM_DeepCopy inp n = copy_new BOM_DeepCopyInto inp n"

definition ImageConfig_DeepCopy :: "copy_lib \<Rightarrow> MemImageConfig ref copier" where
  "ImageConfig_DeepCopy lib inp n = copy_new (ImageConfig_DeepCopyInto lib) inp n"

definition PodConventionContextSpec_DeepCopy :: "copy_lib \<Rightarrow> MemPodConventionContextSpec ref copier" where
  "PodConventionContextSpec_DeepCopy lib inp n = copy_new (PodConventionContextSpec_DeepCopyInto lib) inp n"

definition PodConventionContextStatus_DeepCopy :: "copy_lib \<Rightarrow> MemPodConventionContextStatus ref copier" where
  "PodConventionContextStatus_DeepCopy lib inp n = copy_new (PodConventionContextStatus_DeepCopyInto lib) inp n"

subsection \<open>What a deep copy guarantees\<close>

text \<open>C28: The deep copy of a convention in memory, which the controller makes before it defaults the
  listed one, is the same convention in new memory: equal up to addresses, at the next free
  address, no two of its references to the same object and none to an object of the original, so
  that no write through it reaches the original. The copy of a nil pointer is nil.\<close>

theorem convention_deep_copy:
  assumes "deep_lib lib" and "\<forall>a \<in> set (ClusterPodConvention_addrs x). a < n"
  shows "(\<exists>y n'. ClusterPodConvention_DeepCopy lib (Ref p x) n = (Ref n y, n') \<and>
      ClusterPodConvention_DeepCopyObject lib (Ref p x) n = (Some (Ref n y), n') \<and>
      ClusterPodConvention_strip y = ClusterPodConvention_strip x \<and> distinct (n # ClusterPodConvention_addrs y) \<and>
      set (n # ClusterPodConvention_addrs y) \<inter> set (ClusterPodConvention_addrs x) = {}) \<and>
    ClusterPodConvention_DeepCopyObject lib NilRef n = (None, n)"
  using deep_copy.copy_separate [OF ClusterPodConvention_deep [OF assms(1)] assms(2), of p]
  by (auto simp: ClusterPodConvention_DeepCopyObject_def ClusterPodConvention_DeepCopy_def as_object_def)

text \<open>A convention with a selector and a webhook, the addresses of each in use below 10.\<close>

definition sample_lib_value :: "addr list \<Rightarrow> lib_value" where
  "sample_lib_value as = \<lparr>lv_data = [], lv_addrs = as\<rparr>"

definition sample_mem_convention :: MemClusterPodConvention where
  "sample_mem_convention = \<lparr>hc_TypeMeta = \<lparr>tm_Kind = ''ClusterPodConvention'', tm_APIVersion = []\<rparr>,
     hc_ObjectMeta = sample_lib_value [1],
     hc_Spec = \<lparr>hcs_Selectors = Ref 2 [sample_lib_value [3]], hcs_SelectorTarget = [], hcs_Priority = ''Normal'',
       hcs_Webhook = Ref 4 \<lparr>hw_ClientConfig = sample_lib_value [], hw_Certificate = NilRef\<rparr>\<rparr>\<rparr>"

lemma convention_deep_copy_witness:
  "\<exists>y n'. ClusterPodConvention_DeepCopy relocating_lib (Ref 0 sample_mem_convention) 10 = (Ref 10 y, n') \<and>
     set (10 # ClusterPodConvention_addrs y) \<inter> {1, 2, 3, 4} = {}"
proof -
  have addrs: "ClusterPodConvention_addrs sample_mem_convention = [1, 2, 3, 4]" by code_simp
  then have "\<forall>a \<in> set (ClusterPodConvention_addrs sample_mem_convention). a < 10" by simp
  from convention_deep_copy [OF relocating_lib_deep this, of 0] show ?thesis
    unfolding addrs by auto
qed

text \<open>The same holds of an intent and of a list of intents: nothing the copy refers to, in the
  template, the pull secrets, the status or any item, is shared with the original.\<close>

lemma intent_deep_copy:
  assumes "deep_lib lib" and "\<forall>a \<in> set (PodIntent_addrs x). a < n" and "\<forall>a \<in> set (PodIntentList_addrs xs). a < n"
  shows "(\<exists>y n'. PodIntent_DeepCopy lib (Ref p x) n = (Ref n y, n') \<and> PodIntent_strip y = PodIntent_strip x \<and>
       distinct (n # PodIntent_addrs y) \<and> set (n # PodIntent_addrs y) \<inter> set (PodIntent_addrs x) = {}) \<and>
    (\<exists>ys n'. PodIntentList_DeepCopy lib (Ref q xs) n = (Ref n ys, n') \<and> PodIntentList_strip ys = PodIntentList_strip xs \<and>
       distinct (n # PodIntentList_addrs ys) \<and> set (n # PodIntentList_addrs ys) \<inter> set (PodIntentList_addrs xs) = {})"
  unfolding PodIntent_DeepCopy_def PodIntentList_DeepCopy_def
  using deep_copy.copy_separate [OF PodIntent_deep [OF assms(1)] assms(2), of p]
    deep_copy.copy_separate [OF PodIntentList_deep [OF assms(1)] assms(3), of q]
  by (rule conjI)

definition sample_mem_intent :: MemPodIntent where
  "sample_mem_intent =
     (let template = \<lparr>ht_ObjectMeta = \<lparr>hm_Name = [], hm_GenerateName = [], hm_Namespace = [],
            hm_Labels = Ref 1 (fmupd ''app'' ''demo'' fmempty), hm_Annotations = NilRef\<rparr>, ht_Spec = sample_lib_value [2]\<rparr>
      in \<lparr>hp_TypeMeta = \<lparr>tm_Kind = ''PodIntent'', tm_APIVersion = []\<rparr>, hp_ObjectMeta = sample_lib_value [],
          hp_Spec = \<lparr>hps_ServiceAccountName = [], hps_ImagePullSecrets = Ref 3 [''secret''], hps_Template = template\<rparr>,
          hp_Status = \<lparr>hpt_Status = sample_lib_value [], hpt_Template = Ref 4 template\<rparr>\<rparr>)"

text \<open>The template of the status of this intent shares the labels of its specification; its copy does not.\<close>

lemma intent_deep_copy_witness:
  "\<exists>y n'. PodIntent_DeepCopy relocating_lib (Ref 0 sample_mem_intent) 10 = (Ref 10 y, n') \<and>
     distinct (10 # PodIntent_addrs y) \<and> \<not> distinct (PodIntent_addrs sample_mem_intent)"
proof -
  let ?list = "\<lparr>hpl_TypeMeta = \<lparr>tm_Kind = ''PodIntentList'', tm_APIVersion = []\<rparr>, hpl_ListMeta = sample_lib_value [],
     hpl_Items = Ref 5 [sample_mem_intent]\<rparr>"
  have addrs: "PodIntent_addrs sample_mem_intent = [3, 1, 2, 4, 1, 2]" "PodIntentList_addrs ?list = [5, 3, 1, 2, 4, 1, 2]"
    by code_simp+
  then have "\<forall>a \<in> set (PodIntent_addrs sample_mem_intent). a < 10" "\<forall>a \<in> set (PodIntentList_addrs ?list). a < 10"
    by simp_all
  from intent_deep_copy [OF relocating_lib_deep this, of 0 0] show ?thesis
    unfolding addrs by auto
qed

end
