(* ===== verification/Dies.thy ===== *)
theory Dies
  imports Memory GoStrings
begin

text \<open>
  What every type in \<open>pkg/dies/**/zz_generated.die.go\<close> is an instance of. A die holds a resource and
  builds variants of it for the tests; an immutable die answers every method with a new die and a
  mutable one changes itself and answers with itself. The definitions here have the bodies the
  generator writes, with the parts that differ between types (the zero value, the deep copy, the
  frozen metadata of an object) in a \<open>die_type\<close>; \<open>DieTypes\<close> instantiates them for each type.

  A method takes the die it is called on and, where it allocates, the next free address; it returns
  the receiver as it is afterwards and the outcome, which is the receiver or a new die. A panic is
  \<open>Inl\<close>. A callback gets a pointer to a value and returns what it left there; a callback on a
  mutable die returns the die as it left it. Codecs, \<open>cmp.Diff\<close> and \<open>patch.Create\<close> are parameters.
\<close>

subsection \<open>Data\<close>

record ('r, 'f) die =
  die_frozen :: 'f
  die_mutable :: bool
  die_r :: 'r
  die_seal :: 'r

record ('r, 'f) die_type =
  dt_zero :: 'r
  dt_freeze :: "'r \<Rightarrow> 'f"
  dt_into :: "'r copier"

datatype 'd outcome = Receiver | NewDie 'd

type_synonym ('r, 'f) call_result = "('r, 'f) die \<times> ('r, 'f) die outcome"
type_synonym ('r, 'f) die_callback = "('r, 'f) die \<Rightarrow> addr \<Rightarrow> ('r, 'f) die \<times> addr"

text \<open>The die the caller goes on with.\<close>

fun result_of :: "('r, 'f) call_result \<Rightarrow> ('r, 'f) die" where
  "result_of (d, Receiver) = d"
| "result_of (d, NewDie d') = d'"

record 'r die_codec =
  dx_MarshalJSON :: "'r \<Rightarrow> string result"
  dx_UnmarshalJSON :: "string \<Rightarrow> 'r \<times> go_error option"
  dx_MarshalYAML :: "'r \<Rightarrow> string result"
  dx_UnmarshalYAML :: "string \<Rightarrow> 'r \<times> go_error option"

subsection \<open>Copying, feeding and releasing\<close>

text \<open>\<open>*x.DeepCopy()\<close>: the copy is allocated and its value taken.\<close>

definition deep_value :: "('r, 'f) die_type \<Rightarrow> 'r copier" where
  "deep_value c x n = (case copy_new (dt_into c) (Ref 0 x) n of (Ref _ y, n') \<Rightarrow> (y, n') | (NilRef, n') \<Rightarrow> (x, n'))"

definition die_DeepCopy :: "('r, 'f) die_type \<Rightarrow> ('r, 'f) die \<Rightarrow> addr \<Rightarrow> ('r, 'f) die \<times> addr" where
  "die_DeepCopy c d n = (case deep_value c (die_r d) n of (r, n') \<Rightarrow>
     (\<lparr>die_frozen = dt_freeze c r, die_mutable = die_mutable d, die_r = r, die_seal = die_seal d\<rparr>, n'))"

definition die_DieImmutable ::
    "('r, 'f) die_type \<Rightarrow> bool \<Rightarrow> ('r, 'f) die \<Rightarrow> addr \<Rightarrow> ('r, 'f) call_result \<times> addr" where
  "die_DieImmutable c immutable d n =
     (if die_mutable d = (\<not> immutable) then ((d, Receiver), n)
      else case die_DeepCopy c d n of (d', n') \<Rightarrow> ((d, NewDie (d'\<lparr>die_mutable := \<not> immutable\<rparr>)), n'))"

definition die_DieFeed :: "('r, 'f) die_type \<Rightarrow> 'r \<Rightarrow> ('r, 'f) die \<Rightarrow> ('r, 'f) call_result" where
  "die_DieFeed c r d =
     (if die_mutable d then (d\<lparr>die_frozen := dt_freeze c r, die_r := r\<rparr>, Receiver)
      else (d, NewDie \<lparr>die_frozen = dt_freeze c r, die_mutable = die_mutable d, die_r = r, die_seal = die_seal d\<rparr>))"

definition die_DieFeedPtr :: "('r, 'f) die_type \<Rightarrow> 'r ref \<Rightarrow> ('r, 'f) die \<Rightarrow> ('r, 'f) call_result" where
  "die_DieFeedPtr c p d = (case p of NilRef \<Rightarrow> die_DieFeed c (dt_zero c) d | Ref a r \<Rightarrow> die_DieFeed c r d)"

definition die_blank :: "('r, 'f) die_type \<Rightarrow> ('r, 'f) die" where
  "die_blank c = result_of (die_DieFeed c (dt_zero c)
     \<lparr>die_frozen = dt_freeze c (dt_zero c), die_mutable = False, die_r = dt_zero c, die_seal = dt_zero c\<rparr>)"

definition die_DieFeedJSON ::
    "('r, 'f) die_type \<Rightarrow> 'r die_codec \<Rightarrow> string \<Rightarrow> ('r, 'f) die \<Rightarrow> ('r, 'f) call_result result" where
  "die_DieFeedJSON c x j d = (case dx_UnmarshalJSON x j of
     (r, Some err) \<Rightarrow> Inl err | (r, None) \<Rightarrow> Inr (die_DieFeed c r d))"

definition die_DieFeedYAML ::
    "('r, 'f) die_type \<Rightarrow> 'r die_codec \<Rightarrow> string \<Rightarrow> ('r, 'f) die \<Rightarrow> ('r, 'f) call_result result" where
  "die_DieFeedYAML c x y d = (case dx_UnmarshalYAML x y of
     (r, Some err) \<Rightarrow> Inl err | (r, None) \<Rightarrow> Inr (die_DieFeed c r d))"

text \<open>The value of another type is given by what \<open>json.Marshal\<close> makes of it.\<close>

definition die_DieFeedDuck ::
    "('r, 'f) die_type \<Rightarrow> 'r die_codec \<Rightarrow> string result \<Rightarrow> ('r, 'f) die \<Rightarrow> ('r, 'f) call_result result" where
  "die_DieFeedDuck c x v d = (case v of Inl err \<Rightarrow> Inl err | Inr data \<Rightarrow> die_DieFeedJSON c x data d)"

definition die_DieFeedRawExtension ::
    "('r, 'f) die_type \<Rightarrow> 'r die_codec \<Rightarrow> string result \<Rightarrow> ('r, 'f) die \<Rightarrow> ('r, 'f) call_result result" where
  "die_DieFeedRawExtension c x raw d = (case raw of Inl err \<Rightarrow> Inl err | Inr j \<Rightarrow> die_DieFeedJSON c x j d)"

definition die_DieFeedYAMLFile :: "('r, 'f) die_type \<Rightarrow> 'r die_codec \<Rightarrow> (string \<Rightarrow> string result) \<Rightarrow> string \<Rightarrow>
    ('r, 'f) die \<Rightarrow> ('r, 'f) call_result result" where
  "die_DieFeedYAMLFile c x readFile name d = (case readFile name of
     Inl err \<Rightarrow> Inl err | Inr y \<Rightarrow> die_DieFeedYAML c x y d)"

definition die_DieRelease :: "('r, 'f) die_type \<Rightarrow> ('r, 'f) die \<Rightarrow> addr \<Rightarrow> 'r \<times> addr" where
  "die_DieRelease c d n = (if die_mutable d then (die_r d, n) else deep_value c (die_r d) n)"

definition die_DieReleasePtr :: "('r, 'f) die_type \<Rightarrow> ('r, 'f) die \<Rightarrow> addr \<Rightarrow> 'r ref \<times> addr" where
  "die_DieReleasePtr c d n = (case die_DieRelease c d n of (r, n') \<Rightarrow> (Ref n' r, Suc n'))"

text \<open>Marshalling the released pointer; the value marshalled is what it points to.\<close>

definition die_DieReleaseJSON :: "('r, 'f) die_type \<Rightarrow> 'r die_codec \<Rightarrow> ('r, 'f) die \<Rightarrow> addr \<Rightarrow> string result \<times> addr" where
  "die_DieReleaseJSON c x d n = (case die_DieRelease c d n of (r, n') \<Rightarrow> (dx_MarshalJSON x r, Suc n'))"

definition die_DieReleaseYAML :: "('r, 'f) die_type \<Rightarrow> 'r die_codec \<Rightarrow> ('r, 'f) die \<Rightarrow> addr \<Rightarrow> string result \<times> addr" where
  "die_DieReleaseYAML c x d n = (case die_DieRelease c d n of (r, n') \<Rightarrow> (dx_MarshalYAML x r, Suc n'))"

definition die_DieReleaseDuck :: "('r, 'f) die_type \<Rightarrow> 'r die_codec \<Rightarrow> (string \<Rightarrow> 'v \<times> go_error option) \<Rightarrow>
    ('r, 'f) die \<Rightarrow> addr \<Rightarrow> 'v result \<times> addr" where
  "die_DieReleaseDuck c x unmarshal d n = (case die_DieReleaseJSON c x d n of
     (Inl err, n') \<Rightarrow> (Inl err, n')
   | (Inr data, n') \<Rightarrow> (case unmarshal data of (v, Some err) \<Rightarrow> (Inl err, n') | (v, None) \<Rightarrow> (Inr v, n')))"

definition die_DieReleaseRawExtension :: "('r, 'f) die_type \<Rightarrow> 'r die_codec \<Rightarrow> (string \<Rightarrow> 'v \<times> go_error option) \<Rightarrow>
    ('r, 'f) die \<Rightarrow> addr \<Rightarrow> 'v result \<times> addr" where
  "die_DieReleaseRawExtension c x unmarshal d n = (case die_DieReleaseJSON c x d n of
     (Inl err, n') \<Rightarrow> (Inl err, n')
   | (Inr j, n') \<Rightarrow> (case unmarshal j of (raw, Some err) \<Rightarrow> (Inl err, n') | (raw, None) \<Rightarrow> (Inr raw, n')))"

definition die_DieReleaseUnstructured :: "('r, 'f) die_type \<Rightarrow> ('r \<Rightarrow> 'u result) \<Rightarrow> ('r, 'f) die \<Rightarrow> addr \<Rightarrow> 'u result \<times> addr" where
  "die_DieReleaseUnstructured c to_unstructured d n =
     (case die_DieRelease c d n of (r, n') \<Rightarrow> (to_unstructured r, Suc n'))"

subsection \<open>Stamping\<close>

definition die_DieStamp :: "('r, 'f) die_type \<Rightarrow> 'r copier \<Rightarrow> ('r, 'f) die \<Rightarrow> addr \<Rightarrow> ('r, 'f) call_result \<times> addr" where
  "die_DieStamp c fn d n =
     (case die_DieRelease c d n of (r, n1) \<Rightarrow> (case fn r n1 of (r', n2) \<Rightarrow> (die_DieFeed c r' d, n2)))"

text \<open>
  \<open>DieStampAt\<close> finds places in the resource by a JSON path and calls a function by reflection. Of the
  function only its signature, the type check at a place and what a call does there are known, with
  the value of the place (\<open>False\<close>) or its address (\<open>True\<close>); of a place its type. A path that is not
  found changes nothing.
\<close>

record ('r, 'l) stamp_callback =
  sc_NumIn :: nat
  sc_NumOut :: nat
  sc_In0 :: string
  sc_Assignable :: "'l \<Rightarrow> bool"
  sc_AddrAssignable :: "'l \<Rightarrow> bool"
  sc_Call :: "bool \<Rightarrow> 'l \<Rightarrow> 'r copier"

record ('r, 'l) json_path =
  jp_Parse :: "string \<Rightarrow> go_error option"
  jp_FindResults :: "string \<Rightarrow> 'r \<Rightarrow> 'l list list result"
  jp_Type :: "'l \<Rightarrow> string"

definition quoted :: "string \<Rightarrow> string" where
  "quoted s = CHR 0x22 # s @ [CHR 0x22]"

fun stamp_matches :: "('r, 'l) json_path \<Rightarrow> ('r, 'l) stamp_callback \<Rightarrow> 'l list \<Rightarrow> 'r \<Rightarrow> addr \<Rightarrow> ('r \<times> addr) result" where
  "stamp_matches x fn [] r n = Inr (r, n)"
| "stamp_matches x fn (cv # cvs) r n =
     (if sc_Assignable fn cv
      then case sc_Call fn False cv r n of (r', n') \<Rightarrow> stamp_matches x fn cvs r' n'
      else if sc_AddrAssignable fn cv
      then case sc_Call fn True cv r n of (r', n') \<Rightarrow> stamp_matches x fn cvs r' n'
      else Inl (LibError (''callback function must accept value of type '' @ quoted (jp_Type x cv) @
        '', found type '' @ quoted (sc_In0 fn))))"

definition stamp_at :: "('r, 'l) json_path \<Rightarrow> ('r, 'l) stamp_callback \<Rightarrow> string \<Rightarrow> 'r \<Rightarrow> addr \<Rightarrow> ('r \<times> addr) result" where
  "stamp_at x fn jp r n =
     (if sc_NumIn fn \<noteq> 1
      then Inl (LibError (''callback function must have 1 input parameters, found '' @ itoa (int (sc_NumIn fn))))
      else if sc_NumOut fn \<noteq> 0
      then Inl (LibError (''callback function must have 0 output parameters, found '' @ itoa (int (sc_NumOut fn))))
      else case jp_Parse x (''{'' @ jp @ ''}'') of
        Some err \<Rightarrow> Inl err
      | None \<Rightarrow> (case jp_FindResults x (''{'' @ jp @ ''}'') r of
          Inl err \<Rightarrow> Inr (r, n)
        | Inr [] \<Rightarrow> Inl (LibError ''index out of range'')
        | Inr (cr0 # _) \<Rightarrow> stamp_matches x fn cr0 r n))"

definition die_DieStampAt :: "('r, 'f) die_type \<Rightarrow> ('r, 'l) json_path \<Rightarrow> string \<Rightarrow> ('r, 'l) stamp_callback \<Rightarrow>
    ('r, 'f) die \<Rightarrow> addr \<Rightarrow> (('r, 'f) call_result \<times> addr) result" where
  "die_DieStampAt c x jp fn d n =
     (case die_DieRelease c d n of (r, n1) \<Rightarrow>
      (case stamp_at x fn jp r n1 of Inl err \<Rightarrow> Inl err | Inr (r', n2) \<Rightarrow> Inr (die_DieFeed c r' d, n2)))"

text \<open>A callback that sets a field or another part of the resource.\<close>

definition die_set :: "('r, 'f) die_type \<Rightarrow> ('r \<Rightarrow> 'r) \<Rightarrow> ('r, 'f) die \<Rightarrow> addr \<Rightarrow> ('r, 'f) call_result \<times> addr" where
  "die_set c f = die_DieStamp c (\<lambda>r n. (f r, n))"

fun run_callbacks :: "('r, 'f) die_callback option list \<Rightarrow> ('r, 'f) die_callback" where
  "run_callbacks [] nd n = (nd, n)"
| "run_callbacks (None # fns) nd n = run_callbacks fns nd n"
| "run_callbacks (Some fn # fns) nd n = (case fn nd n of (nd', n') \<Rightarrow> run_callbacks fns nd' n')"

definition die_DieWith ::
    "('r, 'f) die_type \<Rightarrow> ('r, 'f) die_callback option list \<Rightarrow> ('r, 'f) die \<Rightarrow> addr \<Rightarrow> ('r, 'f) call_result \<times> addr" where
  "die_DieWith c fns d n =
     (case die_DieRelease c d n of (r, n1) \<Rightarrow>
      (case die_DieImmutable c False (result_of (die_DieFeed c r (die_blank c))) n1 of (res, n2) \<Rightarrow>
      (case run_callbacks fns (result_of res) n2 of (nd, n3) \<Rightarrow>
      (case die_DieRelease c nd n3 of (r', n4) \<Rightarrow> (die_DieFeed c r' d, n4)))))"

text \<open>
  The body of the methods that edit a part with a die of the part's type: a mutable die fed with the
  part, the callback, and the value it releases.
\<close>

definition edit_part :: "('p, 'g) die_type \<Rightarrow> ('p, 'g) die_callback \<Rightarrow> 'p copier" where
  "edit_part c fn v n =
     (case die_DieImmutable c False (die_blank c) n of (res, n1) \<Rightarrow>
      (case fn (result_of (die_DieFeed c v (result_of res))) n1 of (d, n2) \<Rightarrow> die_DieRelease c d n2))"

definition edit_part_ptr :: "('p, 'g) die_type \<Rightarrow> ('p, 'g) die_callback \<Rightarrow> 'p ref copier" where
  "edit_part_ptr c fn p n =
     (case die_DieImmutable c False (die_blank c) n of (res, n1) \<Rightarrow>
      (case fn (result_of (die_DieFeedPtr c p (result_of res))) n1 of (d, n2) \<Rightarrow> die_DieReleasePtr c d n2))"

subsection \<open>Sealing\<close>

definition die_DieSealFeed :: "('r, 'f) die_type \<Rightarrow> 'r \<Rightarrow> ('r, 'f) die \<Rightarrow> addr \<Rightarrow> ('r, 'f) call_result \<times> addr" where
  "die_DieSealFeed c r d n =
     (if \<not> die_mutable d
      then case die_DeepCopy c d n of (d', n1) \<Rightarrow> (case deep_value c r n1 of (s, n2) \<Rightarrow> ((d, NewDie (d'\<lparr>die_seal := s\<rparr>)), n2))
      else case deep_value c r n of (s, n1) \<Rightarrow> ((d\<lparr>die_seal := s\<rparr>, Receiver), n1))"

definition die_DieSeal :: "('r, 'f) die_type \<Rightarrow> ('r, 'f) die \<Rightarrow> addr \<Rightarrow> ('r, 'f) call_result \<times> addr" where
  "die_DieSeal c d n = die_DieSealFeed c (die_r d) d n"

definition die_DieSealFeedPtr :: "('r, 'f) die_type \<Rightarrow> 'r ref \<Rightarrow> ('r, 'f) die \<Rightarrow> addr \<Rightarrow> ('r, 'f) call_result \<times> addr" where
  "die_DieSealFeedPtr c p d n =
     (case p of NilRef \<Rightarrow> die_DieSealFeed c (dt_zero c) d n | Ref a r \<Rightarrow> die_DieSealFeed c r d n)"

definition die_DieSealRelease :: "('r, 'f) die_type \<Rightarrow> ('r, 'f) die \<Rightarrow> addr \<Rightarrow> 'r \<times> addr" where
  "die_DieSealRelease c d n = deep_value c (die_seal d) n"

definition die_DieSealReleasePtr :: "('r, 'f) die_type \<Rightarrow> ('r, 'f) die \<Rightarrow> addr \<Rightarrow> 'r ref \<times> addr" where
  "die_DieSealReleasePtr c d n = (case die_DieSealRelease c d n of (r, n') \<Rightarrow> (Ref n' r, Suc n'))"

definition die_DieDiff :: "('r \<Rightarrow> 'r \<Rightarrow> string) \<Rightarrow> ('r, 'f) die \<Rightarrow> string" where
  "die_DieDiff diff d = diff (die_seal d) (die_r d)"

definition die_DiePatch :: "('r \<Rightarrow> 'r \<Rightarrow> 'p \<Rightarrow> string result) \<Rightarrow> 'p \<Rightarrow> ('r, 'f) die \<Rightarrow> string result" where
  "die_DiePatch create patchType d = create (die_seal d) (die_r d) patchType"

subsection \<open>The methods of an object\<close>

definition die_DeepCopyObject :: "('r, 'f) die_type \<Rightarrow> ('r, 'f) die \<Rightarrow> addr \<Rightarrow> 'r ref \<times> addr" where
  "die_DeepCopyObject c d n = copy_new (dt_into c) (Ref 0 (die_r d)) n"

definition die_GetObjectKind :: "('r, 'f) die_type \<Rightarrow> ('r \<Rightarrow> 'k) \<Rightarrow> ('r, 'f) die \<Rightarrow> addr \<Rightarrow> 'k \<times> addr" where
  "die_GetObjectKind c kind_of d n = (case die_DieRelease c d n of (r, n') \<Rightarrow> (kind_of r, n'))"

definition die_MarshalJSON :: "'r die_codec \<Rightarrow> ('r, 'f) die \<Rightarrow> string result" where
  "die_MarshalJSON x d = dx_MarshalJSON x (die_r d)"

text \<open>The resource is fed to the die also when decoding it failed; the receiver is returned.\<close>

definition die_UnmarshalJSON ::
    "('r, 'f) die_type \<Rightarrow> 'r die_codec \<Rightarrow> string \<Rightarrow> ('r, 'f) die \<Rightarrow> go_error option \<times> ('r, 'f) die" where
  "die_UnmarshalJSON c x b d =
     (if \<not> die_mutable d
      then (Some (LibError ''cannot unmarshal into immutable dies, create a mutable version first''), d)
      else case dx_UnmarshalJSON x b of (resource, err) \<Rightarrow> (err, result_of (die_DieFeed c resource d)))"

subsection \<open>What a method keeps\<close>

text \<open>The frozen metadata of a die are those of its resource.\<close>

definition frozen_die :: "('r, 'f) die_type \<Rightarrow> ('r, 'f) die \<Rightarrow> bool" where
  "frozen_die c d \<longleftrightarrow> die_frozen d = dt_freeze c (die_r d)"

text \<open>
  The contract of a method: called on an immutable die it leaves the die alone and answers with an
  immutable one; called on a mutable die it answers with that die, still mutable; and it keeps the
  frozen metadata in step.
\<close>

locale die_method =
  fixes c :: "('r, 'f) die_type" and call :: "('r, 'f) die \<Rightarrow> addr \<Rightarrow> ('r, 'f) call_result \<times> addr"
  assumes immutable_kept: "\<not> die_mutable d \<Longrightarrow> fst (fst (call d n)) = d"
    and immutable_result: "\<not> die_mutable d \<Longrightarrow> \<not> die_mutable (result_of (fst (call d n)))"
    and mutable_in_place: "die_mutable d \<Longrightarrow> snd (fst (call d n)) = Receiver \<and> die_mutable (result_of (fst (call d n)))"
    and keeps_frozen: "frozen_die c d \<Longrightarrow> frozen_die c (result_of (fst (call d n)))"

text \<open>One call after the other, as in \<open>d.First().Second()\<close>.\<close>

definition then_call :: "(('r, 'f) die \<Rightarrow> addr \<Rightarrow> ('r, 'f) call_result \<times> addr) \<Rightarrow>
    (('r, 'f) die \<Rightarrow> addr \<Rightarrow> ('r, 'f) call_result \<times> addr) \<Rightarrow> ('r, 'f) die \<Rightarrow> addr \<Rightarrow> ('r, 'f) call_result \<times> addr" where
  "then_call first second d n =
     (case first d n of
        ((d1, Receiver), n1) \<Rightarrow> second d1 n1
      | ((d1, NewDie e), n1) \<Rightarrow> (case second e n1 of (res, n2) \<Rightarrow> ((d1, NewDie (result_of res)), n2)))"

definition no_call :: "('r, 'f) die \<Rightarrow> addr \<Rightarrow> ('r, 'f) call_result \<times> addr" where
  "no_call d n = ((d, Receiver), n)"

lemma die_method_none: "die_method c no_call"
  by unfold_locales (simp_all add: no_call_def)

lemma result_of_eq: "result_of res = (case snd res of Receiver \<Rightarrow> fst res | NewDie d \<Rightarrow> d)"
  by (cases res; cases "snd res") auto

lemma then_call_simps:
  assumes "first d n = ((d1, out), n1)"
  shows "fst (fst (then_call first second d n)) = (case out of Receiver \<Rightarrow> fst (fst (second d1 n1)) | NewDie e \<Rightarrow> d1)"
    and "result_of (fst (then_call first second d n)) = result_of (fst (second (result_of (d1, out)) n1))"
    and "snd (fst (then_call first second d n)) =
      (case out of Receiver \<Rightarrow> snd (fst (second d1 n1)) | NewDie e \<Rightarrow> NewDie (result_of (fst (second e n1))))"
  by (cases out; simp add: assms then_call_def split_beta)+

lemma die_method_then:
  assumes "die_method c first" and "die_method c second"
  shows "die_method c (then_call first second)"
proof
  note one = die_method.immutable_kept [OF assms(1)] die_method.immutable_result [OF assms(1)]
    die_method.mutable_in_place [OF assms(1)] die_method.keeps_frozen [OF assms(1)]
  note two = die_method.immutable_kept [OF assms(2)] die_method.immutable_result [OF assms(2)]
    die_method.mutable_in_place [OF assms(2)] die_method.keeps_frozen [OF assms(2)]
  fix d n
  obtain d1 out n1 where f: "first d n = ((d1, out), n1)" by (metis prod.exhaust)
  show "fst (fst (then_call first second d n)) = d" if "\<not> die_mutable d"
    using one(1) [OF that, of n] two(1) [OF that, of n1] by (simp add: then_call_simps [where first = first and d = d and n = n, OF f] f split: outcome.split)
  show "\<not> die_mutable (result_of (fst (then_call first second d n)))" if "\<not> die_mutable d"
    using one(2) [OF that, of n] two(2) by (simp add: then_call_simps [where first = first and d = d and n = n, OF f] f)
  show "snd (fst (then_call first second d n)) = Receiver \<and> die_mutable (result_of (fst (then_call first second d n)))"
    if "die_mutable d"
    using one(3) [OF that, of n] two(3) [of d1 n1]
    by (auto simp: then_call_simps [where first = first and d = d and n = n, OF f] f)
  show "frozen_die c (result_of (fst (then_call first second d n)))" if "frozen_die c d"
    using one(4) [OF that, of n] two(4) by (simp add: then_call_simps [where first = first and d = d and n = n, OF f] f)
qed

lemma DieFeed_simps [simp]:
  "fst (die_DieFeed c r d) = (if die_mutable d then d\<lparr>die_frozen := dt_freeze c r, die_r := r\<rparr> else d)"
  "die_mutable (result_of (die_DieFeed c r d)) = die_mutable d"
  "die_r (result_of (die_DieFeed c r d)) = r"
  "die_seal (result_of (die_DieFeed c r d)) = die_seal d"
  "frozen_die c (result_of (die_DieFeed c r d))"
  "die_mutable d \<Longrightarrow> snd (die_DieFeed c r d) = Receiver"
  by (simp_all add: die_DieFeed_def frozen_die_def)

lemma feeding_method:
  assumes "\<And>d n. fst (call d n) = die_DieFeed c (r d n) d"
  shows "die_method c call"
  by unfold_locales (simp_all add: assms)

text \<open>A stamp at a path is a stamp, or panics; where no callback fits it can only panic.\<close>

lemma DieStampAt_feeds: "die_DieStampAt c x jp fn d n = Inr (res, n') \<Longrightarrow> \<exists>r. res = die_DieFeed c r d"
  by (auto simp: die_DieStampAt_def split: prod.splits sum.splits)

lemma DieStampAt_immutable:
  assumes "die_DieStampAt c x jp fn d n = Inr (res, n')" and "\<not> die_mutable d"
  shows "fst res = d \<and> \<not> die_mutable (result_of res) \<and> frozen_die c (result_of res)"
  using DieStampAt_feeds [OF assms(1)] assms(2) by auto

lemma stamp_matches_mismatch:
  "\<not> sc_Assignable fn cv \<Longrightarrow> \<not> sc_AddrAssignable fn cv \<Longrightarrow> cv \<in> set cvs \<Longrightarrow> \<exists>e. stamp_matches x fn cvs r n = Inl e"
  by (induction cvs arbitrary: r n) (auto split: prod.split)

lemma DieSealFeed_method: "die_method c (\<lambda>d. die_DieSealFeed c (s d) d)"
  by unfold_locales (auto simp: die_DieSealFeed_def die_DeepCopy_def frozen_die_def split_beta split: if_splits)

subsection \<open>Chains of calls\<close>

datatype ('r, 'f) die_call =
    Feed 'r
  | FeedPtr "'r ref"
  | Stamp "'r copier"
  | With "('r, 'f) die_callback option list"
  | Seal
  | SealFeed 'r
  | SealFeedPtr "'r ref"

fun do_call :: "('r, 'f) die_type \<Rightarrow> ('r, 'f) die_call \<Rightarrow> ('r, 'f) die \<Rightarrow> addr \<Rightarrow> ('r, 'f) call_result \<times> addr" where
  "do_call c (Feed r) d n = (die_DieFeed c r d, n)"
| "do_call c (FeedPtr p) d n = (die_DieFeedPtr c p d, n)"
| "do_call c (Stamp fn) d n = die_DieStamp c fn d n"
| "do_call c (With fns) d n = die_DieWith c fns d n"
| "do_call c Seal d n = die_DieSeal c d n"
| "do_call c (SealFeed r) d n = die_DieSealFeed c r d n"
| "do_call c (SealFeedPtr p) d n = die_DieSealFeedPtr c p d n"

fun do_calls :: "('r, 'f) die_type \<Rightarrow> ('r, 'f) die_call list \<Rightarrow> ('r, 'f) die \<Rightarrow> addr \<Rightarrow> ('r, 'f) call_result \<times> addr" where
  "do_calls c [] = no_call"
| "do_calls c (k # ks) = then_call (do_call c k) (do_calls c ks)"

definition ptr_value :: "('r, 'f) die_type \<Rightarrow> 'r ref \<Rightarrow> 'r" where
  "ptr_value c p = (case p of NilRef \<Rightarrow> dt_zero c | Ref a r \<Rightarrow> r)"

lemma ptr_simps: "die_DieFeedPtr c p d = die_DieFeed c (ptr_value c p) d"
  "die_DieSealFeedPtr c p d n = die_DieSealFeed c (ptr_value c p) d n"
  by (cases p; simp add: die_DieFeedPtr_def die_DieSealFeedPtr_def ptr_value_def)+

definition stamped :: "('r, 'f) die_type \<Rightarrow> 'r copier \<Rightarrow> ('r, 'f) die \<Rightarrow> addr \<Rightarrow> 'r" where
  "stamped c fn d n = (case die_DieRelease c d n of (r, n1) \<Rightarrow> fst (fn r n1))"

lemma fst_DieStamp: "fst (die_DieStamp c fn d n) = die_DieFeed c (stamped c fn d n) d"
  by (simp add: die_DieStamp_def stamped_def split_beta)

lemma DieWith_feeds: "fst (die_DieWith c fns d n) = die_DieFeed c (die_r (result_of (fst (die_DieWith c fns d n)))) d"
proof -
  obtain r where "fst (die_DieWith c fns d n) = die_DieFeed c r d" by (auto simp: die_DieWith_def split_beta)
  then show ?thesis by simp
qed

lemma do_call_method: "die_method c (do_call c k)"
proof (cases k)
  case (Feed r)
  show ?thesis by (rule feeding_method [where r = "\<lambda>d n. r"]) (simp add: Feed)
next
  case (FeedPtr p)
  show ?thesis by (rule feeding_method [where r = "\<lambda>d n. ptr_value c p"]) (simp add: FeedPtr ptr_simps)
next
  case (Stamp fn)
  show ?thesis by (rule feeding_method [where r = "stamped c fn"]) (simp add: Stamp fst_DieStamp)
next
  case (With fns)
  show ?thesis
    by (rule feeding_method [where r = "\<lambda>d n. die_r (result_of (fst (die_DieWith c fns d n)))"])
      (simp add: With DieWith_feeds [symmetric])
next
  case Seal
  have "do_call c k = (\<lambda>d. die_DieSealFeed c (die_r d) d)" by (intro ext) (simp add: Seal die_DieSeal_def)
  then show ?thesis by (simp only: DieSealFeed_method)
next
  case (SealFeed r)
  have "do_call c k = (\<lambda>d. die_DieSealFeed c r d)" by (intro ext) (simp add: SealFeed)
  then show ?thesis by (simp only: DieSealFeed_method)
next
  case (SealFeedPtr p)
  have "do_call c k = (\<lambda>d. die_DieSealFeed c (ptr_value c p) d)" by (intro ext) (simp add: SealFeedPtr ptr_simps)
  then show ?thesis by (simp only: DieSealFeed_method)
qed

lemma do_calls_method: "die_method c (do_calls c ks)"
  by (induction ks) (simp_all add: die_method_none die_method_then do_call_method)

subsection \<open>Memory\<close>

lemma deep_value_deep:
  assumes "deep_copy (dt_into c) strip addrs"
  shows "strip (fst (deep_value c x n)) = strip x"
    and "set (addrs (fst (deep_value c x n))) \<subseteq> {n..<snd (deep_value c x n)}"
    and "distinct (addrs (fst (deep_value c x n)))"
  using deep_copy.copy_same [OF assms, of x "Suc n"] deep_copy.copy_distinct [OF assms, of x "Suc n"]
    subset_trans [OF deep_copy.copy_fresh [OF assms, of x "Suc n"], of "{n..<snd (dt_into c x (Suc n))}"]
  by (simp_all add: deep_value_def split_beta ivl_subset)

text \<open>A method used as a callback on the die it is given.\<close>

definition calling :: "(('r, 'f) die \<Rightarrow> addr \<Rightarrow> ('r, 'f) call_result \<times> addr) \<Rightarrow> ('r, 'f) die_callback" where
  "calling call d n = (case call d n of (res, n') \<Rightarrow> (result_of res, n'))"

lemma set_in_place: "die_mutable d \<Longrightarrow>
    calling (die_set c f) d n = (d\<lparr>die_frozen := dt_freeze c (f (die_r d)), die_r := f (die_r d)\<rparr>, n)"
  by (simp add: calling_def die_set_def die_DieStamp_def die_DieRelease_def die_DieFeed_def)

lemma unfreeze: "\<not> die_mutable d \<Longrightarrow> \<exists>b n1. die_DieImmutable c False d n = ((d, NewDie b), n1) \<and> die_mutable b"
  by (simp add: die_DieImmutable_def split_beta)

text \<open>Editing a part with setters of its die sets its fields.\<close>

lemma edit_part_set: "fst (edit_part c (calling (die_set c f)) v n) = f v"
proof -
  obtain b n1 where b: "die_DieImmutable c False (die_blank c) n = ((die_blank c, NewDie b), n1)" "die_mutable b"
    using unfreeze [of "die_blank c" c n] by (auto simp: die_blank_def)
  let ?d = "result_of (die_DieFeed c v b)"
  have "die_mutable ?d" using b by simp
  from set_in_place [OF this, of c f n1] b show ?thesis
    by (simp add: edit_part_def die_DieRelease_def)
qed

lemma stamp_part_immutable:
  assumes "\<not> die_mutable d"
  shows "fst (fst (die_DieStamp c fn d n)) = d"
    and "die_r (result_of (fst (die_DieStamp c fn d n))) = fst (fn (fst (deep_value c (die_r d) n)) (snd (deep_value c (die_r d) n)))"
  using assms by (simp_all add: fst_DieStamp stamped_def die_DieRelease_def split_beta)

end
