(* ===== verification/DieTypes.thy ===== *)
theory DieTypes
  imports DeepCopy Dies PodIntentApi
begin

text \<open>
  The dies of \<open>pkg/dies/conventions/v1alpha1\<close>: for each of the seven types what the generator wrote in
  \<open>zz_generated.die.go\<close>, as instances of the definitions of \<open>Dies\<close>, the setters of its fields and
  the builders written by hand in \<open>clusterpodconvention.go\<close> and \<open>podintent.go\<close>. The resources are
  those of \<open>DeepCopy\<close>. What freezes the metadata of an object (\<open>freeze\<close>), dies of library types, given by the edit they make
  or the value they release, and assignments to the fields of a library struct are arguments.
\<close>

subsection \<open>Zero values\<close>

definition zero_lib :: lib_value where
  "zero_lib = \<lparr>lv_data = [], lv_addrs = []\<rparr>"
definition zero_type_meta :: MemTypeMeta where
  "zero_type_meta = \<lparr>tm_Kind = [], tm_APIVersion = []\<rparr>"
definition zero_mem_template :: MemPodTemplateSpec where
  "zero_mem_template = \<lparr>ht_ObjectMeta = \<lparr>hm_Name = [], hm_GenerateName = [], hm_Namespace = [],
     hm_Labels = NilRef, hm_Annotations = NilRef\<rparr>, ht_Spec = zero_lib\<rparr>"

text \<open>What the values of library dies are released to: one after the other into a new slice.\<close>

fun release_all :: "(addr \<Rightarrow> 'a \<times> addr) list \<Rightarrow> addr \<Rightarrow> 'a list \<times> addr" where
  "release_all [] n = ([], n)"
| "release_all (d # ds) n = (case d n of (x, n1) \<Rightarrow> (case release_all ds n1 of (xs, n2) \<Rightarrow> (x # xs, n2)))"


subsection \<open>ClusterPodConventionWebhookCertificate\<close>

type_synonym ClusterPodConventionWebhookCertificateDie = "(MemClusterPodConventionWebhookCertificate, unit) die"

definition zero_ClusterPodConventionWebhookCertificate :: MemClusterPodConventionWebhookCertificate where
  "zero_ClusterPodConventionWebhookCertificate = \<lparr>hwc_Namespace = [], hwc_Name = []\<rparr>"

definition ClusterPodConventionWebhookCertificate_die :: "(MemClusterPodConventionWebhookCertificate, unit) die_type" where
  "ClusterPodConventionWebhookCertificate_die =
     \<lparr>dt_zero = zero_ClusterPodConventionWebhookCertificate, dt_freeze = \<lambda>_. (), dt_into = ClusterPodConventionWebhookCertificate_DeepCopyInto\<rparr>"

definition ClusterPodConventionWebhookCertificateBlank where
  "ClusterPodConventionWebhookCertificateBlank = die_blank ClusterPodConventionWebhookCertificate_die"
definition ClusterPodConventionWebhookCertificateDie_DieImmutable where
  "ClusterPodConventionWebhookCertificateDie_DieImmutable = die_DieImmutable ClusterPodConventionWebhookCertificate_die"
definition ClusterPodConventionWebhookCertificateDie_DieFeed where
  "ClusterPodConventionWebhookCertificateDie_DieFeed = die_DieFeed ClusterPodConventionWebhookCertificate_die"
definition ClusterPodConventionWebhookCertificateDie_DieFeedPtr where
  "ClusterPodConventionWebhookCertificateDie_DieFeedPtr = die_DieFeedPtr ClusterPodConventionWebhookCertificate_die"
definition ClusterPodConventionWebhookCertificateDie_DieFeedDuck where
  "ClusterPodConventionWebhookCertificateDie_DieFeedDuck = die_DieFeedDuck ClusterPodConventionWebhookCertificate_die"
definition ClusterPodConventionWebhookCertificateDie_DieFeedJSON where
  "ClusterPodConventionWebhookCertificateDie_DieFeedJSON = die_DieFeedJSON ClusterPodConventionWebhookCertificate_die"
definition ClusterPodConventionWebhookCertificateDie_DieFeedYAML where
  "ClusterPodConventionWebhookCertificateDie_DieFeedYAML = die_DieFeedYAML ClusterPodConventionWebhookCertificate_die"
definition ClusterPodConventionWebhookCertificateDie_DieFeedYAMLFile where
  "ClusterPodConventionWebhookCertificateDie_DieFeedYAMLFile = die_DieFeedYAMLFile ClusterPodConventionWebhookCertificate_die"
definition ClusterPodConventionWebhookCertificateDie_DieFeedRawExtension where
  "ClusterPodConventionWebhookCertificateDie_DieFeedRawExtension = die_DieFeedRawExtension ClusterPodConventionWebhookCertificate_die"
definition ClusterPodConventionWebhookCertificateDie_DieRelease where
  "ClusterPodConventionWebhookCertificateDie_DieRelease = die_DieRelease ClusterPodConventionWebhookCertificate_die"
definition ClusterPodConventionWebhookCertificateDie_DieReleasePtr where
  "ClusterPodConventionWebhookCertificateDie_DieReleasePtr = die_DieReleasePtr ClusterPodConventionWebhookCertificate_die"
definition ClusterPodConventionWebhookCertificateDie_DieReleaseDuck where
  "ClusterPodConventionWebhookCertificateDie_DieReleaseDuck = die_DieReleaseDuck ClusterPodConventionWebhookCertificate_die"
definition ClusterPodConventionWebhookCertificateDie_DieReleaseJSON where
  "ClusterPodConventionWebhookCertificateDie_DieReleaseJSON = die_DieReleaseJSON ClusterPodConventionWebhookCertificate_die"
definition ClusterPodConventionWebhookCertificateDie_DieReleaseYAML where
  "ClusterPodConventionWebhookCertificateDie_DieReleaseYAML = die_DieReleaseYAML ClusterPodConventionWebhookCertificate_die"
definition ClusterPodConventionWebhookCertificateDie_DieReleaseRawExtension where
  "ClusterPodConventionWebhookCertificateDie_DieReleaseRawExtension = die_DieReleaseRawExtension ClusterPodConventionWebhookCertificate_die"
definition ClusterPodConventionWebhookCertificateDie_DieStamp where
  "ClusterPodConventionWebhookCertificateDie_DieStamp = die_DieStamp ClusterPodConventionWebhookCertificate_die"
definition ClusterPodConventionWebhookCertificateDie_DieStampAt where
  "ClusterPodConventionWebhookCertificateDie_DieStampAt = die_DieStampAt ClusterPodConventionWebhookCertificate_die"
definition ClusterPodConventionWebhookCertificateDie_DieWith where
  "ClusterPodConventionWebhookCertificateDie_DieWith = die_DieWith ClusterPodConventionWebhookCertificate_die"
definition ClusterPodConventionWebhookCertificateDie_DeepCopy where
  "ClusterPodConventionWebhookCertificateDie_DeepCopy = die_DeepCopy ClusterPodConventionWebhookCertificate_die"
definition ClusterPodConventionWebhookCertificateDie_DieSeal where
  "ClusterPodConventionWebhookCertificateDie_DieSeal = die_DieSeal ClusterPodConventionWebhookCertificate_die"
definition ClusterPodConventionWebhookCertificateDie_DieSealFeed where
  "ClusterPodConventionWebhookCertificateDie_DieSealFeed = die_DieSealFeed ClusterPodConventionWebhookCertificate_die"
definition ClusterPodConventionWebhookCertificateDie_DieSealFeedPtr where
  "ClusterPodConventionWebhookCertificateDie_DieSealFeedPtr = die_DieSealFeedPtr ClusterPodConventionWebhookCertificate_die"
definition ClusterPodConventionWebhookCertificateDie_DieSealRelease where
  "ClusterPodConventionWebhookCertificateDie_DieSealRelease = die_DieSealRelease ClusterPodConventionWebhookCertificate_die"
definition ClusterPodConventionWebhookCertificateDie_DieSealReleasePtr where
  "ClusterPodConventionWebhookCertificateDie_DieSealReleasePtr = die_DieSealReleasePtr ClusterPodConventionWebhookCertificate_die"
definition ClusterPodConventionWebhookCertificateDie_DieDiff :: "(MemClusterPodConventionWebhookCertificate \<Rightarrow> MemClusterPodConventionWebhookCertificate \<Rightarrow> string) \<Rightarrow> (MemClusterPodConventionWebhookCertificate, unit) die \<Rightarrow> string" where
  "ClusterPodConventionWebhookCertificateDie_DieDiff = die_DieDiff"
definition ClusterPodConventionWebhookCertificateDie_DiePatch :: "(MemClusterPodConventionWebhookCertificate \<Rightarrow> MemClusterPodConventionWebhookCertificate \<Rightarrow> 'p \<Rightarrow> string result) \<Rightarrow> 'p \<Rightarrow> (MemClusterPodConventionWebhookCertificate, unit) die \<Rightarrow> string result" where
  "ClusterPodConventionWebhookCertificateDie_DiePatch = die_DiePatch"

definition ClusterPodConventionWebhookCertificateDie_Namespace where
  "ClusterPodConventionWebhookCertificateDie_Namespace v = die_set ClusterPodConventionWebhookCertificate_die (\<lambda>r. r\<lparr>hwc_Namespace := v\<rparr>)"
definition ClusterPodConventionWebhookCertificateDie_Name where
  "ClusterPodConventionWebhookCertificateDie_Name v = die_set ClusterPodConventionWebhookCertificate_die (\<lambda>r. r\<lparr>hwc_Name := v\<rparr>)"

subsection \<open>ClusterPodConventionWebhook\<close>

type_synonym ClusterPodConventionWebhookDie = "(MemClusterPodConventionWebhook, unit) die"

definition zero_ClusterPodConventionWebhook :: MemClusterPodConventionWebhook where
  "zero_ClusterPodConventionWebhook = \<lparr>hw_ClientConfig = zero_lib, hw_Certificate = NilRef\<rparr>"

definition ClusterPodConventionWebhook_die :: "copy_lib \<Rightarrow> (MemClusterPodConventionWebhook, unit) die_type" where
  "ClusterPodConventionWebhook_die lib =
     \<lparr>dt_zero = zero_ClusterPodConventionWebhook, dt_freeze = \<lambda>_. (), dt_into = ClusterPodConventionWebhook_DeepCopyInto lib\<rparr>"

definition ClusterPodConventionWebhookBlank where
  "ClusterPodConventionWebhookBlank lib = die_blank (ClusterPodConventionWebhook_die lib)"
definition ClusterPodConventionWebhookDie_DieImmutable where
  "ClusterPodConventionWebhookDie_DieImmutable lib = die_DieImmutable (ClusterPodConventionWebhook_die lib)"
definition ClusterPodConventionWebhookDie_DieFeed where
  "ClusterPodConventionWebhookDie_DieFeed lib = die_DieFeed (ClusterPodConventionWebhook_die lib)"
definition ClusterPodConventionWebhookDie_DieFeedPtr where
  "ClusterPodConventionWebhookDie_DieFeedPtr lib = die_DieFeedPtr (ClusterPodConventionWebhook_die lib)"
definition ClusterPodConventionWebhookDie_DieFeedDuck where
  "ClusterPodConventionWebhookDie_DieFeedDuck lib = die_DieFeedDuck (ClusterPodConventionWebhook_die lib)"
definition ClusterPodConventionWebhookDie_DieFeedJSON where
  "ClusterPodConventionWebhookDie_DieFeedJSON lib = die_DieFeedJSON (ClusterPodConventionWebhook_die lib)"
definition ClusterPodConventionWebhookDie_DieFeedYAML where
  "ClusterPodConventionWebhookDie_DieFeedYAML lib = die_DieFeedYAML (ClusterPodConventionWebhook_die lib)"
definition ClusterPodConventionWebhookDie_DieFeedYAMLFile where
  "ClusterPodConventionWebhookDie_DieFeedYAMLFile lib = die_DieFeedYAMLFile (ClusterPodConventionWebhook_die lib)"
definition ClusterPodConventionWebhookDie_DieFeedRawExtension where
  "ClusterPodConventionWebhookDie_DieFeedRawExtension lib = die_DieFeedRawExtension (ClusterPodConventionWebhook_die lib)"
definition ClusterPodConventionWebhookDie_DieRelease where
  "ClusterPodConventionWebhookDie_DieRelease lib = die_DieRelease (ClusterPodConventionWebhook_die lib)"
definition ClusterPodConventionWebhookDie_DieReleasePtr where
  "ClusterPodConventionWebhookDie_DieReleasePtr lib = die_DieReleasePtr (ClusterPodConventionWebhook_die lib)"
definition ClusterPodConventionWebhookDie_DieReleaseDuck where
  "ClusterPodConventionWebhookDie_DieReleaseDuck lib = die_DieReleaseDuck (ClusterPodConventionWebhook_die lib)"
definition ClusterPodConventionWebhookDie_DieReleaseJSON where
  "ClusterPodConventionWebhookDie_DieReleaseJSON lib = die_DieReleaseJSON (ClusterPodConventionWebhook_die lib)"
definition ClusterPodConventionWebhookDie_DieReleaseYAML where
  "ClusterPodConventionWebhookDie_DieReleaseYAML lib = die_DieReleaseYAML (ClusterPodConventionWebhook_die lib)"
definition ClusterPodConventionWebhookDie_DieReleaseRawExtension where
  "ClusterPodConventionWebhookDie_DieReleaseRawExtension lib = die_DieReleaseRawExtension (ClusterPodConventionWebhook_die lib)"
definition ClusterPodConventionWebhookDie_DieStamp where
  "ClusterPodConventionWebhookDie_DieStamp lib = die_DieStamp (ClusterPodConventionWebhook_die lib)"
definition ClusterPodConventionWebhookDie_DieStampAt where
  "ClusterPodConventionWebhookDie_DieStampAt lib = die_DieStampAt (ClusterPodConventionWebhook_die lib)"
definition ClusterPodConventionWebhookDie_DieWith where
  "ClusterPodConventionWebhookDie_DieWith lib = die_DieWith (ClusterPodConventionWebhook_die lib)"
definition ClusterPodConventionWebhookDie_DeepCopy where
  "ClusterPodConventionWebhookDie_DeepCopy lib = die_DeepCopy (ClusterPodConventionWebhook_die lib)"
definition ClusterPodConventionWebhookDie_DieSeal where
  "ClusterPodConventionWebhookDie_DieSeal lib = die_DieSeal (ClusterPodConventionWebhook_die lib)"
definition ClusterPodConventionWebhookDie_DieSealFeed where
  "ClusterPodConventionWebhookDie_DieSealFeed lib = die_DieSealFeed (ClusterPodConventionWebhook_die lib)"
definition ClusterPodConventionWebhookDie_DieSealFeedPtr where
  "ClusterPodConventionWebhookDie_DieSealFeedPtr lib = die_DieSealFeedPtr (ClusterPodConventionWebhook_die lib)"
definition ClusterPodConventionWebhookDie_DieSealRelease where
  "ClusterPodConventionWebhookDie_DieSealRelease lib = die_DieSealRelease (ClusterPodConventionWebhook_die lib)"
definition ClusterPodConventionWebhookDie_DieSealReleasePtr where
  "ClusterPodConventionWebhookDie_DieSealReleasePtr lib = die_DieSealReleasePtr (ClusterPodConventionWebhook_die lib)"
definition ClusterPodConventionWebhookDie_DieDiff :: "(MemClusterPodConventionWebhook \<Rightarrow> MemClusterPodConventionWebhook \<Rightarrow> string) \<Rightarrow> (MemClusterPodConventionWebhook, unit) die \<Rightarrow> string" where
  "ClusterPodConventionWebhookDie_DieDiff = die_DieDiff"
definition ClusterPodConventionWebhookDie_DiePatch :: "(MemClusterPodConventionWebhook \<Rightarrow> MemClusterPodConventionWebhook \<Rightarrow> 'p \<Rightarrow> string result) \<Rightarrow> 'p \<Rightarrow> (MemClusterPodConventionWebhook, unit) die \<Rightarrow> string result" where
  "ClusterPodConventionWebhookDie_DiePatch = die_DiePatch"

definition ClusterPodConventionWebhookDie_ClientConfig where
  "ClusterPodConventionWebhookDie_ClientConfig lib v = die_set (ClusterPodConventionWebhook_die lib) (\<lambda>r. r\<lparr>hw_ClientConfig := v\<rparr>)"
definition ClusterPodConventionWebhookDie_Certificate where
  "ClusterPodConventionWebhookDie_Certificate lib v = die_set (ClusterPodConventionWebhook_die lib) (\<lambda>r. r\<lparr>hw_Certificate := v\<rparr>)"

definition ClusterPodConventionWebhookDie_ClientConfigDie where
  "ClusterPodConventionWebhookDie_ClientConfigDie lib fn = die_DieStamp (ClusterPodConventionWebhook_die lib)
     (\<lambda>r n. case fn (hw_ClientConfig r) n of (v, n1) \<Rightarrow> (r\<lparr>hw_ClientConfig := v\<rparr>, n1))"
definition ClusterPodConventionWebhookDie_CertificateDie where
  "ClusterPodConventionWebhookDie_CertificateDie lib fn = die_DieStamp (ClusterPodConventionWebhook_die lib)
     (\<lambda>r n. case edit_part_ptr ClusterPodConventionWebhookCertificate_die fn (hw_Certificate r) n of (v, n1) \<Rightarrow> (r\<lparr>hw_Certificate := v\<rparr>, n1))"

subsection \<open>ClusterPodConventionSpec\<close>

type_synonym ClusterPodConventionSpecDie = "(MemClusterPodConventionSpec, unit) die"

definition zero_ClusterPodConventionSpec :: MemClusterPodConventionSpec where
  "zero_ClusterPodConventionSpec = \<lparr>hcs_Selectors = NilRef, hcs_SelectorTarget = [], hcs_Priority = [], hcs_Webhook = NilRef\<rparr>"

definition ClusterPodConventionSpec_die :: "copy_lib \<Rightarrow> (MemClusterPodConventionSpec, unit) die_type" where
  "ClusterPodConventionSpec_die lib =
     \<lparr>dt_zero = zero_ClusterPodConventionSpec, dt_freeze = \<lambda>_. (), dt_into = ClusterPodConventionSpec_DeepCopyInto lib\<rparr>"

definition ClusterPodConventionSpecBlank where
  "ClusterPodConventionSpecBlank lib = die_blank (ClusterPodConventionSpec_die lib)"
definition ClusterPodConventionSpecDie_DieImmutable where
  "ClusterPodConventionSpecDie_DieImmutable lib = die_DieImmutable (ClusterPodConventionSpec_die lib)"
definition ClusterPodConventionSpecDie_DieFeed where
  "ClusterPodConventionSpecDie_DieFeed lib = die_DieFeed (ClusterPodConventionSpec_die lib)"
definition ClusterPodConventionSpecDie_DieFeedPtr where
  "ClusterPodConventionSpecDie_DieFeedPtr lib = die_DieFeedPtr (ClusterPodConventionSpec_die lib)"
definition ClusterPodConventionSpecDie_DieFeedDuck where
  "ClusterPodConventionSpecDie_DieFeedDuck lib = die_DieFeedDuck (ClusterPodConventionSpec_die lib)"
definition ClusterPodConventionSpecDie_DieFeedJSON where
  "ClusterPodConventionSpecDie_DieFeedJSON lib = die_DieFeedJSON (ClusterPodConventionSpec_die lib)"
definition ClusterPodConventionSpecDie_DieFeedYAML where
  "ClusterPodConventionSpecDie_DieFeedYAML lib = die_DieFeedYAML (ClusterPodConventionSpec_die lib)"
definition ClusterPodConventionSpecDie_DieFeedYAMLFile where
  "ClusterPodConventionSpecDie_DieFeedYAMLFile lib = die_DieFeedYAMLFile (ClusterPodConventionSpec_die lib)"
definition ClusterPodConventionSpecDie_DieFeedRawExtension where
  "ClusterPodConventionSpecDie_DieFeedRawExtension lib = die_DieFeedRawExtension (ClusterPodConventionSpec_die lib)"
definition ClusterPodConventionSpecDie_DieRelease where
  "ClusterPodConventionSpecDie_DieRelease lib = die_DieRelease (ClusterPodConventionSpec_die lib)"
definition ClusterPodConventionSpecDie_DieReleasePtr where
  "ClusterPodConventionSpecDie_DieReleasePtr lib = die_DieReleasePtr (ClusterPodConventionSpec_die lib)"
definition ClusterPodConventionSpecDie_DieReleaseDuck where
  "ClusterPodConventionSpecDie_DieReleaseDuck lib = die_DieReleaseDuck (ClusterPodConventionSpec_die lib)"
definition ClusterPodConventionSpecDie_DieReleaseJSON where
  "ClusterPodConventionSpecDie_DieReleaseJSON lib = die_DieReleaseJSON (ClusterPodConventionSpec_die lib)"
definition ClusterPodConventionSpecDie_DieReleaseYAML where
  "ClusterPodConventionSpecDie_DieReleaseYAML lib = die_DieReleaseYAML (ClusterPodConventionSpec_die lib)"
definition ClusterPodConventionSpecDie_DieReleaseRawExtension where
  "ClusterPodConventionSpecDie_DieReleaseRawExtension lib = die_DieReleaseRawExtension (ClusterPodConventionSpec_die lib)"
definition ClusterPodConventionSpecDie_DieStamp where
  "ClusterPodConventionSpecDie_DieStamp lib = die_DieStamp (ClusterPodConventionSpec_die lib)"
definition ClusterPodConventionSpecDie_DieStampAt where
  "ClusterPodConventionSpecDie_DieStampAt lib = die_DieStampAt (ClusterPodConventionSpec_die lib)"
definition ClusterPodConventionSpecDie_DieWith where
  "ClusterPodConventionSpecDie_DieWith lib = die_DieWith (ClusterPodConventionSpec_die lib)"
definition ClusterPodConventionSpecDie_DeepCopy where
  "ClusterPodConventionSpecDie_DeepCopy lib = die_DeepCopy (ClusterPodConventionSpec_die lib)"
definition ClusterPodConventionSpecDie_DieSeal where
  "ClusterPodConventionSpecDie_DieSeal lib = die_DieSeal (ClusterPodConventionSpec_die lib)"
definition ClusterPodConventionSpecDie_DieSealFeed where
  "ClusterPodConventionSpecDie_DieSealFeed lib = die_DieSealFeed (ClusterPodConventionSpec_die lib)"
definition ClusterPodConventionSpecDie_DieSealFeedPtr where
  "ClusterPodConventionSpecDie_DieSealFeedPtr lib = die_DieSealFeedPtr (ClusterPodConventionSpec_die lib)"
definition ClusterPodConventionSpecDie_DieSealRelease where
  "ClusterPodConventionSpecDie_DieSealRelease lib = die_DieSealRelease (ClusterPodConventionSpec_die lib)"
definition ClusterPodConventionSpecDie_DieSealReleasePtr where
  "ClusterPodConventionSpecDie_DieSealReleasePtr lib = die_DieSealReleasePtr (ClusterPodConventionSpec_die lib)"
definition ClusterPodConventionSpecDie_DieDiff :: "(MemClusterPodConventionSpec \<Rightarrow> MemClusterPodConventionSpec \<Rightarrow> string) \<Rightarrow> (MemClusterPodConventionSpec, unit) die \<Rightarrow> string" where
  "ClusterPodConventionSpecDie_DieDiff = die_DieDiff"
definition ClusterPodConventionSpecDie_DiePatch :: "(MemClusterPodConventionSpec \<Rightarrow> MemClusterPodConventionSpec \<Rightarrow> 'p \<Rightarrow> string result) \<Rightarrow> 'p \<Rightarrow> (MemClusterPodConventionSpec, unit) die \<Rightarrow> string result" where
  "ClusterPodConventionSpecDie_DiePatch = die_DiePatch"

definition ClusterPodConventionSpecDie_Selectors where
  "ClusterPodConventionSpecDie_Selectors lib v = die_set (ClusterPodConventionSpec_die lib) (\<lambda>r. r\<lparr>hcs_Selectors := v\<rparr>)"
definition ClusterPodConventionSpecDie_SelectorTarget where
  "ClusterPodConventionSpecDie_SelectorTarget lib v = die_set (ClusterPodConventionSpec_die lib) (\<lambda>r. r\<lparr>hcs_SelectorTarget := v\<rparr>)"
definition ClusterPodConventionSpecDie_Priority where
  "ClusterPodConventionSpecDie_Priority lib v = die_set (ClusterPodConventionSpec_die lib) (\<lambda>r. r\<lparr>hcs_Priority := v\<rparr>)"
definition ClusterPodConventionSpecDie_Webhook where
  "ClusterPodConventionSpecDie_Webhook lib v = die_set (ClusterPodConventionSpec_die lib) (\<lambda>r. r\<lparr>hcs_Webhook := v\<rparr>)"

definition ClusterPodConventionSpecDie_SelectorsDie where
  "ClusterPodConventionSpecDie_SelectorsDie lib selectors = die_DieStamp (ClusterPodConventionSpec_die lib)
     (\<lambda>r n. case release_all selectors (Suc n) of (vs, n1) \<Rightarrow> (r\<lparr>hcs_Selectors := Ref n vs\<rparr>, n1))"
definition ClusterPodConventionSpecDie_WebookDie where
  "ClusterPodConventionSpecDie_WebookDie lib fn = die_DieStamp (ClusterPodConventionSpec_die lib)
     (\<lambda>r n. case edit_part_ptr (ClusterPodConventionWebhook_die lib) fn (hcs_Webhook r) n of (v, n1) \<Rightarrow> (r\<lparr>hcs_Webhook := v\<rparr>, n1))"

subsection \<open>ClusterPodConvention\<close>

type_synonym 'f ClusterPodConventionDie = "(MemClusterPodConvention, 'f) die"

definition zero_ClusterPodConvention :: MemClusterPodConvention where
  "zero_ClusterPodConvention = \<lparr>hc_TypeMeta = zero_type_meta, hc_ObjectMeta = zero_lib, hc_Spec = zero_ClusterPodConventionSpec\<rparr>"

definition ClusterPodConvention_die :: "copy_lib \<Rightarrow> (lib_value \<Rightarrow> 'f) \<Rightarrow> (MemClusterPodConvention, 'f) die_type" where
  "ClusterPodConvention_die lib freeze =
     \<lparr>dt_zero = zero_ClusterPodConvention, dt_freeze = \<lambda>r. freeze (hc_ObjectMeta r), dt_into = ClusterPodConvention_DeepCopyInto lib\<rparr>"

definition ClusterPodConventionBlank where
  "ClusterPodConventionBlank lib freeze = die_blank (ClusterPodConvention_die lib freeze)"
definition ClusterPodConventionDie_DieImmutable where
  "ClusterPodConventionDie_DieImmutable lib freeze = die_DieImmutable (ClusterPodConvention_die lib freeze)"
definition ClusterPodConventionDie_DieFeed where
  "ClusterPodConventionDie_DieFeed lib freeze = die_DieFeed (ClusterPodConvention_die lib freeze)"
definition ClusterPodConventionDie_DieFeedPtr where
  "ClusterPodConventionDie_DieFeedPtr lib freeze = die_DieFeedPtr (ClusterPodConvention_die lib freeze)"
definition ClusterPodConventionDie_DieFeedDuck where
  "ClusterPodConventionDie_DieFeedDuck lib freeze = die_DieFeedDuck (ClusterPodConvention_die lib freeze)"
definition ClusterPodConventionDie_DieFeedJSON where
  "ClusterPodConventionDie_DieFeedJSON lib freeze = die_DieFeedJSON (ClusterPodConvention_die lib freeze)"
definition ClusterPodConventionDie_DieFeedYAML where
  "ClusterPodConventionDie_DieFeedYAML lib freeze = die_DieFeedYAML (ClusterPodConvention_die lib freeze)"
definition ClusterPodConventionDie_DieFeedYAMLFile where
  "ClusterPodConventionDie_DieFeedYAMLFile lib freeze = die_DieFeedYAMLFile (ClusterPodConvention_die lib freeze)"
definition ClusterPodConventionDie_DieFeedRawExtension where
  "ClusterPodConventionDie_DieFeedRawExtension lib freeze = die_DieFeedRawExtension (ClusterPodConvention_die lib freeze)"
definition ClusterPodConventionDie_DieRelease where
  "ClusterPodConventionDie_DieRelease lib freeze = die_DieRelease (ClusterPodConvention_die lib freeze)"
definition ClusterPodConventionDie_DieReleasePtr where
  "ClusterPodConventionDie_DieReleasePtr lib freeze = die_DieReleasePtr (ClusterPodConvention_die lib freeze)"
definition ClusterPodConventionDie_DieReleaseUnstructured where
  "ClusterPodConventionDie_DieReleaseUnstructured lib freeze = die_DieReleaseUnstructured (ClusterPodConvention_die lib freeze)"
definition ClusterPodConventionDie_DieReleaseDuck where
  "ClusterPodConventionDie_DieReleaseDuck lib freeze = die_DieReleaseDuck (ClusterPodConvention_die lib freeze)"
definition ClusterPodConventionDie_DieReleaseJSON where
  "ClusterPodConventionDie_DieReleaseJSON lib freeze = die_DieReleaseJSON (ClusterPodConvention_die lib freeze)"
definition ClusterPodConventionDie_DieReleaseYAML where
  "ClusterPodConventionDie_DieReleaseYAML lib freeze = die_DieReleaseYAML (ClusterPodConvention_die lib freeze)"
definition ClusterPodConventionDie_DieReleaseRawExtension where
  "ClusterPodConventionDie_DieReleaseRawExtension lib freeze = die_DieReleaseRawExtension (ClusterPodConvention_die lib freeze)"
definition ClusterPodConventionDie_DieStamp where
  "ClusterPodConventionDie_DieStamp lib freeze = die_DieStamp (ClusterPodConvention_die lib freeze)"
definition ClusterPodConventionDie_DieStampAt where
  "ClusterPodConventionDie_DieStampAt lib freeze = die_DieStampAt (ClusterPodConvention_die lib freeze)"
definition ClusterPodConventionDie_DieWith where
  "ClusterPodConventionDie_DieWith lib freeze = die_DieWith (ClusterPodConvention_die lib freeze)"
definition ClusterPodConventionDie_DeepCopy where
  "ClusterPodConventionDie_DeepCopy lib freeze = die_DeepCopy (ClusterPodConvention_die lib freeze)"
definition ClusterPodConventionDie_DieSeal where
  "ClusterPodConventionDie_DieSeal lib freeze = die_DieSeal (ClusterPodConvention_die lib freeze)"
definition ClusterPodConventionDie_DieSealFeed where
  "ClusterPodConventionDie_DieSealFeed lib freeze = die_DieSealFeed (ClusterPodConvention_die lib freeze)"
definition ClusterPodConventionDie_DieSealFeedPtr where
  "ClusterPodConventionDie_DieSealFeedPtr lib freeze = die_DieSealFeedPtr (ClusterPodConvention_die lib freeze)"
definition ClusterPodConventionDie_DieSealRelease where
  "ClusterPodConventionDie_DieSealRelease lib freeze = die_DieSealRelease (ClusterPodConvention_die lib freeze)"
definition ClusterPodConventionDie_DieSealReleasePtr where
  "ClusterPodConventionDie_DieSealReleasePtr lib freeze = die_DieSealReleasePtr (ClusterPodConvention_die lib freeze)"
definition ClusterPodConventionDie_DeepCopyObject where
  "ClusterPodConventionDie_DeepCopyObject lib freeze = die_DeepCopyObject (ClusterPodConvention_die lib freeze)"
definition ClusterPodConventionDie_GetObjectKind where
  "ClusterPodConventionDie_GetObjectKind lib freeze = die_GetObjectKind (ClusterPodConvention_die lib freeze)"
definition ClusterPodConventionDie_UnmarshalJSON where
  "ClusterPodConventionDie_UnmarshalJSON lib freeze = die_UnmarshalJSON (ClusterPodConvention_die lib freeze)"
definition ClusterPodConventionDie_DieDiff :: "(MemClusterPodConvention \<Rightarrow> MemClusterPodConvention \<Rightarrow> string) \<Rightarrow> (MemClusterPodConvention, 'f) die \<Rightarrow> string" where
  "ClusterPodConventionDie_DieDiff = die_DieDiff"
definition ClusterPodConventionDie_DiePatch :: "(MemClusterPodConvention \<Rightarrow> MemClusterPodConvention \<Rightarrow> 'p \<Rightarrow> string result) \<Rightarrow> 'p \<Rightarrow> (MemClusterPodConvention, 'f) die \<Rightarrow> string result" where
  "ClusterPodConventionDie_DiePatch = die_DiePatch"
definition ClusterPodConventionDie_MarshalJSON :: "MemClusterPodConvention die_codec \<Rightarrow> (MemClusterPodConvention, 'f) die \<Rightarrow> string result" where
  "ClusterPodConventionDie_MarshalJSON = die_MarshalJSON"

definition ClusterPodConventionDie_APIVersion where
  "ClusterPodConventionDie_APIVersion lib freeze v = die_set (ClusterPodConvention_die lib freeze) (\<lambda>r. r\<lparr>hc_TypeMeta := (hc_TypeMeta r)\<lparr>tm_APIVersion := v\<rparr>\<rparr>)"
definition ClusterPodConventionDie_Kind where
  "ClusterPodConventionDie_Kind lib freeze v = die_set (ClusterPodConvention_die lib freeze) (\<lambda>r. r\<lparr>hc_TypeMeta := (hc_TypeMeta r)\<lparr>tm_Kind := v\<rparr>\<rparr>)"
definition ClusterPodConventionDie_TypeMetadata where
  "ClusterPodConventionDie_TypeMetadata lib freeze v = die_set (ClusterPodConvention_die lib freeze) (\<lambda>r. r\<lparr>hc_TypeMeta := v\<rparr>)"
definition ClusterPodConventionDie_TypeMetadataDie where
  "ClusterPodConventionDie_TypeMetadataDie lib freeze fn = die_DieStamp (ClusterPodConvention_die lib freeze)
     (\<lambda>r n. case fn (hc_TypeMeta r) n of (v, n1) \<Rightarrow> (r\<lparr>hc_TypeMeta := v\<rparr>, n1))"
definition ClusterPodConventionDie_Metadata where
  "ClusterPodConventionDie_Metadata lib freeze v = die_set (ClusterPodConvention_die lib freeze) (\<lambda>r. r\<lparr>hc_ObjectMeta := v\<rparr>)"
definition ClusterPodConventionDie_MetadataDie where
  "ClusterPodConventionDie_MetadataDie lib freeze fn = die_DieStamp (ClusterPodConvention_die lib freeze)
     (\<lambda>r n. case fn (hc_ObjectMeta r) n of (v, n1) \<Rightarrow> (r\<lparr>hc_ObjectMeta := v\<rparr>, n1))"
definition ClusterPodConventionDie_SpecDie where
  "ClusterPodConventionDie_SpecDie lib freeze fn = die_DieStamp (ClusterPodConvention_die lib freeze)
     (\<lambda>r n. case edit_part (ClusterPodConventionSpec_die lib) fn (hc_Spec r) n of (v, n1) \<Rightarrow> (r\<lparr>hc_Spec := v\<rparr>, n1))"
definition ClusterPodConventionDie_Spec where
  "ClusterPodConventionDie_Spec lib freeze v = die_set (ClusterPodConvention_die lib freeze) (\<lambda>r. r\<lparr>hc_Spec := v\<rparr>)"

subsection \<open>PodIntentSpec\<close>

type_synonym PodIntentSpecDie = "(MemPodIntentSpec, unit) die"

definition zero_PodIntentSpec :: MemPodIntentSpec where
  "zero_PodIntentSpec = \<lparr>hps_ServiceAccountName = [], hps_ImagePullSecrets = NilRef, hps_Template = zero_mem_template\<rparr>"

definition PodIntentSpec_die :: "copy_lib \<Rightarrow> (MemPodIntentSpec, unit) die_type" where
  "PodIntentSpec_die lib =
     \<lparr>dt_zero = zero_PodIntentSpec, dt_freeze = \<lambda>_. (), dt_into = PodIntentSpec_DeepCopyInto lib\<rparr>"

definition PodIntentSpecBlank where "PodIntentSpecBlank lib = die_blank (PodIntentSpec_die lib)"
definition PodIntentSpecDie_DieImmutable where
  "PodIntentSpecDie_DieImmutable lib = die_DieImmutable (PodIntentSpec_die lib)"
definition PodIntentSpecDie_DieFeed where
  "PodIntentSpecDie_DieFeed lib = die_DieFeed (PodIntentSpec_die lib)"
definition PodIntentSpecDie_DieFeedPtr where
  "PodIntentSpecDie_DieFeedPtr lib = die_DieFeedPtr (PodIntentSpec_die lib)"
definition PodIntentSpecDie_DieFeedDuck where
  "PodIntentSpecDie_DieFeedDuck lib = die_DieFeedDuck (PodIntentSpec_die lib)"
definition PodIntentSpecDie_DieFeedJSON where
  "PodIntentSpecDie_DieFeedJSON lib = die_DieFeedJSON (PodIntentSpec_die lib)"
definition PodIntentSpecDie_DieFeedYAML where
  "PodIntentSpecDie_DieFeedYAML lib = die_DieFeedYAML (PodIntentSpec_die lib)"
definition PodIntentSpecDie_DieFeedYAMLFile where
  "PodIntentSpecDie_DieFeedYAMLFile lib = die_DieFeedYAMLFile (PodIntentSpec_die lib)"
definition PodIntentSpecDie_DieFeedRawExtension where
  "PodIntentSpecDie_DieFeedRawExtension lib = die_DieFeedRawExtension (PodIntentSpec_die lib)"
definition PodIntentSpecDie_DieRelease where
  "PodIntentSpecDie_DieRelease lib = die_DieRelease (PodIntentSpec_die lib)"
definition PodIntentSpecDie_DieReleasePtr where
  "PodIntentSpecDie_DieReleasePtr lib = die_DieReleasePtr (PodIntentSpec_die lib)"
definition PodIntentSpecDie_DieReleaseDuck where
  "PodIntentSpecDie_DieReleaseDuck lib = die_DieReleaseDuck (PodIntentSpec_die lib)"
definition PodIntentSpecDie_DieReleaseJSON where
  "PodIntentSpecDie_DieReleaseJSON lib = die_DieReleaseJSON (PodIntentSpec_die lib)"
definition PodIntentSpecDie_DieReleaseYAML where
  "PodIntentSpecDie_DieReleaseYAML lib = die_DieReleaseYAML (PodIntentSpec_die lib)"
definition PodIntentSpecDie_DieReleaseRawExtension where
  "PodIntentSpecDie_DieReleaseRawExtension lib = die_DieReleaseRawExtension (PodIntentSpec_die lib)"
definition PodIntentSpecDie_DieStamp where
  "PodIntentSpecDie_DieStamp lib = die_DieStamp (PodIntentSpec_die lib)"
definition PodIntentSpecDie_DieStampAt where
  "PodIntentSpecDie_DieStampAt lib = die_DieStampAt (PodIntentSpec_die lib)"
definition PodIntentSpecDie_DieWith where
  "PodIntentSpecDie_DieWith lib = die_DieWith (PodIntentSpec_die lib)"
definition PodIntentSpecDie_DeepCopy where
  "PodIntentSpecDie_DeepCopy lib = die_DeepCopy (PodIntentSpec_die lib)"
definition PodIntentSpecDie_DieSeal where
  "PodIntentSpecDie_DieSeal lib = die_DieSeal (PodIntentSpec_die lib)"
definition PodIntentSpecDie_DieSealFeed where
  "PodIntentSpecDie_DieSealFeed lib = die_DieSealFeed (PodIntentSpec_die lib)"
definition PodIntentSpecDie_DieSealFeedPtr where
  "PodIntentSpecDie_DieSealFeedPtr lib = die_DieSealFeedPtr (PodIntentSpec_die lib)"
definition PodIntentSpecDie_DieSealRelease where
  "PodIntentSpecDie_DieSealRelease lib = die_DieSealRelease (PodIntentSpec_die lib)"
definition PodIntentSpecDie_DieSealReleasePtr where
  "PodIntentSpecDie_DieSealReleasePtr lib = die_DieSealReleasePtr (PodIntentSpec_die lib)"
definition PodIntentSpecDie_DieDiff :: "(MemPodIntentSpec \<Rightarrow> MemPodIntentSpec \<Rightarrow> string) \<Rightarrow> (MemPodIntentSpec, unit) die \<Rightarrow> string" where
  "PodIntentSpecDie_DieDiff = die_DieDiff"
definition PodIntentSpecDie_DiePatch :: "(MemPodIntentSpec \<Rightarrow> MemPodIntentSpec \<Rightarrow> 'p \<Rightarrow> string result) \<Rightarrow> 'p \<Rightarrow> (MemPodIntentSpec, unit) die \<Rightarrow> string result" where
  "PodIntentSpecDie_DiePatch = die_DiePatch"

definition PodIntentSpecDie_ServiceAccountName where
  "PodIntentSpecDie_ServiceAccountName lib v = die_set (PodIntentSpec_die lib) (\<lambda>r. r\<lparr>hps_ServiceAccountName := v\<rparr>)"
definition PodIntentSpecDie_ImagePullSecrets where
  "PodIntentSpecDie_ImagePullSecrets lib v = die_set (PodIntentSpec_die lib) (\<lambda>r. r\<lparr>hps_ImagePullSecrets := v\<rparr>)"
definition PodIntentSpecDie_Template where
  "PodIntentSpecDie_Template lib v = die_set (PodIntentSpec_die lib) (\<lambda>r. r\<lparr>hps_Template := v\<rparr>)"

definition PodIntentSpecDie_ImagePullSecretsDie where
  "PodIntentSpecDie_ImagePullSecretsDie lib pullSecrets = die_DieStamp (PodIntentSpec_die lib)
     (\<lambda>r n. case release_all pullSecrets (Suc n) of (vs, n1) \<Rightarrow> (r\<lparr>hps_ImagePullSecrets := Ref n vs\<rparr>, n1))"

text \<open>
  The template goes through a die of \<open>corev1.PodTemplateSpec\<close>: the mirror is converted, the library die
  is fed with the pointer, edited and released, and what it releases is converted back.
\<close>

record MemCorePodTemplateSpec =
  hk_Name :: string
  hk_GenerateName :: string
  hk_Namespace :: string
  hk_Labels :: "(string, string) fmap ref"
  hk_Annotations :: "(string, string) fmap ref"
  hk_other :: lib_value
  hk_Spec :: lib_value

type_synonym template_die = "MemCorePodTemplateSpec ref \<Rightarrow> addr \<Rightarrow> MemCorePodTemplateSpec \<times> addr"

definition mem_AsPodTemplateSpec :: "MemPodTemplateSpec ref \<Rightarrow> addr \<Rightarrow> MemCorePodTemplateSpec ref \<times> addr" where
  "mem_AsPodTemplateSpec p n = (case p of NilRef \<Rightarrow> (NilRef, n)
   | Ref _ t \<Rightarrow> (let m = ht_ObjectMeta t in (Ref n \<lparr>hk_Name = hm_Name m, hk_GenerateName = hm_GenerateName m,
       hk_Namespace = hm_Namespace m, hk_Labels = hm_Labels m, hk_Annotations = hm_Annotations m,
       hk_other = zero_lib, hk_Spec = ht_Spec t\<rparr>, Suc n)))"

definition mem_NewPodTemplateSpec :: "MemCorePodTemplateSpec \<Rightarrow> MemPodTemplateSpec" where
  "mem_NewPodTemplateSpec k = \<lparr>ht_ObjectMeta = \<lparr>hm_Name = hk_Name k, hm_GenerateName = hk_GenerateName k,
     hm_Namespace = hk_Namespace k, hm_Labels = hk_Labels k, hm_Annotations = hk_Annotations k\<rparr>, ht_Spec = hk_Spec k\<rparr>"

definition edit_template :: "template_die \<Rightarrow> MemPodTemplateSpec ref \<Rightarrow> addr \<Rightarrow> MemPodTemplateSpec \<times> addr" where
  "edit_template fn p n = (case mem_AsPodTemplateSpec p n of (k, n1) \<Rightarrow>
     (case fn k n1 of (k', n2) \<Rightarrow> (mem_NewPodTemplateSpec k', Suc n2)))"

definition PodIntentSpecDie_TemplateDie where
  "PodIntentSpecDie_TemplateDie lib fn = die_DieStamp (PodIntentSpec_die lib)
     (\<lambda>r n. case edit_template fn (Ref 0 (hps_Template r)) n of (t, n1) \<Rightarrow> (r\<lparr>hps_Template := t\<rparr>, n1))"

subsection \<open>PodIntentStatus\<close>

type_synonym PodIntentStatusDie = "(MemPodIntentStatus, unit) die"

definition zero_PodIntentStatus :: MemPodIntentStatus where
  "zero_PodIntentStatus = \<lparr>hpt_Status = zero_lib, hpt_Template = NilRef\<rparr>"

definition PodIntentStatus_die :: "copy_lib \<Rightarrow> (MemPodIntentStatus, unit) die_type" where
  "PodIntentStatus_die lib =
     \<lparr>dt_zero = zero_PodIntentStatus, dt_freeze = \<lambda>_. (), dt_into = PodIntentStatus_DeepCopyInto lib\<rparr>"

definition PodIntentStatusBlank where "PodIntentStatusBlank lib = die_blank (PodIntentStatus_die lib)"
definition PodIntentStatusDie_DieImmutable where
  "PodIntentStatusDie_DieImmutable lib = die_DieImmutable (PodIntentStatus_die lib)"
definition PodIntentStatusDie_DieFeed where
  "PodIntentStatusDie_DieFeed lib = die_DieFeed (PodIntentStatus_die lib)"
definition PodIntentStatusDie_DieFeedPtr where
  "PodIntentStatusDie_DieFeedPtr lib = die_DieFeedPtr (PodIntentStatus_die lib)"
definition PodIntentStatusDie_DieFeedDuck where
  "PodIntentStatusDie_DieFeedDuck lib = die_DieFeedDuck (PodIntentStatus_die lib)"
definition PodIntentStatusDie_DieFeedJSON where
  "PodIntentStatusDie_DieFeedJSON lib = die_DieFeedJSON (PodIntentStatus_die lib)"
definition PodIntentStatusDie_DieFeedYAML where
  "PodIntentStatusDie_DieFeedYAML lib = die_DieFeedYAML (PodIntentStatus_die lib)"
definition PodIntentStatusDie_DieFeedYAMLFile where
  "PodIntentStatusDie_DieFeedYAMLFile lib = die_DieFeedYAMLFile (PodIntentStatus_die lib)"
definition PodIntentStatusDie_DieFeedRawExtension where
  "PodIntentStatusDie_DieFeedRawExtension lib = die_DieFeedRawExtension (PodIntentStatus_die lib)"
definition PodIntentStatusDie_DieRelease where
  "PodIntentStatusDie_DieRelease lib = die_DieRelease (PodIntentStatus_die lib)"
definition PodIntentStatusDie_DieReleasePtr where
  "PodIntentStatusDie_DieReleasePtr lib = die_DieReleasePtr (PodIntentStatus_die lib)"
definition PodIntentStatusDie_DieReleaseDuck where
  "PodIntentStatusDie_DieReleaseDuck lib = die_DieReleaseDuck (PodIntentStatus_die lib)"
definition PodIntentStatusDie_DieReleaseJSON where
  "PodIntentStatusDie_DieReleaseJSON lib = die_DieReleaseJSON (PodIntentStatus_die lib)"
definition PodIntentStatusDie_DieReleaseYAML where
  "PodIntentStatusDie_DieReleaseYAML lib = die_DieReleaseYAML (PodIntentStatus_die lib)"
definition PodIntentStatusDie_DieReleaseRawExtension where
  "PodIntentStatusDie_DieReleaseRawExtension lib = die_DieReleaseRawExtension (PodIntentStatus_die lib)"
definition PodIntentStatusDie_DieStamp where
  "PodIntentStatusDie_DieStamp lib = die_DieStamp (PodIntentStatus_die lib)"
definition PodIntentStatusDie_DieStampAt where
  "PodIntentStatusDie_DieStampAt lib = die_DieStampAt (PodIntentStatus_die lib)"
definition PodIntentStatusDie_DieWith where
  "PodIntentStatusDie_DieWith lib = die_DieWith (PodIntentStatus_die lib)"
definition PodIntentStatusDie_DeepCopy where
  "PodIntentStatusDie_DeepCopy lib = die_DeepCopy (PodIntentStatus_die lib)"
definition PodIntentStatusDie_DieSeal where
  "PodIntentStatusDie_DieSeal lib = die_DieSeal (PodIntentStatus_die lib)"
definition PodIntentStatusDie_DieSealFeed where
  "PodIntentStatusDie_DieSealFeed lib = die_DieSealFeed (PodIntentStatus_die lib)"
definition PodIntentStatusDie_DieSealFeedPtr where
  "PodIntentStatusDie_DieSealFeedPtr lib = die_DieSealFeedPtr (PodIntentStatus_die lib)"
definition PodIntentStatusDie_DieSealRelease where
  "PodIntentStatusDie_DieSealRelease lib = die_DieSealRelease (PodIntentStatus_die lib)"
definition PodIntentStatusDie_DieSealReleasePtr where
  "PodIntentStatusDie_DieSealReleasePtr lib = die_DieSealReleasePtr (PodIntentStatus_die lib)"
definition PodIntentStatusDie_DieDiff :: "(MemPodIntentStatus \<Rightarrow> MemPodIntentStatus \<Rightarrow> string) \<Rightarrow> (MemPodIntentStatus, unit) die \<Rightarrow> string" where
  "PodIntentStatusDie_DieDiff = die_DieDiff"
definition PodIntentStatusDie_DiePatch :: "(MemPodIntentStatus \<Rightarrow> MemPodIntentStatus \<Rightarrow> 'p \<Rightarrow> string result) \<Rightarrow> 'p \<Rightarrow> (MemPodIntentStatus, unit) die \<Rightarrow> string result" where
  "PodIntentStatusDie_DiePatch = die_DiePatch"

definition PodIntentStatusDie_Status where
  "PodIntentStatusDie_Status lib v = die_set (PodIntentStatus_die lib) (\<lambda>r. r\<lparr>hpt_Status := v\<rparr>)"
definition PodIntentStatusDie_Template where
  "PodIntentStatusDie_Template lib v = die_set (PodIntentStatus_die lib) (\<lambda>r. r\<lparr>hpt_Template := v\<rparr>)"

definition PodIntentStatusDie_ConditionsDie where
  "PodIntentStatusDie_ConditionsDie lib set_Conditions conditions = die_DieStamp (PodIntentStatus_die lib)
     (\<lambda>r n. case release_all conditions (Suc n) of (cs, n1) \<Rightarrow> (r\<lparr>hpt_Status := set_Conditions (Ref n cs) (hpt_Status r)\<rparr>, n1))"
definition PodIntentStatusDie_ObservedGeneration where
  "PodIntentStatusDie_ObservedGeneration lib set_ObservedGeneration generation = die_set (PodIntentStatus_die lib)
     (\<lambda>r. r\<lparr>hpt_Status := set_ObservedGeneration (generation :: int) (hpt_Status r)\<rparr>)"
definition PodIntentStatusDie_TemplateDie where
  "PodIntentStatusDie_TemplateDie lib fn = die_DieStamp (PodIntentStatus_die lib)
     (\<lambda>r n. case edit_template fn (hpt_Template r) n of (t, n1) \<Rightarrow> (r\<lparr>hpt_Template := Ref n1 t\<rparr>, Suc n1))"

text \<open>\<open>diemetav1.ConditionBlank.Type\<close> is an argument.\<close>

definition PodIntentConditionReadyBlank where
  "PodIntentConditionReadyBlank blank_of_type = blank_of_type PodIntentConditionReady"
definition PodIntentConditionConventionsAppliedBlank where
  "PodIntentConditionConventionsAppliedBlank blank_of_type = blank_of_type PodIntentConditionConventionsApplied"

subsection \<open>PodIntent\<close>

type_synonym 'f PodIntentDie = "(MemPodIntent, 'f) die"

definition zero_PodIntent :: MemPodIntent where
  "zero_PodIntent = \<lparr>hp_TypeMeta = zero_type_meta, hp_ObjectMeta = zero_lib, hp_Spec = zero_PodIntentSpec,
     hp_Status = zero_PodIntentStatus\<rparr>"

definition PodIntent_die :: "copy_lib \<Rightarrow> (lib_value \<Rightarrow> 'f) \<Rightarrow> (MemPodIntent, 'f) die_type" where
  "PodIntent_die lib freeze =
     \<lparr>dt_zero = zero_PodIntent, dt_freeze = \<lambda>r. freeze (hp_ObjectMeta r), dt_into = PodIntent_DeepCopyInto lib\<rparr>"

definition PodIntentDie_DieImmutable where
  "PodIntentDie_DieImmutable lib freeze = die_DieImmutable (PodIntent_die lib freeze)"
definition PodIntentDie_DieFeed where
  "PodIntentDie_DieFeed lib freeze = die_DieFeed (PodIntent_die lib freeze)"
definition PodIntentDie_DieFeedPtr where
  "PodIntentDie_DieFeedPtr lib freeze = die_DieFeedPtr (PodIntent_die lib freeze)"
definition PodIntentDie_DieFeedDuck where
  "PodIntentDie_DieFeedDuck lib freeze = die_DieFeedDuck (PodIntent_die lib freeze)"
definition PodIntentDie_DieFeedJSON where
  "PodIntentDie_DieFeedJSON lib freeze = die_DieFeedJSON (PodIntent_die lib freeze)"
definition PodIntentDie_DieFeedYAML where
  "PodIntentDie_DieFeedYAML lib freeze = die_DieFeedYAML (PodIntent_die lib freeze)"
definition PodIntentDie_DieFeedYAMLFile where
  "PodIntentDie_DieFeedYAMLFile lib freeze = die_DieFeedYAMLFile (PodIntent_die lib freeze)"
definition PodIntentDie_DieFeedRawExtension where
  "PodIntentDie_DieFeedRawExtension lib freeze = die_DieFeedRawExtension (PodIntent_die lib freeze)"
definition PodIntentDie_DieRelease where
  "PodIntentDie_DieRelease lib freeze = die_DieRelease (PodIntent_die lib freeze)"
definition PodIntentDie_DieReleasePtr where
  "PodIntentDie_DieReleasePtr lib freeze = die_DieReleasePtr (PodIntent_die lib freeze)"
definition PodIntentDie_DieReleaseUnstructured where
  "PodIntentDie_DieReleaseUnstructured lib freeze = die_DieReleaseUnstructured (PodIntent_die lib freeze)"
definition PodIntentDie_DieReleaseDuck where
  "PodIntentDie_DieReleaseDuck lib freeze = die_DieReleaseDuck (PodIntent_die lib freeze)"
definition PodIntentDie_DieReleaseJSON where
  "PodIntentDie_DieReleaseJSON lib freeze = die_DieReleaseJSON (PodIntent_die lib freeze)"
definition PodIntentDie_DieReleaseYAML where
  "PodIntentDie_DieReleaseYAML lib freeze = die_DieReleaseYAML (PodIntent_die lib freeze)"
definition PodIntentDie_DieReleaseRawExtension where
  "PodIntentDie_DieReleaseRawExtension lib freeze = die_DieReleaseRawExtension (PodIntent_die lib freeze)"
definition PodIntentDie_DieStamp where
  "PodIntentDie_DieStamp lib freeze = die_DieStamp (PodIntent_die lib freeze)"
definition PodIntentDie_DieStampAt where
  "PodIntentDie_DieStampAt lib freeze = die_DieStampAt (PodIntent_die lib freeze)"
definition PodIntentDie_DieWith where
  "PodIntentDie_DieWith lib freeze = die_DieWith (PodIntent_die lib freeze)"
definition PodIntentDie_DeepCopy where
  "PodIntentDie_DeepCopy lib freeze = die_DeepCopy (PodIntent_die lib freeze)"
definition PodIntentDie_DieSeal where
  "PodIntentDie_DieSeal lib freeze = die_DieSeal (PodIntent_die lib freeze)"
definition PodIntentDie_DieSealFeed where
  "PodIntentDie_DieSealFeed lib freeze = die_DieSealFeed (PodIntent_die lib freeze)"
definition PodIntentDie_DieSealFeedPtr where
  "PodIntentDie_DieSealFeedPtr lib freeze = die_DieSealFeedPtr (PodIntent_die lib freeze)"
definition PodIntentDie_DieSealRelease where
  "PodIntentDie_DieSealRelease lib freeze = die_DieSealRelease (PodIntent_die lib freeze)"
definition PodIntentDie_DieSealReleasePtr where
  "PodIntentDie_DieSealReleasePtr lib freeze = die_DieSealReleasePtr (PodIntent_die lib freeze)"
definition PodIntentDie_DeepCopyObject where
  "PodIntentDie_DeepCopyObject lib freeze = die_DeepCopyObject (PodIntent_die lib freeze)"
definition PodIntentDie_GetObjectKind where
  "PodIntentDie_GetObjectKind lib freeze = die_GetObjectKind (PodIntent_die lib freeze)"
definition PodIntentDie_UnmarshalJSON where
  "PodIntentDie_UnmarshalJSON lib freeze = die_UnmarshalJSON (PodIntent_die lib freeze)"
definition PodIntentDie_DieDiff :: "(MemPodIntent \<Rightarrow> MemPodIntent \<Rightarrow> string) \<Rightarrow> (MemPodIntent, 'f) die \<Rightarrow> string" where
  "PodIntentDie_DieDiff = die_DieDiff"
definition PodIntentDie_DiePatch :: "(MemPodIntent \<Rightarrow> MemPodIntent \<Rightarrow> 'p \<Rightarrow> string result) \<Rightarrow> 'p \<Rightarrow> (MemPodIntent, 'f) die \<Rightarrow> string result" where
  "PodIntentDie_DiePatch = die_DiePatch"
definition PodIntentDie_MarshalJSON :: "MemPodIntent die_codec \<Rightarrow> (MemPodIntent, 'f) die \<Rightarrow> string result" where
  "PodIntentDie_MarshalJSON = die_MarshalJSON"

definition PodIntentDie_APIVersion where
  "PodIntentDie_APIVersion lib freeze v = die_set (PodIntent_die lib freeze) (\<lambda>r. r\<lparr>hp_TypeMeta := (hp_TypeMeta r)\<lparr>tm_APIVersion := v\<rparr>\<rparr>)"
definition PodIntentDie_Kind where
  "PodIntentDie_Kind lib freeze v = die_set (PodIntent_die lib freeze) (\<lambda>r. r\<lparr>hp_TypeMeta := (hp_TypeMeta r)\<lparr>tm_Kind := v\<rparr>\<rparr>)"
definition PodIntentDie_TypeMetadata where
  "PodIntentDie_TypeMetadata lib freeze v = die_set (PodIntent_die lib freeze) (\<lambda>r. r\<lparr>hp_TypeMeta := v\<rparr>)"
definition PodIntentDie_TypeMetadataDie where
  "PodIntentDie_TypeMetadataDie lib freeze fn = die_DieStamp (PodIntent_die lib freeze)
     (\<lambda>r n. case fn (hp_TypeMeta r) n of (v, n1) \<Rightarrow> (r\<lparr>hp_TypeMeta := v\<rparr>, n1))"
definition PodIntentDie_Metadata where
  "PodIntentDie_Metadata lib freeze v = die_set (PodIntent_die lib freeze) (\<lambda>r. r\<lparr>hp_ObjectMeta := v\<rparr>)"
definition PodIntentDie_MetadataDie where
  "PodIntentDie_MetadataDie lib freeze fn = die_DieStamp (PodIntent_die lib freeze)
     (\<lambda>r n. case fn (hp_ObjectMeta r) n of (v, n1) \<Rightarrow> (r\<lparr>hp_ObjectMeta := v\<rparr>, n1))"
definition PodIntentDie_SpecDie where
  "PodIntentDie_SpecDie lib freeze fn = die_DieStamp (PodIntent_die lib freeze)
     (\<lambda>r n. case edit_part (PodIntentSpec_die lib) fn (hp_Spec r) n of (v, n1) \<Rightarrow> (r\<lparr>hp_Spec := v\<rparr>, n1))"
definition PodIntentDie_StatusDie where
  "PodIntentDie_StatusDie lib freeze fn = die_DieStamp (PodIntent_die lib freeze)
     (\<lambda>r n. case edit_part (PodIntentStatus_die lib) fn (hp_Status r) n of (v, n1) \<Rightarrow> (r\<lparr>hp_Status := v\<rparr>, n1))"
definition PodIntentDie_Spec where
  "PodIntentDie_Spec lib freeze v = die_set (PodIntent_die lib freeze) (\<lambda>r. r\<lparr>hp_Spec := v\<rparr>)"
definition PodIntentDie_Status where
  "PodIntentDie_Status lib freeze v = die_set (PodIntent_die lib freeze) (\<lambda>r. r\<lparr>hp_Status := v\<rparr>)"

subsection \<open>The contract\<close>

interpretation convention_calls: die_method "ClusterPodConvention_die lib freeze" "do_calls (ClusterPodConvention_die lib freeze) ks"
  for lib freeze ks
  by (rule do_calls_method)

interpretation intent_calls: die_method "PodIntent_die lib freeze" "do_calls (PodIntent_die lib freeze) ks" for lib freeze ks
  by (rule do_calls_method)

text \<open>A template survives the way through a library die that leaves it alone.\<close>

lemma edit_template_same:
  "fst (edit_template (\<lambda>k n. case k of Ref _ v \<Rightarrow> (v, n)) (Ref a t) n) = t"
  by (simp add: edit_template_def mem_AsPodTemplateSpec_def mem_NewPodTemplateSpec_def Let_def)




text \<open>Editing a convention through the die of its specification, as the tests do, sets the field and
  nothing else: up to addresses the result is the old convention with the new priority, and the
  immutable die it was built from keeps the old one.\<close>

lemma spec_die_edits:
  fixes n :: addr and p :: string and freeze :: "lib_value \<Rightarrow> 'f"
  assumes "deep_lib lib" and "\<not> die_mutable d"
  defines "res \<equiv> fst (ClusterPodConventionDie_SpecDie lib freeze (calling (ClusterPodConventionSpecDie_Priority lib p)) d n)"
  shows "fst res = d \<and> ClusterPodConvention_strip (die_r (result_of res)) =
    (ClusterPodConvention_strip (die_r d))\<lparr>hc_Spec :=
       (hc_Spec (ClusterPodConvention_strip (die_r d)))\<lparr>hcs_Priority := p\<rparr>\<rparr>"
proof -
  let ?c = "ClusterPodConvention_die lib freeze"
  let ?r = "fst (deep_value ?c (die_r d) n)"
  have "deep_copy (dt_into ?c) ClusterPodConvention_strip ClusterPodConvention_addrs"
    by (simp add: ClusterPodConvention_die_def ClusterPodConvention_deep [OF assms(1)])
  from deep_value_deep(1) [OF this] have same: "ClusterPodConvention_strip ?r = ClusterPodConvention_strip (die_r d)" .
  have "die_r (result_of res) = ?r\<lparr>hc_Spec := (hc_Spec ?r)\<lparr>hcs_Priority := p\<rparr>\<rparr>"
    using stamp_part_immutable(2) [OF assms(2), of ?c]
    by (simp add: res_def ClusterPodConventionDie_SpecDie_def ClusterPodConventionSpecDie_Priority_def split_beta edit_part_set)
  then have "ClusterPodConvention_strip (die_r (result_of res)) =
      (ClusterPodConvention_strip ?r)\<lparr>hc_Spec := (hc_Spec (ClusterPodConvention_strip ?r))\<lparr>hcs_Priority := p\<rparr>\<rparr>"
    by (simp add: ClusterPodConvention_strip_def ClusterPodConventionSpec_strip_def)
  with same stamp_part_immutable(1) [OF assms(2), of ?c] show ?thesis
    by (simp add: res_def ClusterPodConventionDie_SpecDie_def)
qed

lemma spec_die_edits_example:
  "hcs_Priority (hc_Spec (die_r (result_of (fst (ClusterPodConventionDie_SpecDie relocating_lib id
      (calling (ClusterPodConventionSpecDie_Priority relocating_lib ''Late'')) (ClusterPodConventionBlank relocating_lib id) 10))))) = ''Late''"
proof -
  have "\<not> die_mutable (ClusterPodConventionBlank relocating_lib id)"
    by (simp add: ClusterPodConventionBlank_def die_blank_def)
  from spec_die_edits [OF relocating_lib_deep this, of id "''Late''" 10] have
    "hcs_Priority (hc_Spec (ClusterPodConvention_strip (die_r (result_of (fst (ClusterPodConventionDie_SpecDie relocating_lib id
      (calling (ClusterPodConventionSpecDie_Priority relocating_lib ''Late'')) (ClusterPodConventionBlank relocating_lib id) 10)))))) = ''Late''"
    by simp
  then show ?thesis by (simp add: ClusterPodConvention_strip_def ClusterPodConventionSpec_strip_def)
qed

end
