(* ===== verification/CertManagerDies.thy ===== *)
theory CertManagerDies
  imports DieTypes CertificateRequests
begin

text \<open>
  The dies of \<open>pkg/dies/cert-manager/v1\<close>: certificate requests for the tests of the controller. The deep
  copies they rely on are those of \<open>pkg/apis/thirdparty/cert-manager/v1/zz_generated.deepcopy.go\<close>, on the
  memory of \<open>Memory\<close>; the dies are instances of \<open>Dies\<close> with the setters of each type and the builders
  written by hand in \<open>certificaterequest.go\<close>. An instant and a duration are numbers behind a pointer.
\<close>

subsection \<open>Deep copies\<close>

text \<open>\<open>Extra\<close> is a map of slices; a nil slice stays nil.\<close>

definition extra_addrs :: "(string, string list ref) fmap \<Rightarrow> addr list" where
  "extra_addrs m = concat (map (addrs_ref no_addrs \<circ> snd) (map_entries m))"

lemma extra_deep: "deep_copy (copy_new (copy_values copy_elements)) (strip_ref (fmmap (strip_ref id))) (addrs_ref extra_addrs)"
proof -
  have eq: "extra_addrs = (\<lambda>m. concat (map (addrs_ref no_addrs \<circ> snd) (map_entries m)))"
    by (intro ext) (rule extra_addrs_def)
  show ?thesis unfolding eq by (rule deep_copy_new [OF deep_copy_values [OF deep_copy_elements]])
qed

record MemCertificateRequestCondition =
  hcc_Type :: string
  hcc_Status :: string
  hcc_LastTransitionTime :: "int ref"
  hcc_Reason :: string
  hcc_Message :: string

definition CertificateRequestCondition_DeepCopyInto :: "MemCertificateRequestCondition copier" where
  "CertificateRequestCondition_DeepCopyInto inp n =
     (let out = inp;
          (lastTransitionTime, n) = copy_new copy_plain (hcc_LastTransitionTime inp) n
      in (out\<lparr>hcc_LastTransitionTime := lastTransitionTime\<rparr>, n))"

definition CertificateRequestCondition_strip :: "MemCertificateRequestCondition \<Rightarrow> MemCertificateRequestCondition" where
  "CertificateRequestCondition_strip x = x\<lparr>hcc_LastTransitionTime := strip_ref id (hcc_LastTransitionTime x)\<rparr>"
definition CertificateRequestCondition_addrs :: "MemCertificateRequestCondition \<Rightarrow> addr list" where
  "CertificateRequestCondition_addrs x =
     addrs_ref no_addrs (hcc_LastTransitionTime x)"

lemma CertificateRequestCondition_deep [deep_copies]:
  shows "deep_copy CertificateRequestCondition_DeepCopyInto
    CertificateRequestCondition_strip CertificateRequestCondition_addrs"
  by (rule deep_copy_struct [where get = "\<lambda>x. hcc_LastTransitionTime x"
        and put = "\<lambda>x a. x\<lparr>hcc_LastTransitionTime := a\<rparr>",
        OF deep_copy_new [OF deep_copy_plain [of id]]])
    (simp_all add: CertificateRequestCondition_DeepCopyInto_def CertificateRequestCondition_strip_def
      CertificateRequestCondition_addrs_def struct_simps)

record MemCertificateRequestSpec =
  hcr_Duration :: "int ref"
  hcr_IssuerRef :: handle
  hcr_Request :: "char list ref"
  hcr_IsCA :: bool
  hcr_Usages :: "KeyUsage list ref"
  hcr_Username :: string
  hcr_UID :: string
  hcr_Groups :: "string list ref"
  hcr_Extra :: "(string, string list ref) fmap ref"

definition CertificateRequestSpec_DeepCopyInto :: "MemCertificateRequestSpec copier" where
  "CertificateRequestSpec_DeepCopyInto inp n =
     (let out = inp;
          (duration, n) = copy_new copy_plain (hcr_Duration inp) n;
          (request, n) = copy_elements (hcr_Request inp) n;
          (usages, n) = copy_elements (hcr_Usages inp) n;
          (groups, n) = copy_elements (hcr_Groups inp) n;
          (extra, n) = copy_new (copy_values copy_elements) (hcr_Extra inp) n
      in (out\<lparr>hcr_Duration := duration, hcr_Request := request, hcr_Usages := usages, hcr_Groups := groups, hcr_Extra := extra\<rparr>, n))"

definition CertificateRequestSpec_strip :: "MemCertificateRequestSpec \<Rightarrow> MemCertificateRequestSpec" where
  "CertificateRequestSpec_strip x = x\<lparr>hcr_Duration := strip_ref id (hcr_Duration x),
     hcr_Request := strip_ref id (hcr_Request x),
     hcr_Usages := strip_ref id (hcr_Usages x),
     hcr_Groups := strip_ref id (hcr_Groups x),
     hcr_Extra := strip_ref (fmmap (strip_ref id)) (hcr_Extra x)\<rparr>"
definition CertificateRequestSpec_addrs :: "MemCertificateRequestSpec \<Rightarrow> addr list" where
  "CertificateRequestSpec_addrs x =
     addrs_ref no_addrs (hcr_Duration x) @
     addrs_ref no_addrs (hcr_Request x) @
     addrs_ref no_addrs (hcr_Usages x) @
     addrs_ref no_addrs (hcr_Groups x) @
     addrs_ref extra_addrs (hcr_Extra x)"

lemma CertificateRequestSpec_deep [deep_copies]:
  shows "deep_copy CertificateRequestSpec_DeepCopyInto
    CertificateRequestSpec_strip CertificateRequestSpec_addrs"
  by (rule deep_copy_struct [where get = "\<lambda>x. (hcr_Duration x, hcr_Request x, hcr_Usages x, hcr_Groups x, hcr_Extra x)"
        and put = "\<lambda>x (a, b, c, d, e). x\<lparr>hcr_Duration := a, hcr_Request := b, hcr_Usages := c, hcr_Groups := d, hcr_Extra := e\<rparr>",
        OF deep_copy_pair [OF deep_copy_new [OF deep_copy_plain [of id]]
           deep_copy_pair [OF deep_copy_elements
           deep_copy_pair [OF deep_copy_elements
           deep_copy_pair [OF deep_copy_elements
           extra_deep
          ]
          ]
          ]
          ]])
    (simp_all add: CertificateRequestSpec_DeepCopyInto_def CertificateRequestSpec_strip_def
      CertificateRequestSpec_addrs_def struct_simps)

record MemCertificateRequestStatus =
  hct_Conditions :: "MemCertificateRequestCondition list ref"
  hct_Certificate :: "char list ref"
  hct_CA :: "char list ref"
  hct_FailureTime :: "int ref"

definition CertificateRequestStatus_DeepCopyInto :: "MemCertificateRequestStatus copier" where
  "CertificateRequestStatus_DeepCopyInto inp n =
     (let out = inp;
          (conditions, n) = copy_slice CertificateRequestCondition_DeepCopyInto (hct_Conditions inp) n;
          (certificate, n) = copy_elements (hct_Certificate inp) n;
          (cA, n) = copy_elements (hct_CA inp) n;
          (failureTime, n) = copy_new copy_plain (hct_FailureTime inp) n
      in (out\<lparr>hct_Conditions := conditions, hct_Certificate := certificate, hct_CA := cA, hct_FailureTime := failureTime\<rparr>, n))"

definition CertificateRequestStatus_strip :: "MemCertificateRequestStatus \<Rightarrow> MemCertificateRequestStatus" where
  "CertificateRequestStatus_strip x = x\<lparr>hct_Conditions := strip_ref (map CertificateRequestCondition_strip) (hct_Conditions x),
     hct_Certificate := strip_ref id (hct_Certificate x),
     hct_CA := strip_ref id (hct_CA x),
     hct_FailureTime := strip_ref id (hct_FailureTime x)\<rparr>"
definition CertificateRequestStatus_addrs :: "MemCertificateRequestStatus \<Rightarrow> addr list" where
  "CertificateRequestStatus_addrs x =
     addrs_ref (\<lambda>xs. concat (map CertificateRequestCondition_addrs xs)) (hct_Conditions x) @
     addrs_ref no_addrs (hct_Certificate x) @
     addrs_ref no_addrs (hct_CA x) @
     addrs_ref no_addrs (hct_FailureTime x)"

lemma CertificateRequestStatus_deep [deep_copies]:
  shows "deep_copy CertificateRequestStatus_DeepCopyInto
    CertificateRequestStatus_strip CertificateRequestStatus_addrs"
  by (rule deep_copy_struct [where get = "\<lambda>x. (hct_Conditions x, hct_Certificate x, hct_CA x, hct_FailureTime x)"
        and put = "\<lambda>x (a, b, c, d). x\<lparr>hct_Conditions := a, hct_Certificate := b, hct_CA := c, hct_FailureTime := d\<rparr>",
        OF deep_copy_pair [OF deep_copy_slice [OF CertificateRequestCondition_deep]
           deep_copy_pair [OF deep_copy_elements
           deep_copy_pair [OF deep_copy_elements
           deep_copy_new [OF deep_copy_plain [of id]]
          ]
          ]
          ]])
    (simp_all add: CertificateRequestStatus_DeepCopyInto_def CertificateRequestStatus_strip_def
      CertificateRequestStatus_addrs_def struct_simps)

record MemCertificateRequest =
  hq_TypeMeta :: MemTypeMeta
  hq_ObjectMeta :: lib_value
  hq_Spec :: MemCertificateRequestSpec
  hq_Status :: MemCertificateRequestStatus

definition CertificateRequest_DeepCopyInto :: "copy_lib \<Rightarrow> MemCertificateRequest copier" where
  "CertificateRequest_DeepCopyInto lib inp n =
     (let out = inp\<lparr>hq_TypeMeta := hq_TypeMeta inp\<rparr>;
          (objectMeta, n) = cl_ObjectMeta lib (hq_ObjectMeta inp) n;
          (spec, n) = CertificateRequestSpec_DeepCopyInto (hq_Spec inp) n;
          (status, n) = CertificateRequestStatus_DeepCopyInto (hq_Status inp) n
      in (out\<lparr>hq_ObjectMeta := objectMeta, hq_Spec := spec, hq_Status := status\<rparr>, n))"

definition CertificateRequest_strip :: "MemCertificateRequest \<Rightarrow> MemCertificateRequest" where
  "CertificateRequest_strip x = x\<lparr>hq_ObjectMeta := lib_strip (hq_ObjectMeta x),
     hq_Spec := CertificateRequestSpec_strip (hq_Spec x),
     hq_Status := CertificateRequestStatus_strip (hq_Status x)\<rparr>"
definition CertificateRequest_addrs :: "MemCertificateRequest \<Rightarrow> addr list" where
  "CertificateRequest_addrs x =
     lv_addrs (hq_ObjectMeta x) @
     CertificateRequestSpec_addrs (hq_Spec x) @
     CertificateRequestStatus_addrs (hq_Status x)"

lemma CertificateRequest_deep [deep_copies]:
  assumes law: "deep_lib lib"
  shows "deep_copy (CertificateRequest_DeepCopyInto lib)
    CertificateRequest_strip CertificateRequest_addrs"
  by (rule deep_copy_struct [where get = "\<lambda>x. (hq_ObjectMeta x, hq_Spec x, hq_Status x)"
        and put = "\<lambda>x (a, b, c). x\<lparr>hq_ObjectMeta := a, hq_Spec := b, hq_Status := c\<rparr>",
        OF deep_copy_pair [OF deep_lib_copies(1) [OF law]
           deep_copy_pair [OF CertificateRequestSpec_deep
           CertificateRequestStatus_deep
          ]
          ]])
    (simp_all add: CertificateRequest_DeepCopyInto_def CertificateRequest_strip_def
      CertificateRequest_addrs_def struct_simps)

record MemCertificateRequestList =
  hql_TypeMeta :: MemTypeMeta
  hql_ListMeta :: lib_value
  hql_Items :: "MemCertificateRequest list ref"

definition CertificateRequestList_DeepCopyInto :: "copy_lib \<Rightarrow> MemCertificateRequestList copier" where
  "CertificateRequestList_DeepCopyInto lib inp n =
     (let out = inp\<lparr>hql_TypeMeta := hql_TypeMeta inp\<rparr>;
          (listMeta, n) = cl_ListMeta lib (hql_ListMeta inp) n;
          (items, n) = copy_slice (CertificateRequest_DeepCopyInto lib) (hql_Items inp) n
      in (out\<lparr>hql_ListMeta := listMeta, hql_Items := items\<rparr>, n))"

definition CertificateRequestList_strip :: "MemCertificateRequestList \<Rightarrow> MemCertificateRequestList" where
  "CertificateRequestList_strip x = x\<lparr>hql_ListMeta := lib_strip (hql_ListMeta x),
     hql_Items := strip_ref (map CertificateRequest_strip) (hql_Items x)\<rparr>"
definition CertificateRequestList_addrs :: "MemCertificateRequestList \<Rightarrow> addr list" where
  "CertificateRequestList_addrs x =
     lv_addrs (hql_ListMeta x) @
     addrs_ref (\<lambda>xs. concat (map CertificateRequest_addrs xs)) (hql_Items x)"

lemma CertificateRequestList_deep [deep_copies]:
  assumes law: "deep_lib lib"
  shows "deep_copy (CertificateRequestList_DeepCopyInto lib)
    CertificateRequestList_strip CertificateRequestList_addrs"
  by (rule deep_copy_struct [where get = "\<lambda>x. (hql_ListMeta x, hql_Items x)"
        and put = "\<lambda>x (a, b). x\<lparr>hql_ListMeta := a, hql_Items := b\<rparr>",
        OF deep_copy_pair [OF deep_lib_copies(2) [OF law]
           deep_copy_slice [OF CertificateRequest_deep [OF law]]
          ]])
    (simp_all add: CertificateRequestList_DeepCopyInto_def CertificateRequestList_strip_def
      CertificateRequestList_addrs_def struct_simps)

definition CertificateRequestCondition_DeepCopy :: "MemCertificateRequestCondition ref copier" where
  "CertificateRequestCondition_DeepCopy inp n = copy_new CertificateRequestCondition_DeepCopyInto inp n"

definition CertificateRequestSpec_DeepCopy :: "MemCertificateRequestSpec ref copier" where
  "CertificateRequestSpec_DeepCopy inp n = copy_new CertificateRequestSpec_DeepCopyInto inp n"

definition CertificateRequestStatus_DeepCopy :: "MemCertificateRequestStatus ref copier" where
  "CertificateRequestStatus_DeepCopy inp n = copy_new CertificateRequestStatus_DeepCopyInto inp n"

definition CertificateRequest_DeepCopy :: "copy_lib \<Rightarrow> MemCertificateRequest ref copier" where
  "CertificateRequest_DeepCopy lib inp n = copy_new (CertificateRequest_DeepCopyInto lib) inp n"
definition CertificateRequest_DeepCopyObject :: "copy_lib \<Rightarrow> MemCertificateRequest ref \<Rightarrow> addr \<Rightarrow> MemCertificateRequest ref option \<times> addr" where
  "CertificateRequest_DeepCopyObject lib inp n = as_object (CertificateRequest_DeepCopy lib inp n)"

definition CertificateRequestList_DeepCopy :: "copy_lib \<Rightarrow> MemCertificateRequestList ref copier" where
  "CertificateRequestList_DeepCopy lib inp n = copy_new (CertificateRequestList_DeepCopyInto lib) inp n"
definition CertificateRequestList_DeepCopyObject :: "copy_lib \<Rightarrow> MemCertificateRequestList ref \<Rightarrow> addr \<Rightarrow> MemCertificateRequestList ref option \<times> addr" where
  "CertificateRequestList_DeepCopyObject lib inp n = as_object (CertificateRequestList_DeepCopy lib inp n)"


subsection \<open>CertificateRequestSpec\<close>

type_synonym CertificateRequestSpecDie = "(MemCertificateRequestSpec, unit) die"

definition zero_CertificateRequestSpec :: MemCertificateRequestSpec where
  "zero_CertificateRequestSpec = \<lparr>hcr_Duration = NilRef, hcr_IssuerRef = [], hcr_Request = NilRef, hcr_IsCA = False,
     hcr_Usages = NilRef, hcr_Username = [], hcr_UID = [], hcr_Groups = NilRef, hcr_Extra = NilRef\<rparr>"

definition CertificateRequestSpec_die :: "(MemCertificateRequestSpec, unit) die_type" where
  "CertificateRequestSpec_die =
     \<lparr>dt_zero = zero_CertificateRequestSpec, dt_freeze = \<lambda>_. (), dt_into = CertificateRequestSpec_DeepCopyInto\<rparr>"

definition CertificateRequestSpecBlank where
  "CertificateRequestSpecBlank = die_blank CertificateRequestSpec_die"
definition CertificateRequestSpecDie_DieImmutable where
  "CertificateRequestSpecDie_DieImmutable = die_DieImmutable CertificateRequestSpec_die"
definition CertificateRequestSpecDie_DieFeed where
  "CertificateRequestSpecDie_DieFeed = die_DieFeed CertificateRequestSpec_die"
definition CertificateRequestSpecDie_DieFeedPtr where
  "CertificateRequestSpecDie_DieFeedPtr = die_DieFeedPtr CertificateRequestSpec_die"
definition CertificateRequestSpecDie_DieFeedDuck where
  "CertificateRequestSpecDie_DieFeedDuck = die_DieFeedDuck CertificateRequestSpec_die"
definition CertificateRequestSpecDie_DieFeedJSON where
  "CertificateRequestSpecDie_DieFeedJSON = die_DieFeedJSON CertificateRequestSpec_die"
definition CertificateRequestSpecDie_DieFeedYAML where
  "CertificateRequestSpecDie_DieFeedYAML = die_DieFeedYAML CertificateRequestSpec_die"
definition CertificateRequestSpecDie_DieFeedYAMLFile where
  "CertificateRequestSpecDie_DieFeedYAMLFile = die_DieFeedYAMLFile CertificateRequestSpec_die"
definition CertificateRequestSpecDie_DieFeedRawExtension where
  "CertificateRequestSpecDie_DieFeedRawExtension = die_DieFeedRawExtension CertificateRequestSpec_die"
definition CertificateRequestSpecDie_DieRelease where
  "CertificateRequestSpecDie_DieRelease = die_DieRelease CertificateRequestSpec_die"
definition CertificateRequestSpecDie_DieReleasePtr where
  "CertificateRequestSpecDie_DieReleasePtr = die_DieReleasePtr CertificateRequestSpec_die"
definition CertificateRequestSpecDie_DieReleaseDuck where
  "CertificateRequestSpecDie_DieReleaseDuck = die_DieReleaseDuck CertificateRequestSpec_die"
definition CertificateRequestSpecDie_DieReleaseJSON where
  "CertificateRequestSpecDie_DieReleaseJSON = die_DieReleaseJSON CertificateRequestSpec_die"
definition CertificateRequestSpecDie_DieReleaseYAML where
  "CertificateRequestSpecDie_DieReleaseYAML = die_DieReleaseYAML CertificateRequestSpec_die"
definition CertificateRequestSpecDie_DieReleaseRawExtension where
  "CertificateRequestSpecDie_DieReleaseRawExtension = die_DieReleaseRawExtension CertificateRequestSpec_die"
definition CertificateRequestSpecDie_DieStamp where
  "CertificateRequestSpecDie_DieStamp = die_DieStamp CertificateRequestSpec_die"
definition CertificateRequestSpecDie_DieStampAt where
  "CertificateRequestSpecDie_DieStampAt = die_DieStampAt CertificateRequestSpec_die"
definition CertificateRequestSpecDie_DieWith where
  "CertificateRequestSpecDie_DieWith = die_DieWith CertificateRequestSpec_die"
definition CertificateRequestSpecDie_DeepCopy where
  "CertificateRequestSpecDie_DeepCopy = die_DeepCopy CertificateRequestSpec_die"
definition CertificateRequestSpecDie_DieSeal where
  "CertificateRequestSpecDie_DieSeal = die_DieSeal CertificateRequestSpec_die"
definition CertificateRequestSpecDie_DieSealFeed where
  "CertificateRequestSpecDie_DieSealFeed = die_DieSealFeed CertificateRequestSpec_die"
definition CertificateRequestSpecDie_DieSealFeedPtr where
  "CertificateRequestSpecDie_DieSealFeedPtr = die_DieSealFeedPtr CertificateRequestSpec_die"
definition CertificateRequestSpecDie_DieSealRelease where
  "CertificateRequestSpecDie_DieSealRelease = die_DieSealRelease CertificateRequestSpec_die"
definition CertificateRequestSpecDie_DieSealReleasePtr where
  "CertificateRequestSpecDie_DieSealReleasePtr = die_DieSealReleasePtr CertificateRequestSpec_die"
definition CertificateRequestSpecDie_DieDiff :: "(MemCertificateRequestSpec \<Rightarrow> MemCertificateRequestSpec \<Rightarrow> string) \<Rightarrow> (MemCertificateRequestSpec, unit) die \<Rightarrow> string" where
  "CertificateRequestSpecDie_DieDiff = die_DieDiff"
definition CertificateRequestSpecDie_DiePatch :: "(MemCertificateRequestSpec \<Rightarrow> MemCertificateRequestSpec \<Rightarrow> 'p \<Rightarrow> string result) \<Rightarrow> 'p \<Rightarrow> (MemCertificateRequestSpec, unit) die \<Rightarrow> string result" where
  "CertificateRequestSpecDie_DiePatch = die_DiePatch"

definition CertificateRequestSpecDie_Duration where
  "CertificateRequestSpecDie_Duration v = die_set CertificateRequestSpec_die (\<lambda>r. r\<lparr>hcr_Duration := v\<rparr>)"
definition CertificateRequestSpecDie_IssuerRef where
  "CertificateRequestSpecDie_IssuerRef v = die_set CertificateRequestSpec_die (\<lambda>r. r\<lparr>hcr_IssuerRef := v\<rparr>)"
definition CertificateRequestSpecDie_Request where
  "CertificateRequestSpecDie_Request v = die_set CertificateRequestSpec_die (\<lambda>r. r\<lparr>hcr_Request := v\<rparr>)"
definition CertificateRequestSpecDie_IsCA where
  "CertificateRequestSpecDie_IsCA v = die_set CertificateRequestSpec_die (\<lambda>r. r\<lparr>hcr_IsCA := v\<rparr>)"
definition CertificateRequestSpecDie_Usages where
  "CertificateRequestSpecDie_Usages v = die_set CertificateRequestSpec_die (\<lambda>r. r\<lparr>hcr_Usages := v\<rparr>)"
definition CertificateRequestSpecDie_Username where
  "CertificateRequestSpecDie_Username v = die_set CertificateRequestSpec_die (\<lambda>r. r\<lparr>hcr_Username := v\<rparr>)"
definition CertificateRequestSpecDie_UID where
  "CertificateRequestSpecDie_UID v = die_set CertificateRequestSpec_die (\<lambda>r. r\<lparr>hcr_UID := v\<rparr>)"
definition CertificateRequestSpecDie_Groups where
  "CertificateRequestSpecDie_Groups v = die_set CertificateRequestSpec_die (\<lambda>r. r\<lparr>hcr_Groups := v\<rparr>)"
definition CertificateRequestSpecDie_Extra where
  "CertificateRequestSpecDie_Extra v = die_set CertificateRequestSpec_die (\<lambda>r. r\<lparr>hcr_Extra := v\<rparr>)"

definition CertificateRequestSpecDie_IssuerRefDie where
  "CertificateRequestSpecDie_IssuerRefDie fn = die_DieStamp CertificateRequestSpec_die
     (\<lambda>r n. case fn (hcr_IssuerRef r) n of (v, n1) \<Rightarrow> (r\<lparr>hcr_IssuerRef := v\<rparr>, n1))"

text \<open>\<open>make\<close> when the map is nil, then the assignment to the entry.\<close>

definition CertificateRequestSpecDie_AddExtra where
  "CertificateRequestSpecDie_AddExtra key values = die_DieStamp CertificateRequestSpec_die
     (\<lambda>r n. case (case hcr_Extra r of NilRef \<Rightarrow> (n, fmempty, Suc n) | Ref a m \<Rightarrow> (a, m, n)) of (a, m, n1) \<Rightarrow>
        (r\<lparr>hcr_Extra := Ref a (fmupd key values m)\<rparr>, n1))"

subsection \<open>CertificateRequestStatus\<close>

type_synonym CertificateRequestStatusDie = "(MemCertificateRequestStatus, unit) die"

definition zero_CertificateRequestStatus :: MemCertificateRequestStatus where
  "zero_CertificateRequestStatus = \<lparr>hct_Conditions = NilRef, hct_Certificate = NilRef, hct_CA = NilRef, hct_FailureTime = NilRef\<rparr>"

definition CertificateRequestStatus_die :: "(MemCertificateRequestStatus, unit) die_type" where
  "CertificateRequestStatus_die =
     \<lparr>dt_zero = zero_CertificateRequestStatus, dt_freeze = \<lambda>_. (), dt_into = CertificateRequestStatus_DeepCopyInto\<rparr>"

definition CertificateRequestStatusBlank where
  "CertificateRequestStatusBlank = die_blank CertificateRequestStatus_die"
definition CertificateRequestStatusDie_DieImmutable where
  "CertificateRequestStatusDie_DieImmutable = die_DieImmutable CertificateRequestStatus_die"
definition CertificateRequestStatusDie_DieFeed where
  "CertificateRequestStatusDie_DieFeed = die_DieFeed CertificateRequestStatus_die"
definition CertificateRequestStatusDie_DieFeedPtr where
  "CertificateRequestStatusDie_DieFeedPtr = die_DieFeedPtr CertificateRequestStatus_die"
definition CertificateRequestStatusDie_DieFeedDuck where
  "CertificateRequestStatusDie_DieFeedDuck = die_DieFeedDuck CertificateRequestStatus_die"
definition CertificateRequestStatusDie_DieFeedJSON where
  "CertificateRequestStatusDie_DieFeedJSON = die_DieFeedJSON CertificateRequestStatus_die"
definition CertificateRequestStatusDie_DieFeedYAML where
  "CertificateRequestStatusDie_DieFeedYAML = die_DieFeedYAML CertificateRequestStatus_die"
definition CertificateRequestStatusDie_DieFeedYAMLFile where
  "CertificateRequestStatusDie_DieFeedYAMLFile = die_DieFeedYAMLFile CertificateRequestStatus_die"
definition CertificateRequestStatusDie_DieFeedRawExtension where
  "CertificateRequestStatusDie_DieFeedRawExtension = die_DieFeedRawExtension CertificateRequestStatus_die"
definition CertificateRequestStatusDie_DieRelease where
  "CertificateRequestStatusDie_DieRelease = die_DieRelease CertificateRequestStatus_die"
definition CertificateRequestStatusDie_DieReleasePtr where
  "CertificateRequestStatusDie_DieReleasePtr = die_DieReleasePtr CertificateRequestStatus_die"
definition CertificateRequestStatusDie_DieReleaseDuck where
  "CertificateRequestStatusDie_DieReleaseDuck = die_DieReleaseDuck CertificateRequestStatus_die"
definition CertificateRequestStatusDie_DieReleaseJSON where
  "CertificateRequestStatusDie_DieReleaseJSON = die_DieReleaseJSON CertificateRequestStatus_die"
definition CertificateRequestStatusDie_DieReleaseYAML where
  "CertificateRequestStatusDie_DieReleaseYAML = die_DieReleaseYAML CertificateRequestStatus_die"
definition CertificateRequestStatusDie_DieReleaseRawExtension where
  "CertificateRequestStatusDie_DieReleaseRawExtension = die_DieReleaseRawExtension CertificateRequestStatus_die"
definition CertificateRequestStatusDie_DieStamp where
  "CertificateRequestStatusDie_DieStamp = die_DieStamp CertificateRequestStatus_die"
definition CertificateRequestStatusDie_DieStampAt where
  "CertificateRequestStatusDie_DieStampAt = die_DieStampAt CertificateRequestStatus_die"
definition CertificateRequestStatusDie_DieWith where
  "CertificateRequestStatusDie_DieWith = die_DieWith CertificateRequestStatus_die"
definition CertificateRequestStatusDie_DeepCopy where
  "CertificateRequestStatusDie_DeepCopy = die_DeepCopy CertificateRequestStatus_die"
definition CertificateRequestStatusDie_DieSeal where
  "CertificateRequestStatusDie_DieSeal = die_DieSeal CertificateRequestStatus_die"
definition CertificateRequestStatusDie_DieSealFeed where
  "CertificateRequestStatusDie_DieSealFeed = die_DieSealFeed CertificateRequestStatus_die"
definition CertificateRequestStatusDie_DieSealFeedPtr where
  "CertificateRequestStatusDie_DieSealFeedPtr = die_DieSealFeedPtr CertificateRequestStatus_die"
definition CertificateRequestStatusDie_DieSealRelease where
  "CertificateRequestStatusDie_DieSealRelease = die_DieSealRelease CertificateRequestStatus_die"
definition CertificateRequestStatusDie_DieSealReleasePtr where
  "CertificateRequestStatusDie_DieSealReleasePtr = die_DieSealReleasePtr CertificateRequestStatus_die"
definition CertificateRequestStatusDie_DieDiff :: "(MemCertificateRequestStatus \<Rightarrow> MemCertificateRequestStatus \<Rightarrow> string) \<Rightarrow> (MemCertificateRequestStatus, unit) die \<Rightarrow> string" where
  "CertificateRequestStatusDie_DieDiff = die_DieDiff"
definition CertificateRequestStatusDie_DiePatch :: "(MemCertificateRequestStatus \<Rightarrow> MemCertificateRequestStatus \<Rightarrow> 'p \<Rightarrow> string result) \<Rightarrow> 'p \<Rightarrow> (MemCertificateRequestStatus, unit) die \<Rightarrow> string result" where
  "CertificateRequestStatusDie_DiePatch = die_DiePatch"

definition CertificateRequestStatusDie_Conditions where
  "CertificateRequestStatusDie_Conditions v = die_set CertificateRequestStatus_die (\<lambda>r. r\<lparr>hct_Conditions := v\<rparr>)"
definition CertificateRequestStatusDie_Certificate where
  "CertificateRequestStatusDie_Certificate v = die_set CertificateRequestStatus_die (\<lambda>r. r\<lparr>hct_Certificate := v\<rparr>)"
definition CertificateRequestStatusDie_CA where
  "CertificateRequestStatusDie_CA v = die_set CertificateRequestStatus_die (\<lambda>r. r\<lparr>hct_CA := v\<rparr>)"
definition CertificateRequestStatusDie_FailureTime where
  "CertificateRequestStatusDie_FailureTime v = die_set CertificateRequestStatus_die (\<lambda>r. r\<lparr>hct_FailureTime := v\<rparr>)"

record MemCondition =
  hmc_Type :: string
  hmc_Status :: string
  hmc_ObservedGeneration :: int
  hmc_LastTransitionTime :: int
  hmc_Reason :: string
  hmc_Message :: string

text \<open>Each released condition is a variable of its own; the request refers to its time.\<close>

fun coerce_conditions :: "(addr \<Rightarrow> MemCondition \<times> addr) list \<Rightarrow> addr \<Rightarrow> MemCertificateRequestCondition list \<times> addr" where
  "coerce_conditions [] n = ([], n)"
| "coerce_conditions (d # ds) n =
     (case d n of (c, n1) \<Rightarrow>
      (case coerce_conditions ds (Suc n1) of (cs, n2) \<Rightarrow>
        (\<lparr>hcc_Type = hmc_Type c, hcc_Status = hmc_Status c, hcc_LastTransitionTime = Ref n1 (hmc_LastTransitionTime c),
          hcc_Reason = hmc_Reason c, hcc_Message = hmc_Message c\<rparr> # cs, n2)))"

definition CertificateRequestStatusDie_ConditionsDie where
  "CertificateRequestStatusDie_ConditionsDie conditions = die_DieStamp CertificateRequestStatus_die
     (\<lambda>r n. case coerce_conditions conditions (Suc n) of (cs, n1) \<Rightarrow> (r\<lparr>hct_Conditions := Ref n cs\<rparr>, n1))"

definition CertificateRequestConditionReadyBlank where
  "CertificateRequestConditionReadyBlank blank_of_type = blank_of_type CertificateRequestConditionReady"
definition CertificateRequestConditionInvalidRequestBlank where
  "CertificateRequestConditionInvalidRequestBlank blank_of_type = blank_of_type CertificateRequestConditionInvalidRequest"
definition CertificateRequestConditionApprovedBlank where
  "CertificateRequestConditionApprovedBlank blank_of_type = blank_of_type CertificateRequestConditionApproved"
definition CertificateRequestConditionDeniedBlank where
  "CertificateRequestConditionDeniedBlank blank_of_type = blank_of_type CertificateRequestConditionDenied"

subsection \<open>CertificateRequest\<close>

type_synonym 'f CertificateRequestDie = "(MemCertificateRequest, 'f) die"

definition zero_CertificateRequest :: MemCertificateRequest where
  "zero_CertificateRequest = \<lparr>hq_TypeMeta = zero_type_meta, hq_ObjectMeta = zero_lib, hq_Spec = zero_CertificateRequestSpec,
     hq_Status = zero_CertificateRequestStatus\<rparr>"

definition CertificateRequest_die :: "copy_lib \<Rightarrow> (lib_value \<Rightarrow> 'f) \<Rightarrow> (MemCertificateRequest, 'f) die_type" where
  "CertificateRequest_die lib freeze =
     \<lparr>dt_zero = zero_CertificateRequest, dt_freeze = \<lambda>r. freeze (hq_ObjectMeta r), dt_into = CertificateRequest_DeepCopyInto lib\<rparr>"

definition CertificateRequestBlank where
  "CertificateRequestBlank lib freeze = die_blank (CertificateRequest_die lib freeze)"
definition CertificateRequestDie_DieImmutable where
  "CertificateRequestDie_DieImmutable lib freeze = die_DieImmutable (CertificateRequest_die lib freeze)"
definition CertificateRequestDie_DieFeed where
  "CertificateRequestDie_DieFeed lib freeze = die_DieFeed (CertificateRequest_die lib freeze)"
definition CertificateRequestDie_DieFeedPtr where
  "CertificateRequestDie_DieFeedPtr lib freeze = die_DieFeedPtr (CertificateRequest_die lib freeze)"
definition CertificateRequestDie_DieFeedDuck where
  "CertificateRequestDie_DieFeedDuck lib freeze = die_DieFeedDuck (CertificateRequest_die lib freeze)"
definition CertificateRequestDie_DieFeedJSON where
  "CertificateRequestDie_DieFeedJSON lib freeze = die_DieFeedJSON (CertificateRequest_die lib freeze)"
definition CertificateRequestDie_DieFeedYAML where
  "CertificateRequestDie_DieFeedYAML lib freeze = die_DieFeedYAML (CertificateRequest_die lib freeze)"
definition CertificateRequestDie_DieFeedYAMLFile where
  "CertificateRequestDie_DieFeedYAMLFile lib freeze = die_DieFeedYAMLFile (CertificateRequest_die lib freeze)"
definition CertificateRequestDie_DieFeedRawExtension where
  "CertificateRequestDie_DieFeedRawExtension lib freeze = die_DieFeedRawExtension (CertificateRequest_die lib freeze)"
definition CertificateRequestDie_DieRelease where
  "CertificateRequestDie_DieRelease lib freeze = die_DieRelease (CertificateRequest_die lib freeze)"
definition CertificateRequestDie_DieReleasePtr where
  "CertificateRequestDie_DieReleasePtr lib freeze = die_DieReleasePtr (CertificateRequest_die lib freeze)"
definition CertificateRequestDie_DieReleaseUnstructured where
  "CertificateRequestDie_DieReleaseUnstructured lib freeze = die_DieReleaseUnstructured (CertificateRequest_die lib freeze)"
definition CertificateRequestDie_DieReleaseDuck where
  "CertificateRequestDie_DieReleaseDuck lib freeze = die_DieReleaseDuck (CertificateRequest_die lib freeze)"
definition CertificateRequestDie_DieReleaseJSON where
  "CertificateRequestDie_DieReleaseJSON lib freeze = die_DieReleaseJSON (CertificateRequest_die lib freeze)"
definition CertificateRequestDie_DieReleaseYAML where
  "CertificateRequestDie_DieReleaseYAML lib freeze = die_DieReleaseYAML (CertificateRequest_die lib freeze)"
definition CertificateRequestDie_DieReleaseRawExtension where
  "CertificateRequestDie_DieReleaseRawExtension lib freeze = die_DieReleaseRawExtension (CertificateRequest_die lib freeze)"
definition CertificateRequestDie_DieStamp where
  "CertificateRequestDie_DieStamp lib freeze = die_DieStamp (CertificateRequest_die lib freeze)"
definition CertificateRequestDie_DieStampAt where
  "CertificateRequestDie_DieStampAt lib freeze = die_DieStampAt (CertificateRequest_die lib freeze)"
definition CertificateRequestDie_DieWith where
  "CertificateRequestDie_DieWith lib freeze = die_DieWith (CertificateRequest_die lib freeze)"
definition CertificateRequestDie_DeepCopy where
  "CertificateRequestDie_DeepCopy lib freeze = die_DeepCopy (CertificateRequest_die lib freeze)"
definition CertificateRequestDie_DieSeal where
  "CertificateRequestDie_DieSeal lib freeze = die_DieSeal (CertificateRequest_die lib freeze)"
definition CertificateRequestDie_DieSealFeed where
  "CertificateRequestDie_DieSealFeed lib freeze = die_DieSealFeed (CertificateRequest_die lib freeze)"
definition CertificateRequestDie_DieSealFeedPtr where
  "CertificateRequestDie_DieSealFeedPtr lib freeze = die_DieSealFeedPtr (CertificateRequest_die lib freeze)"
definition CertificateRequestDie_DieSealRelease where
  "CertificateRequestDie_DieSealRelease lib freeze = die_DieSealRelease (CertificateRequest_die lib freeze)"
definition CertificateRequestDie_DieSealReleasePtr where
  "CertificateRequestDie_DieSealReleasePtr lib freeze = die_DieSealReleasePtr (CertificateRequest_die lib freeze)"
definition CertificateRequestDie_DeepCopyObject where
  "CertificateRequestDie_DeepCopyObject lib freeze = die_DeepCopyObject (CertificateRequest_die lib freeze)"
definition CertificateRequestDie_GetObjectKind where
  "CertificateRequestDie_GetObjectKind lib freeze = die_GetObjectKind (CertificateRequest_die lib freeze)"
definition CertificateRequestDie_UnmarshalJSON where
  "CertificateRequestDie_UnmarshalJSON lib freeze = die_UnmarshalJSON (CertificateRequest_die lib freeze)"
definition CertificateRequestDie_DieDiff :: "(MemCertificateRequest \<Rightarrow> MemCertificateRequest \<Rightarrow> string) \<Rightarrow> (MemCertificateRequest, 'f) die \<Rightarrow> string" where
  "CertificateRequestDie_DieDiff = die_DieDiff"
definition CertificateRequestDie_DiePatch :: "(MemCertificateRequest \<Rightarrow> MemCertificateRequest \<Rightarrow> 'p \<Rightarrow> string result) \<Rightarrow> 'p \<Rightarrow> (MemCertificateRequest, 'f) die \<Rightarrow> string result" where
  "CertificateRequestDie_DiePatch = die_DiePatch"
definition CertificateRequestDie_MarshalJSON :: "MemCertificateRequest die_codec \<Rightarrow> (MemCertificateRequest, 'f) die \<Rightarrow> string result" where
  "CertificateRequestDie_MarshalJSON = die_MarshalJSON"

definition CertificateRequestDie_APIVersion where
  "CertificateRequestDie_APIVersion lib freeze v = die_set (CertificateRequest_die lib freeze) (\<lambda>r. r\<lparr>hq_TypeMeta := (hq_TypeMeta r)\<lparr>tm_APIVersion := v\<rparr>\<rparr>)"
definition CertificateRequestDie_Kind where
  "CertificateRequestDie_Kind lib freeze v = die_set (CertificateRequest_die lib freeze) (\<lambda>r. r\<lparr>hq_TypeMeta := (hq_TypeMeta r)\<lparr>tm_Kind := v\<rparr>\<rparr>)"
definition CertificateRequestDie_TypeMetadata where
  "CertificateRequestDie_TypeMetadata lib freeze v = die_set (CertificateRequest_die lib freeze) (\<lambda>r. r\<lparr>hq_TypeMeta := v\<rparr>)"
definition CertificateRequestDie_TypeMetadataDie where
  "CertificateRequestDie_TypeMetadataDie lib freeze fn = die_DieStamp (CertificateRequest_die lib freeze)
     (\<lambda>r n. case fn (hq_TypeMeta r) n of (v, n1) \<Rightarrow> (r\<lparr>hq_TypeMeta := v\<rparr>, n1))"
definition CertificateRequestDie_Metadata where
  "CertificateRequestDie_Metadata lib freeze v = die_set (CertificateRequest_die lib freeze) (\<lambda>r. r\<lparr>hq_ObjectMeta := v\<rparr>)"
definition CertificateRequestDie_MetadataDie where
  "CertificateRequestDie_MetadataDie lib freeze fn = die_DieStamp (CertificateRequest_die lib freeze)
     (\<lambda>r n. case fn (hq_ObjectMeta r) n of (v, n1) \<Rightarrow> (r\<lparr>hq_ObjectMeta := v\<rparr>, n1))"
definition CertificateRequestDie_SpecDie where
  "CertificateRequestDie_SpecDie lib freeze fn = die_DieStamp (CertificateRequest_die lib freeze)
     (\<lambda>r n. case edit_part CertificateRequestSpec_die fn (hq_Spec r) n of (v, n1) \<Rightarrow> (r\<lparr>hq_Spec := v\<rparr>, n1))"
definition CertificateRequestDie_StatusDie where
  "CertificateRequestDie_StatusDie lib freeze fn = die_DieStamp (CertificateRequest_die lib freeze)
     (\<lambda>r n. case edit_part CertificateRequestStatus_die fn (hq_Status r) n of (v, n1) \<Rightarrow> (r\<lparr>hq_Status := v\<rparr>, n1))"
definition CertificateRequestDie_Spec where
  "CertificateRequestDie_Spec lib freeze v = die_set (CertificateRequest_die lib freeze) (\<lambda>r. r\<lparr>hq_Spec := v\<rparr>)"
definition CertificateRequestDie_Status where
  "CertificateRequestDie_Status lib freeze v = die_set (CertificateRequest_die lib freeze) (\<lambda>r. r\<lparr>hq_Status := v\<rparr>)"

subsection \<open>The contract\<close>

interpretation request_calls: die_method "CertificateRequest_die lib freeze" "do_calls (CertificateRequest_die lib freeze) ks"
  for lib freeze ks
  by (rule do_calls_method)

lemma request_release:
  assumes "deep_lib lib" and "\<not> die_mutable d"
  shows "CertificateRequest_strip (fst (CertificateRequestDie_DieRelease lib freeze d n)) = CertificateRequest_strip (die_r d)"
    and "set (CertificateRequest_addrs (fst (CertificateRequestDie_DieRelease lib freeze d n))) \<subseteq>
      {n..<snd (CertificateRequestDie_DieRelease lib freeze d n)}"
proof -
  have "deep_copy (dt_into (CertificateRequest_die lib freeze)) CertificateRequest_strip CertificateRequest_addrs"
    by (simp add: CertificateRequest_die_def CertificateRequest_deep [OF assms(1)])
  note deep_value_deep(1,2) [OF this, of "die_r d" n]
  with assms(2) show
    "CertificateRequest_strip (fst (CertificateRequestDie_DieRelease lib freeze d n)) = CertificateRequest_strip (die_r d)"
    "set (CertificateRequest_addrs (fst (CertificateRequestDie_DieRelease lib freeze d n))) \<subseteq>
      {n..<snd (CertificateRequestDie_DieRelease lib freeze d n)}"
    by (simp_all add: CertificateRequestDie_DieRelease_def die_DieRelease_def)
qed

text \<open>The values of a key of \<open>Extra\<close>, without their address.\<close>

definition extra_values :: "MemCertificateRequestSpec \<Rightarrow> string \<Rightarrow> string list ref option" where
  "extra_values r k = (case hcr_Extra r of NilRef \<Rightarrow> None | Ref _ m \<Rightarrow> map_option (strip_ref id) (fmlookup m k))"

lemma extra_values_strip: "extra_values (CertificateRequestSpec_strip r) = extra_values r"
proof -
  have twice: "strip_ref id (strip_ref id v) = strip_ref id v" for v :: "string list ref"
    by (cases v) simp_all
  show ?thesis
    by (cases "hcr_Extra r")
      (simp_all add: fun_eq_iff extra_values_def CertificateRequestSpec_strip_def option.map_comp comp_def twice)
qed

text \<open>\<open>AddExtra\<close> on an immutable die adds one entry to a copy of the map: the other entries are kept and
  the die it was called on still has the old ones.\<close>

lemma add_extra:
  fixes n :: addr and key :: string and "values" :: "string list ref"
  assumes "\<not> die_mutable d"
  defines "res \<equiv> fst (CertificateRequestSpecDie_AddExtra key values d n)"
  shows "fst res = d"
    and "extra_values (die_r (result_of res)) = (extra_values (die_r d)) (key \<mapsto> strip_ref id values)"
proof -
  let ?r = "fst (deep_value CertificateRequestSpec_die (die_r d) n)"
  have "deep_copy (dt_into CertificateRequestSpec_die) CertificateRequestSpec_strip CertificateRequestSpec_addrs"
    by (simp add: CertificateRequestSpec_die_def CertificateRequestSpec_deep)
  from deep_value_deep(1) [OF this, of "die_r d" n] have "extra_values ?r = extra_values (die_r d)"
    by (metis extra_values_strip)
  moreover have "extra_values (die_r (result_of res)) = (extra_values ?r) (key \<mapsto> strip_ref id values)"
    using stamp_part_immutable(2) [OF assms(1), of CertificateRequestSpec_die]
    by (auto simp: res_def CertificateRequestSpecDie_AddExtra_def extra_values_def split: ref.split)
  ultimately show "extra_values (die_r (result_of res)) = (extra_values (die_r d)) (key \<mapsto> strip_ref id values)" by simp
  show "fst res = d"
    using stamp_part_immutable(1) [OF assms(1), of CertificateRequestSpec_die]
    by (simp add: res_def CertificateRequestSpecDie_AddExtra_def)
qed

text \<open>The coerced conditions are those released, in order, each with a time of its own.\<close>

lemma coerce_conditions_released:
  "coerce_conditions (map Pair cs) n =
    (map (\<lambda>(i, c). \<lparr>hcc_Type = hmc_Type c, hcc_Status = hmc_Status c, hcc_LastTransitionTime = Ref i (hmc_LastTransitionTime c),
        hcc_Reason = hmc_Reason c, hcc_Message = hmc_Message c\<rparr>) (List.enumerate n cs), n + length cs)"
  by (induction cs arbitrary: n) simp_all

end
