(* ===== verification/CertManagerTypes.thy ===== *)
theory CertManagerTypes
  imports Watches
begin

text \<open>
  The constants of the cert-manager API (\<open>pkg/apis/thirdparty/cert-manager/v1/types.go\<close>, and the
  reasons of \<open>types_certificaterequest.go\<close>): annotation keys, resource kinds, the usages of a key and
  the default ones. The lemmas tie them to what the controller reads and watches.
\<close>

subsection \<open>Annotation keys\<close>

definition AltNamesAnnotationKey :: string where "AltNamesAnnotationKey = ''cert-manager.io/alt-names''"
definition IPSANAnnotationKey :: string where "IPSANAnnotationKey = ''cert-manager.io/ip-sans''"
definition URISANAnnotationKey :: string where "URISANAnnotationKey = ''cert-manager.io/uri-sans''"
definition CommonNameAnnotationKey :: string where "CommonNameAnnotationKey = ''cert-manager.io/common-name''"
definition DurationAnnotationKey :: string where "DurationAnnotationKey = ''cert-manager.io/duration''"
definition RenewBeforeAnnotationKey :: string where "RenewBeforeAnnotationKey = ''cert-manager.io/renew-before''"
definition UsagesAnnotationKey :: string where "UsagesAnnotationKey = ''cert-manager.io/usages''"
definition IssuerNameAnnotationKey :: string where "IssuerNameAnnotationKey = ''cert-manager.io/issuer-name''"
definition IssuerKindAnnotationKey :: string where "IssuerKindAnnotationKey = ''cert-manager.io/issuer-kind''"
definition IssuerGroupAnnotationKey :: string where "IssuerGroupAnnotationKey = ''cert-manager.io/issuer-group''"
definition CertificateNameKey :: string where "CertificateNameKey = ''cert-manager.io/certificate-name''"
definition IsNextPrivateKeySecretLabelKey :: string where "IsNextPrivateKeySecretLabelKey = ''cert-manager.io/next-private-key''"

subsection \<open>Annotations of an ingress\<close>

definition IngressIssuerNameAnnotationKey :: string where "IngressIssuerNameAnnotationKey = ''cert-manager.io/issuer''"
definition IngressClusterIssuerNameAnnotationKey :: string where "IngressClusterIssuerNameAnnotationKey = ''cert-manager.io/cluster-issuer''"
definition IngressACMEIssuerHTTP01IngressClassAnnotationKey :: string where "IngressACMEIssuerHTTP01IngressClassAnnotationKey = ''acme.cert-manager.io/http01-ingress-class''"
definition IngressClassAnnotationKey :: string where "IngressClassAnnotationKey = ''kubernetes.io/ingress.class''"

subsection \<open>Annotations of a certificate request\<close>

definition CertificateRequestPrivateKeyAnnotationKey :: string where "CertificateRequestPrivateKeyAnnotationKey = ''cert-manager.io/private-key-secret-name''"
definition CertificateRequestRevisionAnnotationKey :: string where "CertificateRequestRevisionAnnotationKey = ''cert-manager.io/certificate-revision''"

subsection \<open>Temporary certificates\<close>

definition IssueTemporaryCertificateAnnotation :: string where "IssueTemporaryCertificateAnnotation = ''cert-manager.io/issue-temporary-certificate''"

subsection \<open>Resource kinds\<close>

definition ClusterIssuerKind :: string where "ClusterIssuerKind = ''ClusterIssuer''"
definition IssuerKind :: string where "IssuerKind = ''Issuer''"
definition CertificateKind :: string where "CertificateKind = ''Certificate''"
definition CertificateRequestKind :: string where "CertificateRequestKind = ''CertificateRequest''"

subsection \<open>Injection of authorities\<close>

definition WantInjectAnnotation :: string where "WantInjectAnnotation = ''cert-manager.io/inject-ca-from''"
definition WantInjectAPIServerCAAnnotation :: string where "WantInjectAPIServerCAAnnotation = ''cert-manager.io/inject-apiserver-ca''"
definition WantInjectFromSecretAnnotation :: string where "WantInjectFromSecretAnnotation = ''cert-manager.io/inject-ca-from-secret''"
definition AllowsInjectionFromSecretAnnotation :: string where "AllowsInjectionFromSecretAnnotation = ''cert-manager.io/allow-direct-injection''"

subsection \<open>Annotations of the Venafi issuer\<close>

definition VenafiCustomFieldsAnnotationKey :: string where "VenafiCustomFieldsAnnotationKey = ''venafi.cert-manager.io/custom-fields''"
definition VenafiPickupIDAnnotationKey :: string where "VenafiPickupIDAnnotationKey = ''venafi.cert-manager.io/pickup-id''"

subsection \<open>Usages of a key\<close>

definition UsageSigning :: KeyUsage where "UsageSigning = ''signing''"
definition UsageDigitalSignature :: KeyUsage where "UsageDigitalSignature = ''digital signature''"
definition UsageContentCommitment :: KeyUsage where "UsageContentCommitment = ''content commitment''"
definition UsageKeyEncipherment :: KeyUsage where "UsageKeyEncipherment = ''key encipherment''"
definition UsageKeyAgreement :: KeyUsage where "UsageKeyAgreement = ''key agreement''"
definition UsageDataEncipherment :: KeyUsage where "UsageDataEncipherment = ''data encipherment''"
definition UsageCertSign :: KeyUsage where "UsageCertSign = ''cert sign''"
definition UsageCRLSign :: KeyUsage where "UsageCRLSign = ''crl sign''"
definition UsageEncipherOnly :: KeyUsage where "UsageEncipherOnly = ''encipher only''"
definition UsageDecipherOnly :: KeyUsage where "UsageDecipherOnly = ''decipher only''"
definition UsageAny :: KeyUsage where "UsageAny = ''any''"
definition UsageServerAuth :: KeyUsage where "UsageServerAuth = ''server auth''"
definition UsageClientAuth :: KeyUsage where "UsageClientAuth = ''client auth''"
definition UsageCodeSigning :: KeyUsage where "UsageCodeSigning = ''code signing''"
definition UsageEmailProtection :: KeyUsage where "UsageEmailProtection = ''email protection''"
definition UsageSMIME :: KeyUsage where "UsageSMIME = ''s/mime''"
definition UsageIPsecEndSystem :: KeyUsage where "UsageIPsecEndSystem = ''ipsec end system''"
definition UsageIPsecTunnel :: KeyUsage where "UsageIPsecTunnel = ''ipsec tunnel''"
definition UsageIPsecUser :: KeyUsage where "UsageIPsecUser = ''ipsec user''"
definition UsageTimestamping :: KeyUsage where "UsageTimestamping = ''timestamping''"
definition UsageOCSPSigning :: KeyUsage where "UsageOCSPSigning = ''ocsp signing''"
definition UsageMicrosoftSGC :: KeyUsage where "UsageMicrosoftSGC = ''microsoft sgc''"
definition UsageNetscapeSGC :: KeyUsage where "UsageNetscapeSGC = ''netscape sgc''"

text \<open>The values the schema of the API accepts, and the constants.\<close>

definition KeyUsage_Enum :: "string list" where
  "KeyUsage_Enum = [
    ''signing'', ''digital signature'', ''content commitment'', ''key encipherment'', ''key agreement'',
    ''data encipherment'', ''cert sign'', ''crl sign'', ''encipher only'', ''decipher only'', ''any'',
    ''server auth'', ''client auth'', ''code signing'', ''email protection'', ''s/mime'',
    ''ipsec end system'', ''ipsec tunnel'', ''ipsec user'', ''timestamping'', ''ocsp signing'',
    ''microsoft sgc'', ''netscape sgc'']"

definition key_usages :: "KeyUsage list" where
  "key_usages = [
    UsageSigning, UsageDigitalSignature, UsageContentCommitment, UsageKeyEncipherment, UsageKeyAgreement,
    UsageDataEncipherment, UsageCertSign, UsageCRLSign, UsageEncipherOnly, UsageDecipherOnly, UsageAny,
    UsageServerAuth, UsageClientAuth, UsageCodeSigning, UsageEmailProtection, UsageSMIME,
    UsageIPsecEndSystem, UsageIPsecTunnel, UsageIPsecUser, UsageTimestamping, UsageOCSPSigning,
    UsageMicrosoftSGC, UsageNetscapeSGC]"

definition DefaultKeyUsages :: "KeyUsage list" where
  "DefaultKeyUsages = [UsageDigitalSignature, UsageKeyEncipherment]"

lemmas key_usage_defs =
  UsageSigning_def UsageDigitalSignature_def UsageContentCommitment_def UsageKeyEncipherment_def
  UsageKeyAgreement_def UsageDataEncipherment_def UsageCertSign_def UsageCRLSign_def
  UsageEncipherOnly_def UsageDecipherOnly_def UsageAny_def UsageServerAuth_def UsageClientAuth_def
  UsageCodeSigning_def UsageEmailProtection_def UsageSMIME_def UsageIPsecEndSystem_def
  UsageIPsecTunnel_def UsageIPsecUser_def UsageTimestamping_def UsageOCSPSigning_def
  UsageMicrosoftSGC_def UsageNetscapeSGC_def

text \<open>The constants are the accepted values, each once, and the default usages are among them.\<close>

lemma key_usages_accepted: "key_usages = KeyUsage_Enum" "distinct key_usages"
  by (simp_all add: key_usages_def KeyUsage_Enum_def key_usage_defs)

lemma DefaultKeyUsages_accepted: "set DefaultKeyUsages \<subseteq> set KeyUsage_Enum" "distinct DefaultKeyUsages"
  unfolding key_usages_accepted(1) [symmetric] by (simp_all add: DefaultKeyUsages_def key_usages_def key_usage_defs)

subsection \<open>Certificate requests\<close>

definition CertificateRequestReasonPending :: string where "CertificateRequestReasonPending = ''Pending''"
definition CertificateRequestReasonFailed :: string where "CertificateRequestReasonFailed = ''Failed''"
definition CertificateRequestReasonIssued :: string where "CertificateRequestReasonIssued = ''Issued''"
definition CertificateRequestReasonDenied :: string where "CertificateRequestReasonDenied = ''Denied''"

text \<open>The controller spells the key of the certificate's name and the kind out; they are those of the API.\<close>

lemma usable_certificate_name:
  "request_usable certRef r \<Longrightarrow> map_get (m_Annotations (cr_Meta r)) CertificateNameKey = wcert_Name certRef"
  by (simp add: request_usable_def CertificateNameKey_def)

lemma watched_request_kind: "fst (kind_ref KindCertificateRequest) = CertificateRequestKind"
  by (simp add: CertificateRequestKind_def)

end
