(* ===== verification/Spec2Isabelle.thy ===== *)
theory Spec2Isabelle
  imports InterleavingProperties Schemes Spring FakeServer YamlExpander CertManagerDies CertManagerTypes
begin

text \<open>
  \<^bold>\<open>cartographer-conventions\<close> is a Kubernetes controller. A developer creates a \<open>PodIntent\<close> with a
  pod template; operators install \<open>ClusterPodConvention\<close>s, each with a webhook. For every intent the
  controller selects the conventions whose selectors match, orders them, sends the template through
  their webhooks one after the other with the metadata of its images, and writes the enriched
  template and conditions into the status of the intent. The repository also has the library such
  webhooks are written with, sample servers, a controller that exports counters and tools.

  \<^bold>\<open>Parts and theories\<close>, in the order of the code (all paths under \<open>src/\<close>):

  \<^item> \<open>Prelude\<close>, \<open>GoStrings\<close>, \<open>GoSort\<close>: Go's errors as values (\<open>go_error\<close>, \<open>'a result\<close>), nil-able
    maps, the functions of \<open>strings\<close> and \<open>strconv\<close> the code calls, and \<open>sort.Slice\<close> as an insertion
    sort, with the facts that make the choice of the algorithm irrelevant where the order is total.
  \<^item> \<open>KubeTypes\<close>: the structs of the Kubernetes API, reduced to the fields the code touches.
  \<^item> \<open>PodTemplate\<close>, \<open>PodIntentApi\<close>, \<open>ClusterPodConventionApi\<close>, \<open>Admission\<close>
    (\<open>pkg/apis/conventions/v1alpha1\<close>): the API types, their defaulting and validation as the admission
    webhooks run it, and the condition set of an intent.
  \<^item> \<open>Memory\<close>, \<open>DeepCopy\<close> (the \<open>zz_generated.deepcopy.go\<close> of the two APIs): values that carry the
    addresses of what they refer to, and every generated deep copy over them.
  \<^item> \<open>WebhookTypes\<close> (\<open>webhook/api/v1alpha1\<close>), \<open>WebhookServer\<close> (\<open>webhook/server.go\<close>): the messages of
    a webhook, the HTTP handler around a convention function, the TLS key pair watcher as a state
    machine (\<open>server_step\<close>, \<open>server_runs\<close>).
  \<^item> \<open>ImageMetadata\<close>, \<open>Convention\<close>, \<open>Conventions\<close> (\<open>pkg/binding\<close>): resolving the images of a
    template, calling one webhook, and filtering, sorting and applying a list of conventions, with
    the aliasing of the parent's template in \<open>Apply\<close> (\<open>apply_state\<close>, \<open>share_containers\<close>).
  \<^item> \<open>CertificateRequests\<close>, \<open>Reconciler\<close> (\<open>pkg/controllers/podintent_reconciler.go\<close>): the CA bundle of
    a convention, and one pass of the controller as three steps over a state of the intent, the
    stash and the tracked references.
  \<^item> \<open>Stability\<close>: a pass does the same to every status it may start from, so repeating it changes nothing.
  \<^item> \<open>Metrics\<close> (\<open>pkg/controllers/metrics_reconciler.go\<close>): the counters and their config map.
  \<^item> \<open>Watches\<close> (the \<open>Setup\<close> functions of \<open>podintent_reconciler.go\<close>, \<open>SetupWithManager\<close> of
    \<open>metrics_reconciler.go\<close>): what the controllers watch and which requests an event leads to.
  \<^item> \<open>Cluster\<close>, \<open>ClusterProperties\<close>: the two controllers in a cluster as a step relation: the stored
    objects behind the admission webhooks, the work queues and the tracker; changes of objects,
    passes (also failing ones and lost updates), periodic requeueing and restarts of the manager.
  \<^item> \<open>Interleaving\<close>, \<open>InterleavingProperties\<close>: \<open>BuildRegistryConfig\<close> as the sequence of its calls of the
    tracker and the API server (\<open>build_step\<close>, \<open>build_actions\<close>), with any change of the cluster between
    two of them (\<open>moment_step\<close>).
  \<^item> \<open>CertManagerTypes\<close> (\<open>pkg/apis/thirdparty/cert-manager/v1/types.go\<close>): the constants of that API.
  \<^item> \<open>Schemes\<close> (the \<open>groupversion_info.go\<close> files and the \<open>init\<close> functions): the types that are
    registered, and that the manager recognises every kind its controllers watch and list.
  \<^item> \<open>Manager\<close> (\<open>cmd/manager/main.go\<close>): the wiring of the binary and its exits.
  \<^item> \<open>SampleServers\<close>, \<open>SpringProperties\<close>, \<open>Spring\<close> (\<open>samples\<close>): the sample conventions, the Spring
    properties in an environment variable and the Spring Boot conventions.
  \<^item> \<open>FakeServer\<close> (\<open>pkg/binding/fake\<close>): the server the controller is tested against.
  \<^item> \<open>YamlExpander\<close> (\<open>cmd/yaml-expander\<close>): the loop of the build tool.
  \<^item> \<open>Dies\<close>, \<open>DieTypes\<close>, \<open>CertManagerDies\<close> (\<open>pkg/dies\<close>): the dies the tests build resources with, what the
    generator writes for every type, its instances for the types of the API and for certificate
    requests (with their deep copies), and the builders written by hand.
  \<^item> This theory: what holds of several components together, a webhook call against the library's
    handler and a whole run of conventions down to their functions.

  \<^bold>\<open>State and operations.\<close> A Go struct is a record with the source's fields, a method a function of
  the receiver that returns the new receiver where the method has a pointer, \<open>(T, error)\<close> is
  \<open>go_error + T\<close>, a panic is \<open>None\<close> or, where its value matters, \<open>Inl\<close>. A definition has the name of
  the Go function it models, with the type in front where two have the same name; parts of a long
  function (a loop, a guard) have definitions of their own next to it.

  \<^bold>\<open>Interfaces\<close> are locales, each interpreted on the code's own definitions: \<open>pass_step\<close> and
  \<open>pass_steps\<close> (what every sub-reconciler of a pass keeps), \<open>image_resolver\<close> (what a run relies on
  when it resolves images), \<open>admission\<close> (defaulting and validating a resource), \<open>template_convention\<close> and \<open>settling_convention\<close> (what the controller may assume of a
  convention function), \<open>spring_method\<close> (what one Spring convention may edit), \<open>deep_copy\<close>, \<open>die_method\<close>
  (what a method of a die keeps), \<open>cluster_invariant\<close> (what holds of every reachable cluster), and the strict weak
  order a sort needs (\<open>slice_order\<close>).

  \<^bold>\<open>What the theorems show.\<close> The properties C1 to C40 stand in the theories of their components. For
  the pipeline: \<open>Apply\<close> refines an abstract run (C1, C2), the receipt (C10, C33), the errors (C11) and the
  parent (C32); selecting and ordering is correct, complete and deterministic (C7, C9). For
  the controller: a pass always decides and what it writes (C3), what it keeps (C12). For the
  controllers in a cluster, in every reachable state: an intent that is not queued has been decided
  by a pass whose registry inputs are still what they were (C4), acting on an intent ends (C5), the
  metrics are up to date unless they are queued (C13), which changes ask for what (C14), and what is
  stored was admitted (C15). For a pass that changes interleave with: alone it is the pass of the
  cluster (C16), what it keeps up with (C6) and what it can miss (C17). For images: C8, C22. For
  certificates: C18. For the webhook client and server: C19 to C21, C39. For admission: C24, C25. For
  the binary: C26, C27. For deep copies and dies: C28, C29. For the metrics: C30, C31. For the
  samples: C34 to C38. For the tools: C40. C14, C17, C20, C23, C25, C36 and C38 prove behaviour that is
  not what the code means to do, named in the findings of the manifest.

  \<^bold>\<open>Parameters.\<close> Code outside the repository is an argument: the API client, the condition manager and
  the sequence of \<open>reconciler.io/runtime\<close>, label selectors, the container registry, the REST client
  of a webhook, JSON and YAML codecs, version constraints, the deep copies of library types. What is
  assumed of them is documented behaviour, stated as a named law (\<open>cond_set_law\<close>, \<open>sequence_law\<close>,
  \<open>empty_selects_all\<close>, \<open>json_law\<close>, \<open>codec_law\<close>, \<open>tls_law\<close>, \<open>range_law\<close>, \<open>event_law\<close>, \<open>resource_law\<close>,
  \<open>forget_law\<close>, \<open>scheme_law\<close>, \<open>deep_lib\<close> and others), and the witness of a property instantiates it.
  The cluster is the environment of the code: its steps say what the API server, the work queues and
  the resource reconciler are documented to do, and all that is proved of it holds for every order
  of the steps.

  \<^bold>\<open>Bounds and loops.\<close> No definition uses fuel. Recursion is structural, or a \<open>function\<close> with a
  measure (the trimming of strings), or a \<open>partial_function (option)\<close> for the one loop that may not
  end (\<open>YamlExpander\<close>), of which C40 says when it does. \<open>strconv.Atoi\<close> has the range of a 64-bit
  \<open>int\<close>, ports are 32-bit words and wrap as the conversion in the code does (C36), and the grace
  period is exact below \<open>2 ^ 50\<close> seconds, where the rounding of double precision cannot show (C37).

  \<^bold>\<open>Not modelled.\<close> The parsing of the manager's flags, which other packages add to; the sockets of
  \<open>net/http\<close>; transition times of conditions and the leases of tracked references, which the periodic
  requeueing renews; caches that lag behind the store (a read sees the objects of its moment, and the
  first sub-reconciler of a pass lists conventions and certificate requests at one moment); the
  constants of test certificates.
\<close>

section \<open>A convention behind a webhook\<close>















section \<open>A run of functions\<close>


lemma request_simps [simp]:
  "pcs_Template (pcc_Spec (convention_request n c w configs)) = w"
  "pcs_ImageConfig (pcc_Spec (convention_request n c w configs)) = configs"
  "pct_Template (pcc_Status (answered_context req labels t)) = t"
  "named_labels c (answered_context req labels t) = map (\<lambda>a. conv_Name c @ ''/'' @ a) labels"
  by (simp_all add: convention_request_def answered_context_def named_labels_def)




subsection \<open>Images\<close>





end
